(* ===== verification/Go_Json.thy ===== *)
theory Go_Json
  imports Prelude
begin

text \<open>
  Go's package \<^verbatim>\<open>encoding/json\<close>, as far as the program uses it: the JSON text the server
  stores in the \<^verbatim>\<open>attributes\<close> column and the request and response bodies.  The printer is
  \<^verbatim>\<open>json.Marshal\<close> (compact output, \<^verbatim>\<open><\<close>, \<^verbatim>\<open>>\<close> and \<^verbatim>\<open>&\<close> escaped); the parser is the
  scanner and string decoder of \<^verbatim>\<open>json.Unmarshal\<close>.  Both copy the bytes of non-ASCII
  characters, which is what Go does on valid UTF-8 (except that Go escapes U+2028 and U+2029).

  The parser takes fuel for its mutual recursion; \<open>json_parse\<close> supplies one unit per input byte,
  and \<open>json_parse_print\<close> shows that this is enough for everything the printer writes.
\<close>

datatype json =
    JNull
  | JBool bool
  | JNum string
  | JStr string
  | JArr "json list"
  | JObj "(string \<times> json) list"

subsection \<open>Printing\<close>

definition hex_digit :: "nat \<Rightarrow> char" where
  "hex_digit n = (if n < 10 then char_of (48 + n) else char_of (87 + n))"

definition esc_char :: "char \<Rightarrow> string" where
  "esc_char c = (let n = (of_char c :: nat) in
     if n = 34 \<or> n = 92 then [CHR 0x5C, c]
     else if n = 10 then [CHR 0x5C, CHR ''n'']
     else if n = 13 then [CHR 0x5C, CHR ''r'']
     else if n = 9 then [CHR 0x5C, CHR ''t'']
     else if n < 32 \<or> n = 60 \<or> n = 62 \<or> n = 38
       then [CHR 0x5C, CHR ''u'', CHR ''0'', CHR ''0'', hex_digit (n div 16), hex_digit (n mod 16)]
     else [c])"

definition json_quote :: "string \<Rightarrow> string" where
  "json_quote s = CHR 0x22 # concat (map esc_char s) @ [CHR 0x22]"

fun json_print :: "json \<Rightarrow> string" where
  "json_print JNull = ''null''"
| "json_print (JBool b) = (if b then ''true'' else ''false'')"
| "json_print (JNum n) = n"
| "json_print (JStr s) = json_quote s"
| "json_print (JArr vs) = ''['' @ Join (map json_print vs) '','' @ '']''"
| "json_print (JObj kvs) =
     ''{'' @ Join (map (\<lambda>kv. json_quote (fst kv) @ '':'' @ json_print (snd kv)) kvs) '','' @ ''}''"

subsection \<open>Parsing\<close>

definition is_ws :: "char \<Rightarrow> bool" where
  "is_ws c \<longleftrightarrow> c = CHR '' '' \<or> c = CHR 0x09 \<or> c = CHR 0x0A \<or> c = CHR 0x0D"

definition skip_ws :: "string \<Rightarrow> string" where
  "skip_ws s = dropWhile is_ws s"

definition hex_val :: "char \<Rightarrow> nat option" where
  "hex_val c = (let n = (of_char c :: nat) in
     if 48 \<le> n \<and> n \<le> 57 then Some (n - 48)
     else if 97 \<le> n \<and> n \<le> 102 then Some (n - 87)
     else if 65 \<le> n \<and> n \<le> 70 then Some (n - 55)
     else None)"

definition hex4 :: "char \<Rightarrow> char \<Rightarrow> char \<Rightarrow> char \<Rightarrow> nat option" where
  "hex4 a b c d = (case (hex_val a, hex_val b, hex_val c, hex_val d) of
     (Some p, Some q, Some r, Some s) \<Rightarrow> Some (((p * 16 + q) * 16 + r) * 16 + s)
   | _ \<Rightarrow> None)"

text \<open>The UTF-8 encoding of a code point.\<close>

definition utf8 :: "nat \<Rightarrow> string" where
  "utf8 n =
     (if n < 128 then [char_of n]
      else if n < 2048 then [char_of (192 + n div 64), char_of (128 + n mod 64)]
      else if n < 65536 then
        [char_of (224 + n div 4096), char_of (128 + n div 64 mod 64), char_of (128 + n mod 64)]
      else [char_of (240 + n div 262144), char_of (128 + n div 4096 mod 64),
            char_of (128 + n div 64 mod 64), char_of (128 + n mod 64)])"

definition simple_esc :: "char \<Rightarrow> char option" where
  "simple_esc e =
     (if e = CHR 0x22 \<or> e = CHR 0x5C \<or> e = CHR ''/'' then Some e
      else if e = CHR ''b'' then Some (CHR 0x08)
      else if e = CHR ''f'' then Some (CHR 0x0C)
      else if e = CHR ''n'' then Some (CHR 0x0A)
      else if e = CHR ''r'' then Some (CHR 0x0D)
      else if e = CHR ''t'' then Some (CHR 0x09)
      else None)"

text \<open>
  The text after the opening quote: the decoded string and what follows the closing quote.
  An escaped high surrogate followed by an escaped low one is one code point; any other escaped
  surrogate is U+FFFD.
\<close>

definition low_surrogate :: "string \<Rightarrow> nat option" where
  "low_surrogate s = (case s of
     u # v # a # b # c # d # _ \<Rightarrow>
       if u = CHR 0x5C \<and> v = CHR ''u''
       then (case hex4 a b c d of
               Some n \<Rightarrow> if 56320 \<le> n \<and> n < 57344 then Some n else None
             | None \<Rightarrow> None)
       else None
   | _ \<Rightarrow> None)"

fun parse_str :: "string \<Rightarrow> (string \<times> string) option" where
  "parse_str [] = None"
| "parse_str (c # cs) =
     (if c = CHR 0x22 then Some ([], cs)
      else if c = CHR 0x5C then
        (case cs of
           [] \<Rightarrow> None
         | e # es \<Rightarrow>
             if e = CHR ''u'' then
               (case es of
                  a # b # x # y # r \<Rightarrow>
                    (case hex4 a b x y of
                       None \<Rightarrow> None
                     | Some n \<Rightarrow>
                         if 55296 \<le> n \<and> n < 57344 then
                           (case (if n < 56320 then low_surrogate r else None) of
                              Some m \<Rightarrow>
                                map_option (\<lambda>(t, q). (utf8 (65536 + (n - 55296) * 1024 + (m - 56320)) @ t, q))
                                  (parse_str (drop 6 r))
                            | None \<Rightarrow> map_option (\<lambda>(t, q). (utf8 65533 @ t, q)) (parse_str r))
                         else map_option (\<lambda>(t, q). (utf8 n @ t, q)) (parse_str r))
                | _ \<Rightarrow> None)
             else (case simple_esc e of
                     None \<Rightarrow> None
                   | Some x \<Rightarrow> map_option (\<lambda>(t, q). (x # t, q)) (parse_str es)))
      else if (of_char c :: nat) < 32 then None
      else map_option (\<lambda>(t, q). (c # t, q)) (parse_str cs))"

declare parse_str.simps(2) [simp del]

definition is_digit :: "char \<Rightarrow> bool" where
  "is_digit c \<longleftrightarrow> c \<in> set ''0123456789''"

definition is_numchar :: "char \<Rightarrow> bool" where
  "is_numchar c \<longleftrightarrow> c \<in> set ''0123456789+-.eE''"

text \<open>The number grammar of JSON: sign, integer part, fraction, exponent.\<close>

definition valid_exp :: "string \<Rightarrow> bool" where
  "valid_exp s = (case s of
     [] \<Rightarrow> True
   | c # cs \<Rightarrow> (c = CHR ''e'' \<or> c = CHR ''E'') \<and>
       (let ds = (case cs of [] \<Rightarrow> [] | d # r \<Rightarrow> if d = CHR ''+'' \<or> d = CHR ''-'' then r else d # r)
        in ds \<noteq> [] \<and> list_all is_digit ds))"

definition valid_frac :: "string \<Rightarrow> bool" where
  "valid_frac s = (case s of
     [] \<Rightarrow> True
   | c # cs \<Rightarrow>
       if c = CHR ''.'' then takeWhile is_digit cs \<noteq> [] \<and> valid_exp (dropWhile is_digit cs)
       else valid_exp s)"

definition valid_number :: "string \<Rightarrow> bool" where
  "valid_number s =
     (let u = (case s of [] \<Rightarrow> [] | c # cs \<Rightarrow> if c = CHR ''-'' then cs else s)
      in (case u of
            [] \<Rightarrow> False
          | c # cs \<Rightarrow>
              if c = CHR ''0'' then valid_frac cs
              else is_digit c \<and> valid_frac (dropWhile is_digit cs)))"

definition parse_atom :: "string \<Rightarrow> (json \<times> string) option" where
  "parse_atom s =
     (if HasPrefix s ''true'' then Some (JBool True, drop 4 s)
      else if HasPrefix s ''false'' then Some (JBool False, drop 5 s)
      else if HasPrefix s ''null'' then Some (JNull, drop 4 s)
      else (let n = takeWhile is_numchar s in
            if valid_number n then Some (JNum n, dropWhile is_numchar s) else None))"

fun parse_value :: "nat \<Rightarrow> string \<Rightarrow> (json \<times> string) option"
and parse_elems :: "nat \<Rightarrow> string \<Rightarrow> (json list \<times> string) option"
and parse_members :: "nat \<Rightarrow> string \<Rightarrow> ((string \<times> json) list \<times> string) option" where
  "parse_value 0 s = None"
| "parse_value (Suc f) s =
     (case skip_ws s of
        [] \<Rightarrow> None
      | c # cs \<Rightarrow>
          if c = CHR 0x22 then map_option (\<lambda>(t, r). (JStr t, r)) (parse_str cs)
          else if c = CHR ''['' then
            (case skip_ws cs of
               [] \<Rightarrow> None
             | d # ds \<Rightarrow>
                 if d = CHR '']'' then Some (JArr [], ds)
                 else map_option (\<lambda>(vs, r). (JArr vs, r)) (parse_elems f (d # ds)))
          else if c = CHR ''{'' then
            (case skip_ws cs of
               [] \<Rightarrow> None
             | d # ds \<Rightarrow>
                 if d = CHR ''}'' then Some (JObj [], ds)
                 else map_option (\<lambda>(ms, r). (JObj ms, r)) (parse_members f (d # ds)))
          else parse_atom (c # cs))"
| "parse_elems 0 s = None"
| "parse_elems (Suc f) s =
     (case parse_value f s of
        None \<Rightarrow> None
      | Some (v, r) \<Rightarrow>
          (case skip_ws r of
             [] \<Rightarrow> None
           | c # cs \<Rightarrow>
               if c = CHR '','' then map_option (\<lambda>(vs, q). (v # vs, q)) (parse_elems f cs)
               else if c = CHR '']'' then Some ([v], cs)
               else None))"
| "parse_members 0 s = None"
| "parse_members (Suc f) s =
     (case skip_ws s of
        [] \<Rightarrow> None
      | c # cs \<Rightarrow>
          if c \<noteq> CHR 0x22 then None
          else (case parse_str cs of
                  None \<Rightarrow> None
                | Some (k, r) \<Rightarrow>
                    (case skip_ws r of
                       [] \<Rightarrow> None
                     | d # ds \<Rightarrow>
                         if d \<noteq> CHR '':'' then None
                         else (case parse_value f ds of
                                 None \<Rightarrow> None
                               | Some (v, q) \<Rightarrow>
                                   (case skip_ws q of
                                      [] \<Rightarrow> None
                                    | e # es \<Rightarrow>
                                        if e = CHR '','' then
                                          map_option (\<lambda>(ms, z). ((k, v) # ms, z)) (parse_members f es)
                                        else if e = CHR ''}'' then Some ([(k, v)], es)
                                        else None)))))"

definition json_parse :: "string \<Rightarrow> json option" where
  "json_parse s = (case parse_value (length s) s of
     Some (v, r) \<Rightarrow> if skip_ws r = [] then Some v else None
   | None \<Rightarrow> None)"

subsection \<open>Decoding into struct fields\<close>

text \<open>
  \<^verbatim>\<open>json.Unmarshal\<close> matches an object key with a field by the field's tag, ignoring case, and
  the last matching key wins; a value of another JSON type leaves the field at its zero value.
\<close>

definition json_lookup :: "json \<Rightarrow> string \<Rightarrow> json option" where
  "json_lookup v k = (case v of
     JObj kvs \<Rightarrow> map_of (rev (map (\<lambda>(k', w). (ToLower k', w)) kvs)) (ToLower k)
   | _ \<Rightarrow> None)"

definition json_string_field :: "json \<Rightarrow> string \<Rightarrow> string" where
  "json_string_field v k = (case json_lookup v k of Some (JStr s) \<Rightarrow> s | _ \<Rightarrow> [])"

subsection \<open>The printer's text is parsed back\<close>

fun json_wf :: "json \<Rightarrow> bool" where
  "json_wf (JNum n) = (valid_number n \<and> list_all is_numchar n)"
| "json_wf (JArr vs) = list_all json_wf vs"
| "json_wf (JObj kvs) = list_all (\<lambda>kv. json_wf (snd kv)) kvs"
| "json_wf _ = True"

fun json_fuel :: "json \<Rightarrow> nat" where
  "json_fuel (JArr vs) = Suc (\<Sum>v\<leftarrow>vs. Suc (json_fuel v))"
| "json_fuel (JObj kvs) = Suc (\<Sum>kv\<leftarrow>kvs. Suc (json_fuel (snd kv)))"
| "json_fuel _ = 1"

lemma hex_val_digit: "n < 16 \<Longrightarrow> hex_val (hex_digit n) = Some n"
  by (auto simp: hex_val_def hex_digit_def Let_def)

lemma hex4_esc:
  "hex4 (CHR ''0'') (CHR ''0'') (hex_digit (of_char c div 16)) (hex_digit (of_char c mod 16))
     = Some (of_char c :: nat)"
proof -
  have "hex_val (CHR ''0'') = Some 0" by (simp add: hex_val_def)
  moreover have "(of_char c :: nat) div 16 < 16"
    using nat_of_char_less_256 [of c] by linarith
  ultimately show ?thesis by (simp add: hex4_def hex_val_digit)
qed

lemma utf8_char: "(of_char c :: nat) < 128 \<Longrightarrow> utf8 (of_char c) = [c]"
  by (simp add: utf8_def)

lemma char_eq_code: "c = d \<longleftrightarrow> (of_char c :: nat) = of_char d"
  by (metis of_char_eq_iff)

lemma parse_str_esc:
  "parse_str (esc_char c @ r) = map_option (\<lambda>(t, q). (c # t, q)) (parse_str r)"
proof -
  let ?n = "of_char c :: nat"
  consider (q) "?n = 34 \<or> ?n = 92" | (n) "?n = 10" | (r) "?n = 13" | (t) "?n = 9"
    | (u) "?n \<noteq> 34" "?n \<noteq> 92" "?n \<noteq> 10" "?n \<noteq> 13" "?n \<noteq> 9" "?n < 32 \<or> ?n = 60 \<or> ?n = 62 \<or> ?n = 38"
    | (p) "?n \<noteq> 34" "?n \<noteq> 92" "?n \<noteq> 10" "?n \<noteq> 13" "?n \<noteq> 9" "\<not> (?n < 32 \<or> ?n = 60 \<or> ?n = 62 \<or> ?n = 38)"
    by blast
  then show ?thesis
  proof cases
    case q
    then have "c = CHR 0x22 \<or> c = CHR 0x5C" by (auto simp: char_eq_code)
    then show ?thesis by (auto simp: esc_char_def parse_str.simps simple_esc_def)
  next
    case n
    then have "c = CHR 0x0A" by (simp add: char_eq_code)
    then show ?thesis by (simp add: esc_char_def parse_str.simps simple_esc_def)
  next
    case r
    then have "c = CHR 0x0D" by (simp add: char_eq_code)
    then show ?thesis by (simp add: esc_char_def parse_str.simps simple_esc_def)
  next
    case t
    then have "c = CHR 0x09" by (simp add: char_eq_code)
    then show ?thesis by (simp add: esc_char_def parse_str.simps simple_esc_def)
  next
    case u
    then have "esc_char c = [CHR 0x5C, CHR ''u'', CHR ''0'', CHR ''0'', hex_digit (?n div 16), hex_digit (?n mod 16)]"
      by (simp add: esc_char_def Let_def)
    moreover from u have "?n < 128" by auto
    ultimately show ?thesis
      by (simp add: parse_str.simps hex4_esc utf8_char)
  next
    case p
    then have "esc_char c = [c]" by (simp add: esc_char_def Let_def)
    moreover from p have "c \<noteq> CHR 0x22" "c \<noteq> CHR 0x5C" by (auto simp: char_eq_code)
    ultimately show ?thesis using p by (simp add: parse_str.simps)
  qed
qed

lemma parse_str_escaped:
  "parse_str (concat (map esc_char s) @ CHR 0x22 # r) = Some (s, r)"
  by (induction s) (simp_all add: parse_str_esc parse_str.simps)

definition json_start :: "char \<Rightarrow> bool" where
  "json_start c \<longleftrightarrow> c \<in> set ''ntf-[{'' \<or> c = CHR 0x22 \<or> is_digit c"

definition num_stop :: "string \<Rightarrow> bool" where
  "num_stop r \<longleftrightarrow> (case r of [] \<Rightarrow> True | c # _ \<Rightarrow> \<not> is_numchar c)"

lemma skip_ws_Cons: "\<not> is_ws c \<Longrightarrow> skip_ws (c # cs) = c # cs"
  by (simp add: skip_ws_def)

lemma is_digit_simps [simp]:
  "\<not> is_digit (CHR ''t'')" "\<not> is_digit (CHR ''f'')" "\<not> is_digit (CHR ''n'')" "\<not> is_digit (CHR 0x22)"
  "\<not> is_digit (CHR ''['')" "\<not> is_digit (CHR ''{'')" "\<not> is_digit (CHR '']'')" "\<not> is_digit (CHR ''}'')"
  "\<not> is_digit (CHR '' '')" "\<not> is_digit (CHR 0x09)" "\<not> is_digit (CHR 0x0A)" "\<not> is_digit (CHR 0x0D)"
  "is_digit (CHR ''0'')"
  by (simp_all add: is_digit_def)

lemma json_start_props:
  "json_start c \<Longrightarrow> \<not> is_ws c \<and> c \<noteq> CHR '']'' \<and> c \<noteq> CHR ''}''"
  by (auto simp: json_start_def is_ws_def)

lemma valid_number_start: "valid_number n \<Longrightarrow> \<exists>c cs. n = c # cs \<and> (c = CHR ''-'' \<or> is_digit c)"
  by (cases n) (auto simp: valid_number_def Let_def split: if_splits list.splits)

lemma json_start_number: "c = CHR ''-'' \<or> is_digit c \<Longrightarrow> json_start c"
  by (auto simp: json_start_def)

lemma json_start_quote [simp]: "json_start (CHR 0x22)"
  by (simp add: json_start_def)

lemma json_print_start: "json_wf v \<Longrightarrow> \<exists>c cs. json_print v = c # cs \<and> json_start c"
proof (cases v)
  case (JNum n)
  assume "json_wf v"
  with JNum obtain c cs where "n = c # cs" "c = CHR ''-'' \<or> is_digit c"
    using valid_number_start [of n] by force
  with JNum json_start_number [of c] show ?thesis by simp
qed (auto simp: json_start_def json_quote_def)

lemma takeWhile_numchar:
  "list_all is_numchar n \<Longrightarrow> num_stop r \<Longrightarrow> takeWhile is_numchar (n @ r) = n"
  "list_all is_numchar n \<Longrightarrow> num_stop r \<Longrightarrow> dropWhile is_numchar (n @ r) = r"
  by (induction n) (auto simp: num_stop_def split: list.splits)

lemma parse_atom_number:
  assumes "valid_number n" "list_all is_numchar n" "num_stop r"
  shows "parse_atom (n @ r) = Some (JNum n, r)"
proof -
  from valid_number_start [OF assms(1)] obtain c cs where n: "n = c # cs" "c = CHR ''-'' \<or> is_digit c"
    by blast
  then have "\<not> HasPrefix (n @ r) ''true''" "\<not> HasPrefix (n @ r) ''false''" "\<not> HasPrefix (n @ r) ''null''"
    by (auto simp: HasPrefix_def)
  with assms show ?thesis by (simp add: parse_atom_def Let_def takeWhile_numchar)
qed

lemma parse_value_number:
  assumes "valid_number n" "list_all is_numchar n" "num_stop r"
  shows "parse_value (Suc f) (n @ r) = Some (JNum n, r)"
proof -
  from valid_number_start [OF assms(1)] obtain c cs where n: "n = c # cs" "c = CHR ''-'' \<or> is_digit c"
    by blast
  then have "\<not> is_ws c" "c \<noteq> CHR 0x22" "c \<noteq> CHR ''[''" "c \<noteq> CHR ''{''"
    by (auto simp: is_ws_def)
  with n parse_atom_number [OF assms] show ?thesis by (simp add: skip_ws_Cons)
qed

lemma Join_start: "\<exists>c cs. x = c # cs \<and> json_start c \<Longrightarrow> \<exists>c cs. Join (x # xs) sep = c # cs \<and> json_start c"
  by (cases xs) auto

lemma is_ws_simps [simp]:
  "\<not> is_ws (CHR '']'')" "\<not> is_ws (CHR ''}'')" "\<not> is_ws (CHR '','')" "\<not> is_ws (CHR '':'')"
  "\<not> is_ws (CHR 0x22)" "\<not> is_ws (CHR ''['')" "\<not> is_ws (CHR ''{'')"
  by (simp_all add: is_ws_def)

lemma num_stop_simps [simp]:
  "num_stop (CHR '']'' # r)" "num_stop (CHR ''}'' # r)" "num_stop (CHR '','' # r)" "num_stop []"
  by (simp_all add: num_stop_def is_numchar_def)

lemma parse_elems_print:
  assumes "vs \<noteq> []"
    and "\<And>v f r. v \<in> set vs \<Longrightarrow> json_fuel v \<le> f \<Longrightarrow> num_stop r \<Longrightarrow>
           parse_value f (json_print v @ r) = Some (v, r)"
    and "(\<Sum>v\<leftarrow>vs. Suc (json_fuel v)) \<le> f"
  shows "parse_elems f (Join (map json_print vs) '','' @ '']'' @ r) = Some (vs, r)"
  using assms
proof (induction vs arbitrary: f rule: list_nonempty_induct)
  case (single v)
  then obtain g where "f = Suc g" "json_fuel v \<le> g" by (cases f) auto
  with single show ?case by (simp add: skip_ws_Cons)
next
  case (cons v vs)
  then obtain g where f: "f = Suc g" by (cases f) auto
  from cons.prems(2) f have "json_fuel v \<le> g" "(\<Sum>v\<leftarrow>vs. Suc (json_fuel v)) \<le> g" by auto
  moreover from this cons have "parse_elems g (Join (map json_print vs) '','' @ '']'' @ r) = Some (vs, r)"
    by (intro cons.IH) auto
  ultimately show ?case using cons f by (simp add: Join_Cons skip_ws_Cons)
qed

lemma parse_members_print:
  assumes "kvs \<noteq> []"
    and "\<And>kv f r. kv \<in> set kvs \<Longrightarrow> json_fuel (snd kv) \<le> f \<Longrightarrow> num_stop r \<Longrightarrow>
           parse_value f (json_print (snd kv) @ r) = Some (snd kv, r)"
    and "(\<Sum>kv\<leftarrow>kvs. Suc (json_fuel (snd kv))) \<le> f"
  shows "parse_members f (Join (map (\<lambda>kv. json_quote (fst kv) @ '':'' @ json_print (snd kv)) kvs) '','' @ ''}'' @ r)
           = Some (kvs, r)"
  using assms
proof (induction kvs arbitrary: f rule: list_nonempty_induct)
  case (single kv)
  then obtain g where "f = Suc g" "json_fuel (snd kv) \<le> g" by (cases f) auto
  with single show ?case by (simp add: skip_ws_Cons json_quote_def parse_str_escaped)
next
  case (cons kv kvs)
  let ?p = "\<lambda>kv. json_quote (fst kv) @ '':'' @ json_print (snd kv)"
  from cons obtain g where f: "f = Suc g" by (cases f) auto
  from cons.prems(2) f have le: "json_fuel (snd kv) \<le> g" "(\<Sum>kv\<leftarrow>kvs. Suc (json_fuel (snd kv))) \<le> g"
    by auto
  with cons have IH: "parse_members g (Join (map ?p kvs) '','' @ ''}'' @ r) = Some (kvs, r)"
    by (intro cons.IH) auto
  have "Join (map ?p (kv # kvs)) '','' @ ''}'' @ r =
        CHR 0x22 # concat (map esc_char (fst kv)) @ CHR 0x22 # CHR '':'' # json_print (snd kv) @ CHR '','' #
          Join (map ?p kvs) '','' @ ''}'' @ r"
    using cons.hyps by (simp add: Join_Cons json_quote_def)
  with f le IH cons.prems(1) [of kv g] show ?case
    by (simp add: skip_ws_Cons parse_str_escaped)
qed

lemma parse_value_array:
  assumes "list_all json_wf vs" "json_fuel (JArr vs) \<le> f"
    and "\<And>v f r. v \<in> set vs \<Longrightarrow> json_fuel v \<le> f \<Longrightarrow> num_stop r \<Longrightarrow>
           parse_value f (json_print v @ r) = Some (v, r)"
  shows "parse_value f (json_print (JArr vs) @ r) = Some (JArr vs, r)"
proof (cases vs)
  case Nil
  with assms(2) show ?thesis by (cases f) (simp_all add: skip_ws_Cons)
next
  case (Cons w ws)
  with assms(1) obtain c cs where cs: "Join (map json_print vs) '','' = c # cs" "json_start c"
    using Join_start [OF json_print_start, of w "map json_print ws" "'',''"] by auto
  from assms(2) obtain g where f: "f = Suc g" by (cases f) auto
  from f assms(2,3) Cons have "parse_elems g (Join (map json_print vs) '','' @ '']'' @ r) = Some (vs, r)"
    by (intro parse_elems_print) auto
  with f cs json_start_props [of c] show ?thesis by (simp add: skip_ws_Cons)
qed

lemma parse_value_object:
  assumes "json_fuel (JObj kvs) \<le> f"
    and "\<And>kv f r. kv \<in> set kvs \<Longrightarrow> json_fuel (snd kv) \<le> f \<Longrightarrow> num_stop r \<Longrightarrow>
           parse_value f (json_print (snd kv) @ r) = Some (snd kv, r)"
  shows "parse_value f (json_print (JObj kvs) @ r) = Some (JObj kvs, r)"
proof (cases kvs)
  case Nil
  with assms(1) show ?thesis by (cases f) (simp_all add: skip_ws_Cons)
next
  case (Cons kv ws)
  let ?p = "\<lambda>kv. json_quote (fst kv) @ '':'' @ json_print (snd kv)"
  have "\<exists>c cs. ?p kv = c # cs \<and> json_start c" by (simp add: json_quote_def)
  from Join_start [OF this, of "map ?p ws" "'',''"] Cons
  obtain c cs where cs: "Join (map ?p kvs) '','' = c # cs" "json_start c" by auto
  from assms(1) obtain g where f: "f = Suc g" by (cases f) auto
  from f assms Cons have "parse_members g (Join (map ?p kvs) '','' @ ''}'' @ r) = Some (kvs, r)"
    by (intro parse_members_print) auto
  with f cs json_start_props [of c] show ?thesis by (simp add: skip_ws_Cons)
qed

lemma parse_value_print:
  "json_wf v \<Longrightarrow> json_fuel v \<le> f \<Longrightarrow> num_stop r \<Longrightarrow> parse_value f (json_print v @ r) = Some (v, r)"
proof (induction v arbitrary: f r)
  case JNull
  then show ?case by (cases f) (simp_all add: skip_ws_Cons is_ws_def parse_atom_def HasPrefix_def)
next
  case (JBool b)
  then show ?case by (cases f) (simp_all add: skip_ws_Cons is_ws_def parse_atom_def HasPrefix_def)
next
  case (JNum n)
  then obtain g where "f = Suc g" by (cases f) auto
  with JNum show ?case by (simp add: parse_value_number del: parse_value.simps)
next
  case (JStr s)
  then show ?case by (cases f) (simp_all add: skip_ws_Cons json_quote_def parse_str_escaped)
next
  case (JArr vs)
  then show ?case by (intro parse_value_array) (auto simp: list_all_iff)
next
  case (JObj kvs)
  then show ?case by (intro parse_value_object) (auto simp: list_all_iff)
qed

lemma Join_length:
  "xs \<noteq> [] \<Longrightarrow> Suc (length (Join xs [c])) = (\<Sum>x\<leftarrow>xs. Suc (length x))"
  by (induction xs rule: list_nonempty_induct) (auto simp: Join_Cons)

lemma json_fuel_print: "json_wf v \<Longrightarrow> json_fuel v \<le> length (json_print v)"
proof (induction v)
  case (JNum n)
  then show ?case using valid_number_start [of n] by auto
next
  case (JArr vs)
  show ?case
  proof (cases "vs = []")
    case False
    have "(\<Sum>v\<leftarrow>vs. Suc (json_fuel v)) \<le> (\<Sum>v\<leftarrow>vs. Suc (length (json_print v)))"
      using JArr by (intro sum_list_mono) (auto simp: list_all_iff)
    with False Join_length [of "map json_print vs" "CHR '',''"] show ?thesis
      by (simp add: comp_def)
  qed simp
next
  case (JObj kvs)
  let ?p = "\<lambda>kv. json_quote (fst kv) @ '':'' @ json_print (snd kv)"
  show ?case
  proof (cases "kvs = []")
    case False
    have "json_fuel (snd x) \<le> length (json_print (snd x))" if "x \<in> set kvs" for x
      using JObj.IH [OF that, of "snd x"] JObj.prems that by (cases x) (auto simp: list_all_iff)
    then have "(\<Sum>kv\<leftarrow>kvs. Suc (json_fuel (snd kv))) \<le> (\<Sum>kv\<leftarrow>kvs. Suc (length (?p kv)))"
      by (intro sum_list_mono) fastforce
    with False Join_length [of "map ?p kvs" "CHR '',''"] show ?thesis
      by (simp add: comp_def)
  qed simp
qed (simp_all add: json_quote_def)

lemma json_parse_print: "json_wf v \<Longrightarrow> json_parse (json_print v) = Some v"
  using parse_value_print [of v "length (json_print v)" "[]"] json_fuel_print [of v]
  by (simp add: json_parse_def skip_ws_def)

end
