(* ===== verification/Cop_Error.thy ===== *)
theory Cop_Error
  imports Go_Json
begin

text \<open>
  Errors as values: \<^verbatim>\<open>api/error.go\<close> (the COP error codes, \<open>ErrorImpl\<close> and its constructors) and
  the error values of the packages the program calls.  A Go function returning \<^verbatim>\<open>(T, error)\<close>
  returns \<^typ>\<open>'e + 'a\<close> here, the error on the left.  A Go panic is the error \<open>GoPanic\<close>: it
  ends the request that raised it.

  The constructors format their messages with \<^verbatim>\<open>fmt.Sprintf\<close>, so that function is modelled for
  the verbs \<^verbatim>\<open>%s\<close>, \<^verbatim>\<open>%d\<close> and \<^verbatim>\<open>%v\<close>, with Go's text for missing, extra and mistyped operands.
\<close>

subsection \<open>Package fmt\<close>

datatype fmt_arg = FStr string | FInt int | FSlice "fmt_arg list"

fun fmt_type :: "fmt_arg \<Rightarrow> string" where
  "fmt_type (FStr _) = ''string''"
| "fmt_type (FInt _) = ''int''"
| "fmt_type (FSlice _) = ''[]interface {}''"

fun fmt_value :: "fmt_arg \<Rightarrow> string" where
  "fmt_value (FStr s) = s"
| "fmt_value (FInt i) = Itoa i"
| "fmt_value (FSlice xs) = ''['' @ Join (map fmt_value xs) '' '' @ '']''"

fun fmt_verb :: "char \<Rightarrow> fmt_arg \<Rightarrow> string" where
  "fmt_verb v (FStr s) =
     (if v = CHR ''s'' \<or> v = CHR ''v'' then s else ''%!'' @ [v] @ ''(string='' @ s @ '')'')"
| "fmt_verb v (FInt i) =
     (if v = CHR ''d'' \<or> v = CHR ''v'' then Itoa i else ''%!'' @ [v] @ ''(int='' @ Itoa i @ '')'')"
| "fmt_verb v (FSlice xs) = ''['' @ Join (map (fmt_verb v) xs) '' '' @ '']''"

definition fmt_extra :: "fmt_arg list \<Rightarrow> string" where
  "fmt_extra args =
     (if args = [] then []
      else ''%!(EXTRA '' @ Join (map (\<lambda>a. fmt_type a @ ''='' @ fmt_value a) args) '', '' @ '')'')"

fun Sprintf :: "string \<Rightarrow> fmt_arg list \<Rightarrow> string" where
  "Sprintf [] args = fmt_extra args"
| "Sprintf [c] args = (if c = CHR ''%'' then ''%!(NOVERB)'' else [c]) @ fmt_extra args"
| "Sprintf (c # v # cs) args =
     (if c \<noteq> CHR ''%'' then c # Sprintf (v # cs) args
      else if v = CHR ''%'' then CHR ''%'' # Sprintf cs args
      else (case args of
              [] \<Rightarrow> ''%!'' @ [v] @ ''(MISSING)'' @ Sprintf cs []
            | a # as \<Rightarrow> fmt_verb v a @ Sprintf cs as))"

subsection \<open>COP error codes and errors (api/error.go)\<close>

datatype error_code =
    NotImplemented
  | CFSSL
  | NotSupported
  | TooManyArgs
  | InvalidProviderName
  | ReadFileError
  | WriteFileError
  | MarshallError
  | UnmarshallError
  | InvalidConfig
  | NotInitialized
  | AlreadyEnrolled
  | ServerAddrNotSet
  | AuthorizationFailure
  | IOError
  | Input
  | Output
  | UserStoreError
  | EnrollingUserError
  | RegisteringUserError
  | DatabaseError
  | TLSError

text \<open>The constants are \<^verbatim>\<open>100000 + iota\<close>.\<close>

fun code_num :: "error_code \<Rightarrow> int" where
  "code_num NotImplemented = 100000"
| "code_num CFSSL = 100001"
| "code_num NotSupported = 100002"
| "code_num TooManyArgs = 100003"
| "code_num InvalidProviderName = 100004"
| "code_num ReadFileError = 100005"
| "code_num WriteFileError = 100006"
| "code_num MarshallError = 100007"
| "code_num UnmarshallError = 100008"
| "code_num InvalidConfig = 100009"
| "code_num NotInitialized = 100010"
| "code_num AlreadyEnrolled = 100011"
| "code_num ServerAddrNotSet = 100012"
| "code_num AuthorizationFailure = 100013"
| "code_num IOError = 100014"
| "code_num Input = 100015"
| "code_num Output = 100016"
| "code_num UserStoreError = 100017"
| "code_num EnrollingUserError = 100018"
| "code_num RegisteringUserError = 100019"
| "code_num DatabaseError = 100020"
| "code_num TLSError = 100021"

record ErrorImpl =
  ErrorCode :: int
  Message :: string

text \<open>
  The error values a call can return: \<^verbatim>\<open>errors.New\<close> and \<^verbatim>\<open>fmt.Errorf\<close> (\<open>ErrorString\<close>), COP
  errors, CFSSL's \<^verbatim>\<open>errors.Error\<close> and \<^verbatim>\<open>errors.HTTPError\<close>, an error of a database driver or
  of another package that the program only passes on (\<open>ExtError\<close>), and panics.
\<close>

datatype go_error =
    ErrorString string
  | COPError ErrorImpl
  | CFSSLError int string
  | HTTPError int go_error
  | ExtError string
  | GoPanic string

type_synonym 'a result = "go_error + 'a"

definition ErrorImpl_Error :: "ErrorImpl \<Rightarrow> string" where
  "ErrorImpl_Error e = Sprintf ''%d: %s'' [FInt (ErrorCode e), FStr (Message e)]"

definition ErrorImpl_Code :: "ErrorImpl \<Rightarrow> int" where
  "ErrorImpl_Code e = ErrorCode e"

text \<open>The \<^verbatim>\<open>Error()\<close> method of each kind of error; CFSSL's renders itself as JSON.\<close>

fun Error :: "go_error \<Rightarrow> string" where
  "Error (ErrorString s) = s"
| "Error (COPError e) = ErrorImpl_Error e"
| "Error (CFSSLError c m) =
     json_print (JObj [(''code'', JNum (Itoa c)), (''message'', JStr m)])"
| "Error (HTTPError s e) = Error e"
| "Error (ExtError s) = s"
| "Error (GoPanic s) = s"

definition NewError :: "int \<Rightarrow> string \<Rightarrow> fmt_arg list \<Rightarrow> ErrorImpl" where
  "NewError code format args =
     (let msg = Sprintf format args in \<lparr>ErrorCode = code, Message = msg\<rparr>)"

text \<open>
  \<^verbatim>\<open>WrapError\<close> and \<^verbatim>\<open>WrapCFSSLError\<close> pass \<^verbatim>\<open>args\<close> and not \<^verbatim>\<open>args...\<close> to \<^verbatim>\<open>Sprintf\<close>: the whole
  slice is one operand.
\<close>

definition WrapError :: "go_error \<Rightarrow> int \<Rightarrow> string \<Rightarrow> fmt_arg list \<Rightarrow> ErrorImpl" where
  "WrapError err code format args =
     (let msg = Sprintf format [FSlice args];
          msg = Sprintf ''%s [%s]'' [FStr msg, FStr (Error err)]
      in \<lparr>ErrorCode = code, Message = msg\<rparr>)"

definition WrapCFSSLError :: "int \<Rightarrow> string \<Rightarrow> int \<Rightarrow> string \<Rightarrow> fmt_arg list \<Rightarrow> ErrorImpl" where
  "WrapCFSSLError ecode emsg code format args =
     (let msg = Sprintf format [FSlice args];
          msg = Sprintf ''%s [CFSSL %d: %s]'' [FStr msg, FInt ecode, FStr emsg]
      in \<lparr>ErrorCode = code, Message = msg\<rparr>)"

subsection \<open>Lemmas\<close>

fun is_panic :: "go_error \<Rightarrow> bool" where
  "is_panic (GoPanic _) = True"
| "is_panic _ = False"

lemma Sprintf_text:
  "CHR ''%'' \<notin> set s \<Longrightarrow> Sprintf (s @ t) args = s @ Sprintf t args"
proof (induction s)
  case (Cons c s)
  then show ?case by (cases "s @ t") (auto simp: fmt_extra_def split: list.splits)
qed simp

lemma Sprintf_only_text: "CHR ''%'' \<notin> set s \<Longrightarrow> Sprintf s [] = s"
  using Sprintf_text [of s "[]" "[]"] by (simp add: fmt_extra_def)

lemma Sprintf_s: "Sprintf (CHR ''%'' # CHR ''s'' # t) (FStr x # as) = x @ Sprintf t as"
  by simp

lemma code_num_inj: "code_num c = code_num d \<Longrightarrow> c = d"
  by (cases c; cases d) simp_all

lemma Wrap_text:
  "Sprintf ''%s [%s]'' [FStr a, FStr b] = a @ '' ['' @ b @ '']''"
  by (simp add: fmt_extra_def)

end
