(* ===== verification/Go_Flag.thy ===== *)
theory Go_Flag
  imports Cop_Error
begin

text \<open>
  Go's \<^verbatim>\<open>flag\<close> package as the commands use it: a flag set gives each name its kind, parsing a
  command line yields the assignments it makes, in order, and the arguments that follow.  The flag
  sets exit on an error, and on a request for help.
\<close>

datatype flag_kind = FBool | FInt | FString | FDuration

type_synonym flag_set = "string \<Rightarrow> flag_kind option"

datatype flag_token = NoFlag | Terminator | Flag string

definition flag_token :: "string \<Rightarrow> flag_token" where
  "flag_token s =
     (if length s < 2 \<or> hd s \<noteq> CHR ''-'' then NoFlag
      else if s ! 1 = CHR ''-'' then (if length s = 2 then Terminator else Flag (drop 2 s))
      else Flag (drop 1 s))"

definition bad_name :: "string \<Rightarrow> bool" where
  "bad_name name \<longleftrightarrow> name = [] \<or> hd name = CHR ''-'' \<or> hd name = CHR ''=''"

text \<open>A value can follow the name after an equality sign.\<close>

definition name_value :: "string \<Rightarrow> string \<times> string option" where
  "name_value s = (let n = takeWhile (\<lambda>c. c \<noteq> CHR ''='') s in
     (n, if length n = length s then None else Some (drop (Suc (length n)) s)))"

definition flag_exit :: go_error where
  "flag_exit = GoPanic ''exit status 2''"

text \<open>\<open>ok\<close> tells which texts convert to a value of the kind.\<close>

definition flag_assign ::
  "(flag_kind \<Rightarrow> string \<Rightarrow> bool) \<Rightarrow> flag_kind \<Rightarrow> string \<Rightarrow> string \<Rightarrow>
   ((string \<times> string) list \<times> string list) result \<Rightarrow> ((string \<times> string) list \<times> string list) result" where
  "flag_assign ok k name v r =
     (if ok k v then (case r of Inl e \<Rightarrow> Inl e | Inr (asg, rest) \<Rightarrow> Inr ((name, v) # asg, rest)) else Inl flag_exit)"

fun FlagSet_Parse ::
  "flag_set \<Rightarrow> (flag_kind \<Rightarrow> string \<Rightarrow> bool) \<Rightarrow> string list \<Rightarrow> ((string \<times> string) list \<times> string list) result" where
  "FlagSet_Parse fs ok [] = Inr ([], [])"
| "FlagSet_Parse fs ok (s # args) =
     (case flag_token s of
        NoFlag \<Rightarrow> Inr ([], s # args)
      | Terminator \<Rightarrow> Inr ([], args)
      | Flag t \<Rightarrow>
          if bad_name t then Inl flag_exit
          else (let (name, v) = name_value t in
             (case fs name of
                None \<Rightarrow> Inl flag_exit
              | Some k \<Rightarrow>
                  (case v of
                     Some v \<Rightarrow> flag_assign ok k name v (FlagSet_Parse fs ok args)
                   | None \<Rightarrow>
                       if k = FBool then flag_assign ok k name ''true'' (FlagSet_Parse fs ok args)
                       else (case args of
                               [] \<Rightarrow> Inl flag_exit
                             | v # args \<Rightarrow> flag_assign ok k name v (FlagSet_Parse fs ok args))))))"

text \<open>The last assignment to a flag counts; a flag not mentioned keeps its default.\<close>

definition flag_value :: "string \<Rightarrow> string \<Rightarrow> (string \<times> string) list \<Rightarrow> string" where
  "flag_value name dflt asg = (case map_of (rev asg) name of None \<Rightarrow> dflt | Some v \<Rightarrow> v)"

subsection \<open>Values\<close>

text \<open>\<^verbatim>\<open>strconv.ParseInt\<close> with base 0 and 64 bits, and the texts \<^verbatim>\<open>strconv.ParseBool\<close> takes.\<close>

definition base_digit :: "char \<Rightarrow> nat" where
  "base_digit c = (let n = (of_char c :: nat) in
     if 48 \<le> n \<and> n \<le> 57 then n - 48 else if 97 \<le> n \<and> n \<le> 122 then n - 87
     else if 65 \<le> n \<and> n \<le> 90 then n - 55 else 36)"

definition base_number :: "nat \<Rightarrow> string \<Rightarrow> nat option" where
  "base_number base s = (if list_all (\<lambda>c. base_digit c < base) s
     then Some (foldl (\<lambda>n c. n * base + base_digit c) 0 s) else None)"

definition ParseUint0 :: "string \<Rightarrow> nat option" where
  "ParseUint0 s =
     (case s of
        [] \<Rightarrow> None
      | c # t \<Rightarrow>
          if c = CHR ''0'' \<and> t \<noteq> [] \<and> (hd t = CHR ''x'' \<or> hd t = CHR ''X'') then (if tl t = [] then None else base_number 16 (tl t))
          else if c = CHR ''0'' then base_number 8 t
          else base_number 10 s)"

definition ParseInt0 :: "string \<Rightarrow> int option" where
  "ParseInt0 s =
     (if s = [] then None
      else let neg = hd s = CHR ''-''; u = (if hd s = CHR ''-'' \<or> hd s = CHR ''+'' then tl s else s)
           in (case ParseUint0 u of
                 None \<Rightarrow> None
               | Some n \<Rightarrow>
                   if neg then (if n > 2 ^ 63 then None else Some (- int n))
                   else (if n \<ge> 2 ^ 63 then None else Some (int n))))"

definition bool_texts :: "string list" where
  "bool_texts = [''1'', ''t'', ''T'', ''true'', ''TRUE'', ''True'', ''0'', ''f'', ''F'', ''false'', ''FALSE'', ''False'']"

definition flag_ok :: "(string \<Rightarrow> bool) \<Rightarrow> flag_kind \<Rightarrow> string \<Rightarrow> bool" where
  "flag_ok dur k v = (case k of
     FString \<Rightarrow> True | FBool \<Rightarrow> v \<in> set bool_texts | FInt \<Rightarrow> ParseInt0 v \<noteq> None | FDuration \<Rightarrow> dur v)"

subsection \<open>Lemmas\<close>

lemma ParseInt0_bounds: "ParseInt0 s = Some n \<Longrightarrow> - (2 ^ 63) \<le> n \<and> n < 2 ^ 63"
  by (auto simp: ParseInt0_def Let_def split: if_splits option.splits)

text \<open>A word that is not a flag ends the flags: what follows it is left alone.\<close>

lemma Parse_positional: "flag_token s = NoFlag \<Longrightarrow> FlagSet_Parse fs ok (s # args) = Inr ([], s # args)"
  by simp

lemma flag_value_default: "\<forall>(n, v) \<in> set asg. n \<in> S \<Longrightarrow> k \<notin> S \<Longrightarrow> flag_value k dflt asg = dflt"
  by (auto simp: flag_value_def split: option.splits dest!: map_of_SomeD)

lemma pairs_mono: "\<forall>(n, v) \<in> A. n \<in> S \<Longrightarrow> (\<And>n v. n \<in> S \<Longrightarrow> P n v) \<Longrightarrow> \<forall>(n, v) \<in> A. P n v"
  by auto

lemma flag_token_dash: "t \<noteq> [] \<Longrightarrow> hd t \<noteq> CHR ''-'' \<Longrightarrow> flag_token (CHR ''-'' # t) = Flag t"
  by (cases t) (auto simp: flag_token_def)

lemma name_value_plain: "CHR ''='' \<notin> set s \<Longrightarrow> name_value s = (s, None)"
proof -
  assume "CHR ''='' \<notin> set s"
  then have "takeWhile (\<lambda>c. c \<noteq> CHR ''='') s = s" by auto
  then show ?thesis unfolding name_value_def Let_def by (simp del: takeWhile_eq_all_conv)
qed

lemma name_value_eq: "CHR ''='' \<notin> set n \<Longrightarrow> name_value (n @ CHR ''='' # v) = (n, Some v)"
proof -
  assume n: "CHR ''='' \<notin> set n"
  have "takeWhile (\<lambda>c. c \<noteq> CHR ''='') (n @ CHR ''='' # v) = n" using n by (subst takeWhile_append2) auto
  then show ?thesis by (simp add: name_value_def)
qed

text \<open>A flag of a kind other than boolean takes the next word, whatever it looks like.\<close>

lemma Parse_flag:
  assumes "\<not> bad_name name" "CHR ''='' \<notin> set name" "fs name = Some k" "k \<noteq> FBool" "ok k v"
    and "FlagSet_Parse fs ok args = Inr (asg, rest)"
  shows "FlagSet_Parse fs ok ((CHR ''-'' # name) # v # args) = Inr ((name, v) # asg, rest)"
  using assms by (simp add: flag_token_dash bad_name_def name_value_plain flag_assign_def)

text \<open>
  Printing assignments as words and parsing them gives them back, with the arguments that follow
  when the first of them is not a flag.
\<close>

definition flag_words :: "(string \<times> string) list \<Rightarrow> string list" where
  "flag_words asg = concat (map (\<lambda>(n, v). [CHR ''-'' # n, v]) asg)"

lemma Parse_words:
  assumes "\<forall>(n, v) \<in> set asg. \<not> bad_name n \<and> CHR ''='' \<notin> set n \<and> (\<exists>k. fs n = Some k \<and> k \<noteq> FBool \<and> ok k v)"
    and "rest = [] \<or> flag_token (hd rest) = NoFlag"
  shows "FlagSet_Parse fs ok (flag_words asg @ rest) = Inr (asg, rest)"
  using assms
proof (induction asg)
  case Nil
  then show ?case by (cases rest) (auto simp: flag_words_def)
next
  case (Cons a asg)
  obtain n v where a: "a = (n, v)" by (cases a)
  with Cons obtain k where k: "\<not> bad_name n" "CHR ''='' \<notin> set n" "fs n = Some k" "k \<noteq> FBool" "ok k v" by auto
  have "flag_words (a # asg) @ rest = (CHR ''-'' # n) # v # (flag_words asg @ rest)" by (simp add: flag_words_def a)
  moreover have "FlagSet_Parse fs ok (flag_words asg @ rest) = Inr (asg, rest)" using Cons by auto
  ultimately show ?case using Parse_flag [of n fs k ok v] k a by (simp del: FlagSet_Parse.simps)
qed

end
