(* ===== verification/Idp_Types.thy ===== *)
theory Idp_Types
  imports Cop_Error
begin

text \<open>
  The data the components exchange: the request types of \<^verbatim>\<open>idp/idp.go\<close> and \<^verbatim>\<open>api/api.go\<close>, the
  user and group records of \<^verbatim>\<open>cli/server/spi\<close>, and the JSON text in which attribute lists are
  stored.  A Go slice is a list; the nil slice and the empty slice are both the empty list (they
  print differently, but both are read back as no attributes).
\<close>

record Attribute =
  attr_Name :: string
  attr_Value :: string

record RegistrationRequest =
  rr_Name :: string
  rr_Type :: string
  rr_Group :: string
  rr_Attributes :: "Attribute list"

record RevocationRequest =
  rv_Name :: string
  rv_Serial :: string
  rv_AKI :: string
  rv_Reason :: int

record GetPrivateSignersRequest =
  ps_Count :: "64 word"
  ps_AttrNames :: "string list"
  ps_EncryptAttrs :: bool
  ps_ValidityPeriod :: int

datatype Capability = REGISTRATION | ENROLLMENT | ATTRIBUTES | ANONYMITY | UNLINKABILITY

record RegisterRequest =
  rq_User :: string
  rq_Group :: string
  rq_Type :: string
  rq_Attributes :: "Attribute list"
  rq_CallerID :: string

record UserInfo =
  ui_Name :: string
  ui_Pass :: string
  ui_Type :: string
  ui_Group :: string
  ui_Attributes :: "Attribute list"

record GroupInfo =
  gi_Name :: string
  gi_ParentID :: string

text \<open>Package spi, group.go.\<close>

definition NewGroup :: "GroupInfo \<Rightarrow> GroupInfo" where
  "NewGroup g = g"

definition GroupInfo_GetName :: "GroupInfo \<Rightarrow> string" where
  "GroupInfo_GetName g = gi_Name g"

definition GroupInfo_GetChildren :: "GroupInfo \<Rightarrow> GroupInfo list result" where
  "GroupInfo_GetChildren g = Inr []"

definition GroupInfo_GetParent :: "GroupInfo \<Rightarrow> string" where
  "GroupInfo_GetParent g = gi_ParentID g"

subsection \<open>The attributes column\<close>

text \<open>\<^verbatim>\<open>json.Marshal\<close> of a \<^verbatim>\<open>[]idp.Attribute\<close>; a nil slice prints as \<^verbatim>\<open>null\<close>.\<close>

definition attr_json :: "Attribute \<Rightarrow> json" where
  "attr_json a = JObj [(''name'', JStr (attr_Name a)), (''value'', JStr (attr_Value a))]"

definition MarshalAttrs :: "Attribute list \<Rightarrow> string" where
  "MarshalAttrs as = (if as = [] then ''null'' else json_print (JArr (map attr_json as)))"

text \<open>
  \<^verbatim>\<open>json.Unmarshal\<close> into a \<^verbatim>\<open>[]idp.Attribute\<close> whose error the caller ignores: text that is not
  JSON, or not an array, gives no attributes.
\<close>

definition json_attr :: "json \<Rightarrow> Attribute" where
  "json_attr v = \<lparr>attr_Name = json_string_field v ''name'', attr_Value = json_string_field v ''value''\<rparr>"

definition UnmarshalAttrs :: "string \<Rightarrow> Attribute list" where
  "UnmarshalAttrs s = (case json_parse s of Some (JArr vs) \<Rightarrow> map json_attr vs | _ \<Rightarrow> [])"

subsection \<open>Lemmas\<close>

lemma attr_json_wf [simp]: "json_wf (attr_json a)"
  by (simp add: attr_json_def)

lemma json_attr_attr_json [simp]: "json_attr (attr_json a) = a"
  by (simp add: json_attr_def attr_json_def json_string_field_def json_lookup_def
      ToLower_def lower_char_def)

lemma UnmarshalAttrs_MarshalAttrs [simp]: "UnmarshalAttrs (MarshalAttrs as) = as"
proof (cases as)
  case Nil
  have "json_parse ''null'' = Some JNull"
    using json_parse_print [of JNull] by simp
  with Nil show ?thesis by (simp add: UnmarshalAttrs_def MarshalAttrs_def)
next
  case (Cons a bs)
  have "json_parse (json_print (JArr (map attr_json as))) = Some (JArr (map attr_json as))"
    by (rule json_parse_print) (simp add: list_all_iff)
  with Cons show ?thesis by (simp add: UnmarshalAttrs_def MarshalAttrs_def comp_def del: json_print.simps)
qed

end
