(* ===== verification/Sql_Store.thy ===== *)
theory Sql_Store
  imports Idp_Types
begin

text \<open>
  The SQL database behind the server: the tables that \<^verbatim>\<open>cli/server/dbutil/dbutil.go\<close> creates,
  and the statements the accessors send to them.  A table is the list of its rows; SQL leaves the
  order of a result open, and the list order stands for whatever order the engine uses.

  What the model keeps of the engines:
  \<^item> the driver, because the code behaves differently on it: MySQL's \<^verbatim>\<open>users\<close> table has a primary
    key on \<^verbatim>\<open>id\<close> and the two others do not, MySQL counts the rows an \<^verbatim>\<open>UPDATE\<close> changed and the
    others the rows it matched, and PostgreSQL does not know the \<^verbatim>\<open>?\<close> placeholder of a statement
    that was not passed through \<^verbatim>\<open>Rebind\<close>;
  \<^item> failures: every statement consumes one entry of a schedule \<open>faults\<close> that says whether the
    statement fails, or succeeds with a result whose \<^verbatim>\<open>RowsAffected\<close> fails.  An exhausted
    schedule means no more failures.  Errors such as an over-long \<^verbatim>\<open>VARCHAR\<close> are entries of it.
\<close>

datatype db_driver = Sqlite3 | Postgres | MySQL

datatype fault = NoFault | StmtFault string | RowsFault string

record UserRecord =
  ur_Name :: string
  ur_Pass :: string
  ur_Type :: string
  ur_Group :: string
  ur_Attributes :: string
  ur_State :: int
  ur_MaxEnrollments :: int
  ur_SerialNumber :: string
  ur_AKI :: string

text \<open>No statement of the program writes \<^verbatim>\<open>prekey\<close>; a group row starts with NULL there.\<close>

record GroupRecord =
  gr_Name :: string
  gr_ParentID :: string
  gr_Prekey :: "string option"

record CertRecord =
  cr_ID :: string
  cr_Serial :: string
  cr_AKI :: string
  cr_CALabel :: string
  cr_Status :: string
  cr_Reason :: int
  cr_Expiry :: int
  cr_RevokedAt :: int
  cr_PEM :: string

record OCSPRecord =
  oc_Serial :: string
  oc_AKI :: string
  oc_Body :: string
  oc_Expiry :: int

record sqldb =
  driver :: db_driver
  users :: "UserRecord list"
  groups :: "GroupRecord list"
  certificates :: "CertRecord list"
  ocsp_responses :: "OCSPRecord list option"
  clock :: int
  faults :: "fault list"

text \<open>A handle \<^verbatim>\<open>*sqlx.DB\<close> is an option: the nil pointer is \<open>None\<close>.\<close>

type_synonym 'a dbm = "sqldb option \<Rightarrow> 'a result \<times> sqldb option"

record sql_result =
  rows :: nat
  rows_err :: "go_error option"

subsection \<open>Running one statement\<close>

definition pop_fault :: "sqldb \<Rightarrow> fault \<times> sqldb" where
  "pop_fault d = (case faults d of [] \<Rightarrow> (NoFault, d) | f # fs \<Rightarrow> (f, d\<lparr>faults := fs\<rparr>))"

text \<open>
  \<open>sql_exec\<close> runs a statement given by its effect: an error of the engine, or the number of rows
  affected and the new tables.
\<close>

definition sql_exec :: "(sqldb \<Rightarrow> go_error + nat \<times> sqldb) \<Rightarrow> sqldb \<Rightarrow> sql_result result \<times> sqldb" where
  "sql_exec stmt d = (case pop_fault d of
     (StmtFault m, d') \<Rightarrow> (Inl (ExtError m), d')
   | (NoFault, d') \<Rightarrow>
       (case stmt d' of
          Inl e \<Rightarrow> (Inl e, d')
        | Inr (n, d'') \<Rightarrow> (Inr \<lparr>rows = n, rows_err = None\<rparr>, d''))
   | (RowsFault m, d') \<Rightarrow>
       (case stmt d' of
          Inl e \<Rightarrow> (Inl e, d')
        | Inr (n, d'') \<Rightarrow> (Inr \<lparr>rows = 0, rows_err = Some (ExtError m)\<rparr>, d'')))"

definition sql_select :: "(sqldb \<Rightarrow> go_error + 'a list) \<Rightarrow> sqldb \<Rightarrow> 'a list result \<times> sqldb" where
  "sql_select query d = (case pop_fault d of
     (StmtFault m, d') \<Rightarrow> (Inl (ExtError m), d')
   | (_, d') \<Rightarrow> (query d', d'))"

text \<open>\<^verbatim>\<open>sqlx.Get\<close> scans the first row and reports \<^verbatim>\<open>sql.ErrNoRows\<close> when there is none.\<close>

definition ErrNoRows :: go_error where
  "ErrNoRows = ExtError ''sql: no rows in result set''"

definition sql_get :: "(sqldb \<Rightarrow> go_error + 'a list) \<Rightarrow> sqldb \<Rightarrow> 'a result \<times> sqldb" where
  "sql_get query d = (case sql_select query d of
     (Inl e, d') \<Rightarrow> (Inl e, d')
   | (Inr [], d') \<Rightarrow> (Inl ErrNoRows, d')
   | (Inr (r # _), d') \<Rightarrow> (Inr r, d'))"

text \<open>A statement with \<^verbatim>\<open>?\<close> placeholders that were not rebound is a syntax error for PostgreSQL.\<close>

definition unrebound :: "(sqldb \<Rightarrow> go_error + 'a) \<Rightarrow> sqldb \<Rightarrow> go_error + 'a" where
  "unrebound stmt d = (if driver d = Postgres then Inl (ExtError ''pq: syntax error'') else stmt d)"

subsection \<open>The statements\<close>

definition update_rows :: "('r \<Rightarrow> bool) \<Rightarrow> ('r \<Rightarrow> 'r) \<Rightarrow> 'r list \<Rightarrow> 'r list" where
  "update_rows p f rs = map (\<lambda>r. if p r then f r else r) rs"

definition affected :: "db_driver \<Rightarrow> ('r \<Rightarrow> bool) \<Rightarrow> ('r \<Rightarrow> 'r) \<Rightarrow> 'r list \<Rightarrow> nat" where
  "affected drv p f rs =
     (if drv = MySQL then length (filter (\<lambda>r. p r \<and> f r \<noteq> r) rs) else length (filter p rs))"

definition insertUser_sql :: "UserRecord \<Rightarrow> sqldb \<Rightarrow> go_error + nat \<times> sqldb" where
  "insertUser_sql u d =
     (if driver d = MySQL \<and> ur_Name u \<in> ur_Name ` set (users d)
      then Inl (ExtError ''Error 1062: Duplicate entry'')
      else Inr (1, d\<lparr>users := users d @ [u]\<rparr>))"

definition deleteUser_sql :: "string \<Rightarrow> sqldb \<Rightarrow> go_error + nat \<times> sqldb" where
  "deleteUser_sql uid d =
     Inr (length (filter (\<lambda>r. ur_Name r = uid) (users d)),
          d\<lparr>users := filter (\<lambda>r. ur_Name r \<noteq> uid) (users d)\<rparr>)"

definition update_users_sql ::
  "(UserRecord \<Rightarrow> UserRecord) \<Rightarrow> string \<Rightarrow> sqldb \<Rightarrow> go_error + nat \<times> sqldb" where
  "update_users_sql f uid d =
     Inr (affected (driver d) (\<lambda>r. ur_Name r = uid) f (users d),
          d\<lparr>users := update_rows (\<lambda>r. ur_Name r = uid) f (users d)\<rparr>)"

definition updateUser_sql :: "UserRecord \<Rightarrow> sqldb \<Rightarrow> go_error + nat \<times> sqldb" where
  "updateUser_sql u = update_users_sql
     (\<lambda>r. r\<lparr>ur_Pass := ur_Pass u, ur_Type := ur_Type u, ur_Group := ur_Group u,
            ur_Attributes := ur_Attributes u\<rparr>) (ur_Name u)"

definition getUser_sql :: "string \<Rightarrow> sqldb \<Rightarrow> go_error + UserRecord list" where
  "getUser_sql uid d = Inr (filter (\<lambda>r. ur_Name r = uid) (users d))"

definition insertGroup_sql :: "string \<Rightarrow> string \<Rightarrow> sqldb \<Rightarrow> go_error + nat \<times> sqldb" where
  "insertGroup_sql name parent d =
     Inr (1, d\<lparr>groups := groups d @ [\<lparr>gr_Name = name, gr_ParentID = parent, gr_Prekey = None\<rparr>]\<rparr>)"

definition deleteGroup_sql :: "string \<Rightarrow> sqldb \<Rightarrow> go_error + nat \<times> sqldb" where
  "deleteGroup_sql name d =
     Inr (length (filter (\<lambda>r. gr_Name r = name) (groups d)),
          d\<lparr>groups := filter (\<lambda>r. gr_Name r \<noteq> name) (groups d)\<rparr>)"

definition getGroup_sql :: "string \<Rightarrow> sqldb \<Rightarrow> go_error + GroupRecord list" where
  "getGroup_sql name d = Inr (filter (\<lambda>r. gr_Name r = name) (groups d))"

lemmas stmt_defs = insertUser_sql_def deleteUser_sql_def update_users_sql_def updateUser_sql_def
  getUser_sql_def insertGroup_sql_def deleteGroup_sql_def getGroup_sql_def

declare pop_fault_def [sql_defs] sql_exec_def [sql_defs] sql_select_def [sql_defs]
  sql_get_def [sql_defs] unrebound_def [sql_defs]

subsection \<open>Lemmas\<close>

lemma update_rows_length [simp]: "length (update_rows p f rs) = length rs"
  by (simp add: update_rows_def)

lemma update_rows_none: "(\<And>r. r \<in> set rs \<Longrightarrow> \<not> p r) \<Longrightarrow> update_rows p f rs = rs"
  by (simp add: update_rows_def map_idI)

lemma map_update_rows: "(\<And>r. g (f r) = g r) \<Longrightarrow> map g (update_rows p f rs) = map g rs"
  by (induction rs) (auto simp: update_rows_def)

lemma filter_update_rows:
  "(\<And>r. p (f r) = p r) \<Longrightarrow> filter p (update_rows p f rs) = map f (filter p rs)"
  by (induction rs) (auto simp: update_rows_def)

lemma filter_update_other:
  "(\<And>r. p r \<Longrightarrow> \<not> q r \<and> \<not> q (f r)) \<Longrightarrow> filter q (update_rows p f rs) = filter q rs"
  by (induction rs) (auto simp: update_rows_def)

lemma sql_exec_no_faults:
  "faults d = [] \<Longrightarrow> sql_exec stmt d = (case stmt d of
     Inl e \<Rightarrow> (Inl e, d) | Inr (n, d') \<Rightarrow> (Inr \<lparr>rows = n, rows_err = None\<rparr>, d'))"
  by (simp add: sql_exec_def pop_fault_def)

lemma sql_get_no_faults:
  "faults d = [] \<Longrightarrow> sql_get query d = (case query d of
     Inl e \<Rightarrow> (Inl e, d) | Inr [] \<Rightarrow> (Inl ErrNoRows, d) | Inr (r # _) \<Rightarrow> (Inr r, d))"
  by (simp add: sql_get_def sql_select_def pop_fault_def split: sum.split list.split)

lemma sql_select_no_faults: "faults d = [] \<Longrightarrow> sql_select query d = (query d, d)"
  by (simp add: sql_select_def pop_fault_def)

text \<open>Reading changes nothing but the schedule of failures.\<close>

definition same_tables :: "sqldb \<Rightarrow> sqldb \<Rightarrow> bool" where
  "same_tables d d' \<longleftrightarrow> d' = d\<lparr>faults := faults d'\<rparr>"

lemma same_tables_refl [simp]: "same_tables d d"
  by (simp add: same_tables_def)

lemma same_tables_trans: "same_tables a b \<Longrightarrow> same_tables b c \<Longrightarrow> same_tables a c"
  unfolding same_tables_def by (metis sqldb.surjective sqldb.update_convs(7))

lemma same_tables_fields:
  "same_tables d d' \<Longrightarrow> driver d' = driver d \<and> users d' = users d \<and> groups d' = groups d \<and>
     certificates d' = certificates d \<and> ocsp_responses d' = ocsp_responses d \<and> clock d' = clock d"
  unfolding same_tables_def by (metis sqldb.select_convs(1-6) sqldb.surjective sqldb.update_convs(7))

lemma pop_fault_same: "pop_fault d = (f, d') \<Longrightarrow> same_tables d d'"
  by (auto simp: pop_fault_def same_tables_def split: list.splits)

lemma sql_select_same: "sql_select q d = (r, d') \<Longrightarrow> same_tables d d'"
  by (auto simp: sql_select_def dest: pop_fault_same split: prod.splits fault.splits)

lemma sql_get_same: "sql_get q d = (r, d') \<Longrightarrow> same_tables d d'"
  by (auto simp: sql_get_def dest: sql_select_same split: prod.splits sum.splits list.splits)

text \<open>Case analysis of a statement: it failed and the tables are unchanged, or it took effect.\<close>

lemma sql_exec_cases:
  assumes "sql_exec stmt d = (r, d')"
  obtains (err) e where "r = Inl e" "same_tables d d'"
  | (ok) d1 n res where "r = Inr res" "same_tables d d1" "stmt d1 = Inr (n, d')"
      "rows_err res = None \<Longrightarrow> rows res = n" "rows_err res \<noteq> None \<Longrightarrow> rows res = 0"
proof -
  obtain f d1 where f: "pop_fault d = (f, d1)" by (cases "pop_fault d")
  then have same: "same_tables d d1" by (rule pop_fault_same)
  show thesis
  proof (cases f)
    case (StmtFault m)
    with assms f same err show ?thesis by (auto simp: sql_exec_def)
  next
    case NoFault
    show ?thesis
    proof (cases "stmt d1")
      case (Inl e)
      with assms f NoFault same err show ?thesis by (auto simp: sql_exec_def)
    next
      case (Inr p)
      with assms f NoFault have "r = Inr \<lparr>rows = fst p, rows_err = None\<rparr>" "stmt d1 = Inr (fst p, d')"
        by (auto simp: sql_exec_def split: prod.splits)
      with same show ?thesis by (intro ok) auto
    qed
  next
    case (RowsFault m)
    show ?thesis
    proof (cases "stmt d1")
      case (Inl e)
      with assms f RowsFault same err show ?thesis by (auto simp: sql_exec_def)
    next
      case (Inr p)
      with assms f RowsFault
      have "r = Inr \<lparr>rows = 0, rows_err = Some (ExtError m)\<rparr>" "stmt d1 = Inr (fst p, d')"
        by (auto simp: sql_exec_def split: prod.splits)
      with same show ?thesis
        by (intro ok [where res = "\<lparr>rows = 0, rows_err = Some (ExtError m)\<rparr>"]) auto
    qed
  qed
qed

lemma sql_get_Inr:
  assumes "sql_get q d = (Inr x, d')"
  obtains d1 xs where "same_tables d d1" "q d1 = Inr (x # xs)" "d' = d1"
  using assms
  by (auto simp: sql_get_def sql_select_def dest: pop_fault_same
      split: prod.splits sum.splits list.splits fault.splits)

end
