(* ===== verification/User_Accessor.thy ===== *)
theory User_Accessor
  imports Sql_Store
begin

text \<open>
  The database user registry, \<^verbatim>\<open>cli/server/dbaccessor.go\<close>: the \<^verbatim>\<open>Accessor\<close> operations on the
  \<^verbatim>\<open>users\<close> and \<^verbatim>\<open>groups\<close> tables and the \<^verbatim>\<open>DBUser\<close> object with its \<^verbatim>\<open>Login\<close>.  An \<^verbatim>\<open>Accessor\<close> is
  its database handle, so every operation maps a handle to a result and the new handle.
\<close>

subsection \<open>The accessor's handle\<close>

definition NewDBAccessor :: "sqldb option" where
  "NewDBAccessor = None"

definition Accessor_checkDB :: "sqldb option \<Rightarrow> go_error option" where
  "Accessor_checkDB h =
     (if h = None then Some (ErrorString ''unknown db object, please check SetDB method'') else None)"

definition Accessor_SetDB :: "sqldb option \<Rightarrow> sqldb option \<Rightarrow> sqldb option" where
  "Accessor_SetDB h db = db"

text \<open>Every operation begins with \<open>checkDB\<close>; the rest runs on the database behind the handle.\<close>

definition checked :: "(sqldb \<Rightarrow> 'a result \<times> sqldb) \<Rightarrow> 'a dbm" where
  "checked f h = (case Accessor_checkDB h of
     Some e \<Rightarrow> (Inl e, h)
   | None \<Rightarrow> (case h of
       None \<Rightarrow> (Inl (GoPanic ''nil pointer dereference''), h)
     | Some d \<Rightarrow> (case f d of (r, d') \<Rightarrow> (r, Some d'))))"

subsection \<open>Users\<close>

definition user_record :: "UserInfo \<Rightarrow> UserRecord" where
  "user_record user =
     \<lparr>ur_Name = ui_Name user, ur_Pass = ui_Pass user, ur_Type = ui_Type user,
      ur_Group = ui_Group user, ur_Attributes = MarshalAttrs (ui_Attributes user),
      ur_State = 0, ur_MaxEnrollments = 0, ur_SerialNumber = [], ur_AKI = []\<rparr>"

definition rows_msg :: "nat \<Rightarrow> ErrorImpl" where
  "rows_msg n = NewError (code_num UserStoreError) ''%d rows are affected, should be 1 row'' [FInt (int n)]"

definition Accessor_InsertUser :: "UserInfo \<Rightarrow> unit dbm" where
  "Accessor_InsertUser user = checked (\<lambda>d.
     case sql_exec (insertUser_sql (user_record user)) d of
       (Inl e, d) \<Rightarrow> (Inl e, d)
     | (Inr res, d) \<Rightarrow>
         (case rows_err res of
            Some e \<Rightarrow> (Inl e, d)
          | None \<Rightarrow>
              if rows res = 0
              then (Inl (COPError (NewError (code_num UserStoreError) ''Failed to insert the user record'' [])), d)
              else if rows res \<noteq> 1 then (Inl (COPError (rows_msg (rows res))), d)
              else (Inr (), d)))"

definition Accessor_DeleteUser :: "string \<Rightarrow> unit dbm" where
  "Accessor_DeleteUser uid = checked (\<lambda>d.
     case sql_exec (unrebound (deleteUser_sql uid)) d of
       (Inl e, d) \<Rightarrow> (Inl e, d)
     | (Inr _, d) \<Rightarrow> (Inr (), d))"

definition Accessor_UpdateUser :: "UserInfo \<Rightarrow> unit dbm" where
  "Accessor_UpdateUser user = checked (\<lambda>d.
     case sql_exec (updateUser_sql (user_record user)) d of
       (Inl e, d) \<Rightarrow> (Inl e, d)
     | (Inr res, d) \<Rightarrow>
         if rows res = 0
         then (Inl (COPError (NewError (code_num UserStoreError) ''Failed to update the user record'' [])), d)
         else if rows res \<noteq> 1 then (Inl (COPError (rows_msg (rows res))), d)
         else (case rows_err res of Some e \<Rightarrow> (Inl e, d) | None \<Rightarrow> (Inr (), d)))"

text \<open>The constants of the \<^verbatim>\<open>iota\<close> block, and the dynamically typed values \<^verbatim>\<open>UpdateField\<close> takes.\<close>

datatype field = serialNumber | aki | prekey | maxEnrollments | state

datatype go_value = GInt int | GString string

definition not_int_panic :: go_error where
  "not_int_panic = GoPanic ''interface conversion: interface is string, not int''"

definition Accessor_UpdateField :: "string \<Rightarrow> field \<Rightarrow> go_value \<Rightarrow> unit dbm" where
  "Accessor_UpdateField uid fld val = checked (\<lambda>d.
     case fld of
       maxEnrollments \<Rightarrow>
         (case val of
            GInt v \<Rightarrow>
              (case sql_exec (update_users_sql (\<lambda>r. r\<lparr>ur_MaxEnrollments := v\<rparr>) uid) d of
                 (Inl e, d) \<Rightarrow> (Inl e, d)
               | (Inr _, d) \<Rightarrow> (Inr (), d))
          | GString _ \<Rightarrow> (Inl not_int_panic, d))
     | state \<Rightarrow>
         (case val of
            GInt v \<Rightarrow>
              (case sql_exec (update_users_sql (\<lambda>r. r\<lparr>ur_State := v\<rparr>) uid) d of
                 (Inl e, d) \<Rightarrow> (Inl e, d)
               | (Inr _, d) \<Rightarrow> (Inr (), d))
          | GString _ \<Rightarrow> (Inl not_int_panic, d))
     | _ \<Rightarrow> (Inl (COPError (NewError (code_num DatabaseError)
               ''DB: Specified field does not exist or cannot be updated'' [])), d))"

text \<open>
  \<^verbatim>\<open>GetField\<close> only knows \<^verbatim>\<open>prekey\<close>, and scans the column into a Go string, which fails on NULL.
\<close>

definition Accessor_GetField :: "string \<Rightarrow> field \<Rightarrow> go_value dbm" where
  "Accessor_GetField gid fld = checked (\<lambda>d.
     case fld of
       prekey \<Rightarrow>
         (case sql_get (getGroup_sql gid) d of
            (Inl e, d) \<Rightarrow> (Inl e, d)
          | (Inr g, d) \<Rightarrow>
              (case gr_Prekey g of
                 None \<Rightarrow> (Inl (ExtError ''sql: Scan error: converting driver.Value type <nil> to a string''), d)
               | Some k \<Rightarrow> (Inr (GString k), d)))
     | _ \<Rightarrow> (Inl (COPError (NewError (code_num DatabaseError)
               ''DB: Specified field does not exist or cannot be retrieved'' [])), d))"

subsection \<open>The user object\<close>

text \<open>The field \<^verbatim>\<open>db\<close> of a \<^verbatim>\<open>DBUser\<close> is the accessor's handle, which \<^verbatim>\<open>Login\<close> receives as its state.\<close>

record DBUser =
  u_name :: string
  u_pass :: string
  u_state :: int
  u_maxEnrollments :: int
  u_affiliationPath :: "string list"
  u_attrs :: "string \<rightharpoonup> string"

fun attrs_map :: "Attribute list \<Rightarrow> (string \<rightharpoonup> string) \<Rightarrow> (string \<rightharpoonup> string)" where
  "attrs_map [] m = m"
| "attrs_map (a # as) m = attrs_map as (m(attr_Name a \<mapsto> attr_Value a))"

definition newDBUser :: "UserRecord \<Rightarrow> DBUser" where
  "newDBUser r =
     \<lparr>u_name = ur_Name r, u_pass = ur_Pass r, u_state = ur_State r,
      u_maxEnrollments = ur_MaxEnrollments r,
      u_affiliationPath = Split (ur_Group r) (CHR ''/''),
      u_attrs = attrs_map (UnmarshalAttrs (ur_Attributes r)) Map.empty\<rparr>"

definition Accessor_GetUser :: "string \<Rightarrow> string list \<Rightarrow> DBUser dbm" where
  "Accessor_GetUser uid attrs = checked (\<lambda>d.
     case sql_get (getUser_sql uid) d of
       (Inl e, d) \<Rightarrow> (Inl e, d)
     | (Inr r, d) \<Rightarrow> (Inr (newDBUser r), d))"

definition DBUser_GetName :: "DBUser \<Rightarrow> string" where
  "DBUser_GetName u = u_name u"

definition DBUser_GetAffiliationPath :: "DBUser \<Rightarrow> string list" where
  "DBUser_GetAffiliationPath u = u_affiliationPath u"

text \<open>A Go map read yields the zero value when the key is absent.\<close>

definition DBUser_GetAttribute :: "DBUser \<Rightarrow> string \<Rightarrow> string" where
  "DBUser_GetAttribute u name = (case u_attrs u name of Some v \<Rightarrow> v | None \<Rightarrow> [])"

definition DBUser_Login :: "DBUser \<Rightarrow> string \<Rightarrow> unit dbm" where
  "DBUser_Login u pass h =
     (if u_pass u \<noteq> pass
      then (Inl (COPError (NewError (code_num AuthorizationFailure)
              ''Incorrect username/password provided)'' [])), h)
      else if u_maxEnrollments u \<ge> 0 then
        if u_maxEnrollments u \<noteq> 0 \<and> u_state u \<ge> u_maxEnrollments u
        then (Inl (ErrorString (''The maximum number of enrollments is '' @ Itoa (u_maxEnrollments u))), h)
        else
          (case h of
             None \<Rightarrow> (Inl (GoPanic ''nil pointer dereference''), h)
           | Some d \<Rightarrow>
               let st = u_state u + 1 in
               (case sql_exec (update_users_sql (\<lambda>r. r\<lparr>ur_State := st\<rparr>) (u_name u)) d of
                  (Inl e, d) \<Rightarrow>
                    (Inl (ErrorString (''Failed to update state of user '' @ u_name u @ '' to '' @ Itoa st @ '': '' @ Error e)), Some d)
                | (Inr res, d) \<Rightarrow>
                    (case rows_err res of
                       Some e \<Rightarrow> (Inl (ErrorString (''db.RowsAffected failed: '' @ Error e)), Some d)
                     | None \<Rightarrow>
                         if rows res = 0
                         then (Inl (ErrorString (''no rows were affected when updating the state of user '' @ u_name u)), Some d)
                         else if rows res \<noteq> 1
                         then (Inl (ErrorString (Itoa (int (rows res)) @ '' rows were affected when updating the state of user '' @ u_name u)), Some d)
                         else (Inr (), Some d))))
      else (Inr (), h))"

subsection \<open>Groups\<close>

definition Accessor_InsertGroup :: "string \<Rightarrow> string \<Rightarrow> unit dbm" where
  "Accessor_InsertGroup name parentID = checked (\<lambda>d.
     case sql_exec (insertGroup_sql name parentID) d of
       (Inl e, d) \<Rightarrow> (Inl e, d)
     | (Inr _, d) \<Rightarrow> (Inr (), d))"

definition Accessor_DeleteGroup :: "string \<Rightarrow> unit dbm" where
  "Accessor_DeleteGroup name = checked (\<lambda>d.
     case sql_exec (unrebound (deleteGroup_sql name)) d of
       (Inl e, d) \<Rightarrow> (Inl e, d)
     | (Inr _, d) \<Rightarrow> (Inr (), d))"

definition Accessor_GetGroup :: "string \<Rightarrow> GroupInfo dbm" where
  "Accessor_GetGroup name = checked (\<lambda>d.
     case sql_get (getGroup_sql name) d of
       (Inl e, d) \<Rightarrow> (Inl e, d)
     | (Inr g, d) \<Rightarrow> (Inr \<lparr>gi_Name = gr_Name g, gi_ParentID = gr_ParentID g\<rparr>, d))"

definition Accessor_GetRootGroup :: "GroupInfo dbm" where
  "Accessor_GetRootGroup = checked (\<lambda>d. (Inl (ErrorString ''NOT YET IMPLEMENTED''), d))"

declare checked_def [op_defs] Accessor_checkDB_def [op_defs] Accessor_InsertUser_def [op_defs]
  Accessor_DeleteUser_def [op_defs] Accessor_UpdateUser_def [op_defs]
  Accessor_UpdateField_def [op_defs] Accessor_GetField_def [op_defs] Accessor_GetUser_def [op_defs]
  Accessor_InsertGroup_def [op_defs] Accessor_DeleteGroup_def [op_defs]
  Accessor_GetGroup_def [op_defs] Accessor_GetRootGroup_def [op_defs]


subsection \<open>Reading the users table\<close>

definition lookup_user :: "sqldb \<Rightarrow> string \<Rightarrow> UserRecord option" where
  "lookup_user d uid = find (\<lambda>r. ur_Name r = uid) (users d)"

definition unique_ids :: "sqldb \<Rightarrow> bool" where
  "unique_ids d \<longleftrightarrow> distinct (map ur_Name (users d))"

lemma find_filter: "find p xs = (case filter p xs of [] \<Rightarrow> None | x # _ \<Rightarrow> Some x)"
  by (induction xs) auto

lemma lookup_user_filter:
  "lookup_user d uid = (case filter (\<lambda>r. ur_Name r = uid) (users d) of [] \<Rightarrow> None | r # _ \<Rightarrow> Some r)"
  by (simp add: lookup_user_def find_filter)

lemma lookup_user_None: "lookup_user d uid = None \<longleftrightarrow> uid \<notin> ur_Name ` set (users d)"
  by (auto simp: lookup_user_def find_None_iff)

lemma lookup_user_name: "lookup_user d uid = Some r \<Longrightarrow> ur_Name r = uid"
  by (auto simp: lookup_user_def find_Some_iff)

lemma lookup_same_tables: "same_tables d d' \<Longrightarrow> lookup_user d' = lookup_user d"
  using same_tables_fields [of d d'] by (auto simp: lookup_user_def fun_eq_iff)

lemma unique_same_tables: "same_tables d d' \<Longrightarrow> unique_ids d' = unique_ids d"
  using same_tables_fields [of d d'] by (simp add: unique_ids_def)

lemma distinct_filter_name:
  "distinct (map g rs) \<Longrightarrow> length (filter (\<lambda>r. g r = x) rs) \<le> 1"
proof (induction rs)
  case (Cons a rs)
  then have "g a \<notin> g ` set rs" by simp
  then have "x = g a \<Longrightarrow> filter (\<lambda>r. g r = x) rs = []"
    by (metis (mono_tags, lifting) filter_False image_eqI)
  with Cons show ?case by auto
qed simp

lemma unique_lookup_filter:
  assumes "unique_ids d" "lookup_user d uid = Some r"
  shows "filter (\<lambda>r. ur_Name r = uid) (users d) = [r]"
proof -
  from assms(1) have "length (filter (\<lambda>r. ur_Name r = uid) (users d)) \<le> 1"
    unfolding unique_ids_def by (rule distinct_filter_name)
  with assms(2) show ?thesis
    by (cases "filter (\<lambda>r. ur_Name r = uid) (users d)") (auto simp: lookup_user_filter)
qed

lemma attrs_map_map_of: "attrs_map as m = m ++ map_of (rev (map (\<lambda>a. (attr_Name a, attr_Value a)) as))"
  by (induction as arbitrary: m) (auto simp: fun_eq_iff map_add_def split: option.splits)

lemma checked_Some: "checked f (Some d) = (case f d of (r, d') \<Rightarrow> (r, Some d'))"
  by (simp add: checked_def Accessor_checkDB_def)

lemma checked_None:
  "checked f None = (Inl (ErrorString ''unknown db object, please check SetDB method''), None)"
  by (simp add: checked_def Accessor_checkDB_def)

lemma GetUser_no_faults:
  "faults d = [] \<Longrightarrow> Accessor_GetUser uid as (Some d) =
     (case lookup_user d uid of
        None \<Rightarrow> (Inl ErrNoRows, Some d) | Some r \<Rightarrow> (Inr (newDBUser r), Some d))"
  by (simp add: Accessor_GetUser_def checked_Some sql_get_no_faults getUser_sql_def lookup_user_filter
      split: list.split)

text \<open>What a read returns, whatever fails: the row of the table, and the tables are unchanged.\<close>

lemma GetUser_cases:
  assumes "Accessor_GetUser uid as (Some d) = (res, h')"
  obtains (err) e d' where "res = Inl e" "h' = Some d'" "same_tables d d'"
  | (found) r d' where "res = Inr (newDBUser r)" "lookup_user d uid = Some r" "h' = Some d'" "same_tables d d'"
proof -
  obtain q d' where q: "sql_get (getUser_sql uid) d = (q, d')" by (cases "sql_get (getUser_sql uid) d")
  then have same: "same_tables d d'" by (rule sql_get_same)
  from assms q have h: "h' = Some d'" and res: "res = (case q of Inl e \<Rightarrow> Inl e | Inr r \<Rightarrow> Inr (newDBUser r))"
    by (auto simp: Accessor_GetUser_def checked_Some split: sum.splits)
  show thesis
  proof (cases q)
    case (Inl e)
    with res h same show ?thesis by (intro err) auto
  next
    case (Inr r)
    with q obtain d1 rs where "same_tables d d1" "getUser_sql uid d1 = Inr (r # rs)"
      by (auto elim: sql_get_Inr)
    then have "lookup_user d1 uid = Some r" by (simp add: getUser_sql_def lookup_user_filter)
    with \<open>same_tables d d1\<close> have "lookup_user d uid = Some r"
      by (simp add: lookup_same_tables)
    with res h same Inr show ?thesis by (intro found) auto
  qed
qed

text \<open>Updating the rows of one user.\<close>

lemma lookup_update_users:
  assumes "\<And>r. ur_Name (f r) = ur_Name r"
  shows "lookup_user (d\<lparr>users := update_rows (\<lambda>r. ur_Name r = uid) f (users d)\<rparr>) =
         (\<lambda>x. if x = uid then map_option f (lookup_user d uid) else lookup_user d x)"
proof
  fix x
  show "lookup_user (d\<lparr>users := update_rows (\<lambda>r. ur_Name r = uid) f (users d)\<rparr>) x =
        (if x = uid then map_option f (lookup_user d uid) else lookup_user d x)"
  proof (cases "x = uid")
    case True
    with assms show ?thesis
      by (simp add: lookup_user_filter filter_update_rows split: list.split)
  next
    case False
    with assms show ?thesis
      by (auto simp: lookup_user_filter filter_update_other)
  qed
qed

lemma unique_update_users:
  "(\<And>r. ur_Name (f r) = ur_Name r) \<Longrightarrow>
   unique_ids (d\<lparr>users := update_rows p f (users d)\<rparr>) = unique_ids d"
  by (simp add: unique_ids_def map_update_rows)

lemma affected_unique:
  assumes "unique_ids d" "lookup_user d uid = Some r" "f r \<noteq> r"
  shows "affected drv (\<lambda>r. ur_Name r = uid) f (users d) = 1"
proof -
  have "filter (\<lambda>r. ur_Name r = uid \<and> f r \<noteq> r) (users d) =
        filter (\<lambda>r. f r \<noteq> r) (filter (\<lambda>r. ur_Name r = uid) (users d))"
    by (simp add: conj_commute)
  with assms show ?thesis by (simp add: affected_def unique_lookup_filter)
qed

subsection \<open>Logging in\<close>

text \<open>
  The two steps of an authentication, as \<^verbatim>\<open>auth.go\<close> makes them: read the user, log it in.
\<close>

definition login_attempt :: "string \<Rightarrow> string \<Rightarrow> unit dbm" where
  "login_attempt uid pass h = (case Accessor_GetUser uid [] h of
     (Inl e, h) \<Rightarrow> (Inl e, h)
   | (Inr u, h) \<Rightarrow> DBUser_Login u pass h)"

fun run_logins :: "string \<Rightarrow> string list \<Rightarrow> sqldb option \<Rightarrow> bool list \<times> sqldb option" where
  "run_logins uid [] h = ([], h)"
| "run_logins uid (p # ps) h =
     (case login_attempt uid p h of
        (r, h) \<Rightarrow> (case run_logins uid ps h of (bs, h') \<Rightarrow> ((case r of Inl _ \<Rightarrow> False | Inr _ \<Rightarrow> True) # bs, h')))"

lemma run_logins_Cons:
  "fst (run_logins uid (p # ps) h) =
     (case fst (login_attempt uid p h) of Inl _ \<Rightarrow> False | Inr _ \<Rightarrow> True)
     # fst (run_logins uid ps (snd (login_attempt uid p h)))"
  by (simp split: prod.split)

text \<open>
  One attempt: success needs the password and, when a limit is set, a count below it, and it
  raises the count by one; a failure leaves the row, or (when only \<^verbatim>\<open>RowsAffected\<close> failed) has
  raised the count below the limit.
\<close>

text \<open>The statement that counts a login: it fails and leaves the user, or it takes effect.\<close>

lemma exec_setState:
  assumes "sql_exec (update_users_sql (\<lambda>x. x\<lparr>ur_State := v\<rparr>) uid) d = (x, d')"
    and "unique_ids d" "lookup_user d uid = Some r"
  shows "unique_ids d' \<and> lookup_user d' uid = Some (if isl x then r else r\<lparr>ur_State := v\<rparr>)"
  using assms(1)
proof (cases rule: sql_exec_cases)
  case (err e)
  with assms(2,3) show ?thesis using lookup_same_tables [of d d'] unique_same_tables [of d d'] by simp
next
  case (ok d1 n y)
  then have d': "d' = d1\<lparr>users := update_rows (\<lambda>r. ur_Name r = uid) (\<lambda>x. x\<lparr>ur_State := v\<rparr>) (users d1)\<rparr>"
    by (auto simp: update_users_sql_def)
  show ?thesis
    using assms(2,3) ok(1,2) lookup_same_tables [of d d1] unique_same_tables [of d d1]
    unfolding d' by (simp add: lookup_update_users unique_update_users)
qed

lemma state_increased: "r\<lparr>ur_State := ur_State r + 1\<rparr> \<noteq> r"
proof
  assume "r\<lparr>ur_State := ur_State r + 1\<rparr> = r"
  then have "ur_State (r\<lparr>ur_State := ur_State r + 1\<rparr>) = ur_State r" by simp
  then show False by simp
qed

lemma login_attempt_step:
  assumes "login_attempt uid pass (Some d) = (res, h')"
    and "unique_ids d" and "lookup_user d uid = Some r"
  obtains d' r' where "h' = Some d'" "unique_ids d'" "lookup_user d' uid = Some r'"
    "r' = r \<or> r' = r\<lparr>ur_State := ur_State r + 1\<rparr>"
    "r' \<noteq> r \<longrightarrow> ur_MaxEnrollments r \<ge> 0 \<and> (ur_MaxEnrollments r = 0 \<or> ur_State r < ur_MaxEnrollments r)"
    "res = Inr () \<longrightarrow> pass = ur_Pass r \<and> (r' \<noteq> r \<or> ur_MaxEnrollments r < 0)"
proof -
  obtain q h1 where q: "Accessor_GetUser uid [] (Some d) = (q, h1)"
    by (cases "Accessor_GetUser uid [] (Some d)")
  from q show thesis
  proof (cases rule: GetUser_cases)
    case (err e d1)
    with assms q show ?thesis
      using lookup_same_tables [of d d1] unique_same_tables [of d d1]
      by (intro that [of d1 r]) (auto simp: login_attempt_def)
  next
    case (found r1 d1)
    with assms have r1: "r1 = r" and l1: "lookup_user d1 uid = Some r" and u1: "unique_ids d1"
      using lookup_same_tables [of d d1] unique_same_tables [of d d1] by auto
    from l1 have nm: "ur_Name r = uid" by (rule lookup_user_name)
    have login: "DBUser_Login (newDBUser r) pass (Some d1) = (res, h')"
      using assms(1) q found r1 by (simp add: login_attempt_def)
    show ?thesis
    proof (cases "pass = ur_Pass r \<and> ur_MaxEnrollments r \<ge> 0 \<and> (ur_MaxEnrollments r = 0 \<or> ur_State r < ur_MaxEnrollments r)")
      case False
      with login have "h' = Some d1" "res = Inr () \<longrightarrow> pass = ur_Pass r \<and> ur_MaxEnrollments r < 0"
        by (auto simp: DBUser_Login_def newDBUser_def split: if_splits)
      with l1 u1 show ?thesis by (intro that [of d1 r]) auto
    next
      case True
      obtain x d2 where x: "sql_exec (update_users_sql (\<lambda>x. x\<lparr>ur_State := ur_State r + 1\<rparr>) uid) d1 = (x, d2)"
        by (cases "sql_exec (update_users_sql (\<lambda>x. x\<lparr>ur_State := ur_State r + 1\<rparr>) uid) d1")
      from login x True nm have "h' = Some d2" "res = Inr () \<longrightarrow> \<not> isl x"
        by (auto simp: DBUser_Login_def newDBUser_def Let_def split: sum.splits option.splits if_splits)
      with exec_setState [OF x u1 l1] True show ?thesis
        by (intro that [of d2 "if isl x then r else r\<lparr>ur_State := ur_State r + 1\<rparr>"]) (auto simp: state_increased)
    qed
  qed
qed

text \<open>Induction over the attempts.\<close>

lemma run_logins_limit:
  assumes "unique_ids d" "lookup_user d uid = Some r"
    and "0 < ur_MaxEnrollments r" "ur_State r \<le> ur_MaxEnrollments r"
  shows "int (count_list (fst (run_logins uid ps (Some d))) True) \<le> ur_MaxEnrollments r - ur_State r"
  using assms
proof (induction ps arbitrary: d r)
  case (Cons p ps)
  obtain res h' where step: "login_attempt uid p (Some d) = (res, h')"
    by (cases "login_attempt uid p (Some d)")
  from step Cons.prems(1,2) obtain d' r' where *:
    "h' = Some d'" "unique_ids d'" "lookup_user d' uid = Some r'"
    "r' = r \<or> r' = r\<lparr>ur_State := ur_State r + 1\<rparr>"
    "r' \<noteq> r \<longrightarrow> ur_MaxEnrollments r \<ge> 0 \<and> (ur_MaxEnrollments r = 0 \<or> ur_State r < ur_MaxEnrollments r)"
    "res = Inr () \<longrightarrow> p = ur_Pass r \<and> (r' \<noteq> r \<or> ur_MaxEnrollments r < 0)"
    by (rule login_attempt_step)
  let ?n = "count_list (fst (run_logins uid ps (Some d'))) True"
  from *(4,5) Cons.prems have "0 < ur_MaxEnrollments r'" "ur_State r' \<le> ur_MaxEnrollments r'"
    by auto
  with Cons.IH *(2,3) have IH: "int ?n \<le> ur_MaxEnrollments r' - ur_State r'" by blast
  have "count_list (fst (run_logins uid (p # ps) (Some d))) True =
        ?n + (if res = Inr () then 1 else 0)"
    using step *(1) by (cases res) (simp_all add: run_logins_Cons del: run_logins.simps)
  moreover have "res = Inr () \<Longrightarrow> ur_State r' = ur_State r + 1"
    using *(4,6) Cons.prems(3) by fastforce
  moreover have "ur_MaxEnrollments r' = ur_MaxEnrollments r" "ur_State r' \<ge> ur_State r"
    using *(4) by auto
  ultimately show ?case using IH by (auto simp del: run_logins.simps)
qed simp


text \<open>
  C3. The enrollment limit. For a user with a positive \<open>max_enrollments\<close>, however the passwords of a
  sequence of authentications are chosen and whichever database statements fail, at most
  \<open>max_enrollments - state\<close> of them succeed.
\<close>

theorem enrollment_limit:
  assumes "unique_ids d" "lookup_user d uid = Some r"
    and "0 < ur_MaxEnrollments r" "ur_State r \<le> ur_MaxEnrollments r"
  shows "int (count_list (fst (run_logins uid ps (Some d))) True) \<le> ur_MaxEnrollments r - ur_State r"
  using assms by (rule run_logins_limit)

definition demo_user :: UserRecord where
  "demo_user = \<lparr>ur_Name = ''admin'', ur_Pass = ''adminpw'', ur_Type = ''client'', ur_Group = ''bank/a'',
     ur_Attributes = ''null'', ur_State = 0, ur_MaxEnrollments = 2, ur_SerialNumber = [], ur_AKI = []\<rparr>"

definition demo_db :: sqldb where
  "demo_db = \<lparr>driver = Sqlite3, users = [demo_user], groups = [], certificates = [],
     ocsp_responses = None, clock = 0, faults = []\<rparr>"

theorem enrollment_limit_witness:
  "int (count_list (fst (run_logins ''admin'' [''adminpw'', ''adminpw'', ''adminpw''] (Some demo_db))) True)
     \<le> ur_MaxEnrollments demo_user - ur_State demo_user"
  by (rule enrollment_limit)
    (simp_all add: demo_db_def demo_user_def unique_ids_def lookup_user_def)

text \<open>Without failures an attempt with the right password is decided by the count alone.\<close>

lemma login_attempt_no_faults:
  assumes "faults d = []" "unique_ids d" "lookup_user d uid = Some r" "0 \<le> ur_MaxEnrollments r"
    and "ur_MaxEnrollments r = 0 \<or> ur_State r < ur_MaxEnrollments r"
  shows "login_attempt uid (ur_Pass r) (Some d) =
    (Inr (), Some (d\<lparr>users := update_rows (\<lambda>x. ur_Name x = uid) (\<lambda>x. x\<lparr>ur_State := ur_State r + 1\<rparr>) (users d)\<rparr>))"
proof -
  let ?f = "\<lambda>x. x\<lparr>ur_State := ur_State r + 1\<rparr>"
  have "?f r \<noteq> r" by (rule state_increased)
  with assms have "affected (driver d) (\<lambda>x. ur_Name x = uid) ?f (users d) = 1"
    by (intro affected_unique) auto
  with assms show ?thesis
    by (auto simp: login_attempt_def GetUser_no_faults DBUser_Login_def newDBUser_def Let_def
        sql_exec_no_faults update_users_sql_def lookup_user_name)
qed

lemma login_attempt_exhausted:
  assumes "faults d = []" "lookup_user d uid = Some r"
    and "0 < ur_MaxEnrollments r" "ur_MaxEnrollments r \<le> ur_State r"
  shows "login_attempt uid (ur_Pass r) (Some d) =
    (Inl (ErrorString (''The maximum number of enrollments is '' @ Itoa (ur_MaxEnrollments r))), Some d)"
  using assms by (simp add: login_attempt_def GetUser_no_faults DBUser_Login_def newDBUser_def)

text \<open>The count decides a whole sequence of attempts.\<close>

lemma run_logins_exact:
  assumes "faults d = []" "unique_ids d" "lookup_user d uid = Some r"
    and "0 < ur_MaxEnrollments r" "ur_State r \<le> ur_MaxEnrollments r"
  shows "fst (run_logins uid (replicate n (ur_Pass r)) (Some d)) =
    replicate (min n (nat (ur_MaxEnrollments r - ur_State r))) True
    @ replicate (n - nat (ur_MaxEnrollments r - ur_State r)) False"
  using assms
proof (induction n arbitrary: d r)
  case (Suc n)
  show ?case
  proof (cases "ur_State r < ur_MaxEnrollments r")
    case True
    let ?d = "d\<lparr>users := update_rows (\<lambda>x. ur_Name x = uid) (\<lambda>x. x\<lparr>ur_State := ur_State r + 1\<rparr>) (users d)\<rparr>"
    let ?r = "r\<lparr>ur_State := ur_State r + 1\<rparr>"
    have step: "login_attempt uid (ur_Pass r) (Some d) = (Inr (), Some ?d)"
      using Suc.prems True by (intro login_attempt_no_faults) auto
    have "fst (run_logins uid (replicate n (ur_Pass ?r)) (Some ?d)) =
      replicate (min n (nat (ur_MaxEnrollments ?r - ur_State ?r))) True
      @ replicate (n - nat (ur_MaxEnrollments ?r - ur_State ?r)) False"
      using Suc.prems True
      by (intro Suc.IH) (simp_all add: unique_update_users lookup_update_users)
    moreover have "nat (ur_MaxEnrollments r - ur_State r) = Suc (nat (ur_MaxEnrollments r - ur_State r - 1))"
      using True by simp
    ultimately show ?thesis using step
      by (simp add: run_logins_Cons algebra_simps del: run_logins.simps)
  next
    case False
    with Suc.prems have "login_attempt uid (ur_Pass r) (Some d) =
      (Inl (ErrorString (''The maximum number of enrollments is '' @ Itoa (ur_MaxEnrollments r))), Some d)"
      by (intro login_attempt_exhausted) auto
    with Suc False show ?thesis by (simp add: run_logins_Cons del: run_logins.simps)
  qed
qed simp

text \<open>
  C13. The limit is also reached: without failures, a user who keeps presenting the right password is
  let in exactly the next \<open>max_enrollments - state\<close> times and refused from then on.
\<close>

theorem enrollment_exact:
  assumes "faults d = []" "unique_ids d" "lookup_user d uid = Some r"
    and "0 < ur_MaxEnrollments r" "ur_State r \<le> ur_MaxEnrollments r"
  shows "fst (run_logins uid (replicate n (ur_Pass r)) (Some d)) =
    replicate (min n (nat (ur_MaxEnrollments r - ur_State r))) True
    @ replicate (n - nat (ur_MaxEnrollments r - ur_State r)) False"
  using assms by (rule run_logins_exact)

theorem enrollment_exact_witness:
  "fst (run_logins ''admin'' (replicate 3 (ur_Pass demo_user)) (Some demo_db)) = [True, True, False]"
proof -
  have "fst (run_logins ''admin'' (replicate 3 (ur_Pass demo_user)) (Some demo_db)) =
    replicate (min 3 (nat (ur_MaxEnrollments demo_user - ur_State demo_user))) True
    @ replicate (3 - nat (ur_MaxEnrollments demo_user - ur_State demo_user)) False"
    by (rule enrollment_exact) (simp_all add: demo_db_def demo_user_def unique_ids_def lookup_user_def)
  then show ?thesis by (simp add: demo_user_def numeral_2_eq_2)
qed


subsection \<open>Inserting users\<close>

lemma InsertUser_no_faults:
  assumes "faults d = []" "driver d = MySQL \<longrightarrow> ui_Name u \<notin> ur_Name ` set (users d)"
  shows "Accessor_InsertUser u (Some d) = (Inr (), Some (d\<lparr>users := users d @ [user_record u]\<rparr>))"
  using assms
  by (simp add: Accessor_InsertUser_def checked_Some sql_exec_no_faults insertUser_sql_def user_record_def)

lemma lookup_user_append:
  "lookup_user (d\<lparr>users := users d @ [u]\<rparr>) uid =
     (case lookup_user d uid of Some r \<Rightarrow> Some r | None \<Rightarrow> if ur_Name u = uid then Some u else None)"
  by (simp add: lookup_user_filter split: list.split)

text \<open>
  A user that was inserted under a new name is read back as it was given: same name, password and
  attributes (the last value of a repeated attribute name), the group path split at the slashes,
  no logins yet, and no limit on them.
\<close>

theorem InsertUser_GetUser:
  assumes "faults d = []" "ui_Name u \<notin> ur_Name ` set (users d)"
  shows "\<exists>d'. Accessor_InsertUser u (Some d) = (Inr (), Some d') \<and>
    Accessor_GetUser (ui_Name u) attrs (Some d') =
      (Inr \<lparr>u_name = ui_Name u, u_pass = ui_Pass u, u_state = 0, u_maxEnrollments = 0,
            u_affiliationPath = Split (ui_Group u) (CHR ''/''),
            u_attrs = map_of (rev (map (\<lambda>a. (attr_Name a, attr_Value a)) (ui_Attributes u)))\<rparr>,
       Some d') \<and>
    (\<forall>x. x \<noteq> ui_Name u \<longrightarrow> lookup_user d' x = lookup_user d x)"
proof -
  let ?d = "d\<lparr>users := users d @ [user_record u]\<rparr>"
  have none: "lookup_user d (ui_Name u) = None" using assms(2) by (simp add: lookup_user_None)
  have "Accessor_InsertUser u (Some d) = (Inr (), Some ?d)"
    using assms by (intro InsertUser_no_faults) auto
  moreover have look: "lookup_user ?d (ui_Name u) = Some (user_record u)"
    using none by (simp add: lookup_user_append user_record_def)
  moreover have "lookup_user ?d x = lookup_user d x" if "x \<noteq> ui_Name u" for x
    using that by (simp add: lookup_user_append user_record_def split: option.split)
  ultimately show ?thesis using assms(1)
    by (simp add: GetUser_no_faults newDBUser_def attrs_map_map_of) (simp add: user_record_def)
qed

definition demo_info :: UserInfo where
  "demo_info = \<lparr>ui_Name = ''u1'', ui_Pass = ''pw'', ui_Type = ''client'', ui_Group = ''bank/a'',
     ui_Attributes = [\<lparr>attr_Name = ''k'', attr_Value = ''v''\<rparr>]\<rparr>"

theorem InsertUser_GetUser_witness:
  "\<exists>d'. Accessor_InsertUser demo_info (Some demo_db) = (Inr (), Some d') \<and>
    (\<exists>u. Accessor_GetUser ''u1'' [] (Some d') = (Inr u, Some d') \<and>
         u_affiliationPath u = [''bank'', ''a''] \<and> u_attrs u ''k'' = Some ''v'')"
proof -
  have "ui_Name demo_info \<notin> ur_Name ` set (users demo_db)"
    by (simp add: demo_info_def demo_db_def demo_user_def)
  moreover have "faults demo_db = []" by (simp add: demo_db_def)
  ultimately show ?thesis
    using InsertUser_GetUser [of demo_db demo_info "[]"] by (auto simp: demo_info_def)
qed

lemma GetGroup_no_faults:
  "faults d = [] \<Longrightarrow> Accessor_GetGroup n (Some d) =
     (case filter (\<lambda>g. gr_Name g = n) (groups d) of
        [] \<Rightarrow> (Inl ErrNoRows, Some d)
      | g # _ \<Rightarrow> (Inr \<lparr>gi_Name = gr_Name g, gi_ParentID = gr_ParentID g\<rparr>, Some d))"
  by (simp add: Accessor_GetGroup_def checked_Some sql_get_no_faults getGroup_sql_def split: list.split)

lemma UpdateField_no_faults:
  "faults d = [] \<Longrightarrow> Accessor_UpdateField uid maxEnrollments (GInt v) (Some d) =
     (Inr (), Some (d\<lparr>users := update_rows (\<lambda>r. ur_Name r = uid) (\<lambda>r. r\<lparr>ur_MaxEnrollments := v\<rparr>) (users d)\<rparr>))"
  "faults d = [] \<Longrightarrow> Accessor_UpdateField uid state (GInt v) (Some d) =
     (Inr (), Some (d\<lparr>users := update_rows (\<lambda>r. ur_Name r = uid) (\<lambda>r. r\<lparr>ur_State := v\<rparr>) (users d)\<rparr>))"
  by (simp_all add: Accessor_UpdateField_def checked_Some sql_exec_no_faults update_users_sql_def)

text \<open>
  The operations of the accessor as one step function, for statements about any sequence of them.
\<close>

datatype acc_op =
    OpInsertUser UserInfo
  | OpDeleteUser string
  | OpUpdateUser UserInfo
  | OpUpdateField string field go_value
  | OpGetField string field
  | OpGetUser string
  | OpLogin string string
  | OpInsertGroup string string
  | OpDeleteGroup string
  | OpGetGroup string

fun acc_step :: "acc_op \<Rightarrow> sqldb option \<Rightarrow> sqldb option" where
  "acc_step (OpInsertUser u) h = snd (Accessor_InsertUser u h)"
| "acc_step (OpDeleteUser uid) h = snd (Accessor_DeleteUser uid h)"
| "acc_step (OpUpdateUser u) h = snd (Accessor_UpdateUser u h)"
| "acc_step (OpUpdateField uid f v) h = snd (Accessor_UpdateField uid f v h)"
| "acc_step (OpGetField uid f) h = snd (Accessor_GetField uid f h)"
| "acc_step (OpGetUser uid) h = snd (Accessor_GetUser uid [] h)"
| "acc_step (OpLogin uid p) h = snd (login_attempt uid p h)"
| "acc_step (OpInsertGroup n p) h = snd (Accessor_InsertGroup n p h)"
| "acc_step (OpDeleteGroup n) h = snd (Accessor_DeleteGroup n h)"
| "acc_step (OpGetGroup n) h = snd (Accessor_GetGroup n h)"

definition keyed :: "sqldb \<Rightarrow> bool" where
  "keyed d \<longleftrightarrow> driver d = MySQL \<and> unique_ids d"

lemma keyed_same_tables: "same_tables d d' \<Longrightarrow> keyed d' = keyed d"
  using same_tables_fields [of d d'] by (simp add: keyed_def unique_ids_def)

lemma keyed_exec:
  assumes "sql_exec stmt d = (r, d')" "keyed d" "\<And>d n d'. keyed d \<Longrightarrow> stmt d = Inr (n, d') \<Longrightarrow> keyed d'"
  shows "keyed d'"
  using assms(1)
proof (cases rule: sql_exec_cases)
  case (err e)
  with assms(2) show ?thesis by (simp add: keyed_same_tables)
next
  case (ok d1 n res)
  with assms(2,3) show ?thesis by (metis keyed_same_tables)
qed

lemma keyed_update_users:
  "(\<And>r. ur_Name (f r) = ur_Name r) \<Longrightarrow> keyed d \<Longrightarrow> update_users_sql f uid d = Inr (n, d') \<Longrightarrow> keyed d'"
  by (auto simp: keyed_def update_users_sql_def unique_update_users)

lemma keyed_statements:
  "keyed d \<Longrightarrow> insertUser_sql u d = Inr (n, d') \<Longrightarrow> keyed d'"
  "keyed d \<Longrightarrow> deleteUser_sql uid d = Inr (n, d') \<Longrightarrow> keyed d'"
  "keyed d \<Longrightarrow> updateUser_sql u d = Inr (n, d') \<Longrightarrow> keyed d'"
  "keyed d \<Longrightarrow> insertGroup_sql g p d = Inr (n, d') \<Longrightarrow> keyed d'"
  "keyed d \<Longrightarrow> deleteGroup_sql g d = Inr (n, d') \<Longrightarrow> keyed d'"
  "keyed d \<Longrightarrow> unrebound (deleteUser_sql uid) d = Inr (n, d') \<Longrightarrow> keyed d'"
  "keyed d \<Longrightarrow> unrebound (deleteGroup_sql g) d = Inr (n, d') \<Longrightarrow> keyed d'"
  by (auto simp: keyed_def unique_ids_def insertUser_sql_def deleteUser_sql_def updateUser_sql_def
      update_users_sql_def insertGroup_sql_def deleteGroup_sql_def unrebound_def map_update_rows
      distinct_map_filter split: if_splits)

definition keyed_handle :: "sqldb option \<Rightarrow> bool" where
  "keyed_handle h \<longleftrightarrow> (case h of None \<Rightarrow> True | Some d \<Rightarrow> keyed d)"

lemma keyed_checked:
  "keyed_handle h \<Longrightarrow> (\<And>d r d'. keyed d \<Longrightarrow> f d = (r, d') \<Longrightarrow> keyed d') \<Longrightarrow> checked f h = (r, h') \<Longrightarrow>
   keyed_handle h'"
  by (auto simp: keyed_handle_def checked_def Accessor_checkDB_def split: option.splits prod.splits)

lemma keyed_get: "keyed d \<Longrightarrow> sql_get q d = (r, d') \<Longrightarrow> keyed d'"
  by (metis keyed_same_tables sql_get_same)

lemma keyed_Login: "keyed_handle h \<Longrightarrow> DBUser_Login u p h = (r, h') \<Longrightarrow> keyed_handle h'"
  by (auto simp: DBUser_Login_def keyed_handle_def Let_def
      dest!: keyed_exec [where stmt = "update_users_sql (\<lambda>r. r\<lparr>ur_State := u_state u + 1\<rparr>) (u_name u)"]
      dest: keyed_update_users [rotated 2]
      split: if_splits option.splits sum.splits prod.splits)

text \<open>What each operation does to the handle: the effect of its one statement, whatever it returns.\<close>

lemma snd_checked: "snd (checked f h) = map_option (\<lambda>d. snd (f d)) h"
  by (cases h) (simp_all add: checked_Some checked_None split: prod.split)

lemma snd_Accessor:
  "snd (Accessor_InsertUser u h) = map_option (\<lambda>d. snd (sql_exec (insertUser_sql (user_record u)) d)) h"
  "snd (Accessor_DeleteUser uid h) = map_option (\<lambda>d. snd (sql_exec (unrebound (deleteUser_sql uid)) d)) h"
  "snd (Accessor_UpdateUser u h) = map_option (\<lambda>d. snd (sql_exec (updateUser_sql (user_record u)) d)) h"
  "snd (Accessor_GetUser uid as h) = map_option (\<lambda>d. snd (sql_get (getUser_sql uid) d)) h"
  "snd (Accessor_InsertGroup n p h) = map_option (\<lambda>d. snd (sql_exec (insertGroup_sql n p) d)) h"
  "snd (Accessor_DeleteGroup n h) = map_option (\<lambda>d. snd (sql_exec (unrebound (deleteGroup_sql n)) d)) h"
  "snd (Accessor_GetGroup n h) = map_option (\<lambda>d. snd (sql_get (getGroup_sql n) d)) h"
  unfolding Accessor_InsertUser_def Accessor_DeleteUser_def Accessor_UpdateUser_def
    Accessor_GetUser_def Accessor_InsertGroup_def Accessor_DeleteGroup_def Accessor_GetGroup_def snd_checked
  by (cases h; simp add: split_def split: sum.split option.split)+

lemma snd_UpdateField:
  "snd (Accessor_UpdateField uid state (GInt v) h) =
     map_option (\<lambda>d. snd (sql_exec (update_users_sql (\<lambda>r. r\<lparr>ur_State := v\<rparr>) uid) d)) h"
  "snd (Accessor_UpdateField uid maxEnrollments (GInt v) h) =
     map_option (\<lambda>d. snd (sql_exec (update_users_sql (\<lambda>r. r\<lparr>ur_MaxEnrollments := v\<rparr>) uid) d)) h"
proof -
  have "snd (case x of (Inl e, d) \<Rightarrow> (Inl e, d) | (Inr y, d) \<Rightarrow> (Inr (), d)) = snd x" for x :: "sql_result result \<times> sqldb"
    by (simp add: split_def split: sum.split)
  then show "snd (Accessor_UpdateField uid state (GInt v) h) =
     map_option (\<lambda>d. snd (sql_exec (update_users_sql (\<lambda>r. r\<lparr>ur_State := v\<rparr>) uid) d)) h"
    "snd (Accessor_UpdateField uid maxEnrollments (GInt v) h) =
     map_option (\<lambda>d. snd (sql_exec (update_users_sql (\<lambda>r. r\<lparr>ur_MaxEnrollments := v\<rparr>) uid) d)) h"
    unfolding Accessor_UpdateField_def snd_checked by simp_all
qed

lemma keyed_map:
  "keyed_handle h \<Longrightarrow> (\<And>d. keyed d \<Longrightarrow> keyed (f d)) \<Longrightarrow> keyed_handle (map_option f h)"
  by (simp add: keyed_handle_def split: option.splits)

lemma keyed_snd_exec:
  "(\<And>d n d'. keyed d \<Longrightarrow> stmt d = Inr (n, d') \<Longrightarrow> keyed d') \<Longrightarrow> keyed d \<Longrightarrow> keyed (snd (sql_exec stmt d))"
  by (cases "sql_exec stmt d") (auto dest: keyed_exec)

lemma keyed_snd_get: "keyed d \<Longrightarrow> keyed (snd (sql_get q d))"
  by (cases "sql_get q d") (auto dest: keyed_get)

lemma keyed_UpdateField: "keyed_handle h \<Longrightarrow> keyed_handle (snd (Accessor_UpdateField uid f v h))"
proof -
  have exec: "keyed d \<Longrightarrow> keyed (snd (sql_exec (update_users_sql g uid) d))"
    if "\<And>r. ur_Name (g r) = ur_Name r" for g d
    using that by (intro keyed_snd_exec) (auto intro: keyed_update_users)
  have eq: "snd (case x of (Inl e, d) \<Rightarrow> (Inl e, d) | (Inr y, d) \<Rightarrow> (Inr (), d)) = snd x"
    for x :: "sql_result result \<times> sqldb"
    by (simp add: split_def split: sum.split)
  assume "keyed_handle h"
  then show ?thesis
    unfolding Accessor_UpdateField_def snd_checked
    by (intro keyed_map) (auto split: field.split go_value.split simp: eq intro: exec)
qed

lemma keyed_GetField: "keyed_handle h \<Longrightarrow> keyed_handle (snd (Accessor_GetField g f h))"
  unfolding Accessor_GetField_def snd_checked
  by (intro keyed_map) (auto dest: keyed_get split: field.split sum.split option.split prod.split)

lemma keyed_login_attempt: "keyed_handle h \<Longrightarrow> keyed_handle (snd (login_attempt uid p h))"
proof -
  assume "keyed_handle h"
  then have "keyed_handle (snd (Accessor_GetUser uid [] h))"
    by (simp add: snd_Accessor keyed_map keyed_snd_get)
  then show ?thesis
    by (auto simp: login_attempt_def intro: keyed_Login split: prod.splits sum.splits)
      (metis keyed_Login prod.collapse)
qed

lemma keyed_acc_step: "keyed_handle h \<Longrightarrow> keyed_handle (acc_step op h)"
  by (cases op)
    (auto simp: snd_Accessor keyed_UpdateField keyed_GetField keyed_login_attempt
      intro!: keyed_map keyed_snd_exec keyed_snd_get dest: keyed_statements)

text \<open>
  On MySQL the primary key keeps user names unique: whatever sequence of accessor operations and
  logins is run, and whichever statements fail, no two rows of \<^verbatim>\<open>users\<close> have the same name.
\<close>

theorem mysql_unique_ids:
  assumes "driver d = MySQL" "unique_ids d" "fold acc_step ops (Some d) = Some d'"
  shows "unique_ids d'"
proof -
  have "keyed_handle h \<Longrightarrow> keyed_handle (fold acc_step ops h)" for h
    by (induction ops arbitrary: h) (simp_all add: keyed_acc_step)
  from this [of "Some d"] assms show ?thesis by (simp add: keyed_handle_def keyed_def)
qed

theorem mysql_unique_ids_witness:
  "\<exists>d'. fold acc_step [OpInsertUser demo_info, OpInsertUser demo_info]
      (Some (demo_db\<lparr>driver := MySQL\<rparr>)) = Some d' \<and> length (users d') = 2 \<and> unique_ids d'"
proof -
  let ?d = "demo_db\<lparr>driver := MySQL, users := [demo_user, user_record demo_info]\<rparr>"
  have "fold acc_step [OpInsertUser demo_info, OpInsertUser demo_info] (Some (demo_db\<lparr>driver := MySQL\<rparr>)) = Some ?d"
    by (simp add: snd_Accessor sql_exec_no_faults insertUser_sql_def demo_db_def demo_user_def
        user_record_def demo_info_def)
  moreover from mysql_unique_ids [OF _ _ this] have "unique_ids ?d"
    by (simp add: demo_db_def demo_user_def unique_ids_def)
  ultimately show ?thesis by auto
qed

text \<open>
  Without that key a name that is stored twice (the two other drivers accept it) locks the user
  out as soon as the limit or the count matters: every login that has to record itself touches both
  rows, reports a number of rows that is not one, and is refused although the password is right.
\<close>

theorem duplicate_user_locked_out:
  assumes "driver d \<noteq> MySQL" "faults d = []"
    and "filter (\<lambda>x. ur_Name x = uid) (users d) = r # r' # rs" "0 \<le> ur_MaxEnrollments r"
  shows "\<exists>e. fst (login_attempt uid pass (Some d)) = Inl e"
proof -
  have "lookup_user d uid = Some r" using assms by (simp add: lookup_user_filter)
  moreover from this have "ur_Name r = uid" by (rule lookup_user_name)
  ultimately show ?thesis using assms
    by (auto simp: login_attempt_def GetUser_no_faults DBUser_Login_def newDBUser_def Let_def
        sql_exec_no_faults update_users_sql_def affected_def)
qed

theorem duplicate_user_locked_out_witness:
  "\<exists>e. fst (login_attempt ''admin'' ''adminpw'' (Some (demo_db\<lparr>users := [demo_user, demo_user]\<rparr>))) = Inl e"
  by (rule duplicate_user_locked_out [where r = demo_user and r' = demo_user and rs = "[]"])
    (simp_all add: demo_db_def demo_user_def)

subsection \<open>Interleaved and disabled logins\<close>

text \<open>
  Concurrent requests read the user before any of them logs in, so they all hold the same
  \<^verbatim>\<open>DBUser\<close> object and each writes \<^verbatim>\<open>state + 1\<close> of the state it read.
\<close>

fun stale_logins :: "DBUser \<Rightarrow> string list \<Rightarrow> sqldb option \<Rightarrow> bool list \<times> sqldb option" where
  "stale_logins u [] h = ([], h)"
| "stale_logins u (p # ps) h =
     (case DBUser_Login u p h of
        (r, h) \<Rightarrow> (case stale_logins u ps h of (bs, h') \<Rightarrow> ((case r of Inl _ \<Rightarrow> False | Inr _ \<Rightarrow> True) # bs, h')))"

lemma Login_same_tables_users:
  assumes "driver d \<noteq> MySQL" "faults d = []" "unique_ids d" "lookup_user d (u_name u) = Some r"
    and "0 \<le> u_maxEnrollments u" "u_maxEnrollments u = 0 \<or> u_state u < u_maxEnrollments u"
  shows "DBUser_Login u (u_pass u) (Some d) =
    (Inr (), Some (d\<lparr>users := update_rows (\<lambda>x. ur_Name x = u_name u) (\<lambda>x. x\<lparr>ur_State := u_state u + 1\<rparr>) (users d)\<rparr>))"
  using assms
  by (auto simp: DBUser_Login_def Let_def sql_exec_no_faults update_users_sql_def affected_def
      unique_lookup_filter)

lemma Login_stale_MySQL:
  assumes "driver d = MySQL" "faults d = []" "unique_ids d" "lookup_user d (u_name u) = Some r" "ur_State r = u_state u + 1"
    and "0 \<le> u_maxEnrollments u" "u_maxEnrollments u = 0 \<or> u_state u < u_maxEnrollments u"
  shows "\<exists>e. DBUser_Login u (u_pass u) (Some d) = (Inl e, Some d)"
proof -
  let ?f = "\<lambda>x. x\<lparr>ur_State := u_state u + 1\<rparr>"
  have "set (filter (\<lambda>x. ur_Name x = u_name u) (users d)) = {r}" by (simp add: unique_lookup_filter [OF assms(3,4)])
  moreover have "?f r = r" using assms(5) by (cases r) simp
  ultimately have same: "?f x = x" if "x \<in> set (users d)" "ur_Name x = u_name u" for x
    using that by (auto simp: set_eq_iff)
  then have "update_rows (\<lambda>x. ur_Name x = u_name u) ?f (users d) = users d" "affected MySQL (\<lambda>x. ur_Name x = u_name u) ?f (users d) = 0"
    by (auto simp: update_rows_def affected_def filter_empty_conv intro: map_idI)
  with assms show ?thesis
    by (auto simp: DBUser_Login_def Let_def sql_exec_no_faults update_users_sql_def)
qed

text \<open>
  C39. The lost update behind the limit: any number of requests read the user at the same moment, while
  at least one login is left, and then log in one after the other with the right password.  On SQLite
  and PostgreSQL, which count the rows that match, all of them succeed, and together they raise the count
  by one only, so the limit is exceeded.  MySQL counts the rows that change: there the first succeeds
  and the others are refused, because the count they write is already stored.
\<close>

theorem concurrent_logins_exceed_limit:
  assumes "faults d = []" "unique_ids d" "lookup_user d uid = Some r"
    and "0 < ur_MaxEnrollments r" "ur_State r < ur_MaxEnrollments r"
  shows "\<exists>d'. stale_logins (newDBUser r) (replicate (Suc n) (ur_Pass r)) (Some d) =
      (True # replicate n (driver d \<noteq> MySQL), Some d') \<and>
    map_option ur_State (lookup_user d' uid) = Some (ur_State r + 1)"
proof -
  let ?u = "newDBUser r" and ?f = "\<lambda>x. x\<lparr>ur_State := ur_State r + 1\<rparr>"
  let ?upd = "\<lambda>e. e\<lparr>users := update_rows (\<lambda>x. ur_Name x = uid) ?f (users e)\<rparr>"
  have u: "u_name ?u = uid" "u_state ?u = ur_State r" "u_pass ?u = ur_Pass r" "u_maxEnrollments ?u = ur_MaxEnrollments r"
    using assms(3) by (auto simp: newDBUser_def lookup_user_name)
  have later: "\<exists>d'. stale_logins ?u (replicate n (ur_Pass r)) (Some e) = (replicate n (driver e \<noteq> MySQL), Some d') \<and>
      map_option ur_State (lookup_user d' uid) = Some (ur_State r + 1)"
    if "faults e = []" "unique_ids e" "lookup_user e uid = Some r'" "ur_State r' = ur_State r + 1" for e r' n
    using that
  proof (induction n arbitrary: e r')
    case (Suc n)
    show ?case
    proof (cases "driver e = MySQL")
      case True
      then obtain err where "DBUser_Login ?u (ur_Pass r) (Some e) = (Inl err, Some e)"
        using Login_stale_MySQL [of e ?u r'] Suc.prems u assms(4,5) by auto
      with True Suc.IH [OF Suc.prems] show ?thesis by auto
    next
      case False
      then have "DBUser_Login ?u (ur_Pass r) (Some e) = (Inr (), Some (?upd e))"
        using Login_same_tables_users [of e ?u r'] Suc.prems u assms(4,5) by simp
      with False Suc.IH [of "?upd e" "?f r'"] Suc.prems show ?thesis by (auto simp: unique_update_users lookup_update_users)
    qed
  qed simp
  have "DBUser_Login ?u (ur_Pass r) (Some d) = (Inr (), Some (?upd d))"
    using login_attempt_no_faults [OF assms(1-3)] assms by (simp add: login_attempt_def GetUser_no_faults)
  with later [of "?upd d" "?f r" n] assms show ?thesis by (auto simp: unique_update_users lookup_update_users)
qed

theorem concurrent_logins_exceed_limit_witness:
  "(\<exists>d'. stale_logins (newDBUser demo_user) (replicate 5 ''adminpw'') (Some demo_db) = (replicate 5 True, Some d') \<and>
    map_option ur_State (lookup_user d' ''admin'') = Some 1) \<and>
   (\<exists>d'. stale_logins (newDBUser demo_user) (replicate 5 ''adminpw'') (Some (demo_db\<lparr>driver := MySQL\<rparr>)) =
      ([True, False, False, False, False], Some d'))"
  using concurrent_logins_exceed_limit [of demo_db "''admin''" demo_user 4]
    concurrent_logins_exceed_limit [of "demo_db\<lparr>driver := MySQL\<rparr>" "''admin''" demo_user 4]
  by (auto simp: demo_db_def demo_user_def unique_ids_def lookup_user_def numeral_eq_Suc)

text \<open>
  Disabling a user does not stop it: revoking by name sets the state to \<^verbatim>\<open>-1\<close>, which
  \<^verbatim>\<open>Login\<close> compares with the limit only, so the right password is still accepted.
\<close>

theorem disabled_user_logs_in:
  assumes "faults d = []" "unique_ids d" "lookup_user d uid = Some r" "0 \<le> ur_MaxEnrollments r"
  shows "\<exists>d'. Accessor_UpdateField uid state (GInt (-1)) (Some d) = (Inr (), Some d') \<and>
    fst (login_attempt uid (ur_Pass r) (Some d')) = Inr ()"
proof -
  let ?f = "\<lambda>x. x\<lparr>ur_State := -1\<rparr>"
  let ?d = "d\<lparr>users := update_rows (\<lambda>x. ur_Name x = uid) ?f (users d)\<rparr>"
  have "Accessor_UpdateField uid state (GInt (-1)) (Some d) = (Inr (), Some ?d)"
    using assms by (simp add: Accessor_UpdateField_def checked_Some sql_exec_no_faults update_users_sql_def)
  moreover have "lookup_user ?d uid = Some (?f r)" using assms by (simp add: lookup_update_users)
  then have "fst (login_attempt uid (ur_Pass (?f r)) (Some ?d)) = Inr ()"
    using assms login_attempt_no_faults [of ?d uid "?f r"] by (auto simp: unique_update_users)
  ultimately show ?thesis by simp
qed

theorem disabled_user_logs_in_witness:
  "\<exists>d'. Accessor_UpdateField ''admin'' state (GInt (-1)) (Some demo_db) = (Inr (), Some d') \<and>
    fst (login_attempt ''admin'' (ur_Pass demo_user) (Some d')) = Inr ()"
  by (rule disabled_user_logs_in) (simp_all add: demo_db_def demo_user_def unique_ids_def lookup_user_def)

end
