(* ===== verification/User_Registry.thy ===== *)
theory User_Registry
  imports User_Accessor
begin

text \<open>
  The Go interfaces \<^verbatim>\<open>spi.UserRegistry\<close> and \<^verbatim>\<open>spi.User\<close> (\<^verbatim>\<open>cli/server/spi/userregistry.go\<close>).
  An interface value is the table of its methods: a record of functions over the state \<open>'s\<close> of
  the implementation and its user objects \<open>'u\<close>.  The server's components take such a table, as
  the code takes the global \<^verbatim>\<open>userRegistry\<close>, and run on the database accessor and on the LDAP
  client alike.

  The locale \<open>user_registry\<close> states what its clients rely on; \<open>attr_registry\<close> adds what only the
  database gives, that a user object knows all its attributes and not only the requested ones.
\<close>

record ('s, 'u) UserRegistry =
  reg_GetUser :: "string \<Rightarrow> string list \<Rightarrow> 's \<Rightarrow> 'u result \<times> 's"
  reg_InsertUser :: "UserInfo \<Rightarrow> 's \<Rightarrow> unit result \<times> 's"
  reg_UpdateUser :: "UserInfo \<Rightarrow> 's \<Rightarrow> unit result \<times> 's"
  reg_DeleteUser :: "string \<Rightarrow> 's \<Rightarrow> unit result \<times> 's"
  reg_UpdateField :: "string \<Rightarrow> field \<Rightarrow> go_value \<Rightarrow> 's \<Rightarrow> unit result \<times> 's"
  reg_GetField :: "string \<Rightarrow> field \<Rightarrow> 's \<Rightarrow> go_value result \<times> 's"
  reg_GetGroup :: "string \<Rightarrow> 's \<Rightarrow> GroupInfo result \<times> 's"
  reg_GetRootGroup :: "'s \<Rightarrow> GroupInfo result \<times> 's"
  reg_InsertGroup :: "string \<Rightarrow> string \<Rightarrow> 's \<Rightarrow> unit result \<times> 's"
  reg_DeleteGroup :: "string \<Rightarrow> 's \<Rightarrow> unit result \<times> 's"
  usr_GetName :: "'u \<Rightarrow> string"
  usr_Login :: "'u \<Rightarrow> string \<Rightarrow> 's \<Rightarrow> unit result \<times> 's"
  usr_GetAffiliationPath :: "'u \<Rightarrow> string list"
  usr_GetAttribute :: "'u \<Rightarrow> string \<Rightarrow> string"

definition db_registry :: "(sqldb option, DBUser) UserRegistry" where
  "db_registry =
     \<lparr>reg_GetUser = Accessor_GetUser, reg_InsertUser = Accessor_InsertUser,
      reg_UpdateUser = Accessor_UpdateUser, reg_DeleteUser = Accessor_DeleteUser,
      reg_UpdateField = Accessor_UpdateField, reg_GetField = Accessor_GetField,
      reg_GetGroup = Accessor_GetGroup, reg_GetRootGroup = Accessor_GetRootGroup,
      reg_InsertGroup = Accessor_InsertGroup, reg_DeleteGroup = Accessor_DeleteGroup,
      usr_GetName = DBUser_GetName, usr_Login = DBUser_Login,
      usr_GetAffiliationPath = DBUser_GetAffiliationPath, usr_GetAttribute = DBUser_GetAttribute\<rparr>"

subsection \<open>Attribute checks (cli/server/user.go)\<close>

definition squoted :: "string \<Rightarrow> string" where
  "squoted s = [CHR 0x27] @ s @ [CHR 0x27]"

definition getUserAttrValue ::
  "('s, 'u) UserRegistry \<Rightarrow> string \<Rightarrow> string \<Rightarrow> 's \<Rightarrow> string result \<times> 's" where
  "getUserAttrValue reg username attrname s =
     (case reg_GetUser reg username [attrname] s of
        (Inl e, s) \<Rightarrow> (Inl e, s)
      | (Inr user, s) \<Rightarrow> (Inr (usr_GetAttribute reg user attrname), s))"

definition userHasAttribute ::
  "('s, 'u) UserRegistry \<Rightarrow> string \<Rightarrow> string \<Rightarrow> 's \<Rightarrow> unit result \<times> 's" where
  "userHasAttribute reg username attrname s =
     (case getUserAttrValue reg username attrname s of
        (Inl e, s) \<Rightarrow> (Inl e, s)
      | (Inr val, s) \<Rightarrow>
          if val = []
          then (Inl (ErrorString (''user '' @ squoted username @ '' does not have attribute '' @ squoted attrname)), s)
          else (Inr (), s))"

subsection \<open>What the clients of a registry rely on\<close>

text \<open>
  \<open>view s n\<close> is the stored user \<open>n\<close>, as far as the code can see it: its attribute values and its
  affiliation path.  A read returns that and leaves every stored user as it was.
\<close>

record abs_user =
  au_attr :: "string \<Rightarrow> string"
  au_path :: "string list"

locale user_registry =
  fixes reg :: "('s, 'u) UserRegistry" and view :: "'s \<Rightarrow> string \<Rightarrow> abs_user option"
  assumes GetUser_view: "reg_GetUser reg n as s = (r, s') \<Longrightarrow> view s' = view s"
    and GetUser_found: "reg_GetUser reg n as s = (Inr u, s') \<Longrightarrow>
      \<exists>a. view s n = Some a \<and> usr_GetAffiliationPath reg u = au_path a \<and>
          (\<forall>k \<in> set as. usr_GetAttribute reg u k = au_attr a k)"
begin

lemma getUserAttrValue_view: "getUserAttrValue reg n k s = (r, s') \<Longrightarrow> view s' = view s"
  by (auto simp: getUserAttrValue_def dest: GetUser_view split: prod.splits sum.splits)

lemma getUserAttrValue_found:
  assumes "getUserAttrValue reg n k s = (Inr v, s')"
  shows "\<exists>a. view s n = Some a \<and> v = au_attr a k"
  using assms GetUser_found [of n "[k]" s] by (fastforce simp: getUserAttrValue_def split: prod.splits sum.splits)

lemma userHasAttribute_view: "userHasAttribute reg n k s = (r, s') \<Longrightarrow> view s' = view s"
  by (auto simp: userHasAttribute_def dest: getUserAttrValue_view split: prod.splits sum.splits if_splits)

text \<open>A check that passed found the user with a non-empty value.\<close>

lemma userHasAttribute_sound:
  assumes "userHasAttribute reg n k s = (Inr (), s')"
  shows "\<exists>a. view s n = Some a \<and> au_attr a k \<noteq> []"
  using assms getUserAttrValue_found [of n k s]
  by (fastforce simp: userHasAttribute_def split: prod.splits sum.splits if_splits)

end

locale attr_registry = user_registry +
  assumes GetUser_attrs: "reg_GetUser reg n as s = (Inr u, s') \<Longrightarrow> view s n = Some a \<Longrightarrow>
      usr_GetAttribute reg u k = au_attr a k"

subsection \<open>The database accessor is such a registry\<close>

definition abs_record :: "UserRecord \<Rightarrow> abs_user" where
  "abs_record r = \<lparr>au_attr = DBUser_GetAttribute (newDBUser r), au_path = u_affiliationPath (newDBUser r)\<rparr>"

definition db_view :: "sqldb option \<Rightarrow> string \<Rightarrow> abs_user option" where
  "db_view h n = (case h of None \<Rightarrow> None | Some d \<Rightarrow> map_option abs_record (lookup_user d n))"

lemma db_registry_simps [simp]:
  "reg_GetUser db_registry = Accessor_GetUser" "reg_InsertUser db_registry = Accessor_InsertUser"
  "reg_UpdateUser db_registry = Accessor_UpdateUser" "reg_DeleteUser db_registry = Accessor_DeleteUser"
  "reg_UpdateField db_registry = Accessor_UpdateField" "reg_GetField db_registry = Accessor_GetField"
  "reg_GetGroup db_registry = Accessor_GetGroup" "reg_InsertGroup db_registry = Accessor_InsertGroup"
  "reg_DeleteGroup db_registry = Accessor_DeleteGroup" "reg_GetRootGroup db_registry = Accessor_GetRootGroup"
  "usr_GetName db_registry = DBUser_GetName" "usr_Login db_registry = DBUser_Login"
  "usr_GetAffiliationPath db_registry = DBUser_GetAffiliationPath"
  "usr_GetAttribute db_registry = DBUser_GetAttribute"
  by (simp_all add: db_registry_def)

lemma db_GetUser_cases:
  assumes "Accessor_GetUser uid as h = (res, h')"
  obtains (nodb) e where "h = None" "h' = None" "res = Inl e"
  | (err) d e d' where "h = Some d" "res = Inl e" "h' = Some d'" "same_tables d d'"
  | (found) d r d' where "h = Some d" "res = Inr (newDBUser r)" "lookup_user d uid = Some r" "h' = Some d'" "same_tables d d'"
proof (cases h)
  case None
  with assms nodb show thesis by (auto simp: Accessor_GetUser_def checked_None)
next
  case (Some d)
  with assms have "Accessor_GetUser uid as (Some d) = (res, h')" by simp
  then show thesis
    by (cases rule: GetUser_cases) (use Some err found in auto)
qed

interpretation db: attr_registry db_registry db_view
proof (unfold_locales, goal_cases)
  case (1 n as s r s')
  then have "Accessor_GetUser n as s = (r, s')" by simp
  then show ?case
    by (cases rule: db_GetUser_cases) (auto simp: db_view_def fun_eq_iff lookup_same_tables)
next
  case (2 n as s u s')
  then have "Accessor_GetUser n as s = (Inr u, s')" by simp
  then show ?case
    by (cases rule: db_GetUser_cases) (auto simp: db_view_def abs_record_def DBUser_GetAffiliationPath_def)
next
  case (3 n as s u s' a k)
  then have "Accessor_GetUser n as s = (Inr u, s')" by simp
  then show ?case
    using 3(2) by (cases rule: db_GetUser_cases) (auto simp: db_view_def abs_record_def)
qed

end
