(* ===== verification/Util_Misc.thy ===== *)
theory Util_Misc
  imports Idp_Types
begin

text \<open>
  The string, path and random-string helpers of \<^verbatim>\<open>util/util.go\<close>, with the parts of Go's
  \<^verbatim>\<open>strconv\<close> and \<^verbatim>\<open>path/filepath\<close> (Unix) they call.

  The source of \<^verbatim>\<open>math/rand\<close> is the list of the values its \<^verbatim>\<open>Int63\<close> will return; a loop that
  needs more values than the list has returns \<open>None\<close>.
\<close>

unbundle bit_operations_syntax

subsection \<open>Random strings\<close>

definition letterBytes :: string where
  "letterBytes = ''abcdefghijklmnopqrstuvwxyzABCDEFGHIJKLMNOPQRSTUVWXYZ''"

definition letterIdxBits :: nat where
  "letterIdxBits = 6"

definition letterIdxMask :: "64 word" where
  "letterIdxMask = push_bit letterIdxBits 1 - 1"

definition letterIdxMax :: nat where
  "letterIdxMax = 63 div letterIdxBits"

function rs_loop ::
  "nat \<Rightarrow> 64 word \<Rightarrow> nat \<Rightarrow> 64 word list \<Rightarrow> string \<Rightarrow> (string \<times> 64 word list) option" where
  "rs_loop i cache remain src b =
     (if i = 0 then Some (b, src)
      else if remain = 0 then
        (case src of [] \<Rightarrow> None | c # cs \<Rightarrow> rs_loop i c letterIdxMax cs b)
      else
        let idx = unat (cache AND letterIdxMask) in
        if idx < length letterBytes
        then rs_loop (i - 1) (drop_bit letterIdxBits cache) (remain - 1) src ((letterBytes ! idx) # b)
        else rs_loop i (drop_bit letterIdxBits cache) (remain - 1) src b)"
  by pat_completeness auto
termination
  by (relation "measures [\<lambda>(i, cache, remain, src, b). length src, \<lambda>(i, cache, remain, src, b). remain]") auto

declare rs_loop.simps [simp del]

definition RandomString :: "nat \<Rightarrow> 64 word list \<Rightarrow> (string \<times> 64 word list) option" where
  "RandomString n src = (case src of [] \<Rightarrow> None | c # cs \<Rightarrow> rs_loop n c letterIdxMax cs [])"

subsection \<open>Quotes and lists of names\<close>

text \<open>\<^verbatim>\<open>str[1 : len(str)-1]\<close> of a string of length one is \<^verbatim>\<open>str[1:0]\<close>, a panic.\<close>

definition RemoveQuotes :: "string \<Rightarrow> string result" where
  "RemoveQuotes str =
     (if str = [] then Inr str
      else if HasPrefix str [CHR 0x27] \<and> HasSuffix str [CHR 0x27]
            \<or> HasPrefix str [CHR 0x22] \<and> HasSuffix str [CHR 0x22]
      then if length str - 1 < 1 then Inl (GoPanic ''slice bounds out of range'')
           else Inr (take (length str - 2) (drop 1 str))
      else Inr str)"

fun StrContained :: "string \<Rightarrow> string list \<Rightarrow> bool" where
  "StrContained str [] = False"
| "StrContained str (s # strs) = (if ToLower s = ToLower str then True else StrContained str strs)"

subsection \<open>Numbers as text (strconv.Atoi)\<close>

definition digit_of :: "char \<Rightarrow> nat option" where
  "digit_of c = (let n = (of_char c :: nat) in if 48 \<le> n \<and> n \<le> 57 then Some (n - 48) else None)"

fun digits_val :: "nat \<Rightarrow> string \<Rightarrow> nat option" where
  "digits_val acc [] = Some acc"
| "digits_val acc (c # cs) = (case digit_of c of None \<Rightarrow> None | Some d \<Rightarrow> digits_val (acc * 10 + d) cs)"

definition in_int :: "int \<Rightarrow> bool" where
  "in_int i \<longleftrightarrow> - (2 ^ 63) \<le> i \<and> i < 2 ^ 63"

definition Atoi :: "string \<Rightarrow> int result" where
  "Atoi s =
     (let (neg, ds) = (case s of
            c # cs \<Rightarrow> if c = CHR ''-'' then (True, cs) else if c = CHR ''+'' then (False, cs) else (False, s)
          | [] \<Rightarrow> (False, s))
      in if ds = [] then Inl (ExtError (''strconv.ParseInt: parsing '' @ json_quote s @ '': invalid syntax''))
         else (case digits_val 0 ds of
                 None \<Rightarrow> Inl (ExtError (''strconv.ParseInt: parsing '' @ json_quote s @ '': invalid syntax''))
               | Some n \<Rightarrow>
                   let i = (if neg then - int n else int n) in
                   if in_int i then Inr i
                   else Inl (ExtError (''strconv.ParseInt: parsing '' @ json_quote s @ '': value out of range''))))"

subsection \<open>Paths (path/filepath on Unix)\<close>

definition IsAbs :: "string \<Rightarrow> bool" where
  "IsAbs p \<longleftrightarrow> HasPrefix p ''/''"

text \<open>The elements of a cleaned path, innermost first.\<close>

fun clean_elems :: "bool \<Rightarrow> string list \<Rightarrow> string list \<Rightarrow> string list" where
  "clean_elems rooted [] out = out"
| "clean_elems rooted (e # es) out =
     (if e = [] \<or> e = ''.'' then clean_elems rooted es out
      else if e = ''..'' then
        (case out of
           [] \<Rightarrow> clean_elems rooted es (if rooted then [] else [''..''])
         | o1 # os \<Rightarrow> if o1 = ''..'' then clean_elems rooted es (''..'' # out) else clean_elems rooted es os)
      else clean_elems rooted es (e # out))"

definition Clean :: "string \<Rightarrow> string" where
  "Clean p =
     (if p = [] then ''.''
      else let out = Join (rev (clean_elems (IsAbs p) (Split p (CHR ''/'')) [])) ''/'' in
        if IsAbs p then CHR ''/'' # out else if out = [] then ''.'' else out)"

definition FilepathJoin :: "string list \<Rightarrow> string" where
  "FilepathJoin es = (let es = dropWhile (\<lambda>e. e = []) es in if es = [] then [] else Clean (Join es ''/''))"

text \<open>\<^verbatim>\<open>filepath.Abs\<close> asks the system for the working directory, which can fail.\<close>

definition FilepathAbs :: "string result \<Rightarrow> string \<Rightarrow> string result" where
  "FilepathAbs cwd p =
     (if IsAbs p then Inr (Clean p)
      else (case cwd of Inl e \<Rightarrow> Inl e | Inr wd \<Rightarrow> Inr (FilepathJoin [wd, p])))"

definition MakeFileAbs :: "string result \<Rightarrow> string \<Rightarrow> string \<Rightarrow> string result" where
  "MakeFileAbs cwd file dir =
     (if file = [] then Inr []
      else if IsAbs file then Inr file
      else (case FilepathAbs cwd (FilepathJoin [dir, file]) of
              Inl e \<Rightarrow> Inl (ErrorString (''Failed making '' @ [CHR 0x27] @ file @ [CHR 0x27] @
                         '' absolute based on '' @ [CHR 0x27] @ dir @ [CHR 0x27]))
            | Inr path \<Rightarrow> Inr path))"

text \<open>\<^verbatim>\<open>GetDefaultHomeDir\<close>, for an environment of variables; an unset one reads as empty.\<close>

definition GetDefaultHomeDir :: "(string \<Rightarrow> string) \<Rightarrow> string" where
  "GetDefaultHomeDir env =
     (let home = env ''COP_HOME'' in
      if home = [] then
        let home = env ''HOME'' in
        if home \<noteq> [] then FilepathJoin [home, ''/cop'']
        else ''/var/hyperledger/fabric/dev/fabric-cop''
      else home)"

subsection \<open>Lemmas\<close>

lemma StrContained_iff: "StrContained str strs \<longleftrightarrow> ToLower str \<in> ToLower ` set strs"
  by (induction strs) auto

text \<open>
  What a list of random values says: each holds ten six-bit groups, the lowest first, and a group that
  is below 52 is the index of a letter.
\<close>

definition letters_of :: "nat list \<Rightarrow> string" where
  "letters_of gs = map (nth letterBytes) (filter (\<lambda>g. g < length letterBytes) gs)"

definition sixbit_groups :: "nat \<Rightarrow> 64 word \<Rightarrow> nat list" where
  "sixbit_groups r w = map (\<lambda>k. unat w div 64 ^ k mod 64) [0..<r]"

definition letters :: "64 word list \<Rightarrow> string" where
  "letters ws = letters_of (concat (map (sixbit_groups 10) ws))"

lemma letters_of_simps [simp]:
  "letters_of [] = []"
  "letters_of (g # gs) = (if g < length letterBytes then [letterBytes ! g] else []) @ letters_of gs"
  "letters_of (gs @ hs) = letters_of gs @ letters_of hs"
  by (simp_all add: letters_of_def)

lemma letters_simps [simp]: "letters [] = []" "letters (w # ws) = letters_of (sixbit_groups 10 w) @ letters ws"
  by (simp_all add: letters_def)

lemma sixbit_groups_0 [simp]: "sixbit_groups 0 w = []"
  by (simp add: sixbit_groups_def)

lemma sixbit_groups_Suc [simp]:
  "sixbit_groups (Suc r) w = unat (w AND letterIdxMask) # sixbit_groups r (drop_bit letterIdxBits w)"
proof -
  have "letterIdxMask = mask 6" by (simp add: letterIdxMask_def letterIdxBits_def mask_eq_decr_exp)
  then have "w AND letterIdxMask = take_bit 6 w" by (simp only: take_bit_eq_mask)
  then have "unat (w AND letterIdxMask) = unat w mod 64"
    using unsigned_take_bit_eq [of 6 w, where ?'a = nat] by (simp add: take_bit_eq_mod)
  moreover have "unat (drop_bit letterIdxBits w) = unat w div 64"
    by (simp add: letterIdxBits_def drop_bit_eq_div unat_div_distrib)
  ultimately show ?thesis
    by (simp add: sixbit_groups_def upt_conv_Cons map_Suc_upt [symmetric] div_mult2_eq comp_def del: upt_Suc)
qed

lemma letterIdxMax_10 [simp]: "letterIdxMax = 10"
  by (simp add: letterIdxMax_def letterIdxBits_def)

text \<open>
  The loop takes the letters in order, from the last place of the string to the first, and draws a
  value only when it still needs one.
\<close>

lemma rs_loop_letters:
  assumes "rs_loop i cache remain src b = Some (s, src')"
  shows "\<exists>used. src = used @ src' \<and> (let ls = letters_of (sixbit_groups remain cache) in
    i \<le> length (ls @ letters used) \<and> (used \<noteq> [] \<longrightarrow> length (ls @ letters (butlast used)) < i) \<and>
    s = rev (take i (ls @ letters used)) @ b)"
  using assms
proof (induction i cache remain src b rule: rs_loop.induct)
  case (1 i cache remain src b)
  consider "i = 0" | "i \<noteq> 0" "remain = 0" | "i \<noteq> 0" "remain \<noteq> 0" by blast
  then show ?case
  proof cases
    case 1
    with "1.prems" show ?thesis by (simp add: rs_loop.simps)
  next
    case 2
    with "1.prems" obtain c cs where c: "src = c # cs" "rs_loop i c letterIdxMax cs b = Some (s, src')"
      by (subst (asm) rs_loop.simps) (auto split: list.splits)
    from "1.IH"(1) [OF 2 c] obtain used where "cs = used @ src'"
      "i \<le> length (letters (c # used))" "used \<noteq> [] \<longrightarrow> length (letters (c # butlast used)) < i"
      "s = rev (take i (letters (c # used))) @ b"
      by (auto simp: Let_def)
    with 2 c show ?thesis by (intro exI [of _ "c # used"]) (simp add: Let_def)
  next
    case 3
    let ?idx = "unat (cache AND letterIdxMask)"
    obtain r where r: "remain = Suc r" using 3 by (cases remain) auto
    obtain j where j: "i = Suc j" using 3 by (cases i) auto
    show ?thesis
    proof (cases "?idx < length letterBytes")
      case True
      with 3 "1.prems" have "rs_loop (i - 1) (drop_bit letterIdxBits cache) (remain - 1) src ((letterBytes ! ?idx) # b) = Some (s, src')"
        by (subst (asm) rs_loop.simps) (simp add: Let_def)
      with "1.IH"(2) [OF 3 refl True] show ?thesis using True by (simp add: r j Let_def)
    next
      case False
      with 3 "1.prems" have "rs_loop i (drop_bit letterIdxBits cache) (remain - 1) src b = Some (s, src')"
        by (subst (asm) rs_loop.simps) (simp add: Let_def)
      with "1.IH"(3) [OF 3 refl False] show ?thesis using False by (simp add: r Let_def)
    qed
  qed
qed

lemma rs_loop_returns:
  "rs_loop i cache remain src b \<noteq> None \<longleftrightarrow> i \<le> length (letters_of (sixbit_groups remain cache) @ letters src)"
proof (induction i cache remain src b rule: rs_loop.induct)
  case (1 i cache remain src b)
  consider "i = 0" | "i \<noteq> 0" "remain = 0" | "i \<noteq> 0" "remain \<noteq> 0" by blast
  then show ?case
  proof cases
    case 1
    then show ?thesis by (simp add: rs_loop.simps)
  next
    case 2
    then show ?thesis using "1.IH"(1) [OF 2] by (cases src) (simp_all add: rs_loop.simps [of i])
  next
    case 3
    then obtain r where r: "remain = Suc r" by (cases remain) auto
    let ?idx = "unat (cache AND letterIdxMask)"
    show ?thesis
    proof (cases "?idx < length letterBytes")
      case True
      with 3 have "rs_loop i cache remain src b =
        rs_loop (i - 1) (drop_bit letterIdxBits cache) (remain - 1) src ((letterBytes ! ?idx) # b)"
        by (subst rs_loop.simps) (simp add: Let_def)
      with "1.IH"(2) [OF 3 refl True] r True 3 show ?thesis by auto
    next
      case False
      with 3 have "rs_loop i cache remain src b = rs_loop i (drop_bit letterIdxBits cache) (remain - 1) src b"
        by (subst rs_loop.simps) (simp add: Let_def)
      with "1.IH"(3) [OF 3 refl False] r False show ?thesis by simp
    qed
  qed
qed

text \<open>
  C29. The secrets the server makes.  The values drawn spell a list of letters: each value holds ten
  six-bit groups, the lowest first, and a group below 52 selects a letter while a larger one is
  skipped.  \<open>RandomString n\<close> returns exactly when the values hold \<open>n\<close> letters; it returns the first \<open>n\<close> of
  them, in reverse, and has then drawn no more values than it needed (and at least one).
\<close>

theorem RandomString_spec:
  "(RandomString n (c # cs) \<noteq> None \<longleftrightarrow> n \<le> length (letters (c # cs))) \<and>
   (\<forall>s src'. RandomString n (c # cs) = Some (s, src') \<longrightarrow>
      (\<exists>used. cs = used @ src' \<and> n \<le> length (letters (c # used)) \<and>
        (used \<noteq> [] \<longrightarrow> length (letters (c # butlast used)) < n) \<and>
        s = rev (take n (letters (c # used)))))"
  using rs_loop_returns [of n c letterIdxMax cs "[]"] rs_loop_letters [of n c letterIdxMax cs "[]"]
  by (simp add: RandomString_def Let_def)

text \<open>The groups of \<^verbatim>\<open>0x2FF\<close> are 63, which is no letter, 11 and eight times 0.\<close>

theorem RandomString_spec_witness: "RandomString 3 [0x2FF, 0] = Some (''aal'', [0])"
proof -
  have l: "letters [0x2FF] = ''laaaaaaaa''"
    by (simp add: letters_def sixbit_groups_def letters_of_def letterBytes_def upt_rec nth_Cons' del: sixbit_groups_Suc)
  then obtain s src' where r: "RandomString 3 [0x2FF, 0] = Some (s, src')"
    using RandomString_spec [of 3 "0x2FF" "[0]"] by fastforce
  with RandomString_spec [of 3 "0x2FF" "[0]"] obtain used where
    u: "[0] = used @ src'" "used \<noteq> [] \<longrightarrow> length (letters (0x2FF # butlast used)) < 3" "s = rev (take 3 (letters (0x2FF # used)))"
    by blast
  have "used = []"
  proof (rule ccontr)
    assume "used \<noteq> []"
    with u(1) have "used = [0]" by (cases used) auto
    with u(2) l show False by (simp del: letters_simps)
  qed
  with r u l show ?thesis by (simp del: letters_simps)
qed

subsection \<open>Quotes, numbers and paths\<close>

lemma RemoveQuotes_quoted:
  "q = CHR 0x27 \<or> q = CHR 0x22 \<Longrightarrow> RemoveQuotes (q # s @ [q]) = Inr s"
  by (auto simp: RemoveQuotes_def HasPrefix_def HasSuffix_def)

lemma RemoveQuotes_panic: "RemoveQuotes [CHR 0x27] = Inl (GoPanic ''slice bounds out of range'')"
  by (simp add: RemoveQuotes_def HasPrefix_def HasSuffix_def)

lemma digit_of_digit_char: "d < 10 \<Longrightarrow> digit_of (digit_char d) = Some d"
  by (simp add: digit_of_def)

lemma digits_val_append:
  "digits_val a (xs @ ys) = (case digits_val a xs of None \<Rightarrow> None | Some b \<Rightarrow> digits_val b ys)"
  by (induction xs arbitrary: a) (auto split: option.split)

lemma digits_val_nat_str: "digits_val 0 (nat_str n) = Some n"
proof (induction n rule: nat_str.induct)
  case (1 n)
  show ?case
  proof (cases "n < 10")
    case True
    then show ?thesis
      by (simp add: nat_str.simps [of n] digit_of_digit_char del: digit_char.simps)
  next
    case False
    with 1 show ?thesis
      by (simp add: nat_str.simps [of n] digits_val_append digit_of_digit_char del: digit_char.simps)
  qed
qed

lemma nat_str_head: "nat_str n = c # cs \<Longrightarrow> c \<noteq> CHR ''-'' \<and> c \<noteq> CHR ''+''"
  using nat_str_digits [of c n] by auto

lemma Atoi_Itoa: "in_int i \<Longrightarrow> Atoi (Itoa i) = Inr i"
proof (cases "i < 0")
  case True
  assume "in_int i"
  with True show ?thesis by (simp add: Atoi_def Itoa_def digits_val_nat_str)
next
  case False
  assume i: "in_int i"
  obtain c cs where c: "nat_str (nat i) = c # cs" by (cases "nat_str (nat i)") auto
  have "digits_val 0 (c # cs) = Some (nat i)" using digits_val_nat_str [of "nat i"] c by simp
  with False i nat_str_head [OF c] show ?thesis
    unfolding Atoi_def Itoa_def c [symmetric] by (simp add: c Let_def del: digits_val.simps)
qed

lemma IsAbs_Clean [simp]: "IsAbs p \<Longrightarrow> IsAbs (Clean p)"
  by (auto simp: Clean_def IsAbs_def HasPrefix_def Let_def)

lemma IsAbs_Join: "IsAbs wd \<Longrightarrow> IsAbs (FilepathJoin [wd, p])"
proof -
  assume a: "IsAbs wd"
  then have "wd \<noteq> []" by (auto simp: IsAbs_def HasPrefix_def)
  moreover from a have "IsAbs (wd @ ''/'' @ p)" by (cases wd) (auto simp: IsAbs_def HasPrefix_def)
  ultimately show ?thesis by (simp add: FilepathJoin_def)
qed

text \<open>A clean absolute path stays as it is.\<close>

definition normal_elem :: "string \<Rightarrow> bool" where
  "normal_elem e \<longleftrightarrow> e \<notin> {[], ''.'', ''..''} \<and> CHR ''/'' \<notin> set e"

lemma clean_elems_step:
  "clean_elems True (e # es) out = clean_elems True es (if normal_elem e \<or> CHR ''/'' \<in> set e then e # out else
     if e = ''..'' then (case out of [] \<Rightarrow> [] | o1 # os \<Rightarrow> if o1 = ''..'' then ''..'' # out else os) else out)"
  by (auto simp: normal_elem_def split: list.splits)

lemma clean_elems_normal:
  assumes "\<forall>e \<in> set es. CHR ''/'' \<notin> set e" "\<forall>e \<in> set out. normal_elem e"
  shows "\<forall>e \<in> set (clean_elems True es out). normal_elem e"
  using assms
proof (induction es arbitrary: out)
  case (Cons e es)
  have dots: "\<not> normal_elem ''..''" by (simp add: normal_elem_def)
  show ?case
    unfolding clean_elems_step using Cons.prems dots by (intro Cons.IH) (auto split: list.splits)
qed simp

lemma clean_elems_clean: "\<forall>e \<in> set es. normal_elem e \<Longrightarrow> clean_elems True es out = rev es @ out"
  by (induction es arbitrary: out) (auto simp: normal_elem_def)

lemma Clean_Clean: "IsAbs p \<Longrightarrow> Clean (Clean p) = Clean p"
proof -
  assume a: "IsAbs p"
  define es where "es = rev (clean_elems True (Split p (CHR ''/'')) [])"
  have n: "\<forall>e \<in> set es. normal_elem e"
    using clean_elems_normal [of "Split p (CHR ''/'')" "[]"] Split_parts [of _ p "CHR ''/''"] by (auto simp: es_def)
  have c: "Clean p = CHR ''/'' # Join es ''/''"
    using a by (auto simp: Clean_def es_def Let_def IsAbs_def HasPrefix_def)
  have "Split (CHR ''/'' # Join es ''/'') (CHR ''/'') = [] # (if es = [] then [[]] else es)"
    using n Split_Join [of es "CHR ''/''"] by (auto simp: normal_elem_def)
  then have "clean_elems True (Split (Clean p) (CHR ''/'')) [] = rev es"
    using n by (simp add: c clean_elems_clean)
  moreover have "IsAbs (Clean p)" "Clean p \<noteq> []" using a by (simp, simp add: c)
  ultimately have "Clean (Clean p) = CHR ''/'' # Join es ''/''"
    by (simp only: Clean_def [of "Clean p"] Let_def) simp
  with c show ?thesis by simp
qed

lemma FilepathJoin_Clean: "IsAbs dir \<Longrightarrow> Clean (FilepathJoin [dir, file]) = FilepathJoin [dir, file]"
proof -
  assume a: "IsAbs dir"
  then have "dir \<noteq> []" "IsAbs (dir @ ''/'' @ file)" by (cases dir; auto simp: IsAbs_def HasPrefix_def)+
  then show ?thesis using Clean_Clean by (simp add: FilepathJoin_def)
qed

text \<open>Whatever it is given, \<open>MakeFileAbs\<close> returns an absolute path, and it leaves that path alone.\<close>

lemma MakeFileAbs_absolute:
  assumes "IsAbs wd" "file \<noteq> []"
  shows "\<exists>p. MakeFileAbs (Inr wd) file dir = Inr p \<and> IsAbs p \<and> MakeFileAbs (Inr wd) p dir' = Inr p"
proof -
  obtain q where q: "FilepathAbs (Inr wd) (FilepathJoin [dir, file]) = Inr q" "IsAbs q"
    using assms(1) by (cases "IsAbs (FilepathJoin [dir, file])") (simp_all add: FilepathAbs_def IsAbs_Join)
  obtain p where p: "MakeFileAbs (Inr wd) file dir = Inr p" "IsAbs p"
    using assms(2) q by (cases "IsAbs file") (simp_all add: MakeFileAbs_def)
  moreover from p(2) have "p \<noteq> []" by (auto simp: IsAbs_def HasPrefix_def)
  ultimately show ?thesis by (simp add: MakeFileAbs_def)
qed

end
