(* ===== verification/Json_Codec.thy ===== *)
theory Json_Codec
  imports Util_Misc
begin

text \<open>
  Request bodies: \<^verbatim>\<open>json.Marshal\<close> and \<^verbatim>\<open>json.Unmarshal\<close> of the request structs of
  \<^verbatim>\<open>api/api.go\<close> and \<^verbatim>\<open>idp/idp.go\<close>, with the field names of their tags.  As in Go, a key
  selects a field whatever its case, later keys overwrite earlier ones, \<^verbatim>\<open>null\<close> leaves a field of
  scalar or struct type as it is and clears a slice, a map, a pointer or an interface, absent fields stay
  zero, unknown keys are ignored and a value of the wrong type is an error.  \<^verbatim>\<open>util.Marshal\<close> and \<^verbatim>\<open>util.Unmarshal\<close> wrap these errors.
\<close>

subsection \<open>Decoding\<close>

definition SyntaxError :: go_error where
  "SyntaxError = ExtError ''invalid character in JSON input''"

definition TypeError :: go_error where
  "TypeError = ExtError ''json: cannot unmarshal value into Go value''"

fun dec_field :: "(json \<Rightarrow> 'a option) \<Rightarrow> string \<Rightarrow> (string \<times> json) list \<Rightarrow> 'a \<Rightarrow> 'a option" where
  "dec_field d k [] z = Some z"
| "dec_field d k ((k', v) # kvs) z =
     (if ToLower k' = ToLower k \<and> v \<noteq> JNull
      then (case d v of None \<Rightarrow> None | Some x \<Rightarrow> dec_field d k kvs x)
      else dec_field d k kvs z)"

text \<open>Slices, maps, pointers and interfaces.\<close>

fun dec_ref :: "(json \<Rightarrow> 'a option) \<Rightarrow> 'a \<Rightarrow> string \<Rightarrow> (string \<times> json) list \<Rightarrow> 'a \<Rightarrow> 'a option" where
  "dec_ref d nil k [] z = Some z"
| "dec_ref d nil k ((k', v) # kvs) z =
     (if ToLower k' = ToLower k
      then (case (if v = JNull then Some nil else d v) of None \<Rightarrow> None | Some x \<Rightarrow> dec_ref d nil k kvs x)
      else dec_ref d nil k kvs z)"

text \<open>Types with an \<^verbatim>\<open>UnmarshalJSON\<close> of their own, which is also given \<^verbatim>\<open>null\<close>.\<close>

fun dec_own :: "(json \<Rightarrow> 'a option) \<Rightarrow> string \<Rightarrow> (string \<times> json) list \<Rightarrow> 'a \<Rightarrow> 'a option" where
  "dec_own d k [] z = Some z"
| "dec_own d k ((k', v) # kvs) z =
     (if ToLower k' = ToLower k
      then (case d v of None \<Rightarrow> None | Some x \<Rightarrow> dec_own d k kvs x)
      else dec_own d k kvs z)"

fun dec_string :: "json \<Rightarrow> string option" where
  "dec_string (JStr s) = Some s"
| "dec_string _ = None"

fun dec_bool :: "json \<Rightarrow> bool option" where
  "dec_bool (JBool b) = Some b"
| "dec_bool _ = None"

fun dec_int :: "json \<Rightarrow> int option" where
  "dec_int (JNum n) = (case Atoi n of Inr i \<Rightarrow> Some i | Inl _ \<Rightarrow> None)"
| "dec_int _ = None"

fun dec_uint :: "json \<Rightarrow> 64 word option" where
  "dec_uint (JNum n) = (case digits_val 0 n of
     Some i \<Rightarrow> if n \<noteq> [] \<and> i < 2 ^ 64 then Some (of_nat i) else None | None \<Rightarrow> None)"
| "dec_uint _ = None"

fun dec_elems :: "(json \<Rightarrow> 'a option) \<Rightarrow> 'a \<Rightarrow> json list \<Rightarrow> 'a list option" where
  "dec_elems d z [] = Some []"
| "dec_elems d z (v # vs) =
     (case (if v = JNull then Some z else d v) of
        None \<Rightarrow> None
      | Some x \<Rightarrow> map_option (\<lambda>xs. x # xs) (dec_elems d z vs))"

fun dec_list :: "(json \<Rightarrow> 'a option) \<Rightarrow> 'a \<Rightarrow> json \<Rightarrow> 'a list option" where
  "dec_list d z (JArr vs) = dec_elems d z vs"
| "dec_list d z _ = None"

fun dec_attr :: "json \<Rightarrow> Attribute option" where
  "dec_attr (JObj kvs) =
     (case (dec_field dec_string ''name'' kvs [], dec_field dec_string ''value'' kvs []) of
        (Some n, Some v) \<Rightarrow> Some \<lparr>attr_Name = n, attr_Value = v\<rparr>
      | _ \<Rightarrow> None)"
| "dec_attr _ = None"

text \<open>The fields of the struct a body holds; the body \<^verbatim>\<open>null\<close> leaves the struct zero.\<close>

definition root_fields :: "string \<Rightarrow> (string \<times> json) list result" where
  "root_fields body = (case json_parse body of
     None \<Rightarrow> Inl SyntaxError
   | Some (JObj kvs) \<Rightarrow> Inr kvs
   | Some JNull \<Rightarrow> Inr []
   | Some _ \<Rightarrow> Inl TypeError)"

definition decode :: "((string \<times> json) list \<Rightarrow> 'a option) \<Rightarrow> string \<Rightarrow> 'a result" where
  "decode d body = (case root_fields body of
     Inl e \<Rightarrow> Inl e
   | Inr kvs \<Rightarrow> (case d kvs of None \<Rightarrow> Inl TypeError | Some x \<Rightarrow> Inr x))"

definition RegisterRequest_fields :: "(string \<times> json) list \<Rightarrow> RegisterRequest option" where
  "RegisterRequest_fields kvs =
     (case (dec_field dec_string ''user'' kvs [], dec_field dec_string ''group'' kvs [],
            dec_field dec_string ''type'' kvs [],
            dec_ref (dec_list dec_attr \<lparr>attr_Name = [], attr_Value = []\<rparr>) [] ''attrs'' kvs [],
            dec_field dec_string ''callerID'' kvs []) of
        (Some u, Some g, Some t, Some a, Some c) \<Rightarrow>
          Some \<lparr>rq_User = u, rq_Group = g, rq_Type = t, rq_Attributes = a, rq_CallerID = c\<rparr>
      | _ \<Rightarrow> None)"

definition RevocationRequest_fields :: "(string \<times> json) list \<Rightarrow> RevocationRequest option" where
  "RevocationRequest_fields kvs =
     (case (dec_field dec_string ''id'' kvs [], dec_field dec_string ''serial'' kvs [],
            dec_field dec_string ''aki'' kvs [], dec_field dec_int ''reason'' kvs 0) of
        (Some n, Some s, Some a, Some r) \<Rightarrow>
          Some \<lparr>rv_Name = n, rv_Serial = s, rv_AKI = a, rv_Reason = r\<rparr>
      | _ \<Rightarrow> None)"

definition GetPrivateSignersRequest_fields :: "(string \<times> json) list \<Rightarrow> GetPrivateSignersRequest option" where
  "GetPrivateSignersRequest_fields kvs =
     (case (dec_field dec_uint ''count'' kvs 0, dec_ref (dec_list dec_string []) [] ''attr_names'' kvs [],
            dec_field dec_bool ''encrypt_attrs'' kvs False, dec_field dec_int ''validity_period'' kvs 0) of
        (Some c, Some ns, Some e, Some p) \<Rightarrow>
          Some \<lparr>ps_Count = c, ps_AttrNames = ns, ps_EncryptAttrs = e, ps_ValidityPeriod = p\<rparr>
      | _ \<Rightarrow> None)"

subsection \<open>Encoding\<close>

text \<open>A field marked \<^verbatim>\<open>omitempty\<close> is left out when it is zero.\<close>

definition opt_field :: "bool \<Rightarrow> string \<Rightarrow> json \<Rightarrow> (string \<times> json) list" where
  "opt_field omit k v = (if omit then [] else [(k, v)])"

definition RegisterRequest_json :: "RegisterRequest \<Rightarrow> json" where
  "RegisterRequest_json r = JObj
     ([(''user'', JStr (rq_User r)), (''group'', JStr (rq_Group r)), (''type'', JStr (rq_Type r))]
      @ opt_field (rq_Attributes r = []) ''attrs'' (JArr (map attr_json (rq_Attributes r)))
      @ [(''callerID'', JStr (rq_CallerID r))])"

definition RevocationRequest_json :: "RevocationRequest \<Rightarrow> json" where
  "RevocationRequest_json r = JObj
     (opt_field (rv_Name r = []) ''id'' (JStr (rv_Name r))
      @ opt_field (rv_Serial r = []) ''serial'' (JStr (rv_Serial r))
      @ opt_field (rv_AKI r = []) ''aki'' (JStr (rv_AKI r))
      @ opt_field (rv_Reason r = 0) ''reason'' (JNum (Itoa (rv_Reason r))))"

definition GetPrivateSignersRequest_json :: "GetPrivateSignersRequest \<Rightarrow> json" where
  "GetPrivateSignersRequest_json r = JObj
     ([(''count'', JNum (nat_str (unat (ps_Count r))))]
      @ opt_field (ps_AttrNames r = []) ''attr_names'' (JArr (map JStr (ps_AttrNames r)))
      @ opt_field (\<not> ps_EncryptAttrs r) ''encrypt_attrs'' (JBool (ps_EncryptAttrs r))
      @ opt_field (ps_ValidityPeriod r = 0) ''validity_period'' (JNum (Itoa (ps_ValidityPeriod r))))"

text \<open>\<^verbatim>\<open>util.Marshal\<close> of these types cannot fail.  \<^verbatim>\<open>util.Unmarshal\<close> wraps the error.\<close>

definition Marshal :: "('a \<Rightarrow> json) \<Rightarrow> 'a \<Rightarrow> string \<Rightarrow> string result" where
  "Marshal to_json from what = Inr (json_print (to_json from))"

definition Unmarshal :: "(string \<Rightarrow> 'a result) \<Rightarrow> string \<Rightarrow> string \<Rightarrow> 'a result" where
  "Unmarshal dec from what = (case dec from of
     Inl err \<Rightarrow> Inl (COPError (WrapError err (code_num UnmarshallError) ''error unmarshalling %s'' [FStr what]))
   | Inr x \<Rightarrow> Inr x)"

subsection \<open>Lemmas\<close>

lemma dec_elems_map:
  "(\<And>x. f x \<noteq> JNull) \<Longrightarrow> (\<And>x. d (f x) = Some x) \<Longrightarrow> dec_elems d z (map f xs) = Some xs"
  by (induction xs) auto

lemma dec_attr_attr_json: "dec_attr (attr_json a) = Some a"
  by (simp add: attr_json_def ToLower_def lower_char_def)

lemma dec_attrs_json: "dec_elems dec_attr z (map attr_json as) = Some as"
  by (rule dec_elems_map) (simp_all add: dec_attr_attr_json, simp add: attr_json_def)

lemma decode_print:
  "json_wf (JObj kvs) \<Longrightarrow> d kvs = Some x \<Longrightarrow> decode d (json_print (JObj kvs)) = Inr x"
  using json_parse_print [of "JObj kvs"] by (simp add: decode_def root_fields_def del: json_print.simps)

text \<open>Integers print as JSON numbers.\<close>

lemma nat_str_is_digit: "list_all is_digit (nat_str n)"
  using nat_str_digits [of _ n] by (auto simp: list_all_iff is_digit_def)

lemma nat_str_zero: "nat_str n = CHR ''0'' # cs \<Longrightarrow> cs = []"
proof (induction n arbitrary: cs rule: nat_str.induct)
  case (1 n)
  show ?case
  proof (cases "n < 10")
    case True
    with "1.prems" show ?thesis by (simp add: nat_str.simps [of n])
  next
    case False
    obtain x xs where x: "nat_str (n div 10) = x # xs" by (cases "nat_str (n div 10)") auto
    with "1.prems" False have "x = CHR ''0''" "cs = xs @ [digit_char (n mod 10)]"
      by (auto simp: nat_str.simps [of n] simp del: digit_char.simps)
    with "1.IH" [OF False] x have "nat_str (n div 10) = ''0''" by simp
    then have "digits_val 0 (nat_str (n div 10)) = Some 0" by (simp add: digit_of_def)
    with digits_val_nat_str [of "n div 10"] False show ?thesis by simp
  qed
qed

lemma is_numchar_digit: "is_digit c \<Longrightarrow> is_numchar c"
  by (auto simp: is_digit_def is_numchar_def)

lemma valid_nat_str: "valid_number (nat_str n)"
proof -
  obtain c cs where c: "nat_str n = c # cs" by (cases "nat_str n") auto
  then have "is_digit c" "list_all is_digit cs" using nat_str_is_digit [of n] by simp_all
  moreover from this(2) have "valid_frac (dropWhile is_digit cs)"
  proof -
    assume "list_all is_digit cs"
    then have "dropWhile is_digit cs = []" unfolding list_all_iff dropWhile_eq_Nil_conv .
    then show ?thesis unfolding valid_frac_def by (simp only: list.case)
  qed
  moreover have "c = CHR ''0'' \<Longrightarrow> cs = []" using nat_str_zero [of n cs] c by simp
  moreover have "c \<noteq> CHR ''-''" using nat_str_head [OF c] by simp
  ultimately show ?thesis by (auto simp: valid_number_def c)
qed

lemma json_wf_nat_str: "json_wf (JNum (nat_str n))"
  using nat_str_is_digit [of n] by (auto simp: valid_nat_str list_all_iff intro: is_numchar_digit)

lemma valid_minus: "valid_number (nat_str n) \<Longrightarrow> valid_number (CHR ''-'' # nat_str n)"
proof -
  obtain c cs where c: "nat_str n = c # cs" by (cases "nat_str n") auto
  with nat_str_head [OF c] show "valid_number (nat_str n) \<Longrightarrow> valid_number (CHR ''-'' # nat_str n)"
    by (simp add: valid_number_def)
qed

lemma json_wf_Itoa: "json_wf (JNum (Itoa i))"
  using json_wf_nat_str [of "nat (- i)"] json_wf_nat_str [of "nat i"]
  by (auto simp: Itoa_def valid_minus is_numchar_def)

lemma dec_int_Itoa: "in_int i \<Longrightarrow> dec_int (JNum (Itoa i)) = Some i"
  by (simp add: Atoi_Itoa)

lemma dec_uint_nat_str: "dec_uint (JNum (nat_str (unat w))) = Some w"
  using unsigned_less [of w, where ?'a = nat] by (simp add: digits_val_nat_str)

subsection \<open>What a client marshals, the server unmarshals\<close>

lemma RegisterRequest_roundtrip:
  "decode RegisterRequest_fields (json_print (RegisterRequest_json r)) = Inr r"
  unfolding RegisterRequest_json_def
  by (rule decode_print)
    (auto simp: opt_field_def list_all_iff RegisterRequest_fields_def ToLower_def lower_char_def dec_attrs_json)

lemma RevocationRequest_roundtrip:
  "in_int (rv_Reason r) \<Longrightarrow> decode RevocationRequest_fields (json_print (RevocationRequest_json r)) = Inr r"
  unfolding RevocationRequest_json_def
  by (rule decode_print)
    (auto simp: opt_field_def RevocationRequest_fields_def ToLower_def lower_char_def
      dec_int_Itoa json_wf_Itoa simp del: dec_int.simps json_wf.simps(1))

lemma GetPrivateSignersRequest_roundtrip:
  "in_int (ps_ValidityPeriod r) \<Longrightarrow>
   decode GetPrivateSignersRequest_fields (json_print (GetPrivateSignersRequest_json r)) = Inr r"
proof -
  assume "in_int (ps_ValidityPeriod r)"
  moreover have "dec_elems dec_string [] (map JStr ns) = Some ns" for ns
    by (rule dec_elems_map) simp_all
  ultimately show ?thesis
    unfolding GetPrivateSignersRequest_json_def
    by (intro decode_print)
      (auto simp: opt_field_def list_all_iff GetPrivateSignersRequest_fields_def ToLower_def lower_char_def
        dec_int_Itoa json_wf_Itoa dec_uint_nat_str json_wf_nat_str
        simp del: dec_int.simps dec_uint.simps json_wf.simps(1))
qed

end
