(* ===== verification/Server_Config.thy ===== *)
theory Server_Config
  imports Json_Codec
begin

text \<open>
  The server's configuration: the structs of \<^verbatim>\<open>cli/server/config.go\<close>, \<^verbatim>\<open>lib/tls/tls.go\<close> and
  \<^verbatim>\<open>cli/server/ldap/client.go\<close>, their JSON form, and \<^verbatim>\<open>configInit\<close>.  A Go map is an association
  list without repeated keys, in the (unspecified) order in which \<^verbatim>\<open>range\<close> visits it; a pointer
  that may be nil is an option.
\<close>

record KeyCertFiles =
  kc_KeyFile :: string
  kc_CertFile :: string

record ClientTLSConfig =
  ct_CACertFiles :: "string list"
  ct_Client :: KeyCertFiles

record TLSConfig =
  tc_TLSCertFile :: string
  tc_TLSKeyFile :: string
  tc_MutualTLSCAFile :: string
  tc_DBClient :: ClientTLSConfig

record ConfigUser =
  cu_Pass :: string
  cu_Type :: string
  cu_Group :: string
  cu_Attributes :: "Attribute list"

record ldap_Config =
  lc_URL :: string
  lc_Base :: string
  lc_UserFilter :: string
  lc_GroupFilter :: string

record Config =
  c_Debug :: bool
  c_Authentication :: bool
  c_Users :: "(string \<times> ConfigUser option) list"
  c_DBdriver :: string
  c_DataSource :: string
  c_MaxEnrollments :: int
  c_LDAP :: "ldap_Config option"
  c_CAFile :: string
  c_KeyFile :: string
  c_TLSConf :: TLSConfig
  c_TLSDisable :: bool

text \<open>The fields of CFSSL's \<^verbatim>\<open>cli.Config\<close> that the server reads or sets.\<close>

record cli_Config =
  cli_ConfigFile :: string
  cli_DBConfigFile :: string
  cli_TLSCertFile :: string
  cli_TLSKeyFile :: string
  cli_MutualTLSCAFile :: string
  cli_Address :: string
  cli_Port :: int

definition newConfig :: Config where
  "newConfig =
     \<lparr>c_Debug = False, c_Authentication = True, c_Users = [], c_DBdriver = [], c_DataSource = [],
      c_MaxEnrollments = 0, c_LDAP = None, c_CAFile = [], c_KeyFile = [],
      c_TLSConf = \<lparr>tc_TLSCertFile = [], tc_TLSKeyFile = [], tc_MutualTLSCAFile = [],
        tc_DBClient = \<lparr>ct_CACertFiles = [], ct_Client = \<lparr>kc_KeyFile = [], kc_CertFile = []\<rparr>\<rparr>\<rparr>,
      c_TLSDisable = False\<rparr>"

subsection \<open>The JSON form\<close>

definition dec_KeyCertFiles :: "json \<Rightarrow> KeyCertFiles option" where
  "dec_KeyCertFiles v = (case v of
     JObj kvs \<Rightarrow>
       (case (dec_field dec_string ''keyfile'' kvs [], dec_field dec_string ''certfile'' kvs []) of
          (Some k, Some c) \<Rightarrow> Some \<lparr>kc_KeyFile = k, kc_CertFile = c\<rparr> | _ \<Rightarrow> None)
   | _ \<Rightarrow> None)"

definition dec_ClientTLSConfig :: "json \<Rightarrow> ClientTLSConfig option" where
  "dec_ClientTLSConfig v = (case v of
     JObj kvs \<Rightarrow>
       (case (dec_ref (dec_list dec_string []) [] ''ca_certfiles'' kvs [],
              dec_field dec_KeyCertFiles ''client'' kvs \<lparr>kc_KeyFile = [], kc_CertFile = []\<rparr>) of
          (Some fs, Some c) \<Rightarrow> Some \<lparr>ct_CACertFiles = fs, ct_Client = c\<rparr> | _ \<Rightarrow> None)
   | _ \<Rightarrow> None)"

definition dec_TLSConfig :: "json \<Rightarrow> TLSConfig option" where
  "dec_TLSConfig v = (case v of
     JObj kvs \<Rightarrow>
       (case (dec_field dec_string ''tls_cert'' kvs [], dec_field dec_string ''tls_key'' kvs [],
              dec_field dec_string ''mutual_tls_ca'' kvs [],
              dec_field dec_ClientTLSConfig ''db_client'' kvs
                \<lparr>ct_CACertFiles = [], ct_Client = \<lparr>kc_KeyFile = [], kc_CertFile = []\<rparr>\<rparr>) of
          (Some c, Some k, Some m, Some d) \<Rightarrow>
            Some \<lparr>tc_TLSCertFile = c, tc_TLSKeyFile = k, tc_MutualTLSCAFile = m, tc_DBClient = d\<rparr>
        | _ \<Rightarrow> None)
   | _ \<Rightarrow> None)"

definition dec_ConfigUser :: "json \<Rightarrow> ConfigUser option" where
  "dec_ConfigUser v = (case v of
     JObj kvs \<Rightarrow>
       (case (dec_field dec_string ''pass'' kvs [], dec_field dec_string ''type'' kvs [],
              dec_field dec_string ''group'' kvs [],
              dec_ref (dec_list dec_attr \<lparr>attr_Name = [], attr_Value = []\<rparr>) [] ''attrs'' kvs []) of
          (Some p, Some t, Some g, Some a) \<Rightarrow>
            Some \<lparr>cu_Pass = p, cu_Type = t, cu_Group = g, cu_Attributes = a\<rparr>
        | _ \<Rightarrow> None)
   | _ \<Rightarrow> None)"

fun dec_users_into :: "(string \<times> json) list \<Rightarrow> (string \<times> ConfigUser option) list \<Rightarrow> (string \<times> ConfigUser option) list option" where
  "dec_users_into [] m = Some m"
| "dec_users_into ((k, v) # kvs) m =
     (case (if v = JNull then Some None else map_option Some (dec_ConfigUser v)) of
        None \<Rightarrow> None
      | Some u \<Rightarrow> dec_users_into kvs (filter (\<lambda>e. fst e \<noteq> k) m @ [(k, u)]))"

definition dec_users :: "json \<Rightarrow> (string \<times> ConfigUser option) list option" where
  "dec_users v = (case v of JObj kvs \<Rightarrow> dec_users_into kvs [] | _ \<Rightarrow> None)"

definition dec_UserReg :: "json \<Rightarrow> int option" where
  "dec_UserReg v = (case v of JObj kvs \<Rightarrow> dec_field dec_int ''max_enrollments'' kvs 0 | _ \<Rightarrow> None)"

definition dec_ldap_Config :: "json \<Rightarrow> ldap_Config option" where
  "dec_ldap_Config v = (case v of
     JObj kvs \<Rightarrow>
       (case (dec_field dec_string ''url'' kvs [], dec_field dec_string ''base'' kvs [],
              dec_field dec_string ''userfilter'' kvs [], dec_field dec_string ''groupfilter'' kvs []) of
          (Some u, Some b, Some f, Some g) \<Rightarrow>
            Some \<lparr>lc_URL = u, lc_Base = b, lc_UserFilter = f, lc_GroupFilter = g\<rparr>
        | _ \<Rightarrow> None)
   | _ \<Rightarrow> None)"

definition Config_fields :: "Config \<Rightarrow> (string \<times> json) list \<Rightarrow> Config option" where
  "Config_fields z kvs =
     (case (dec_field dec_bool ''debug'' kvs (c_Debug z),
            dec_field dec_bool ''authentication'' kvs (c_Authentication z),
            dec_ref dec_users [] ''users'' kvs (c_Users z),
            dec_field dec_string ''driver'' kvs (c_DBdriver z),
            dec_field dec_string ''data_source'' kvs (c_DataSource z),
            dec_field dec_UserReg ''user_registry'' kvs (c_MaxEnrollments z),
            dec_ref (map_option Some \<circ> dec_ldap_Config) None ''ldap'' kvs (c_LDAP z),
            dec_field dec_string ''ca_cert'' kvs (c_CAFile z),
            dec_field dec_string ''ca_key'' kvs (c_KeyFile z),
            dec_field dec_TLSConfig ''tls'' kvs (c_TLSConf z),
            dec_field dec_bool ''tls_disable'' kvs (c_TLSDisable z)) of
        (Some dbg, Some auth, Some us, Some drv, Some ds, Some mx, Some ld, Some ca, Some key, Some tls, Some dis) \<Rightarrow>
          Some \<lparr>c_Debug = dbg, c_Authentication = auth, c_Users = us, c_DBdriver = drv,
                c_DataSource = ds, c_MaxEnrollments = mx, c_LDAP = ld, c_CAFile = ca,
                c_KeyFile = key, c_TLSConf = tls, c_TLSDisable = dis\<rparr>
      | _ \<Rightarrow> None)"

subsection \<open>configInit\<close>

definition FilepathDir :: "string \<Rightarrow> string" where
  "FilepathDir p = Clean (rev (dropWhile (\<lambda>c. c \<noteq> CHR ''/'') (rev p)))"

text \<open>\<^verbatim>\<open>abs\<close> panics with the error of \<^verbatim>\<open>MakeFileAbs\<close>.\<close>

definition abs_file :: "string result \<Rightarrow> string \<Rightarrow> string \<Rightarrow> string result" where
  "abs_file cwd configDir file = (case MakeFileAbs cwd file configDir of
     Inl e \<Rightarrow> Inl (GoPanic (Error e)) | Inr p \<Rightarrow> Inr p)"

fun abs_files :: "string result \<Rightarrow> string \<Rightarrow> string list \<Rightarrow> string list result" where
  "abs_files cwd dir [] = Inr []"
| "abs_files cwd dir (f # fs) = (case abs_file cwd dir f of
     Inl e \<Rightarrow> Inl e
   | Inr p \<Rightarrow> (case abs_files cwd dir fs of Inl e \<Rightarrow> Inl e | Inr ps \<Rightarrow> Inr (p # ps)))"

definition absTLSClient :: "string result \<Rightarrow> string \<Rightarrow> ClientTLSConfig \<Rightarrow> ClientTLSConfig result" where
  "absTLSClient cwd dir cfg = (case abs_files cwd dir (ct_CACertFiles cfg) of
     Inl e \<Rightarrow> Inl e
   | Inr cas \<Rightarrow> (case abs_file cwd dir (kc_CertFile (ct_Client cfg)) of
       Inl e \<Rightarrow> Inl e
     | Inr cert \<Rightarrow> (case abs_file cwd dir (kc_KeyFile (ct_Client cfg)) of
         Inl e \<Rightarrow> Inl e
       | Inr key \<Rightarrow> Inr \<lparr>ct_CACertFiles = cas, ct_Client = \<lparr>kc_KeyFile = key, kc_CertFile = cert\<rparr>\<rparr>)))"

text \<open>The six calls of \<^verbatim>\<open>abs\<close> in a row, up to the first that panics.\<close>

definition abs_Config :: "string result \<Rightarrow> string \<Rightarrow> Config \<Rightarrow> Config result" where
  "abs_Config cwd dir c = (let t = c_TLSConf c in
     case abs_files cwd dir [c_CAFile c, c_KeyFile c, tc_TLSCertFile t, tc_TLSKeyFile t, tc_MutualTLSCAFile t] of
       Inr [ca, key, cert, tkey, mca] \<Rightarrow>
         (case absTLSClient cwd dir (tc_DBClient t) of
            Inl e \<Rightarrow> Inl e
          | Inr cl \<Rightarrow> Inr (c\<lparr>c_CAFile := ca, c_KeyFile := key,
              c_TLSConf := \<lparr>tc_TLSCertFile = cert, tc_TLSKeyFile = tkey, tc_MutualTLSCAFile = mca, tc_DBClient = cl\<rparr>\<rparr>))
     | Inr _ \<Rightarrow> Inr c
     | Inl e \<Rightarrow> Inl e)"

definition cli_defaults :: "Config \<Rightarrow> cli_Config \<Rightarrow> cli_Config" where
  "cli_defaults c cfg =
     (let t = c_TLSConf c;
          cfg = (if cli_DBConfigFile cfg = [] then cfg\<lparr>cli_DBConfigFile := cli_ConfigFile cfg\<rparr> else cfg);
          cfg = cfg\<lparr>cli_TLSCertFile := (if tc_TLSCertFile t \<noteq> [] then tc_TLSCertFile t else c_CAFile c)\<rparr>;
          cfg = cfg\<lparr>cli_TLSKeyFile := (if tc_TLSKeyFile t \<noteq> [] then tc_TLSKeyFile t else c_KeyFile c)\<rparr>
      in if tc_MutualTLSCAFile t \<noteq> [] then cfg\<lparr>cli_MutualTLSCAFile := tc_MutualTLSCAFile t\<rparr> else cfg)"

definition db_defaults :: "string result \<Rightarrow> string \<Rightarrow> Config \<Rightarrow> Config result" where
  "db_defaults cwd dir c =
     (let c = (if c_DBdriver c = [] then c\<lparr>c_DBdriver := ''sqlite3'', c_DataSource := ''cop.db''\<rparr> else c)
      in if c_DBdriver c = ''sqlite3''
         then (case abs_file cwd dir (c_DataSource c) of Inl e \<Rightarrow> Inl e | Inr p \<Rightarrow> Inr (c\<lparr>c_DataSource := p\<rparr>))
         else Inr c)"

definition configInit ::
  "string result \<Rightarrow> (string \<Rightarrow> string) \<Rightarrow> (string \<Rightarrow> string result) \<Rightarrow> cli_Config \<Rightarrow>
   (cli_Config \<times> Config \<times> string \<times> string) result" where
  "configInit cwd env readFile cfg = (case FilepathAbs cwd (cli_ConfigFile cfg) of
     Inl e \<Rightarrow> Inl (GoPanic (Error e))
   | Inr configFile \<Rightarrow>
       let configDir = FilepathDir configFile in
       (case readFile configFile of
          Inl e \<Rightarrow> Inl (GoPanic (Error e))
        | Inr body \<Rightarrow> (case decode (Config_fields newConfig) body of
            Inl e \<Rightarrow> Inl (GoPanic (''error parsing '' @ configFile @ '': '' @ Error e))
          | Inr c \<Rightarrow> (case abs_Config cwd configDir c of
              Inl e \<Rightarrow> Inl e
            | Inr c \<Rightarrow> (case db_defaults cwd configDir c of
                Inl e \<Rightarrow> Inl e
              | Inr c' \<Rightarrow>
                  let dbg = env ''COP_DEBUG'';
                      c' = (if dbg \<noteq> [] then c'\<lparr>c_Debug := dbg = ''true''\<rparr> else c')
                  in Inr (cli_defaults c cfg, c', configFile, configDir))))))"

subsection \<open>What the initialised configuration satisfies\<close>

text \<open>A file name of the configuration, as it is meant: relative to the directory of the configuration file.\<close>

definition in_dir :: "string \<Rightarrow> string \<Rightarrow> string" where
  "in_dir dir f = (if f = [] \<or> IsAbs f then f else FilepathJoin [dir, f])"

definition config_paths :: "Config \<Rightarrow> string list" where
  "config_paths c = (let t = c_TLSConf c; d = tc_DBClient t in
     [c_CAFile c, c_KeyFile c, tc_TLSCertFile t, tc_TLSKeyFile t, tc_MutualTLSCAFile t,
      kc_KeyFile (ct_Client d), kc_CertFile (ct_Client d)] @ ct_CACertFiles d)"

lemma IsAbs_in_dir: "IsAbs dir \<Longrightarrow> f \<noteq> [] \<Longrightarrow> IsAbs (in_dir dir f)"
  by (simp add: in_dir_def IsAbs_Join)

lemma in_dir_Nil [simp]: "in_dir dir f = [] \<longleftrightarrow> f = []" if "IsAbs dir"
  using IsAbs_Join [OF that, of f] by (auto simp: in_dir_def IsAbs_def HasPrefix_def)

lemma FilepathAbs_IsAbs: "IsAbs wd \<Longrightarrow> FilepathAbs (Inr wd) p = Inr q \<Longrightarrow> IsAbs q"
  using IsAbs_Join [of wd p] by (auto simp: FilepathAbs_def split: if_splits)

lemma IsAbs_FilepathDir: "IsAbs p \<Longrightarrow> IsAbs (FilepathDir p)"
proof -
  assume "IsAbs p"
  then obtain t where p: "p = CHR ''/'' # t" by (cases p) (auto simp: IsAbs_def HasPrefix_def)
  have "\<exists>q. rev (dropWhile (\<lambda>c. c \<noteq> CHR ''/'') (rev p)) = CHR ''/'' # q"
    unfolding p by (cases "\<forall>c \<in> set t. c \<noteq> CHR ''/''") (auto simp: dropWhile_append intro: exI [of _ "rev _"])
  then have "IsAbs (rev (dropWhile (\<lambda>c. c \<noteq> CHR ''/'') (rev p)))" by (auto simp: IsAbs_def HasPrefix_def)
  then show ?thesis unfolding FilepathDir_def by (rule IsAbs_Clean)
qed

text \<open>With an absolute directory the working directory plays no part, and no step fails.\<close>

lemma abs_file_in_dir: "IsAbs dir \<Longrightarrow> abs_file cwd dir f = Inr (in_dir dir f)"
  by (simp add: abs_file_def MakeFileAbs_def in_dir_def FilepathAbs_def IsAbs_Join FilepathJoin_Clean)

lemma abs_files_in_dir: "IsAbs dir \<Longrightarrow> abs_files cwd dir fs = Inr (map (in_dir dir) fs)"
  by (induction fs) (simp_all add: abs_file_in_dir)

lemma abs_Config_in_dir:
  assumes "IsAbs dir"
  shows "\<exists>c'. abs_Config cwd dir c = Inr c' \<and> config_paths c' = map (in_dir dir) (config_paths c) \<and>
    c' = c\<lparr>c_CAFile := c_CAFile c', c_KeyFile := c_KeyFile c', c_TLSConf := c_TLSConf c'\<rparr>"
  by (simp add: abs_Config_def absTLSClient_def abs_file_in_dir [OF assms] abs_files_in_dir [OF assms] config_paths_def Let_def
      del: abs_files.simps)

lemma db_defaults_in_dir:
  assumes "IsAbs dir"
  shows "db_defaults cwd dir c = Inr (c\<lparr>c_DBdriver := if c_DBdriver c = [] then ''sqlite3'' else c_DBdriver c,
    c_DataSource := if c_DBdriver c = [] then FilepathJoin [dir, ''cop.db'']
      else if c_DBdriver c = ''sqlite3'' then in_dir dir (c_DataSource c) else c_DataSource c\<rparr>)"
  by (simp add: db_defaults_def abs_file_in_dir [OF assms] Let_def) (simp add: in_dir_def IsAbs_def HasPrefix_def)

text \<open>The configuration and CFSSL's configuration that a parsed file \<open>c0\<close> in \<open>dir\<close> leads to.\<close>

definition config_initialised :: "string \<Rightarrow> (string \<Rightarrow> string) \<Rightarrow> Config \<Rightarrow> Config \<Rightarrow> bool" where
  "config_initialised dir env c0 c \<longleftrightarrow>
     config_paths c = map (in_dir dir) (config_paths c0) \<and>
     c_DBdriver c = (if c_DBdriver c0 = [] then ''sqlite3'' else c_DBdriver c0) \<and>
     c_DataSource c = (if c_DBdriver c0 = [] then FilepathJoin [dir, ''cop.db'']
       else if c_DBdriver c0 = ''sqlite3'' then in_dir dir (c_DataSource c0) else c_DataSource c0) \<and>
     c_Debug c = (if env ''COP_DEBUG'' = [] then c_Debug c0 else env ''COP_DEBUG'' = ''true'') \<and>
     c_Authentication c = c_Authentication c0 \<and> c_Users c = c_Users c0 \<and> c_MaxEnrollments c = c_MaxEnrollments c0 \<and>
     c_LDAP c = c_LDAP c0 \<and> c_TLSDisable c = c_TLSDisable c0"

definition cli_initialised :: "cli_Config \<Rightarrow> Config \<Rightarrow> cli_Config \<Rightarrow> bool" where
  "cli_initialised cfg c cli \<longleftrightarrow> (let t = c_TLSConf c; default = (\<lambda>x y. if x = [] then y else x) in
     cli_DBConfigFile cli = default (cli_DBConfigFile cfg) (cli_ConfigFile cfg) \<and>
     cli_TLSCertFile cli = default (tc_TLSCertFile t) (c_CAFile c) \<and>
     cli_TLSKeyFile cli = default (tc_TLSKeyFile t) (c_KeyFile c) \<and>
     cli_MutualTLSCAFile cli = default (tc_MutualTLSCAFile t) (cli_MutualTLSCAFile cfg) \<and>
     cli_ConfigFile cli = cli_ConfigFile cfg \<and> cli_Address cli = cli_Address cfg \<and> cli_Port cli = cli_Port cfg)"

lemma cli_defaults_initialised: "cli_initialised cfg c (cli_defaults c cfg)"
  by (simp add: cli_initialised_def cli_defaults_def Let_def)

lemma cli_initialised_cong:
  "c_TLSConf c' = c_TLSConf c \<Longrightarrow> c_CAFile c' = c_CAFile c \<Longrightarrow> c_KeyFile c' = c_KeyFile c \<Longrightarrow>
   cli_initialised cfg c' = cli_initialised cfg c"
  by (simp add: cli_initialised_def fun_eq_iff)

lemma configInit_result:
  assumes "IsAbs wd" "FilepathAbs (Inr wd) (cli_ConfigFile cfg) = Inr cf"
    and "readFile cf = Inr body" "decode (Config_fields newConfig) body = Inr c0"
  shows "\<exists>cli c. configInit (Inr wd) env readFile cfg = Inr (cli, c, cf, FilepathDir cf) \<and>
    config_initialised (FilepathDir cf) env c0 c \<and> cli_initialised cfg c cli"
proof -
  have dir: "IsAbs (FilepathDir cf)" by (rule IsAbs_FilepathDir [OF FilepathAbs_IsAbs [OF assms(1,2)]])
  obtain c1 where c1: "abs_Config (Inr wd) (FilepathDir cf) c0 = Inr c1"
    "config_paths c1 = map (in_dir (FilepathDir cf)) (config_paths c0)"
    "c1 = c0\<lparr>c_CAFile := c_CAFile c1, c_KeyFile := c_KeyFile c1, c_TLSConf := c_TLSConf c1\<rparr>"
    using abs_Config_in_dir [OF dir] by blast
  have f: "c_DBdriver c1 = c_DBdriver c0" "c_DataSource c1 = c_DataSource c0" "c_Debug c1 = c_Debug c0"
    "c_Authentication c1 = c_Authentication c0" "c_Users c1 = c_Users c0" "c_MaxEnrollments c1 = c_MaxEnrollments c0"
    "c_LDAP c1 = c_LDAP c0" "c_TLSDisable c1 = c_TLSDisable c0"
    by (subst c1(3), simp)+
  obtain c2 where c2: "db_defaults (Inr wd) (FilepathDir cf) c1 = Inr c2"
    "c2 = c1\<lparr>c_DBdriver := c_DBdriver c2, c_DataSource := c_DataSource c2\<rparr>"
    "c_DBdriver c2 = (if c_DBdriver c0 = [] then ''sqlite3'' else c_DBdriver c0)"
    "c_DataSource c2 = (if c_DBdriver c0 = [] then FilepathJoin [FilepathDir cf, ''cop.db'']
       else if c_DBdriver c0 = ''sqlite3'' then in_dir (FilepathDir cf) (c_DataSource c0) else c_DataSource c0)"
    unfolding db_defaults_in_dir [OF dir] by (simp add: f)
  have g: "c_CAFile c2 = c_CAFile c1" "c_KeyFile c2 = c_KeyFile c1" "c_TLSConf c2 = c_TLSConf c1" "c_Debug c2 = c_Debug c1"
    "c_Authentication c2 = c_Authentication c1" "c_Users c2 = c_Users c1" "c_MaxEnrollments c2 = c_MaxEnrollments c1"
    "c_LDAP c2 = c_LDAP c1" "c_TLSDisable c2 = c_TLSDisable c1"
    by (subst c2(2), simp)+
  define c where "c = (if env ''COP_DEBUG'' \<noteq> [] then c2\<lparr>c_Debug := env ''COP_DEBUG'' = ''true''\<rparr> else c2)"
  have "configInit (Inr wd) env readFile cfg = Inr (cli_defaults c1 cfg, c, cf, FilepathDir cf)"
    using assms c1(1) c2(1) by (simp add: configInit_def Let_def c_def)
  moreover have "config_paths c = config_paths c1" using g by (simp add: config_paths_def c_def)
  then have "config_initialised (FilepathDir cf) env c0 c"
    using c1(2) c2(3,4) f g by (simp add: config_initialised_def c_def)
  moreover have "cli_initialised cfg c (cli_defaults c1 cfg)"
    using cli_defaults_initialised [of cfg c1] cli_initialised_cong [of c c1 cfg] g by (simp add: c_def)
  ultimately show ?thesis by blast
qed

text \<open>
  C30. Once its file is read and parsed, \<open>configInit\<close> does not fail, whatever the file says, and it fills
  in both configurations.  Every file name that is not empty becomes absolute: an absolute one stays, a
  relative one is taken in the directory of the configuration file.  The database is the one the file
  names (a SQLite file name in the same directory), or \<^verbatim>\<open>cop.db\<close> in it when no driver is named.  The
  variable \<^verbatim>\<open>COP_DEBUG\<close>, when set, decides about debugging; the other fields are those of the file.  In CFSSL's
  configuration the database configuration defaults to the configuration file as given, certificate and
  key of the listener are those of the TLS section or else of the CA, the CA of mutual TLS is that of
  the file or else stays, and nothing else changes.
\<close>

theorem configInit_ok:
  assumes "IsAbs wd" "FilepathAbs (Inr wd) (cli_ConfigFile cfg) = Inr cf"
    and "readFile cf = Inr body" "decode (Config_fields newConfig) body = Inr c0"
  shows "\<exists>cli c. configInit (Inr wd) env readFile cfg = Inr (cli, c, cf, FilepathDir cf) \<and>
    (\<forall>p \<in> set (config_paths c). p \<noteq> [] \<longrightarrow> IsAbs p) \<and>
    config_initialised (FilepathDir cf) env c0 c \<and> cli_initialised cfg c cli"
proof -
  have dir: "IsAbs (FilepathDir cf)" by (rule IsAbs_FilepathDir [OF FilepathAbs_IsAbs [OF assms(1,2)]])
  obtain cli c where c: "configInit (Inr wd) env readFile cfg = Inr (cli, c, cf, FilepathDir cf)"
    "config_initialised (FilepathDir cf) env c0 c" "cli_initialised cfg c cli"
    using configInit_result [where readFile = readFile, OF assms, of env] by blast
  then have "\<forall>p \<in> set (config_paths c). p \<noteq> [] \<longrightarrow> IsAbs p"
    using dir by (auto simp: config_initialised_def intro: IsAbs_in_dir)
  with c show ?thesis by blast
qed

definition demo_cli :: cli_Config where
  "demo_cli = \<lparr>cli_ConfigFile = ''cop.json'', cli_DBConfigFile = [], cli_TLSCertFile = [], cli_TLSKeyFile = [],
     cli_MutualTLSCAFile = [], cli_Address = [], cli_Port = 8888\<rparr>"

definition demo_body :: Config where
  "demo_body = newConfig\<lparr>c_CAFile := ''ca.pem'', c_KeyFile := ''/keys/ca.pem''\<rparr>"

lemma demo_body_decodes:
  "decode (Config_fields newConfig) (json_print (JObj [(''ca_cert'', JStr ''ca.pem''), (''ca_key'', JStr ''/keys/ca.pem'')])) = Inr demo_body"
  by (simp add: decode_def json_parse_print root_fields_def Config_fields_def demo_body_def newConfig_def ToLower_def lower_char_def
      del: json_print.simps)

theorem configInit_ok_witness:
  "\<exists>cli c. configInit (Inr ''/etc'') (\<lambda>_. [])
       (\<lambda>f. Inr (json_print (JObj [(''ca_cert'', JStr ''ca.pem''), (''ca_key'', JStr ''/keys/ca.pem'')]))) demo_cli =
     Inr (cli, c, ''/etc/cop.json'', ''/etc'') \<and>
     c_CAFile c = ''/etc/ca.pem'' \<and> c_DataSource c = ''/etc/cop.db'' \<and> cli_TLSKeyFile cli = ''/keys/ca.pem''"
proof -
  have "FilepathAbs (Inr ''/etc'') (cli_ConfigFile demo_cli) = Inr ''/etc/cop.json''"
    by (simp add: demo_cli_def FilepathAbs_def IsAbs_def HasPrefix_def FilepathJoin_def Clean_def Let_def)
  moreover have "FilepathDir ''/etc/cop.json'' = ''/etc''"
    by (simp add: FilepathDir_def IsAbs_def HasPrefix_def Clean_def Let_def)
  moreover have "IsAbs ''/etc''" by (simp add: IsAbs_def HasPrefix_def)
  ultimately obtain cli c where r: "configInit (Inr ''/etc'') (\<lambda>_. [])
       (\<lambda>f. Inr (json_print (JObj [(''ca_cert'', JStr ''ca.pem''), (''ca_key'', JStr ''/keys/ca.pem'')]))) demo_cli =
     Inr (cli, c, ''/etc/cop.json'', ''/etc'')"
    "config_initialised ''/etc'' (\<lambda>_. []) demo_body c" "cli_initialised demo_cli c cli"
    using configInit_ok [OF _ _ _ demo_body_decodes, where wd = "''/etc''" and cfg = demo_cli and cf = "''/etc/cop.json''"
        and env = "\<lambda>_. []" and readFile = "\<lambda>f. Inr (json_print (JObj [(''ca_cert'', JStr ''ca.pem''), (''ca_key'', JStr ''/keys/ca.pem'')]))"]
    by auto
  have f: "FilepathJoin [''/etc'', ''ca.pem''] = ''/etc/ca.pem''" "FilepathJoin [''/etc'', ''cop.db''] = ''/etc/cop.db''"
    by (simp_all add: FilepathJoin_def Clean_def IsAbs_def HasPrefix_def Let_def)
  from r(2) f have c: "c_CAFile c = ''/etc/ca.pem''" "c_KeyFile c = ''/keys/ca.pem''" "tc_TLSKeyFile (c_TLSConf c) = []"
    "c_DataSource c = ''/etc/cop.db''"
    by (simp_all add: config_initialised_def config_paths_def demo_body_def newConfig_def in_dir_def IsAbs_def HasPrefix_def Let_def)
  with r(3) have "cli_TLSKeyFile cli = ''/keys/ca.pem''" by (simp add: cli_initialised_def Let_def)
  with r(1) c show ?thesis by blast
qed

end
