(* ===== verification/Register_User.thy ===== *)
theory Register_User
  imports User_Registry Server_Config
begin

text \<open>
  Registering users: \<^verbatim>\<open>cli/server/register.go\<close>.  The operations are written over any registry
  (the method table \<open>reg\<close> stands for the global \<^verbatim>\<open>userRegistry\<close>) and over the configuration \<open>cfg\<close>
  for the global \<^verbatim>\<open>CFG\<close>.  \<open>rnd\<close> is the string that \<^verbatim>\<open>util.RandomString(12)\<close> returns if it is
  called (\<^verbatim>\<open>Util_Misc.RandomString\<close> models that function).

  The database results below say what is in the \<^verbatim>\<open>users\<close> table after a registration.
\<close>

definition registrarRoles :: string where
  "registrarRoles = ''hf.Registrar.Roles''"

definition Register_requireGroup :: "string \<Rightarrow> bool" where
  "Register_requireGroup userType =
     (let userType = ToLower userType in
      if userType = ''peer'' \<or> userType = ''client'' then True else False)"

definition Register_isValidGroup :: "('s, 'u) UserRegistry \<Rightarrow> string \<Rightarrow> 's \<Rightarrow> bool result \<times> 's" where
  "Register_isValidGroup reg grp s = (case reg_GetGroup reg grp s of
     (Inl err, s) \<Rightarrow> (Inl err, s)
   | (Inr _, s) \<Rightarrow> (Inr True, s))"

definition Register_validateID ::
  "('s, 'u) UserRegistry \<Rightarrow> string \<Rightarrow> string \<Rightarrow> string \<Rightarrow> 's \<Rightarrow> unit result \<times> 's" where
  "Register_validateID reg uid userType grp s =
     (if Register_requireGroup userType then
        (case Register_isValidGroup reg grp s of
           (Inl err, s) \<Rightarrow> (Inl err, s)
         | (Inr valid, s) \<Rightarrow>
             if \<not> valid then (Inl (ErrorString (''Invalid type '' @ userType)), s)
             else (Inr (), s))
      else (Inr (), s))"

definition Register_canRegister :: "('s, 'u) UserRegistry \<Rightarrow> string \<Rightarrow> string \<Rightarrow> 's \<Rightarrow> unit result \<times> 's" where
  "Register_canRegister reg registrar userType s = (case reg_GetUser reg registrar [] s of
     (Inl err, s) \<Rightarrow> (Inl (ErrorString (''Registrar does not exist: '' @ Error err)), s)
   | (Inr user, s) \<Rightarrow>
       let rolesStr = usr_GetAttribute reg user registrarRoles;
           roles = (if rolesStr \<noteq> [] then Split rolesStr (CHR '','') else [])
       in if \<not> StrContained userType roles
          then (Inl (COPError (NewError (code_num RegisteringUserError) ''user %s may not register type %s''
                  [FStr registrar, FStr userType])), s)
          else (Inr (), s))"

definition Register_registerUserID ::
  "('s, 'u) UserRegistry \<Rightarrow> Config \<Rightarrow> string \<Rightarrow> string \<Rightarrow> string \<Rightarrow> string \<Rightarrow> Attribute list \<Rightarrow>
   string list \<Rightarrow> 's \<Rightarrow> string result \<times> 's" where
  "Register_registerUserID reg cfg rnd uid userType grp attributes opt s =
     (let tok = (if opt \<noteq> [] \<and> hd opt \<noteq> [] then hd opt else rnd);
          ins = \<lparr>ui_Name = uid, ui_Pass = tok, ui_Type = userType, ui_Group = grp, ui_Attributes = attributes\<rparr>
      in case reg_GetUser reg uid [] s of
           (Inr _, s) \<Rightarrow>
             (Inl (COPError (NewError (code_num RegisteringUserError) ''User is already registered'' [])), s)
         | (Inl _, s) \<Rightarrow>
             (case reg_InsertUser reg ins s of
                (Inl err, s) \<Rightarrow> (Inl err, s)
              | (Inr _, s) \<Rightarrow>
                  (case reg_UpdateField reg uid maxEnrollments (GInt (c_MaxEnrollments cfg)) s of
                     (Inl err, s) \<Rightarrow> (Inl err, s)
                   | (Inr _, s) \<Rightarrow> (Inr tok, s))))"

definition Register_RegisterUser ::
  "('s, 'u) UserRegistry \<Rightarrow> Config \<Rightarrow> string \<Rightarrow> string \<Rightarrow> string \<Rightarrow> string \<Rightarrow> Attribute list \<Rightarrow>
   string \<Rightarrow> string list \<Rightarrow> 's \<Rightarrow> string result \<times> 's" where
  "Register_RegisterUser reg cfg rnd uid userType grp attributes registrar opt s =
     (case (if registrar \<noteq> [] then Register_canRegister reg registrar userType s else (Inr (), s)) of
        (Inl err, s) \<Rightarrow> (Inl err, s)
      | (Inr _, s) \<Rightarrow>
          (case Register_validateID reg uid userType grp s of
             (Inl err, s) \<Rightarrow> (Inl err, s)
           | (Inr _, s) \<Rightarrow> Register_registerUserID reg cfg rnd uid userType grp attributes opt s))"

subsection \<open>The authorization of a registrar\<close>

context attr_registry
begin

lemma canRegister_sound:
  assumes "Register_canRegister reg registrar userType s = (Inr (), s')"
  shows "\<exists>a. view s registrar = Some a \<and> au_attr a registrarRoles \<noteq> [] \<and>
    ToLower userType \<in> ToLower ` set (Split (au_attr a registrarRoles) (CHR '',''))"
proof -
  obtain u where u: "reg_GetUser reg registrar [] s = (Inr u, s')"
    using assms by (auto simp: Register_canRegister_def Let_def split: prod.splits sum.splits if_splits)
  with GetUser_found obtain a where a: "view s registrar = Some a" by blast
  with u GetUser_attrs have "usr_GetAttribute reg u registrarRoles = au_attr a registrarRoles" by blast
  with assms u a show ?thesis
    by (auto simp: Register_canRegister_def Let_def StrContained_iff split: if_splits)
qed

lemma RegisterUser_authorized:
  assumes "Register_RegisterUser reg cfg rnd uid userType grp as registrar opt s = (Inr tok, s')" "registrar \<noteq> []"
  shows "\<exists>a. view s registrar = Some a \<and> au_attr a registrarRoles \<noteq> [] \<and>
    ToLower userType \<in> ToLower ` set (Split (au_attr a registrarRoles) (CHR '',''))"
proof -
  obtain r s1 where "Register_canRegister reg registrar userType s = (r, s1)"
    by (cases "Register_canRegister reg registrar userType s")
  with assms have "Register_canRegister reg registrar userType s = (Inr (), s1)"
    by (cases r) (auto simp: Register_RegisterUser_def)
  then show ?thesis by (rule canRegister_sound)
qed

end

text \<open>Who may register which type of user.\<close>

definition may_register :: "sqldb \<Rightarrow> string \<Rightarrow> string \<Rightarrow> bool" where
  "may_register d registrar userType \<longleftrightarrow> (\<exists>r. lookup_user d registrar = Some r \<and>
     (let v = DBUser_GetAttribute (newDBUser r) ''hf.Registrar.Roles''
      in v \<noteq> [] \<and> ToLower userType \<in> ToLower ` set (Split v (CHR '',''))))"

lemma RegisterUser_may_register:
  assumes "Register_RegisterUser db_registry cfg rnd uid userType grp as registrar opt (Some d) = (Inr tok, h')" "registrar \<noteq> []"
  shows "may_register d registrar userType"
  using db.RegisterUser_authorized [OF assms] by (auto simp: may_register_def db_view_def abs_record_def registrarRoles_def)

text \<open>Registering on a database that does not fail.\<close>

definition registered :: "Config \<Rightarrow> UserInfo \<Rightarrow> UserRecord" where
  "registered cfg u = (user_record u)\<lparr>ur_MaxEnrollments := c_MaxEnrollments cfg\<rparr>"

lemma registerUserID_no_faults:
  assumes "faults d = []" "lookup_user d uid = None"
    and "tok = (if opt \<noteq> [] \<and> hd opt \<noteq> [] then hd opt else rnd)"
  shows "Register_registerUserID db_registry cfg rnd uid userType grp as opt (Some d) =
    (Inr tok, Some (d\<lparr>users := users d @
       [registered cfg \<lparr>ui_Name = uid, ui_Pass = tok, ui_Type = userType, ui_Group = grp, ui_Attributes = as\<rparr>]\<rparr>))"
proof -
  have "uid \<notin> ur_Name ` set (users d)" using assms(2) by (simp add: lookup_user_None)
  then have "update_rows (\<lambda>r. ur_Name r = uid) f (users d) = users d" for f
    by (intro update_rows_none) auto
  then have "update_rows (\<lambda>r. ur_Name r = uid) f (users d @ [u]) = users d @ [if ur_Name u = uid then f u else u]" for f u
    by (simp add: update_rows_def)
  with assms \<open>uid \<notin> _\<close> show ?thesis
    by (simp add: Register_registerUserID_def Let_def GetUser_no_faults InsertUser_no_faults
        UpdateField_no_faults registered_def) (simp add: user_record_def)
qed

lemma canRegister_decides:
  assumes "faults d = []"
  shows "\<exists>res. Register_canRegister db_registry registrar userType (Some d) = (res, Some d) \<and>
    (res = Inr () \<longleftrightarrow> may_register d registrar userType)"
  using assms
  by (cases "lookup_user d registrar")
    (auto simp: Register_canRegister_def GetUser_no_faults may_register_def registrarRoles_def Let_def StrContained_iff)

lemma canRegister_no_faults:
  "faults d = [] \<Longrightarrow> may_register d registrar userType \<Longrightarrow>
   Register_canRegister db_registry registrar userType (Some d) = (Inr (), Some d)"
  using canRegister_decides [of d registrar userType] by auto

lemma validateID_no_faults:
  assumes "faults d = []" "Register_requireGroup userType \<longrightarrow> grp \<in> gr_Name ` set (groups d)"
  shows "Register_validateID db_registry uid userType grp (Some d) = (Inr (), Some d)"
proof -
  have "grp \<in> gr_Name ` set (groups d) \<Longrightarrow> filter (\<lambda>g. gr_Name g = grp) (groups d) \<noteq> []"
    by (auto simp: filter_empty_conv)
  with assms show ?thesis
    by (auto simp: Register_validateID_def Register_isValidGroup_def GetGroup_no_faults split: list.splits)
qed

lemma RegisterUser_no_faults:
  assumes "faults d = []" "lookup_user d uid = None"
    and "Register_requireGroup userType \<longrightarrow> grp \<in> gr_Name ` set (groups d)"
    and "registrar = [] \<or> Register_canRegister db_registry registrar userType (Some d) = (Inr (), Some d)"
    and "tok = (if opt \<noteq> [] \<and> hd opt \<noteq> [] then hd opt else rnd)"
  shows "Register_RegisterUser db_registry cfg rnd uid userType grp as registrar opt (Some d) =
    (Inr tok, Some (d\<lparr>users := users d @
       [registered cfg \<lparr>ui_Name = uid, ui_Pass = tok, ui_Type = userType, ui_Group = grp, ui_Attributes = as\<rparr>]\<rparr>))"
  using assms
  by (auto simp: Register_RegisterUser_def validateID_no_faults registerUserID_no_faults)

lemma RegisterUser_refused:
  assumes "faults d = []" "registrar \<noteq> []" "\<not> may_register d registrar userType"
  shows "\<exists>e. Register_RegisterUser db_registry cfg rnd uid userType grp as registrar opt (Some d) = (Inl e, Some d)"
proof -
  obtain res where "Register_canRegister db_registry registrar userType (Some d) = (res, Some d)" "res \<noteq> Inr ()"
    using canRegister_decides [OF assms(1)] assms(3) by blast
  with assms(2) show ?thesis by (cases res) (auto simp: Register_RegisterUser_def)
qed

text \<open>
  C12. Who may register, as the code decides it.  Whichever statements fail, a registration that
  succeeds either names no registrar, and is then not checked at all, or names a registrar of the users
  table whose attribute \<^verbatim>\<open>hf.Registrar.Roles\<close> lists the type of the new user, up to case.  When no
  statement fails that is also enough, for a new name and an existing group.  (The README documents the
  attribute as \<^verbatim>\<open>hf.Registrar.DelegateRoles\<close>, which the code does not read: a registrar set up with that
  attribute alone is refused, as the example below shows.)
\<close>

theorem register_authorization:
  "(\<forall>d tok h'. Register_RegisterUser db_registry cfg rnd uid userType grp as registrar opt (Some d) = (Inr tok, h') \<longrightarrow>
      registrar = [] \<or> may_register d registrar userType) \<and>
   (\<forall>d. faults d = [] \<and> lookup_user d uid = None \<and> (Register_requireGroup userType \<longrightarrow> grp \<in> gr_Name ` set (groups d)) \<longrightarrow>
      (if registrar = [] \<or> may_register d registrar userType
       then \<exists>tok d'. Register_RegisterUser db_registry cfg rnd uid userType grp as registrar opt (Some d) = (Inr tok, Some d')
       else \<exists>e. Register_RegisterUser db_registry cfg rnd uid userType grp as registrar opt (Some d) = (Inl e, Some d)))"
proof (intro conjI allI impI)
  fix d
  assume d: "faults d = [] \<and> lookup_user d uid = None \<and> (Register_requireGroup userType \<longrightarrow> grp \<in> gr_Name ` set (groups d))"
  show "if registrar = [] \<or> may_register d registrar userType
       then \<exists>tok d'. Register_RegisterUser db_registry cfg rnd uid userType grp as registrar opt (Some d) = (Inr tok, Some d')
       else \<exists>e. Register_RegisterUser db_registry cfg rnd uid userType grp as registrar opt (Some d) = (Inl e, Some d)"
  proof (cases "registrar = [] \<or> may_register d registrar userType")
    case True
    with d have "registrar = [] \<or> Register_canRegister db_registry registrar userType (Some d) = (Inr (), Some d)"
      by (auto intro: canRegister_no_faults)
    with True d show ?thesis using RegisterUser_no_faults [where opt = opt, OF _ _ _ _ refl] by simp
  qed (use d RegisterUser_refused in auto)
qed (use RegisterUser_may_register in blast)

text \<open>
  Registration composed with login: a new user registered by an authorized registrar (or by the
  server itself, with no registrar) into an existing group gets a token with which it can log in
  exactly \<open>max_enrollments\<close> times.
\<close>

theorem register_then_login:
  assumes "faults d = []" "unique_ids d" "lookup_user d uid = None"
    and "Register_requireGroup userType \<longrightarrow> grp \<in> gr_Name ` set (groups d)"
    and "registrar = [] \<or> Register_canRegister db_registry registrar userType (Some d) = (Inr (), Some d)"
    and "0 < c_MaxEnrollments cfg"
  shows "\<exists>d'. Register_RegisterUser db_registry cfg rnd uid userType grp as registrar [] (Some d) = (Inr rnd, Some d') \<and>
    fst (run_logins uid (replicate n rnd) (Some d')) =
      replicate (min n (nat (c_MaxEnrollments cfg))) True @ replicate (n - nat (c_MaxEnrollments cfg)) False"
proof -
  let ?u = "registered cfg \<lparr>ui_Name = uid, ui_Pass = rnd, ui_Type = userType, ui_Group = grp, ui_Attributes = as\<rparr>"
  let ?d = "d\<lparr>users := users d @ [?u]\<rparr>"
  have u: "ur_Name ?u = uid" "ur_Pass ?u = rnd" "ur_State ?u = 0" "ur_MaxEnrollments ?u = c_MaxEnrollments cfg"
    by (simp_all add: registered_def user_record_def)
  have "Register_RegisterUser db_registry cfg rnd uid userType grp as registrar [] (Some d) = (Inr rnd, Some ?d)"
    using assms by (intro RegisterUser_no_faults) auto
  moreover have "lookup_user ?d uid = Some ?u" using assms(3) u by (simp add: lookup_user_append)
  moreover have "unique_ids ?d" using assms(2,3) u by (auto simp: unique_ids_def lookup_user_None)
  ultimately show ?thesis
    using run_logins_exact [of ?d uid ?u n] assms(1,6) u by simp
qed

definition demo_cfg :: Config where
  "demo_cfg = newConfig\<lparr>c_MaxEnrollments := 1\<rparr>"

theorem register_then_login_witness:
  "\<exists>d'. Register_RegisterUser db_registry demo_cfg ''tok'' ''v1'' ''validator'' ''x'' [] [] [] (Some demo_db) = (Inr ''tok'', Some d') \<and>
    fst (run_logins ''v1'' (replicate 2 ''tok'') (Some d')) = [True, False]"
  using register_then_login [of demo_db "''v1''" "''validator''" "''x''" "[]" demo_cfg "''tok''" "[]" 2]
  by (simp add: demo_db_def demo_user_def demo_cfg_def unique_ids_def lookup_user_def
      Register_requireGroup_def ToLower_def lower_char_def)

text \<open>The role check at work, for the registrar \<^verbatim>\<open>admin\<close> of the sample configuration.\<close>

definition demo_registrar :: UserRecord where
  "demo_registrar = demo_user\<lparr>ur_Attributes := MarshalAttrs [\<lparr>attr_Name = registrarRoles, attr_Value = ''client,peer''\<rparr>]\<rparr>"

definition demo_db2 :: sqldb where
  "demo_db2 = demo_db\<lparr>users := [demo_registrar], groups := [\<lparr>gr_Name = ''bank_a'', gr_ParentID = [], gr_Prekey = None\<rparr>]\<rparr>"

lemma demo_registrar_roles: "DBUser_GetAttribute (newDBUser demo_registrar) registrarRoles = ''client,peer''"
  by (simp add: demo_registrar_def DBUser_GetAttribute_def newDBUser_def)

lemma lower_C: "lower_char (CHR ''C'') = CHR ''c''"
  by code_simp

lemma demo_may_register: "may_register demo_db2 ''admin'' ''Client''"
  using demo_registrar_roles
  by (simp add: may_register_def registrarRoles_def demo_db2_def demo_db_def lookup_user_def demo_registrar_def demo_user_def
      ToLower_def lower_C) (simp add: lower_char_def)

lemma demo_canRegister: "Register_canRegister db_registry ''admin'' ''Client'' (Some demo_db2) = (Inr (), Some demo_db2)"
  by (rule canRegister_no_faults [OF _ demo_may_register]) (simp add: demo_db2_def demo_db_def)

text \<open>The registrar of the README's example, whose only attribute is \<^verbatim>\<open>hf.Registrar.DelegateRoles\<close>.\<close>

definition readme_db :: sqldb where
  "readme_db = demo_db2\<lparr>users := [demo_user\<lparr>ur_Attributes :=
     MarshalAttrs [\<lparr>attr_Name = ''hf.Registrar.DelegateRoles'', attr_Value = ''client,user''\<rparr>]\<rparr>]\<rparr>"

lemma readme_may_not_register: "\<not> may_register readme_db ''admin'' ''client''"
  by (simp add: may_register_def readme_db_def lookup_user_def demo_user_def DBUser_GetAttribute_def newDBUser_def)

theorem register_authorization_witness:
  "(\<exists>tok d'. Register_RegisterUser db_registry demo_cfg ''tok'' ''c1'' ''Client'' ''bank_a'' [] ''admin'' [] (Some demo_db2) = (Inr tok, Some d')) \<and>
   (\<exists>tok d'. Register_RegisterUser db_registry demo_cfg ''tok'' ''c1'' ''Client'' ''bank_a'' [] [] [] (Some readme_db) = (Inr tok, Some d')) \<and>
   (\<exists>e. Register_RegisterUser db_registry demo_cfg ''tok'' ''c1'' ''client'' ''bank_a'' [] ''admin'' [] (Some readme_db) = (Inl e, Some readme_db))"
proof -
  have "lookup_user d ''c1'' = None" "faults d = []" "''bank_a'' \<in> gr_Name ` set (groups d)" if "d = demo_db2 \<or> d = readme_db" for d
    using that by (auto simp: readme_db_def demo_db2_def demo_db_def lookup_user_def demo_registrar_def demo_user_def)
  then show ?thesis
    using register_authorization [of demo_cfg "''tok''" "''c1''" "''Client''" "''bank_a''" "[]" "''admin''" "[]"]
      register_authorization [of demo_cfg "''tok''" "''c1''" "''Client''" "''bank_a''" "[]" "[]" "[]"]
      register_authorization [of demo_cfg "''tok''" "''c1''" "''client''" "''bank_a''" "[]" "''admin''" "[]"]
      demo_may_register readme_may_not_register by auto
qed

subsection \<open>Registering does not touch other users\<close>

definition users_kept :: "string \<Rightarrow> sqldb \<Rightarrow> sqldb \<Rightarrow> bool" where
  "users_kept uid d d' \<longleftrightarrow> (\<forall>x r. lookup_user d x = Some r \<longrightarrow>
     (\<exists>v. lookup_user d' x = Some (if x = uid then r\<lparr>ur_MaxEnrollments := v\<rparr> else r)))"

lemma max_self [simp]: "\<exists>v. r = (r :: UserRecord)\<lparr>ur_MaxEnrollments := v\<rparr>"
  by (rule exI [of _ "ur_MaxEnrollments r"]) simp

lemma users_kept_same: "same_tables d d' \<Longrightarrow> users_kept uid d d'"
  using lookup_same_tables [of d d'] by (auto simp: users_kept_def)

lemma users_kept_refl: "users_kept uid d d"
  by (rule users_kept_same) simp

lemma users_kept_trans:
  assumes "users_kept uid a b" "users_kept uid b c"
  shows "users_kept uid a c"
  unfolding users_kept_def
proof (intro allI impI)
  fix x r
  assume "lookup_user a x = Some r"
  with assms(1) obtain v where "lookup_user b x = Some (if x = uid then r\<lparr>ur_MaxEnrollments := v\<rparr> else r)"
    unfolding users_kept_def by blast
  with assms(2) obtain w where
    "lookup_user c x = Some (if x = uid then (if x = uid then r\<lparr>ur_MaxEnrollments := v\<rparr> else r)\<lparr>ur_MaxEnrollments := w\<rparr>
       else (if x = uid then r\<lparr>ur_MaxEnrollments := v\<rparr> else r))"
    unfolding users_kept_def by blast
  then show "\<exists>v. lookup_user c x = Some (if x = uid then r\<lparr>ur_MaxEnrollments := v\<rparr> else r)"
    by (intro exI [of _ w]) (simp split: if_splits)
qed

lemma users_kept_exec:
  assumes "\<And>d n d'. stmt d = Inr (n, d') \<Longrightarrow> users_kept uid d d'"
  shows "users_kept uid d (snd (sql_exec stmt d))"
proof (cases "sql_exec stmt d")
  case (Pair r d')
  then show ?thesis
    by (cases rule: sql_exec_cases) (auto simp: Pair intro: users_kept_same users_kept_trans assms)
qed

lemma users_kept_get: "users_kept uid d (snd (sql_get q d))"
  by (cases "sql_get q d") (auto intro: users_kept_same sql_get_same)

lemma users_kept_insert: "insertUser_sql u d = Inr (n, d') \<Longrightarrow> users_kept uid d d'"
  by (auto simp: insertUser_sql_def users_kept_def lookup_user_append split: if_splits)

lemma users_kept_update:
  "update_users_sql (\<lambda>r. r\<lparr>ur_MaxEnrollments := v\<rparr>) uid d = Inr (n, d') \<Longrightarrow> users_kept uid d d'"
  by (auto simp: update_users_sql_def users_kept_def lookup_update_users)

definition kept :: "string \<Rightarrow> sqldb option \<Rightarrow> sqldb option \<Rightarrow> bool" where
  "kept uid h h' \<longleftrightarrow> rel_option (users_kept uid) h h'"

lemma kept_refl: "kept uid h h"
  by (cases h) (simp_all add: kept_def users_kept_refl)

lemma kept_trans: "kept uid a b \<Longrightarrow> kept uid b c \<Longrightarrow> kept uid a c"
  by (cases a; cases b; cases c) (auto simp: kept_def intro: users_kept_trans)

lemma kept_map: "(\<And>d. users_kept uid d (f d)) \<Longrightarrow> kept uid h (map_option f h)"
  by (cases h) (simp_all add: kept_def)

lemma kept_ops:
  "kept uid h (snd (Accessor_GetUser n as h))"
  "kept uid h (snd (Accessor_GetGroup n h))"
  "kept uid h (snd (Accessor_InsertUser u h))"
  unfolding snd_Accessor
  by (rule kept_map, rule users_kept_get, rule kept_map, rule users_kept_get,
      rule kept_map, rule users_kept_exec, erule users_kept_insert)

lemma kept_UpdateField: "kept uid h (snd (Accessor_UpdateField uid maxEnrollments (GInt v) h))"
  unfolding snd_UpdateField by (rule kept_map, rule users_kept_exec, erule users_kept_update)

lemma kept_canRegister: "kept uid h (snd (Register_canRegister db_registry registrar t h))"
  using kept_ops(1) [of uid h registrar "[]"]
  by (cases "Accessor_GetUser registrar [] h") (auto simp: Register_canRegister_def Let_def split: sum.split)

lemma kept_validateID: "kept uid h (snd (Register_validateID db_registry n t g h))"
  using kept_ops(2) [of uid h g]
  by (cases "Accessor_GetGroup g h")
    (auto simp: Register_validateID_def Register_isValidGroup_def kept_refl split: sum.split)

lemma kept_registerUserID:
  "kept uid h (snd (Register_registerUserID db_registry cfg rnd uid t g as opt h))"
proof -
  define tok where "tok = (if opt \<noteq> [] \<and> hd opt \<noteq> [] then hd opt else rnd)"
  let ?u = "\<lparr>ui_Name = uid, ui_Pass = tok, ui_Type = t, ui_Group = g, ui_Attributes = as\<rparr>"
  obtain r1 h1 where g: "Accessor_GetUser uid [] h = (r1, h1)" by (cases "Accessor_GetUser uid [] h")
  obtain r2 h2 where i: "Accessor_InsertUser ?u h1 = (r2, h2)" by (cases "Accessor_InsertUser ?u h1")
  obtain r3 h3 where f: "Accessor_UpdateField uid maxEnrollments (GInt (c_MaxEnrollments cfg)) h2 = (r3, h3)"
    by (cases "Accessor_UpdateField uid maxEnrollments (GInt (c_MaxEnrollments cfg)) h2")
  have "kept uid h h1" "kept uid h1 h2" "kept uid h2 h3"
    using kept_ops(1) [of uid h uid "[]"] kept_ops(3) [of uid h1 ?u]
      kept_UpdateField [of uid h2 "c_MaxEnrollments cfg"] g i f by simp_all
  then have "kept uid h h1" "kept uid h h2" "kept uid h h3" by (blast intro: kept_trans)+
  moreover have "snd (Register_registerUserID db_registry cfg rnd uid t g as opt h) \<in> {h1, h2, h3}"
    unfolding Register_registerUserID_def Let_def tok_def [symmetric]
    using g i f by (simp split: sum.split)
  ultimately show ?thesis by auto
qed

text \<open>
  Registration never takes over a user: whatever it returns and whichever statements fail, every
  user that was in the table is still there with its password, attributes, group and count; at most
  the limit of a user of the same name is set.
\<close>

theorem register_keeps_users:
  assumes "Register_RegisterUser db_registry cfg rnd uid userType grp as registrar opt (Some d) = (res, h')"
    and "lookup_user d x = Some r"
  shows "\<exists>d' v. h' = Some d' \<and>
    lookup_user d' x = Some (if x = uid then r\<lparr>ur_MaxEnrollments := v\<rparr> else r)"
proof -
  let ?c = "if registrar \<noteq> [] then Register_canRegister db_registry registrar userType (Some d) else (Inr (), Some d)"
  obtain r1 h1 where c: "?c = (r1, h1)" by (cases ?c)
  obtain r2 h2 where v: "Register_validateID db_registry uid userType grp h1 = (r2, h2)"
    by (cases "Register_validateID db_registry uid userType grp h1")
  have "kept uid (Some d) h1" "kept uid h1 h2"
    using kept_canRegister [of uid "Some d" registrar userType] kept_validateID [of uid h1 uid userType grp] c v
    by (auto simp: kept_refl split: if_splits)
  moreover have "h' = h1 \<or> h' = h2 \<or> h' = snd (Register_registerUserID db_registry cfg rnd uid userType grp as opt h2)"
    using assms(1) v by (auto simp: Register_RegisterUser_def c split: sum.splits)
  ultimately have "kept uid (Some d) h'"
    using kept_registerUserID [of uid h2 cfg rnd userType grp as opt] by (auto intro: kept_trans)
  then obtain d' where "h' = Some d'" "users_kept uid d d'" by (auto simp: kept_def option_rel_Some1)
  with assms(2) show ?thesis by (auto simp: users_kept_def)
qed

theorem register_keeps_users_witness:
  "\<exists>res d' v. Register_RegisterUser db_registry demo_cfg ''tok'' ''admin'' ''validator'' ''x'' [] [] [] (Some demo_db) = (res, Some d') \<and>
    lookup_user d' ''admin'' = Some (demo_user\<lparr>ur_MaxEnrollments := v\<rparr>)"
proof -
  obtain res h' where r: "Register_RegisterUser db_registry demo_cfg ''tok'' ''admin'' ''validator'' ''x'' [] [] [] (Some demo_db) = (res, h')"
    by (cases "Register_RegisterUser db_registry demo_cfg ''tok'' ''admin'' ''validator'' ''x'' [] [] [] (Some demo_db)")
  moreover have "lookup_user demo_db ''admin'' = Some demo_user"
    by (simp add: demo_db_def demo_user_def lookup_user_def)
  ultimately show ?thesis using register_keeps_users [OF r, of "''admin''" demo_user] by auto
qed

subsection \<open>Registration and database failures\<close>

text \<open>
  A registration is not atomic: when the statement that sets the limit fails, the caller gets the
  error, but the user stays in the table with its secret and with no limit on its logins.
\<close>

theorem register_partial_failure:
  assumes "faults d = [NoFault, NoFault, StmtFault m]" "lookup_user d uid = None"
    and "\<not> Register_requireGroup userType" "tok \<noteq> []"
  shows "\<exists>d' r. Register_RegisterUser db_registry cfg rnd uid userType grp as [] [tok] (Some d) = (Inl (ExtError m), Some d') \<and>
    lookup_user d' uid = Some r \<and> ur_Pass r = tok \<and> ur_MaxEnrollments r = 0"
proof -
  let ?u = "\<lparr>ui_Name = uid, ui_Pass = tok, ui_Type = userType, ui_Group = grp, ui_Attributes = as\<rparr>"
  have new: "uid \<notin> ur_Name ` set (users d)" and none: "filter (\<lambda>r. ur_Name r = uid) (users d) = []"
    using assms(2) by (auto simp: lookup_user_None filter_empty_conv)
  have n: "ur_Name (user_record ?u) = uid" by (simp add: user_record_def)
  have get: "Accessor_GetUser uid [] (Some d) = (Inl ErrNoRows, Some (d\<lparr>faults := [NoFault, StmtFault m]\<rparr>))"
    using assms(1) none by (simp add: Accessor_GetUser_def checked_Some sql_defs getUser_sql_def)
  have ins: "Accessor_InsertUser ?u (Some (d\<lparr>faults := [NoFault, StmtFault m]\<rparr>)) =
      (Inr (), Some (d\<lparr>users := users d @ [user_record ?u], faults := [StmtFault m]\<rparr>))"
    using new n by (simp add: Accessor_InsertUser_def checked_Some sql_defs insertUser_sql_def)
  have upd: "Accessor_UpdateField uid maxEnrollments (GInt v) (Some (d\<lparr>users := us, faults := [StmtFault m]\<rparr>)) =
      (Inl (ExtError m), Some (d\<lparr>users := us, faults := []\<rparr>))" for v us
    by (simp add: Accessor_UpdateField_def checked_Some sql_defs)
  have "Register_RegisterUser db_registry cfg rnd uid userType grp as [] [tok] (Some d) =
      (Inl (ExtError m), Some (d\<lparr>users := users d @ [user_record ?u], faults := []\<rparr>))"
    using assms(3,4) get ins upd
    by (simp add: Register_RegisterUser_def Register_validateID_def Register_registerUserID_def Let_def)
  moreover have "lookup_user (d\<lparr>users := users d @ [user_record ?u], faults := []\<rparr>) uid = Some (user_record ?u)"
    using none n by (simp add: lookup_user_filter)
  ultimately show ?thesis by (simp add: user_record_def)
qed

theorem register_partial_failure_witness:
  "\<exists>d' r. Register_RegisterUser db_registry demo_cfg ''rnd'' ''v1'' ''validator'' ''x'' [] [] [''pw'']
      (Some (demo_db\<lparr>faults := [NoFault, NoFault, StmtFault ''disk full'']\<rparr>)) = (Inl (ExtError ''disk full''), Some d') \<and>
    lookup_user d' ''v1'' = Some r \<and> ur_Pass r = ''pw'' \<and> ur_MaxEnrollments r = 0"
  by (rule register_partial_failure)
    (simp_all add: demo_db_def demo_user_def lookup_user_def Register_requireGroup_def ToLower_def lower_char_def)

text \<open>
  A failing read counts as \<^emph>\<open>not registered\<close>: on the drivers without a primary key, when the
  existence check of \<^verbatim>\<open>registerUserID\<close> fails for a passing reason, the same name is registered a
  second time and the table holds two users of that name.
\<close>

theorem register_duplicates_after_fault:
  assumes "faults d = [StmtFault m]" "driver d \<noteq> MySQL" "filter (\<lambda>r. ur_Name r = uid) (users d) = [r]"
    and "\<not> Register_requireGroup userType"
  shows "\<exists>d'. Register_RegisterUser db_registry cfg rnd uid userType grp as [] [] (Some d) = (Inr rnd, Some d') \<and>
    length (filter (\<lambda>r. ur_Name r = uid) (users d')) = 2"
proof -
  let ?u = "\<lparr>ui_Name = uid, ui_Pass = rnd, ui_Type = userType, ui_Group = grp, ui_Attributes = as\<rparr>"
  let ?d1 = "d\<lparr>faults := []\<rparr>"
  let ?d2 = "?d1\<lparr>users := users d @ [user_record ?u]\<rparr>"
  let ?d3 = "?d2\<lparr>users := update_rows (\<lambda>r. ur_Name r = uid) (\<lambda>r. r\<lparr>ur_MaxEnrollments := c_MaxEnrollments cfg\<rparr>) (users ?d2)\<rparr>"
  have get: "Accessor_GetUser uid [] (Some d) = (Inl (ExtError m), Some ?d1)"
    using assms(1) by (simp add: Accessor_GetUser_def checked_Some sql_defs)
  have ins: "Accessor_InsertUser ?u (Some ?d1) = (Inr (), Some ?d2)"
    using InsertUser_no_faults [of ?d1 ?u] assms(2) by simp
  have upd: "Accessor_UpdateField uid maxEnrollments (GInt (c_MaxEnrollments cfg)) (Some ?d2) = (Inr (), Some ?d3)"
    by (rule UpdateField_no_faults) simp
  have "Register_RegisterUser db_registry cfg rnd uid userType grp as [] [] (Some d) = (Inr rnd, Some ?d3)"
    using assms(4) get ins upd
    by (simp add: Register_RegisterUser_def Register_validateID_def Register_registerUserID_def Let_def)
  moreover have "ur_Name (user_record ?u) = uid" by (simp add: user_record_def)
  then have "length (filter (\<lambda>r. ur_Name r = uid) (users ?d3)) = 2"
    using assms(3) by (simp add: filter_update_rows)
  ultimately show ?thesis by blast
qed

theorem register_duplicates_after_fault_witness:
  "\<exists>d'. Register_RegisterUser db_registry demo_cfg ''rnd'' ''admin'' ''validator'' ''x'' [] [] []
      (Some (demo_db\<lparr>faults := [StmtFault ''timeout'']\<rparr>)) = (Inr ''rnd'', Some d') \<and>
    length (filter (\<lambda>r. ur_Name r = ''admin'') (users d')) = 2"
  by (rule register_duplicates_after_fault [where r = demo_user])
    (simp_all add: demo_db_def demo_user_def Register_requireGroup_def ToLower_def lower_char_def)

end
