(* ===== verification/Go_Base64.thy ===== *)
theory Go_Base64
  imports Cop_Error
begin

text \<open>
  Go's package \<^verbatim>\<open>encoding/base64\<close>: \<^verbatim>\<open>RawStdEncoding\<close> (no padding), which \<^verbatim>\<open>util.B64Encode\<close> and
  \<^verbatim>\<open>util.B64Decode\<close> use, and \<^verbatim>\<open>StdEncoding\<close> (padding), which JSON uses for byte slices.  As in Go,
  the decoder drops line breaks and does not look at the unused low bits of the last character.
\<close>

subsection \<open>The alphabet\<close>

definition b64_char :: "nat \<Rightarrow> char" where
  "b64_char i =
     (if i < 26 then char_of (65 + i)
      else if i < 52 then char_of (71 + i)
      else if i < 62 then char_of (i - 4)
      else if i = 62 then CHR ''+'' else CHR ''/'')"

definition b64_val :: "char \<Rightarrow> nat option" where
  "b64_val c = (let n = (of_char c :: nat) in
     if 65 \<le> n \<and> n \<le> 90 then Some (n - 65)
     else if 97 \<le> n \<and> n \<le> 122 then Some (n - 71)
     else if 48 \<le> n \<and> n \<le> 57 then Some (n + 4)
     else if n = 43 then Some 62
     else if n = 47 then Some 63
     else None)"

subsection \<open>Encoding and decoding\<close>

text \<open>Three bytes are four six-bit groups.\<close>

fun sextets :: "nat list \<Rightarrow> nat list" where
  "sextets [] = []"
| "sextets [x] = [x div 4, x mod 4 * 16]"
| "sextets [x, y] = [x div 4, x mod 4 * 16 + y div 16, y mod 16 * 4]"
| "sextets (x # y # z # r) = [x div 4, x mod 4 * 16 + y div 16, y mod 16 * 4 + z div 64, z mod 64] @ sextets r"

fun octets :: "nat list \<Rightarrow> nat list option" where
  "octets [] = Some []"
| "octets [a] = None"
| "octets [a, b] = Some [a * 4 + b div 16]"
| "octets [a, b, c] = Some [a * 4 + b div 16, b mod 16 * 16 + c div 4]"
| "octets (a # b # c # d # r) =
     map_option (\<lambda>bs. [a * 4 + b div 16, b mod 16 * 16 + c div 4, c mod 4 * 64 + d] @ bs) (octets r)"

fun b64_vals :: "string \<Rightarrow> nat list option" where
  "b64_vals [] = Some []"
| "b64_vals (c # cs) = (case b64_val c of
     None \<Rightarrow> None
   | Some v \<Rightarrow> map_option (\<lambda>vs. v # vs) (b64_vals cs))"

definition is_newline :: "char \<Rightarrow> bool" where
  "is_newline c \<longleftrightarrow> c = CHR 0x0A \<or> c = CHR 0x0D"

definition CorruptInput :: go_error where
  "CorruptInput = ExtError ''illegal base64 data''"

definition B64Encode :: "bytes \<Rightarrow> string" where
  "B64Encode buf = map b64_char (sextets (map unat buf))"

definition B64Decode :: "string \<Rightarrow> bytes result" where
  "B64Decode str =
     (case b64_vals (filter (\<lambda>c. \<not> is_newline c) str) of
        None \<Rightarrow> Inl CorruptInput
      | Some vs \<Rightarrow> (case octets vs of None \<Rightarrow> Inl CorruptInput | Some ns \<Rightarrow> Inr (map of_nat ns)))"

definition StdEncode :: "bytes \<Rightarrow> string" where
  "StdEncode buf = (let s = B64Encode buf in s @ replicate ((4 - length s mod 4) mod 4) (CHR ''=''))"

definition StdDecode :: "string \<Rightarrow> bytes result" where
  "StdDecode str =
     (let s = filter (\<lambda>c. \<not> is_newline c) str;
          core = rev (dropWhile (\<lambda>c. c = CHR ''='') (rev s))
      in if length s mod 4 = 0 \<and> length s - length core \<le> 2 then B64Decode core else Inl CorruptInput)"

subsection \<open>Lemmas\<close>

lemma b64_val_char: "i < 64 \<Longrightarrow> b64_val (b64_char i) = Some i"
  by (auto simp: b64_val_def b64_char_def Let_def)

lemma sextets_less: "list_all (\<lambda>n. n < 256) ns \<Longrightarrow> list_all (\<lambda>n. n < 64) (sextets ns)"
  by (induction ns rule: sextets.induct) auto

lemma mul_add_div: "q < m \<Longrightarrow> (p * m + q) div m = p \<and> (p * m + q) mod m = (q :: nat)"
  by simp

lemma octets_sextets: "list_all (\<lambda>n. n < 256) ns \<Longrightarrow> octets (sextets ns) = Some ns"
proof (induction ns rule: sextets.induct)
  case (2 x)
  then show ?case by simp
next
  case (3 x y)
  then have "y div 16 < 16" by auto
  with mul_add_div [of "y div 16" 16 "x mod 4"] show ?case by simp
next
  case (4 x y z r)
  then have "y div 16 < 16" "z div 64 < 4" by auto
  with 4 mul_add_div [of "y div 16" 16 "x mod 4"] mul_add_div [of "z div 64" 4 "y mod 16"] show ?case by simp
qed simp

lemma b64_vals_map: "list_all (\<lambda>n. n < 64) vs \<Longrightarrow> b64_vals (map b64_char vs) = Some vs"
  by (induction vs) (auto simp: b64_val_char)

lemma b64_val_not_special:
  "b64_val (CHR ''.'') = None" "b64_val (CHR ''='') = None" "b64_val (CHR 0x0A) = None" "b64_val (CHR 0x0D) = None"
  by (simp_all add: b64_val_def)

lemma bytes_less: "list_all (\<lambda>n. n < 256) (map unat (buf :: bytes))"
  using unsigned_less [where ?'a = nat and ?'b = 8] by (auto simp: list_all_iff)

lemma B64Encode_alphabet: "c \<in> set (B64Encode buf) \<Longrightarrow> b64_val c \<noteq> None"
  using sextets_less [OF bytes_less, of buf] by (auto simp: B64Encode_def list_all_iff b64_val_char)

lemma B64Encode_no_special:
  "CHR ''.'' \<notin> set (B64Encode buf)" "CHR ''='' \<notin> set (B64Encode buf)"
  "\<forall>c \<in> set (B64Encode buf). \<not> is_newline c"
  using B64Encode_alphabet b64_val_not_special unfolding is_newline_def by metis+

lemma B64Decode_Encode [simp]: "B64Decode (B64Encode buf) = Inr buf"
proof -
  have "filter (\<lambda>c. \<not> is_newline c) (B64Encode buf) = B64Encode buf"
    using B64Encode_no_special(3) [of buf] by (simp add: filter_id_conv)
  moreover have "b64_vals (B64Encode buf) = Some (sextets (map unat buf))"
    unfolding B64Encode_def by (rule b64_vals_map) (rule sextets_less [OF bytes_less])
  ultimately show ?thesis
    using octets_sextets [OF bytes_less, of buf] by (simp add: B64Decode_def comp_def)
qed

lemma B64Encode_inj: "B64Encode a = B64Encode b \<Longrightarrow> a = b"
  by (metis B64Decode_Encode sum.inject(2))

lemma B64Encode_Nil [simp]: "B64Encode [] = []"
  by (simp add: B64Encode_def)

lemma B64Encode_eq_Nil [simp]: "B64Encode b = [] \<longleftrightarrow> b = []"
  using B64Encode_inj [of b "[]"] by auto

lemma length_sextets: "length (sextets ns) mod 4 \<noteq> 1"
  by (induction ns rule: sextets.induct) auto

lemma padding:
  assumes "n mod 4 \<noteq> 1"
  shows "(4 - n mod 4) mod 4 \<le> 2 \<and> (n + (4 - n mod 4) mod 4) mod 4 = (0 :: nat)"
proof -
  define m where "m = n mod 4"
  then have "m < 4" "m \<noteq> 1" using assms by simp_all
  then have "m = 0 \<or> m = 2 \<or> m = 3" by auto
  moreover have "(n + (4 - m) mod 4) mod 4 = (m + (4 - m) mod 4) mod 4"
    by (metis m_def mod_add_left_eq)
  ultimately show ?thesis unfolding m_def [symmetric] by auto
qed

lemma StdDecode_Encode [simp]: "StdDecode (StdEncode buf) = Inr buf"
proof -
  let ?s = "B64Encode buf"
  let ?k = "(4 - length ?s mod 4) mod 4"
  have f: "filter (\<lambda>c. \<not> is_newline c) (StdEncode buf) = StdEncode buf"
    using B64Encode_no_special(3) [of buf] by (auto simp: StdEncode_def Let_def filter_id_conv is_newline_def)
  have core: "rev (dropWhile (\<lambda>c. c = CHR ''='') (rev (StdEncode buf))) = ?s"
  proof -
    have "dropWhile (\<lambda>c. c = CHR ''='') (rev ?s) = rev ?s"
      using B64Encode_no_special(2) [of buf]
      unfolding dropWhile_eq_self_iff by (metis hd_in_set set_rev)
    moreover have "dropWhile (\<lambda>c. c = CHR ''='') (replicate n (CHR ''='') @ xs) = dropWhile (\<lambda>c. c = CHR ''='') xs" for n xs
      by (induction n) auto
    ultimately show ?thesis by (simp add: StdEncode_def Let_def)
  qed
  have "length ?s mod 4 \<noteq> 1" using length_sextets by (simp add: B64Encode_def)
  then have "?k \<le> 2" "(length ?s + ?k) mod 4 = 0"
    using padding [of "length ?s"] by simp_all
  moreover have "length (StdEncode buf) = length ?s + ?k" by (simp add: StdEncode_def Let_def)
  ultimately show ?thesis unfolding StdDecode_def Let_def f core by simp
qed

end
