(* ===== verification/Http_Api.thy ===== *)
theory Http_Api
  imports Json_Codec Go_Base64
begin

text \<open>
  HTTP as the handlers see it, and CFSSL's \<^verbatim>\<open>api\<close> package (\<^verbatim>\<open>vendor/.../cfssl/api/api.go\<close>): the
  method check, the JSON responses and the translation of errors to status codes; also
  \<^verbatim>\<open>cli/server/errors.go\<close> and the debug print of \<^verbatim>\<open>util.go\<close> that rewinds the body.

  A request is its method, the two headers the server uses, and a body: the bytes that can be
  read, and the error reading ends with, if any.  A handler returns the response it wrote, or an
  error; a panic ends the request without a response.
\<close>

record HttpRequest =
  hr_Method :: string
  hr_Authorization :: string
  hr_Eid :: string
  hr_Body :: string
  hr_ReadErr :: "go_error option"

record HttpResponse =
  hp_Status :: int
  hp_Body :: string

type_synonym 's handler = "HttpRequest \<Rightarrow> 's \<Rightarrow> HttpResponse result \<times> 's"

definition ReadAll :: "HttpRequest \<Rightarrow> string result" where
  "ReadAll r = (case hr_ReadErr r of Some e \<Rightarrow> Inl e | None \<Rightarrow> Inr (hr_Body r))"

text \<open>
  \<^verbatim>\<open>util.HTTPRequestToString\<close> reads the body, ignores the error, and puts what it read back: after
  it, reading the body succeeds.
\<close>

definition HTTPRequestToString :: "HttpRequest \<Rightarrow> HttpRequest" where
  "HTTPRequestToString r = r\<lparr>hr_ReadErr := None\<rparr>"

text \<open>\<^verbatim>\<open>Request.BasicAuth\<close> of Go 1.7: the prefix is compared with its case.\<close>

definition BasicAuth :: "HttpRequest \<Rightarrow> (string \<times> string) option" where
  "BasicAuth r =
     (let auth = hr_Authorization r in
      if \<not> HasPrefix auth ''Basic '' then None
      else (case StdDecode (drop 6 auth) of
              Inl _ \<Rightarrow> None
            | Inr c \<Rightarrow>
                let cs = string_of c in
                if CHR '':'' \<notin> set cs then None
                else Some (takeWhile (\<lambda>x. x \<noteq> CHR '':'') cs, drop 1 (dropWhile (\<lambda>x. x \<noteq> CHR '':'') cs))))"

definition SetBasicAuth :: "string \<Rightarrow> string \<Rightarrow> HttpRequest \<Rightarrow> HttpRequest" where
  "SetBasicAuth user pass r = r\<lparr>hr_Authorization := ''Basic '' @ StdEncode (bytes_of (user @ '':'' @ pass))\<rparr>"

subsection \<open>Responses\<close>

definition NewErrorResponse :: "string \<Rightarrow> int \<Rightarrow> json" where
  "NewErrorResponse message code = JObj
     [(''success'', JBool False), (''result'', JNull),
      (''errors'', JArr [JObj [(''code'', JNum (Itoa code)), (''message'', JStr message)]]), (''messages'', JArr [])]"

definition NewSuccessResponse :: "json \<Rightarrow> json" where
  "NewSuccessResponse result = JObj
     [(''success'', JBool True), (''result'', result), (''errors'', JArr []), (''messages'', JArr [])]"

definition http_Error :: "string \<Rightarrow> int \<Rightarrow> HttpResponse" where
  "http_Error msg code = \<lparr>hp_Status = code, hp_Body = msg @ [CHR 0x0A]\<rparr>"

definition SendResponse :: "json \<Rightarrow> HttpResponse" where
  "SendResponse result = \<lparr>hp_Status = 200, hp_Body = json_print (NewSuccessResponse result) @ [CHR 0x0A]\<rparr>"

text \<open>A byte slice is base64 text in JSON.\<close>

definition json_bytes :: "bytes \<Rightarrow> json" where
  "json_bytes b = JStr (StdEncode b)"

definition HandleError :: "go_error \<Rightarrow> HttpResponse" where
  "HandleError err =
     (let (httpCode, code, msg) = (case err of
            HTTPError sc e \<Rightarrow> (sc, sc, Error err)
          | CFSSLError c m \<Rightarrow> (400, c, m)
          | _ \<Rightarrow> (500, 0, Error err))
      in http_Error (json_print (NewErrorResponse msg code)) httpCode)"

definition HTTPHandler_ServeHTTP :: "string list \<Rightarrow> 's handler \<Rightarrow> HttpRequest \<Rightarrow> 's \<Rightarrow> HttpResponse option \<times> 's" where
  "HTTPHandler_ServeHTTP methods handle r s =
     (case (if hr_Method r \<in> set methods then handle r s
            else (Inl (HTTPError 405 (ErrorString (''Method is not allowed:'' @ [CHR 0x22] @ hr_Method r @ [CHR 0x22]))), s)) of
        (Inl (GoPanic _), s) \<Rightarrow> (None, s)
      | (Inl e, s) \<Rightarrow> (Some (HandleError e), s)
      | (Inr resp, s) \<Rightarrow> (Some resp, s))"

subsection \<open>cli/server/errors.go\<close>

definition httpError :: "int \<Rightarrow> int \<Rightarrow> string \<Rightarrow> HttpResponse" where
  "httpError scode code msg = http_Error (json_print (NewErrorResponse msg code)) scode"

definition badRequest :: "go_error \<Rightarrow> HttpResponse" where
  "badRequest err = httpError 400 (code_num IOError) (Error err)"

definition authErr :: "go_error \<Rightarrow> HttpResponse" where
  "authErr err = httpError 401 (code_num AuthorizationFailure) (Error err)"

definition notFound :: "go_error \<Rightarrow> HttpResponse" where
  "notFound err = httpError 404 200 (Error err)"

definition dbErr :: "go_error \<Rightarrow> HttpResponse" where
  "dbErr err = httpError 500 (code_num IOError) (Error err)"

subsection \<open>Lemmas\<close>

text \<open>A user name without a colon is read back from the header it was put into.\<close>

lemma BasicAuth_Set:
  assumes "CHR '':'' \<notin> set user"
  shows "BasicAuth (SetBasicAuth user pass r) = Some (user, pass)"
proof -
  have "takeWhile (\<lambda>x. x \<noteq> CHR '':'') (user @ '':'' @ pass) = user"
    "dropWhile (\<lambda>x. x \<noteq> CHR '':'') (user @ '':'' @ pass) = '':'' @ pass"
    using assms by (auto simp: takeWhile_append dropWhile_append)
  then show ?thesis by (simp add: BasicAuth_def SetBasicAuth_def Let_def HasPrefix_def)
qed

lemma error_statuses:
  "hp_Status (badRequest e) = 400" "hp_Status (authErr e) = 401" "hp_Status (notFound e) = 404"
  "hp_Status (dbErr e) = 500" "hp_Status (SendResponse j) = 200"
  by (simp_all add: badRequest_def authErr_def notFound_def dbErr_def httpError_def http_Error_def SendResponse_def)

end
