(* ===== verification/X509_Env.thy ===== *)
theory X509_Env
  imports Idp_Types
begin

text \<open>
  What the program uses of certificates.  Decoding PEM and parsing X.509 are the packages
  \<^verbatim>\<open>encoding/pem\<close> and \<^verbatim>\<open>crypto/x509\<close>; they are parameters here, collected in the record
  \<open>x509_env\<close>.  A parsed certificate is the record of the fields the program reads.  The helpers of
  \<^verbatim>\<open>util/util.go\<close> that only combine the two follow.
\<close>

datatype PublicKey =
    RSA_PublicKey string
  | ECDSA_PublicKey string
  | Other_PublicKey string

record Certificate =
  x_CommonName :: string
  x_SerialNumber :: int
  x_AuthorityKeyId :: bytes
  x_PublicKey :: PublicKey
  x_NotBefore :: int
  x_NotAfter :: int
  x_CRLDistributionPoints :: "string list"
  x_Raw :: bytes

record x509_env =
  pem_Decode :: "bytes \<Rightarrow> bytes option"
  x509_ParseCertificate :: "bytes \<Rightarrow> Certificate result"

definition GetX509CertificateFromPEM :: "x509_env \<Rightarrow> bytes \<Rightarrow> Certificate result" where
  "GetX509CertificateFromPEM E cert = (case pem_Decode E cert of
     None \<Rightarrow> Inl (ErrorString ''Failed to PEM decode certificate'')
   | Some der \<Rightarrow> (case x509_ParseCertificate E der of
       Inl err \<Rightarrow> Inl (ErrorString (''Error from x509.ParseCertificate: '' @ Error err))
     | Inr c \<Rightarrow> Inr c))"

definition GetEnrollmentIDFromX509Certificate :: "Certificate \<Rightarrow> string" where
  "GetEnrollmentIDFromX509Certificate cert = x_CommonName cert"

definition GetEnrollmentIDFromPEM :: "x509_env \<Rightarrow> bytes \<Rightarrow> string result" where
  "GetEnrollmentIDFromPEM E cert = (case GetX509CertificateFromPEM E cert of
     Inl err \<Rightarrow> Inl err
   | Inr c \<Rightarrow> Inr (GetEnrollmentIDFromX509Certificate c))"

end
