(* ===== verification/Auth_Token.thy ===== *)
theory Auth_Token
  imports Go_Base64 X509_Env
begin

text \<open>
  Authorization tokens: \<^verbatim>\<open>CreateToken\<close>, \<^verbatim>\<open>VerifyToken\<close>, \<^verbatim>\<open>DecodeToken\<close> and the key readers of
  \<^verbatim>\<open>util/util.go\<close>.  A token is the base64 text of a PEM certificate, a dot, and the base64 text of
  a signature over the base64 text of the request body, a dot, and the certificate part.

  Hashing, signing, verifying and ASN.1 are Go's crypto packages, parameters of the model in the
  record \<open>sig_env\<close>.  \<open>sig_correct\<close> states what the program relies on: a signature made with a
  private key verifies with its public key, and an ASN.1 pair that was marshalled is read back.
\<close>

record sig_env =
  se_x509 :: x509_env
  x509_ParseECPrivateKey :: "bytes \<Rightarrow> string result"
  x509_ParsePKCS1PrivateKey :: "bytes \<Rightarrow> string result"
  sha384 :: "bytes \<Rightarrow> bytes"
  rsa_SignPKCS1v15 :: "string \<Rightarrow> bytes \<Rightarrow> bytes result"
  rsa_VerifyPKCS1v15 :: "string \<Rightarrow> bytes \<Rightarrow> bytes \<Rightarrow> go_error option"
  ecdsa_Sign :: "string \<Rightarrow> bytes \<Rightarrow> (int \<times> int) result"
  ecdsa_Verify :: "string \<Rightarrow> bytes \<Rightarrow> int \<Rightarrow> int \<Rightarrow> bool"
  asn1_Marshal :: "int \<times> int \<Rightarrow> bytes result"
  asn1_Unmarshal :: "bytes \<Rightarrow> (int \<times> int) result"
  rsa_pair :: "string \<Rightarrow> string \<Rightarrow> bool"
  ecdsa_pair :: "string \<Rightarrow> string \<Rightarrow> bool"

definition sig_correct :: "sig_env \<Rightarrow> bool" where
  "sig_correct E \<longleftrightarrow>
     (\<forall>pub priv h sig. rsa_pair E pub priv \<longrightarrow> rsa_SignPKCS1v15 E priv h = Inr sig \<longrightarrow>
        rsa_VerifyPKCS1v15 E pub h sig = None) \<and>
     (\<forall>pub priv h r s. ecdsa_pair E pub priv \<longrightarrow> ecdsa_Sign E priv h = Inr (r, s) \<longrightarrow> ecdsa_Verify E pub h r s) \<and>
     (\<forall>p b. asn1_Marshal E p = Inr b \<longrightarrow> asn1_Unmarshal E b = Inr p)"

subsection \<open>Keys\<close>

definition GetECPrivateKey :: "sig_env \<Rightarrow> bytes \<Rightarrow> string result" where
  "GetECPrivateKey E raw = (case pem_Decode (se_x509 E) raw of
     None \<Rightarrow> Inl (ErrorString ''Failed to decode the given PEM-encoded ECDSA key'')
   | Some der \<Rightarrow> (case x509_ParseECPrivateKey E der of
       Inl err \<Rightarrow> Inl (ErrorString (''x509.ParseECPrivateKey failed: '' @ Error err))
     | Inr k \<Rightarrow> Inr k))"

definition GetRSAPrivateKey :: "sig_env \<Rightarrow> bytes \<Rightarrow> string result" where
  "GetRSAPrivateKey E raw = (case pem_Decode (se_x509 E) raw of
     None \<Rightarrow> Inl (ErrorString ''Failed to decode the given PEM-encoded RSA key'')
   | Some der \<Rightarrow> (case x509_ParsePKCS1PrivateKey E der of
       Inl err \<Rightarrow> Inl (ErrorString (''Failure in x509.ParsePKCS1PrivateKey: '' @ Error err))
     | Inr k \<Rightarrow> Inr k))"

subsection \<open>Making tokens\<close>

definition GenRSAToken :: "sig_env \<Rightarrow> bytes \<Rightarrow> bytes \<Rightarrow> bytes \<Rightarrow> string result" where
  "GenRSAToken E cert key body = (case GetRSAPrivateKey E key of
     Inl err \<Rightarrow> Inl err
   | Inr privKey \<Rightarrow>
       let b64body = B64Encode body;
           b64cert = B64Encode cert;
           bodyAndcert = b64body @ ''.'' @ b64cert;
           h = sha384 E (bytes_of bodyAndcert)
       in (case rsa_SignPKCS1v15 E privKey h of
             Inl err \<Rightarrow> Inl (ErrorString (''Error from rsa.SignPKCS1v15: '' @ Error err))
           | Inr sig \<Rightarrow> Inr (b64cert @ ''.'' @ B64Encode sig)))"

definition GenECDSAToken :: "sig_env \<Rightarrow> bytes \<Rightarrow> bytes \<Rightarrow> bytes \<Rightarrow> string result" where
  "GenECDSAToken E cert key body = (case GetECPrivateKey E key of
     Inl err \<Rightarrow> Inl err
   | Inr privKey \<Rightarrow>
       let b64body = B64Encode body;
           b64cert = B64Encode cert;
           bodyAndcert = b64body @ ''.'' @ b64cert;
           h = sha384 E (bytes_of bodyAndcert)
       in (case ecdsa_Sign E privKey h of
             Inl err \<Rightarrow> Inl (ErrorString (''Failed in ecdsa.Sign: '' @ Error err))
           | Inr rs \<Rightarrow> (case asn1_Marshal E rs of
               Inl err \<Rightarrow> Inl (ErrorString (''Failed in asn1.Marshal: '' @ Error err))
             | Inr sig \<Rightarrow> Inr (b64cert @ ''.'' @ B64Encode sig))))"

text \<open>The \<^verbatim>\<open>switch\<close> has no default: for another kind of key the token is the empty string.\<close>

definition CreateToken :: "sig_env \<Rightarrow> bytes \<Rightarrow> bytes \<Rightarrow> bytes \<Rightarrow> string result" where
  "CreateToken E cert key body = (case GetX509CertificateFromPEM (se_x509 E) cert of
     Inl err \<Rightarrow> Inl err
   | Inr c \<Rightarrow> (case x_PublicKey c of
       RSA_PublicKey _ \<Rightarrow> GenRSAToken E cert key body
     | ECDSA_PublicKey _ \<Rightarrow> GenECDSAToken E cert key body
     | Other_PublicKey _ \<Rightarrow> Inr []))"

subsection \<open>Checking tokens\<close>

definition DecodeToken :: "sig_env \<Rightarrow> string \<Rightarrow> (Certificate \<times> string \<times> string) result" where
  "DecodeToken E token =
     (if token = [] then Inl (ErrorString ''Invalid token; it is empty'')
      else let parts = Split token (CHR ''.'') in
        if length parts \<noteq> 2
        then Inl (ErrorString (''Invalid token format; expecting 2 parts separated by '' @ [CHR 0x27] @ ''.'' @ [CHR 0x27]))
        else let b64cert = parts ! 0 in
          (case B64Decode b64cert of
             Inl err \<Rightarrow> Inl (ErrorString (''Failed to decode base64 encoded x509 cert: '' @ Error err))
           | Inr certDecoded \<Rightarrow> (case pem_Decode (se_x509 E) certDecoded of
               None \<Rightarrow> Inl (ErrorString ''Failed to PEM decode the certificate'')
             | Some der \<Rightarrow> (case x509_ParseCertificate (se_x509 E) der of
                 Inl err \<Rightarrow> Inl (ErrorString (''Error in parsing x509 cert given Block Bytes: '' @ Error err))
               | Inr c \<Rightarrow> Inr (c, b64cert, parts ! 1)))))"

definition VerifyToken :: "sig_env \<Rightarrow> string \<Rightarrow> bytes \<Rightarrow> Certificate result" where
  "VerifyToken E token body = (case DecodeToken E token of
     Inl err \<Rightarrow> Inl err
   | Inr (x509Cert, b64Cert, b64Sig) \<Rightarrow> (case B64Decode b64Sig of
       Inl err \<Rightarrow> Inl (ErrorString (''Invalid base64 encoded signature in token: '' @ Error err))
     | Inr sig \<Rightarrow>
         let b64Body = B64Encode body;
             sigString = b64Body @ ''.'' @ b64Cert;
             h = sha384 E (bytes_of sigString)
         in (case x_PublicKey x509Cert of
               RSA_PublicKey pub \<Rightarrow> (case rsa_VerifyPKCS1v15 E pub h sig of
                 Some err \<Rightarrow> Inl err
               | None \<Rightarrow> Inr x509Cert)
             | ECDSA_PublicKey pub \<Rightarrow> (case asn1_Unmarshal E sig of
                 Inl err \<Rightarrow> Inl (ErrorString (''Failed to unmarshal EC signature to R and S: '' @ Error err))
               | Inr (r, s) \<Rightarrow>
                   if \<not> ecdsa_Verify E pub h r s
                   then Inl (ErrorString ''token verification failed (ecdsa.Verify failed)'')
                   else Inr x509Cert)
             | Other_PublicKey _ \<Rightarrow> Inr x509Cert)))"

subsection \<open>Lemmas\<close>

definition signed_text :: "bytes \<Rightarrow> string \<Rightarrow> string" where
  "signed_text body b64cert = B64Encode body @ ''.'' @ b64cert"

lemma signed_text_inj:
  assumes "signed_text a s = signed_text b t"
  shows "a = b \<and> s = t"
proof -
  have "Split (signed_text a s) (CHR ''.'') = B64Encode a # Split s (CHR ''.'')"
    "Split (signed_text b t) (CHR ''.'') = B64Encode b # Split t (CHR ''.'')"
    using B64Encode_no_special(1) by (simp_all add: signed_text_def Split_append_sep)
  with assms have "B64Encode a = B64Encode b" "Split s (CHR ''.'') = Split t (CHR ''.'')" by auto
  then show ?thesis using B64Encode_inj Join_Split by metis
qed

lemma DecodeToken_make:
  assumes "GetX509CertificateFromPEM (se_x509 E) cert = Inr c"
  shows "DecodeToken E (B64Encode cert @ ''.'' @ B64Encode sig) = Inr (c, B64Encode cert, B64Encode sig)"
proof -
  have "Split (B64Encode cert @ ''.'' @ B64Encode sig) (CHR ''.'') = [B64Encode cert, B64Encode sig]"
    using B64Encode_no_special(1) by (simp add: Split_append_sep Split_no_sep)
  with assms show ?thesis
    by (auto simp: DecodeToken_def GetX509CertificateFromPEM_def Let_def split: option.splits sum.splits)
qed

definition key_matches :: "sig_env \<Rightarrow> Certificate \<Rightarrow> bytes \<Rightarrow> bool" where
  "key_matches E c key = (case x_PublicKey c of
     RSA_PublicKey pub \<Rightarrow> (case GetRSAPrivateKey E key of Inr priv \<Rightarrow> rsa_pair E pub priv | Inl _ \<Rightarrow> False)
   | ECDSA_PublicKey pub \<Rightarrow> (case GetECPrivateKey E key of Inr priv \<Rightarrow> ecdsa_pair E pub priv | Inl _ \<Rightarrow> False)
   | Other_PublicKey _ \<Rightarrow> False)"

lemma CreateToken_verifies:
  assumes "sig_correct E" "GetX509CertificateFromPEM (se_x509 E) cert = Inr c" "key_matches E c key"
    and "CreateToken E cert key body = Inr token"
  shows "VerifyToken E token body = Inr c"
proof (cases "x_PublicKey c")
  case (RSA_PublicKey pub)
  with assms obtain priv sig where p: "GetRSAPrivateKey E key = Inr priv" "rsa_pair E pub priv"
    "rsa_SignPKCS1v15 E priv (sha384 E (bytes_of (B64Encode body @ ''.'' @ B64Encode cert))) = Inr sig"
    "token = B64Encode cert @ ''.'' @ B64Encode sig"
    by (auto simp: CreateToken_def GenRSAToken_def key_matches_def Let_def split: sum.splits)
  with assms(1) have "rsa_VerifyPKCS1v15 E pub (sha384 E (bytes_of (B64Encode body @ ''.'' @ B64Encode cert))) sig = None"
    by (auto simp: sig_correct_def)
  with p RSA_PublicKey DecodeToken_make [OF assms(2), of sig] show ?thesis by (simp add: VerifyToken_def Let_def)
next
  case (ECDSA_PublicKey pub)
  with assms obtain priv r s sig where p: "GetECPrivateKey E key = Inr priv" "ecdsa_pair E pub priv"
    "ecdsa_Sign E priv (sha384 E (bytes_of (B64Encode body @ ''.'' @ B64Encode cert))) = Inr (r, s)"
    "asn1_Marshal E (r, s) = Inr sig" "token = B64Encode cert @ ''.'' @ B64Encode sig"
    by (auto simp: CreateToken_def GenECDSAToken_def key_matches_def Let_def split: sum.splits)
  with assms(1) have "ecdsa_Verify E pub (sha384 E (bytes_of (B64Encode body @ ''.'' @ B64Encode cert))) r s"
    "asn1_Unmarshal E sig = Inr (r, s)"
    unfolding sig_correct_def by blast+
  with p ECDSA_PublicKey DecodeToken_make [OF assms(2), of sig] show ?thesis by (simp add: VerifyToken_def Let_def)
next
  case (Other_PublicKey pub)
  with assms(3) show ?thesis by (simp add: key_matches_def)
qed

text \<open>
  C8. A token made for a request verifies for that request: when \<^verbatim>\<open>CreateToken\<close> succeeds with the
  private key of an RSA or ECDSA certificate, \<^verbatim>\<open>VerifyToken\<close> on the same body accepts the token and
  returns that certificate.
\<close>

theorem token_roundtrip:
  assumes "sig_correct E" "GetX509CertificateFromPEM (se_x509 E) cert = Inr c" "key_matches E c key"
    and "CreateToken E cert key body = Inr token"
  shows "VerifyToken E token body = Inr c"
  using assms by (rule CreateToken_verifies)

text \<open>
  A small signature scheme for the concrete checks: a signature is the hash itself, and a key is
  the text of its PEM block.
\<close>

definition demo_sig :: sig_env where
  "demo_sig = \<lparr>se_x509 = \<lparr>pem_Decode = Some, x509_ParseCertificate = (\<lambda>b. Inr
       \<lparr>x_CommonName = string_of b, x_SerialNumber = 1, x_AuthorityKeyId = [], x_PublicKey = RSA_PublicKey (string_of b),
        x_NotBefore = 0, x_NotAfter = 100, x_CRLDistributionPoints = [], x_Raw = b\<rparr>)\<rparr>,
     x509_ParseECPrivateKey = (\<lambda>b. Inr (string_of b)), x509_ParsePKCS1PrivateKey = (\<lambda>b. Inr (string_of b)),
     sha384 = (\<lambda>b. b), rsa_SignPKCS1v15 = (\<lambda>k h. Inr (bytes_of k @ h)),
     rsa_VerifyPKCS1v15 = (\<lambda>k h sig. if sig = bytes_of k @ h then None else Some (ExtError ''crypto/rsa: verification error'')),
     ecdsa_Sign = (\<lambda>k h. Inr (int (length k), int (length h))),
     ecdsa_Verify = (\<lambda>k h r s. r = int (length k) \<and> s = int (length h)),
     asn1_Marshal = (\<lambda>(r, s). if r \<ge> 0 \<and> s \<ge> 0 then Inr (replicate (nat r) 1 @ replicate (nat s) 0)
       else Inl (ExtError ''asn1: structure error'')),
     asn1_Unmarshal = (\<lambda>b. Inr (int (length (filter (\<lambda>w. w = 1) b)), int (length (filter (\<lambda>w. w = 0) b)))),
     rsa_pair = (=), ecdsa_pair = (=)\<rparr>"

lemma demo_sig_correct: "sig_correct demo_sig"
  by (simp add: sig_correct_def demo_sig_def)

definition demo_token :: "string \<Rightarrow> string \<Rightarrow> string" where
  "demo_token k body = B64Encode (bytes_of k) @ ''.'' @
     B64Encode (bytes_of k @ bytes_of (B64Encode (bytes_of body) @ ''.'' @ B64Encode (bytes_of k)))"

lemma demo_token_make: "CreateToken demo_sig (bytes_of k) (bytes_of k) (bytes_of body) = Inr (demo_token k body)"
  by (simp add: CreateToken_def GetX509CertificateFromPEM_def demo_sig_def GenRSAToken_def GetRSAPrivateKey_def
      Let_def demo_token_def)

definition demo_x :: "string \<Rightarrow> Certificate" where
  "demo_x k = \<lparr>x_CommonName = k, x_SerialNumber = 1, x_AuthorityKeyId = [], x_PublicKey = RSA_PublicKey k,
     x_NotBefore = 0, x_NotAfter = 100, x_CRLDistributionPoints = [], x_Raw = bytes_of k\<rparr>"

lemma demo_x_parse: "GetX509CertificateFromPEM (se_x509 demo_sig) (bytes_of k) = Inr (demo_x k)"
  by (simp add: GetX509CertificateFromPEM_def demo_sig_def demo_x_def)

lemma demo_token_verify: "VerifyToken demo_sig (demo_token k body) (bytes_of body) = Inr (demo_x k)"
  using DecodeToken_make [OF demo_x_parse, of k]
  by (simp add: VerifyToken_def demo_token_def Let_def) (simp add: demo_sig_def demo_x_def)

theorem token_roundtrip_witness:
  "VerifyToken demo_sig (demo_token ''alice'' ''{}'') (bytes_of ''{}'') = Inr (demo_x ''alice'')"
  by (rule token_roundtrip [OF demo_sig_correct demo_x_parse _ demo_token_make])
    (simp add: demo_x_def key_matches_def GetRSAPrivateKey_def demo_sig_def)

text \<open>
  C9. What an accepted token proves, for RSA and ECDSA keys: it consists of exactly two parts; the
  first decodes to the returned certificate; the second decodes to a signature that verifies under
  the certificate's key on the hash of body and certificate part.  And that hashed text determines
  both: a token for another body or another certificate signs another text.
\<close>

theorem VerifyToken_sound:
  assumes "VerifyToken E token body = Inr c"
  shows "\<exists>b64cert b64sig der sig. token = b64cert @ ''.'' @ b64sig \<and> CHR ''.'' \<notin> set b64cert \<and> CHR ''.'' \<notin> set b64sig \<and>
    B64Decode b64cert = Inr der \<and> GetX509CertificateFromPEM (se_x509 E) der = Inr c \<and> B64Decode b64sig = Inr sig \<and>
    (\<forall>pub. x_PublicKey c = RSA_PublicKey pub \<longrightarrow>
       rsa_VerifyPKCS1v15 E pub (sha384 E (bytes_of (signed_text body b64cert))) sig = None) \<and>
    (\<forall>pub. x_PublicKey c = ECDSA_PublicKey pub \<longrightarrow>
       (\<exists>r s. asn1_Unmarshal E sig = Inr (r, s) \<and> ecdsa_Verify E pub (sha384 E (bytes_of (signed_text body b64cert))) r s)) \<and>
    (\<forall>body' b64cert'. bytes_of (signed_text body' b64cert') = bytes_of (signed_text body b64cert) \<longrightarrow>
       body' = body \<and> b64cert' = b64cert)"
proof -
  obtain c' b64cert b64sig sig where d: "DecodeToken E token = Inr (c', b64cert, b64sig)" "B64Decode b64sig = Inr sig"
    using assms by (auto simp: VerifyToken_def split: sum.splits)
  define parts where "parts = Split token (CHR ''.'')"
  have p: "length parts = 2" "parts ! 0 = b64cert" "parts ! 1 = b64sig"
    using d(1) by (auto simp: DecodeToken_def Let_def parts_def split: if_splits sum.splits option.splits)
  then have parts: "parts = [b64cert, b64sig]" by (auto simp: length_Suc_conv numeral_2_eq_2)
  have tok: "token = b64cert @ ''.'' @ b64sig"
    using Join_Split [of token "CHR ''.''"] parts unfolding parts_def by simp
  have nodot: "CHR ''.'' \<notin> set b64cert" "CHR ''.'' \<notin> set b64sig"
    using Split_parts [of _ token "CHR ''.''"] parts unfolding parts_def by auto
  obtain der where der: "B64Decode b64cert = Inr der" "GetX509CertificateFromPEM (se_x509 E) der = Inr c'"
    using d(1) p unfolding parts_def
    by (auto simp: DecodeToken_def GetX509CertificateFromPEM_def Let_def split: if_splits sum.splits option.splits)
  have "c' = c" and v: "x_PublicKey c = RSA_PublicKey pub \<Longrightarrow>
       rsa_VerifyPKCS1v15 E pub (sha384 E (bytes_of (signed_text body b64cert))) sig = None"
    "x_PublicKey c = ECDSA_PublicKey pub \<Longrightarrow>
       (\<exists>r s. asn1_Unmarshal E sig = Inr (r, s) \<and> ecdsa_Verify E pub (sha384 E (bytes_of (signed_text body b64cert))) r s)" for pub
    using assms d by (auto simp: VerifyToken_def Let_def signed_text_def
        split: PublicKey.splits option.splits sum.splits if_splits)
  moreover have "body' = body \<and> b64cert' = b64cert"
    if "bytes_of (signed_text body' b64cert') = bytes_of (signed_text body b64cert)" for body' b64cert'
    using signed_text_inj [OF bytes_of_inj [OF that]] .
  ultimately show ?thesis using tok nodot der d(2)
    by (intro exI [of _ b64cert] exI [of _ b64sig] exI [of _ der] exI [of _ sig]) auto
qed

theorem VerifyToken_sound_witness:
  "\<exists>b64cert b64sig. demo_token ''alice'' ''{}'' = b64cert @ ''.'' @ b64sig \<and> CHR ''.'' \<notin> set b64cert"
  using VerifyToken_sound [OF demo_token_verify [of "''alice''" "''{}''"]] by blast

text \<open>
  C34. Keys of another kind are not checked at all: a certificate whose public key is neither RSA nor
  ECDSA (a DSA key, for example) is accepted with any signature over any body.
\<close>

theorem VerifyToken_other_key:
  assumes "GetX509CertificateFromPEM (se_x509 E) cert = Inr c" "x_PublicKey c = Other_PublicKey k"
  shows "VerifyToken E (B64Encode cert @ ''.'' @ B64Encode sig) body = Inr c"
  using assms DecodeToken_make [OF assms(1), of sig] by (simp add: VerifyToken_def Let_def)

definition demo_dsa :: sig_env where
  "demo_dsa = demo_sig\<lparr>se_x509 := \<lparr>pem_Decode = Some, x509_ParseCertificate = (\<lambda>b. Inr
       \<lparr>x_CommonName = string_of b, x_SerialNumber = 1, x_AuthorityKeyId = [], x_PublicKey = Other_PublicKey ''dsa'',
        x_NotBefore = 0, x_NotAfter = 100, x_CRLDistributionPoints = [], x_Raw = b\<rparr>)\<rparr>\<rparr>"

theorem VerifyToken_other_key_witness:
  "\<exists>c. VerifyToken demo_dsa (B64Encode (bytes_of ''admin'') @ ''.'' @ B64Encode []) (bytes_of ''{}'') = Inr c \<and>
     x_CommonName c = ''admin''"
proof -
  obtain c where "GetX509CertificateFromPEM (se_x509 demo_dsa) (bytes_of ''admin'') = Inr c"
    "x_PublicKey c = Other_PublicKey ''dsa''" "x_CommonName c = ''admin''"
    by (simp add: GetX509CertificateFromPEM_def demo_dsa_def)
  with VerifyToken_other_key show ?thesis by blast
qed

end
