(* ===== verification/Cert_Accessor.thy ===== *)
theory Cert_Accessor
  imports User_Accessor X509_Env
begin

text \<open>
  The certificate database: \<^verbatim>\<open>cli/server/certdbaccessor.go\<close>, and CFSSL's accessor
  (\<^verbatim>\<open>vendor/.../cfssl/certdb/sql/database_accessor.go\<close>) to which it forwards.  Both tables have
  the primary key \<^verbatim>\<open>(serial_number, authority_key_identifier)\<close>.  The operations are written on a
  database handle; the last section wraps them in the \<^verbatim>\<open>CertDBAccessor\<close> object, which holds two
  pointers.

  The database this program creates has no table \<^verbatim>\<open>ocsp_responses\<close>; it is an option in the model.
\<close>

subsection \<open>The statements\<close>

definition cert_key :: "CertRecord \<Rightarrow> string \<times> string" where
  "cert_key c = (cr_Serial c, cr_AKI c)"

definition insertCert_sql :: "CertRecord \<Rightarrow> sqldb \<Rightarrow> go_error + nat \<times> sqldb" where
  "insertCert_sql c d =
     (if cert_key c \<in> cert_key ` set (certificates d) then Inl (ExtError ''UNIQUE constraint failed'')
      else Inr (1, d\<lparr>certificates := certificates d @ [c]\<rparr>))"

definition revoke_row :: "int \<Rightarrow> int \<Rightarrow> CertRecord \<Rightarrow> CertRecord" where
  "revoke_row now reason c = c\<lparr>cr_Status := ''revoked'', cr_RevokedAt := now, cr_Reason := reason\<rparr>"

definition update_certs_sql :: "(CertRecord \<Rightarrow> bool) \<Rightarrow> int \<Rightarrow> sqldb \<Rightarrow> go_error + nat \<times> sqldb" where
  "update_certs_sql p reason d =
     Inr (affected (driver d) p (revoke_row (clock d) reason) (certificates d),
          d\<lparr>certificates := update_rows p (revoke_row (clock d) reason) (certificates d)\<rparr>)"

definition by_serial :: "string \<Rightarrow> string \<Rightarrow> CertRecord \<Rightarrow> bool" where
  "by_serial serial akid c \<longleftrightarrow> cr_Serial c = serial \<and> cr_AKI c = akid"

definition by_id_good :: "string \<Rightarrow> CertRecord \<Rightarrow> bool" where
  "by_id_good uid c \<longleftrightarrow> cr_ID c = uid \<and> cr_Status c \<noteq> ''revoked''"

definition select_certs :: "(sqldb \<Rightarrow> CertRecord \<Rightarrow> bool) \<Rightarrow> sqldb \<Rightarrow> go_error + CertRecord list" where
  "select_certs p d = Inr (filter (p d) (certificates d))"

definition no_ocsp :: go_error where
  "no_ocsp = ExtError ''no such table: ocsp_responses''"

definition insertOCSP_sql :: "OCSPRecord \<Rightarrow> sqldb \<Rightarrow> go_error + nat \<times> sqldb" where
  "insertOCSP_sql r d = (case ocsp_responses d of
     None \<Rightarrow> Inl no_ocsp
   | Some rs \<Rightarrow>
       if (oc_Serial r, oc_AKI r) \<in> (\<lambda>x. (oc_Serial x, oc_AKI x)) ` set rs
       then Inl (ExtError ''UNIQUE constraint failed'')
       else Inr (1, d\<lparr>ocsp_responses := Some (rs @ [r])\<rparr>))"

definition updateOCSP_sql :: "OCSPRecord \<Rightarrow> sqldb \<Rightarrow> go_error + nat \<times> sqldb" where
  "updateOCSP_sql r d = (case ocsp_responses d of
     None \<Rightarrow> Inl no_ocsp
   | Some rs \<Rightarrow>
       let p = (\<lambda>x. oc_Serial x = oc_Serial r \<and> oc_AKI x = oc_AKI r);
           f = (\<lambda>x. x\<lparr>oc_Body := oc_Body r, oc_Expiry := oc_Expiry r\<rparr>)
       in Inr (affected (driver d) p f rs, d\<lparr>ocsp_responses := Some (update_rows p f rs)\<rparr>))"

definition select_ocsp :: "(sqldb \<Rightarrow> OCSPRecord \<Rightarrow> bool) \<Rightarrow> sqldb \<Rightarrow> go_error + OCSPRecord list" where
  "select_ocsp p d = (case ocsp_responses d of None \<Rightarrow> Inl no_ocsp | Some rs \<Rightarrow> Inr (filter (p d) rs))"

subsection \<open>CFSSL's accessor\<close>

definition CertStoreError :: int where "CertStoreError = 11000"
definition InsertionFailed :: int where "InsertionFailed = 100"
definition RecordNotFound :: int where "RecordNotFound = 200"

definition wrapSQLError :: "go_error \<Rightarrow> go_error" where
  "wrapSQLError e = CFSSLError CertStoreError (Error e)"

definition cfssl_checked :: "(sqldb \<Rightarrow> 'a result \<times> sqldb) \<Rightarrow> 'a dbm" where
  "cfssl_checked f h = (case h of
     None \<Rightarrow> (Inl (wrapSQLError (ErrorString ''unknown db object, please check SetDB method'')), h)
   | Some d \<Rightarrow> (case f d of (r, d') \<Rightarrow> (r, Some d')))"

text \<open>The common end of the writing operations: the number of rows first, then the error.\<close>

definition cfssl_rows :: "go_error \<Rightarrow> sql_result \<Rightarrow> unit result" where
  "cfssl_rows none res =
     (if rows res = 0 then Inl none
      else if rows res \<noteq> 1
      then Inl (wrapSQLError (ErrorString (Itoa (int (rows res)) @ '' rows are affected, should be 1 row'')))
      else (case rows_err res of Some e \<Rightarrow> Inl e | None \<Rightarrow> Inr ()))"

definition cfssl_GetCertificate :: "string \<Rightarrow> string \<Rightarrow> CertRecord list dbm" where
  "cfssl_GetCertificate serial akid = cfssl_checked (\<lambda>d.
     case sql_select (select_certs (\<lambda>_. by_serial serial akid)) d of
       (Inl e, d) \<Rightarrow> (Inl (wrapSQLError e), d)
     | (Inr cs, d) \<Rightarrow> (Inr cs, d))"

definition cfssl_GetUnexpiredCertificates :: "CertRecord list dbm" where
  "cfssl_GetUnexpiredCertificates = cfssl_checked (\<lambda>d.
     case sql_select (select_certs (\<lambda>d c. clock d < cr_Expiry c)) d of
       (Inl e, d) \<Rightarrow> (Inl (wrapSQLError e), d)
     | (Inr cs, d) \<Rightarrow> (Inr cs, d))"

definition cfssl_RevokeCertificate :: "string \<Rightarrow> string \<Rightarrow> int \<Rightarrow> unit dbm" where
  "cfssl_RevokeCertificate serial akid reasonCode = cfssl_checked (\<lambda>d.
     case sql_exec (update_certs_sql (by_serial serial akid) reasonCode) d of
       (Inl e, d) \<Rightarrow> (Inl (wrapSQLError e), d)
     | (Inr res, d) \<Rightarrow>
         (cfssl_rows (CFSSLError (CertStoreError + RecordNotFound)
            ''failed to revoke the certificate: certificate not found'') res, d))"

definition cfssl_InsertOCSP :: "OCSPRecord \<Rightarrow> unit dbm" where
  "cfssl_InsertOCSP rr = cfssl_checked (\<lambda>d.
     case sql_exec (insertOCSP_sql rr) d of
       (Inl e, d) \<Rightarrow> (Inl (wrapSQLError e), d)
     | (Inr res, d) \<Rightarrow>
         (cfssl_rows (CFSSLError (CertStoreError + InsertionFailed) ''failed to insert the OCSP record'') res, d))"

definition cfssl_GetOCSP :: "string \<Rightarrow> string \<Rightarrow> OCSPRecord list dbm" where
  "cfssl_GetOCSP serial akid = cfssl_checked (\<lambda>d.
     case sql_select (select_ocsp (\<lambda>_ r. oc_Serial r = serial \<and> oc_AKI r = akid)) d of
       (Inl e, d) \<Rightarrow> (Inl (wrapSQLError e), d)
     | (Inr rs, d) \<Rightarrow> (Inr rs, d))"

definition cfssl_GetUnexpiredOCSPs :: "OCSPRecord list dbm" where
  "cfssl_GetUnexpiredOCSPs = cfssl_checked (\<lambda>d.
     case sql_select (select_ocsp (\<lambda>d r. clock d < oc_Expiry r)) d of
       (Inl e, d) \<Rightarrow> (Inl (wrapSQLError e), d)
     | (Inr rs, d) \<Rightarrow> (Inr rs, d))"

definition cfssl_UpdateOCSP :: "OCSPRecord \<Rightarrow> unit dbm" where
  "cfssl_UpdateOCSP rr = cfssl_checked (\<lambda>d.
     case sql_exec (updateOCSP_sql rr) d of
       (Inl e, d) \<Rightarrow> (Inl (wrapSQLError e), d)
     | (Inr res, d) \<Rightarrow>
         (cfssl_rows (CFSSLError (CertStoreError + RecordNotFound) ''failed to update the OCSP record'') res, d))"

definition cfssl_UpsertOCSP :: "OCSPRecord \<Rightarrow> unit dbm" where
  "cfssl_UpsertOCSP rr = cfssl_checked (\<lambda>d.
     case sql_exec (updateOCSP_sql rr) d of
       (Inl e, d) \<Rightarrow> (Inl (wrapSQLError e), d)
     | (Inr res, d) \<Rightarrow>
         if rows res = 0
         then (case cfssl_InsertOCSP rr (Some d) of (r, h) \<Rightarrow> (r, case h of Some d' \<Rightarrow> d' | None \<Rightarrow> d))
         else (cfssl_rows no_ocsp res, d))"

subsection \<open>The COP accessor on a handle\<close>

definition cert_checkDB :: "sqldb option \<Rightarrow> go_error option" where
  "cert_checkDB h = (if h = None then Some (ErrorString ''Error'') else None)"

definition cert_checked :: "(sqldb \<Rightarrow> 'a result \<times> sqldb) \<Rightarrow> 'a dbm" where
  "cert_checked f h = (case cert_checkDB h of
     Some e \<Rightarrow> (Inl e, h)
   | None \<Rightarrow> (case h of
       None \<Rightarrow> (Inl (GoPanic ''nil pointer dereference''), h)
     | Some d \<Rightarrow> (case f d of (r, d') \<Rightarrow> (r, Some d'))))"

definition cert_InsertCertificate :: "x509_env \<Rightarrow> CertRecord \<Rightarrow> unit dbm" where
  "cert_InsertCertificate E cr = cert_checked (\<lambda>d.
     case GetEnrollmentIDFromPEM E (bytes_of (cr_PEM cr)) of
       Inl err \<Rightarrow> (Inl err, d)
     | Inr uid \<Rightarrow>
         (case sql_exec (insertCert_sql (cr\<lparr>cr_ID := uid\<rparr>)) d of
            (Inl err, d) \<Rightarrow> (Inl err, d)
          | (Inr res, d) \<Rightarrow>
              if rows res = 0
              then (Inl (COPError (NewError (code_num DatabaseError) ''Failed to insert the certificate record'' [])), d)
              else if rows res \<noteq> 1
              then (Inl (COPError (NewError (code_num DatabaseError) ''%d rows are affected, should be 1 row'' [FInt (int (rows res))])), d)
              else (case rows_err res of Some e \<Rightarrow> (Inl e, d) | None \<Rightarrow> (Inr (), d))))"

definition cert_GetCertificatesByID :: "string \<Rightarrow> CertRecord list dbm" where
  "cert_GetCertificatesByID uid = cert_checked (\<lambda>d. sql_select (select_certs (\<lambda>_ c. cr_ID c = uid)) d)"

definition cert_RevokeCertificatesByID :: "string \<Rightarrow> int \<Rightarrow> CertRecord list dbm" where
  "cert_RevokeCertificatesByID uid reasonCode = cert_checked (\<lambda>d.
     case sql_select (select_certs (\<lambda>_. by_id_good uid)) d of
       (Inl e, d) \<Rightarrow> (Inl e, d)
     | (Inr crs, d) \<Rightarrow>
         (case sql_exec (update_certs_sql (by_id_good uid) reasonCode) d of
            (Inl e, d) \<Rightarrow> (Inl e, d)
          | (Inr _, d) \<Rightarrow> (Inr crs, d)))"

subsection \<open>The accessor object\<close>

text \<open>
  A \<^verbatim>\<open>CertDBAccessor\<close> holds a database pointer of its own and, inside CFSSL's accessor, another.
  Databases live in a store; a pointer is an address of it or nil.
\<close>

type_synonym db_ptr = "nat option"
type_synonym db_store = "nat \<rightharpoonup> sqldb"

record CertDBAccessor =
  ca_accessor :: db_ptr
  ca_db :: db_ptr

definition on_ptr :: "db_ptr \<Rightarrow> 'a dbm \<Rightarrow> db_store \<Rightarrow> 'a result \<times> db_store" where
  "on_ptr p f st = (case p of
     None \<Rightarrow> (fst (f None), st)
   | Some a \<Rightarrow> (case f (st a) of (r, h) \<Rightarrow> (r, st(a := h))))"

definition NewCertDBAccessor :: "db_ptr \<Rightarrow> CertDBAccessor" where
  "NewCertDBAccessor db = \<lparr>ca_accessor = db, ca_db = db\<rparr>"

definition CertDBAccessor_SetDB :: "CertDBAccessor \<Rightarrow> db_ptr \<Rightarrow> CertDBAccessor" where
  "CertDBAccessor_SetDB c db = c\<lparr>ca_db := db\<rparr>"

definition CertDBAccessor_InsertCertificate ::
  "x509_env \<Rightarrow> CertDBAccessor \<Rightarrow> CertRecord \<Rightarrow> db_store \<Rightarrow> unit result \<times> db_store" where
  "CertDBAccessor_InsertCertificate E c cr = on_ptr (ca_db c) (cert_InsertCertificate E cr)"

definition CertDBAccessor_GetCertificatesByID ::
  "CertDBAccessor \<Rightarrow> string \<Rightarrow> db_store \<Rightarrow> CertRecord list result \<times> db_store" where
  "CertDBAccessor_GetCertificatesByID c uid = on_ptr (ca_db c) (cert_GetCertificatesByID uid)"

definition CertDBAccessor_RevokeCertificatesByID ::
  "CertDBAccessor \<Rightarrow> string \<Rightarrow> int \<Rightarrow> db_store \<Rightarrow> CertRecord list result \<times> db_store" where
  "CertDBAccessor_RevokeCertificatesByID c uid reason = on_ptr (ca_db c) (cert_RevokeCertificatesByID uid reason)"

definition CertDBAccessor_GetCertificate ::
  "CertDBAccessor \<Rightarrow> string \<Rightarrow> string \<Rightarrow> db_store \<Rightarrow> CertRecord list result \<times> db_store" where
  "CertDBAccessor_GetCertificate c serial akid = on_ptr (ca_accessor c) (cfssl_GetCertificate serial akid)"

definition CertDBAccessor_GetUnexpiredCertificates ::
  "CertDBAccessor \<Rightarrow> db_store \<Rightarrow> CertRecord list result \<times> db_store" where
  "CertDBAccessor_GetUnexpiredCertificates c = on_ptr (ca_accessor c) cfssl_GetUnexpiredCertificates"

definition CertDBAccessor_RevokeCertificate ::
  "CertDBAccessor \<Rightarrow> string \<Rightarrow> string \<Rightarrow> int \<Rightarrow> db_store \<Rightarrow> unit result \<times> db_store" where
  "CertDBAccessor_RevokeCertificate c serial akid reason = on_ptr (ca_accessor c) (cfssl_RevokeCertificate serial akid reason)"

definition CertDBAccessor_InsertOCSP ::
  "CertDBAccessor \<Rightarrow> OCSPRecord \<Rightarrow> db_store \<Rightarrow> unit result \<times> db_store" where
  "CertDBAccessor_InsertOCSP c rr = on_ptr (ca_accessor c) (cfssl_InsertOCSP rr)"

definition CertDBAccessor_GetOCSP ::
  "CertDBAccessor \<Rightarrow> string \<Rightarrow> string \<Rightarrow> db_store \<Rightarrow> OCSPRecord list result \<times> db_store" where
  "CertDBAccessor_GetOCSP c serial akid = on_ptr (ca_accessor c) (cfssl_GetOCSP serial akid)"

definition CertDBAccessor_GetUnexpiredOCSPs ::
  "CertDBAccessor \<Rightarrow> db_store \<Rightarrow> OCSPRecord list result \<times> db_store" where
  "CertDBAccessor_GetUnexpiredOCSPs c = on_ptr (ca_accessor c) cfssl_GetUnexpiredOCSPs"

definition CertDBAccessor_UpdateOCSP ::
  "CertDBAccessor \<Rightarrow> OCSPRecord \<Rightarrow> db_store \<Rightarrow> unit result \<times> db_store" where
  "CertDBAccessor_UpdateOCSP c rr = on_ptr (ca_accessor c) (cfssl_UpdateOCSP rr)"

definition CertDBAccessor_UpsertOCSP ::
  "CertDBAccessor \<Rightarrow> OCSPRecord \<Rightarrow> db_store \<Rightarrow> unit result \<times> db_store" where
  "CertDBAccessor_UpsertOCSP c rr = on_ptr (ca_accessor c) (cfssl_UpsertOCSP rr)"

subsection \<open>Lemmas\<close>

lemma cert_checked_Some: "cert_checked f (Some d) = (case f d of (r, d') \<Rightarrow> (r, Some d'))"
  by (simp add: cert_checked_def cert_checkDB_def)

lemma revoke_row_simps [simp]:
  "cr_ID (revoke_row t r c) = cr_ID c" "cr_Status (revoke_row t r c) = ''revoked''"
  "cert_key (revoke_row t r c) = cert_key c" "cr_Reason (revoke_row t r c) = r"
  "by_serial s a (revoke_row t r c) = by_serial s a c"
  by (simp_all add: revoke_row_def cert_key_def by_serial_def)

lemma sql_select_Inr:
  assumes "sql_select q d = (Inr xs, d')"
  shows "same_tables d d' \<and> q d' = Inr xs"
  using assms sql_select_same [OF assms]
  by (auto simp: sql_select_def dest: pop_fault_same split: prod.splits fault.splits)

lemma update_certs_effect:
  assumes "sql_exec (update_certs_sql p reason) d = (Inr res, d')"
  shows "certificates d' = update_rows p (revoke_row (clock d) reason) (certificates d) \<and> users d' = users d \<and>
    groups d' = groups d \<and> driver d' = driver d"
  using assms
proof (cases rule: sql_exec_cases)
  case (ok d1 n res)
  with same_tables_fields [of d d1] show ?thesis by (auto simp: update_certs_sql_def)
qed simp

lemma in_update_rows:
  "c \<in> set (update_rows p f rs) \<longleftrightarrow> (c \<in> set rs \<and> \<not> p c) \<or> (\<exists>r \<in> set rs. p r \<and> c = f r)"
  by (auto simp: update_rows_def split: if_splits)

text \<open>What a successful revocation by name did, whatever the schedule of failures.\<close>

lemma RevokeCertificatesByID_effect:
  assumes "cert_RevokeCertificatesByID uid reason (Some d) = (Inr crs, h')"
  obtains d' where "h' = Some d'" "crs = filter (by_id_good uid) (certificates d)"
    "certificates d' = update_rows (by_id_good uid) (revoke_row (clock d) reason) (certificates d)"
    "users d' = users d" "groups d' = groups d"
proof -
  obtain r1 d1 where s: "sql_select (select_certs (\<lambda>_. by_id_good uid)) d = (r1, d1)"
    by (cases "sql_select (select_certs (\<lambda>_. by_id_good uid)) d")
  obtain r2 d2 where u: "sql_exec (update_certs_sql (by_id_good uid) reason) d1 = (r2, d2)"
    by (cases "sql_exec (update_certs_sql (by_id_good uid) reason) d1")
  from assms s u obtain res where r: "r1 = Inr crs" "r2 = Inr res" "h' = Some d2"
    by (auto simp: cert_RevokeCertificatesByID_def cert_checked_Some split: sum.splits)
  from sql_select_Inr [OF s [unfolded r(1)]] have "same_tables d d1" "crs = filter (by_id_good uid) (certificates d1)"
    by (auto simp: select_certs_def)
  with update_certs_effect [OF u [unfolded r(2)]] same_tables_fields [of d d1] r(3) show ?thesis
    by (intro that [of d2]) auto
qed

text \<open>
  Revoking a user's certificates: when \<^verbatim>\<open>RevokeCertificatesByID\<close> succeeds, it returned exactly
  the certificates of the user that were not revoked before, afterwards every certificate of the
  user is revoked, those just revoked carry the given reason, and every certificate of another user
  (and every one already revoked) is untouched.
\<close>

theorem revoke_by_id:
  assumes "cert_RevokeCertificatesByID uid reason (Some d) = (Inr crs, Some d')"
  shows "crs = filter (by_id_good uid) (certificates d) \<and>
    (\<forall>c \<in> set (certificates d'). cr_ID c = uid \<longrightarrow> cr_Status c = ''revoked'') \<and>
    (\<forall>c \<in> set crs. revoke_row (clock d) reason c \<in> set (certificates d')) \<and>
    filter (\<lambda>c. cr_ID c \<noteq> uid) (certificates d') = filter (\<lambda>c. cr_ID c \<noteq> uid) (certificates d) \<and>
    (\<forall>c \<in> set (certificates d). cr_Status c = ''revoked'' \<longrightarrow> c \<in> set (certificates d'))"
  using assms
proof (rule RevokeCertificatesByID_effect)
  fix e
  assume e: "Some d' = Some e" "crs = filter (by_id_good uid) (certificates d)"
    "certificates e = update_rows (by_id_good uid) (revoke_row (clock d) reason) (certificates d)"
  have "filter (\<lambda>c. cr_ID c \<noteq> uid) (certificates e) = filter (\<lambda>c. cr_ID c \<noteq> uid) (certificates d)"
    unfolding e(3) by (rule filter_update_other) (auto simp: by_id_good_def)
  moreover have "cr_Status c = ''revoked''" if "c \<in> set (certificates e)" "cr_ID c = uid" for c
    using that unfolding e(3) in_update_rows by_id_good_def by (metis revoke_row_simps(2))
  moreover have "revoke_row (clock d) reason c \<in> set (certificates e)" if "c \<in> set crs" for c
    using that unfolding e(2,3) in_update_rows by auto
  moreover have "c \<in> set (certificates e)" if "c \<in> set (certificates d)" "cr_Status c = ''revoked''" for c
    using that unfolding e(3) in_update_rows by_id_good_def by metis
  ultimately show ?thesis using e(1,2) by (intro conjI ballI impI) simp_all
qed

definition demo_cert :: CertRecord where
  "demo_cert = \<lparr>cr_ID = ''admin'', cr_Serial = ''1'', cr_AKI = ''ab'', cr_CALabel = [], cr_Status = ''good'',
     cr_Reason = 0, cr_Expiry = 100, cr_RevokedAt = 0, cr_PEM = ''pem''\<rparr>"

definition demo_cdb :: sqldb where
  "demo_cdb = demo_db\<lparr>certificates := [demo_cert], clock := 7\<rparr>"

theorem revoke_by_id_witness:
  "\<exists>d'. cert_RevokeCertificatesByID ''admin'' 3 (Some demo_cdb) = (Inr [demo_cert], Some d') \<and>
    revoke_row 7 3 demo_cert \<in> set (certificates d')"
proof -
  let ?d = "demo_cdb\<lparr>certificates := [revoke_row 7 3 demo_cert]\<rparr>"
  have "cert_RevokeCertificatesByID ''admin'' 3 (Some demo_cdb) = (Inr [demo_cert], Some ?d)"
    by (simp add: cert_RevokeCertificatesByID_def cert_checked_Some sql_defs demo_cdb_def demo_db_def
        select_certs_def update_certs_sql_def by_id_good_def demo_cert_def update_rows_def affected_def)
  with revoke_by_id [OF this] show ?thesis by (auto simp: demo_cdb_def)
qed

lemma cfssl_checked_Some: "cfssl_checked f (Some d) = (case f d of (r, d') \<Rightarrow> (r, Some d'))"
  by (simp add: cfssl_checked_def)

text \<open>
  Revoking one certificate: with the primary key in force and no failure, \<^verbatim>\<open>RevokeCertificate\<close>
  succeeds exactly when the certificate is stored (on MySQL also only if its row changes by it),
  marks that certificate revoked with the given reason and changes no other; otherwise it reports
  \<^verbatim>\<open>RecordNotFound\<close> and the table is as before.
\<close>

theorem revoke_one:
  assumes "faults d = []" "distinct (map cert_key (certificates d))"
    and "driver d = MySQL \<longrightarrow> (\<forall>c \<in> set (certificates d). by_serial serial akid c \<longrightarrow> revoke_row (clock d) reason c \<noteq> c)"
  shows "\<exists>d'. snd (cfssl_RevokeCertificate serial akid reason (Some d)) = Some d' \<and>
    fst (cfssl_RevokeCertificate serial akid reason (Some d)) =
      (if (serial, akid) \<in> cert_key ` set (certificates d) then Inr ()
       else Inl (CFSSLError 11200 ''failed to revoke the certificate: certificate not found'')) \<and>
    (\<forall>c \<in> set (certificates d). (if by_serial serial akid c then revoke_row (clock d) reason c else c) \<in> set (certificates d')) \<and>
    length (certificates d') = length (certificates d)"
proof -
  let ?p = "by_serial serial akid" and ?f = "revoke_row (clock d) reason"
  let ?d = "d\<lparr>certificates := update_rows ?p ?f (certificates d)\<rparr>"
  have key: "(serial, akid) \<in> cert_key ` set (certificates d) \<longleftrightarrow> filter ?p (certificates d) \<noteq> []"
    by (auto simp: cert_key_def by_serial_def filter_empty_conv image_iff)
  have "?p = (\<lambda>c. cert_key c = (serial, akid))" by (auto simp: by_serial_def cert_key_def)
  with distinct_filter_name [OF assms(2), of "(serial, akid)"]
  have one: "length (filter ?p (certificates d)) \<le> 1" by simp
  have "driver d = MySQL \<Longrightarrow> filter (\<lambda>c. ?p c \<and> ?f c \<noteq> c) (certificates d) = filter ?p (certificates d)"
    using assms(3) by (intro filter_cong) auto
  then have aff: "affected (driver d) ?p ?f (certificates d) = length (filter ?p (certificates d))"
    by (simp add: affected_def)
  have "cfssl_RevokeCertificate serial akid reason (Some d) =
    (if length (filter ?p (certificates d)) = 0
     then Inl (CFSSLError 11200 ''failed to revoke the certificate: certificate not found'') else Inr (), Some ?d)"
    using one assms(1) le_Suc_eq
    by (cases "filter ?p (certificates d)") (auto simp: cfssl_RevokeCertificate_def cfssl_checked_Some sql_exec_no_faults update_certs_sql_def aff
        cfssl_rows_def CertStoreError_def RecordNotFound_def)
  then show ?thesis using key by (auto simp: update_rows_def)
qed

theorem revoke_one_witness:
  "fst (cfssl_RevokeCertificate ''1'' ''ab'' 3 (Some demo_cdb)) = Inr () \<and>
   fst (cfssl_RevokeCertificate ''2'' ''ab'' 3 (Some demo_cdb)) =
     Inl (CFSSLError 11200 ''failed to revoke the certificate: certificate not found'')"
  using revoke_one [of demo_cdb "''1''" "''ab''" 3] revoke_one [of demo_cdb "''2''" "''ab''" 3]
  by (auto simp: demo_cdb_def demo_db_def demo_cert_def cert_key_def)

lemma InsertCertificate_no_faults:
  assumes "faults d = []" "cert_key c \<notin> cert_key ` set (certificates d)"
    and "GetEnrollmentIDFromPEM E (bytes_of (cr_PEM c)) = Inr uid"
  shows "cert_InsertCertificate E c (Some d) = (Inr (), Some (d\<lparr>certificates := certificates d @ [c\<lparr>cr_ID := uid\<rparr>]\<rparr>))"
proof -
  have "cert_key (c\<lparr>cr_ID := uid\<rparr>) = cert_key c" by (simp add: cert_key_def)
  with assms show ?thesis
    by (simp add: cert_InsertCertificate_def cert_checked_Some sql_exec_no_faults insertCert_sql_def)
qed

text \<open>
  Certificates that are stored can be found: inserting a certificate whose serial number and
  authority key are new, and whose PEM names the user \<open>uid\<close>, makes it the one certificate found
  under that serial number, and adds it to those found under \<open>uid\<close>.
\<close>

theorem insert_cert_found:
  assumes "faults d = []" "cert_key c \<notin> cert_key ` set (certificates d)"
    and "GetEnrollmentIDFromPEM E (bytes_of (cr_PEM c)) = Inr uid"
  shows "\<exists>d'. cert_InsertCertificate E c (Some d) = (Inr (), Some d') \<and>
    cfssl_GetCertificate (cr_Serial c) (cr_AKI c) (Some d') = (Inr [c\<lparr>cr_ID := uid\<rparr>], Some d') \<and>
    cert_GetCertificatesByID uid (Some d') =
      (Inr (filter (\<lambda>x. cr_ID x = uid) (certificates d) @ [c\<lparr>cr_ID := uid\<rparr>]), Some d')"
proof -
  let ?c = "c\<lparr>cr_ID := uid\<rparr>"
  let ?d = "d\<lparr>certificates := certificates d @ [?c]\<rparr>"
  have "cert_InsertCertificate E c (Some d) = (Inr (), Some ?d)" by (rule InsertCertificate_no_faults [OF assms])
  moreover have "filter (by_serial (cr_Serial c) (cr_AKI c)) (certificates d) = []"
    using assms(2) by (auto simp: filter_empty_conv by_serial_def cert_key_def image_iff)
  ultimately show ?thesis using assms(1)
    by (simp add: cfssl_GetCertificate_def cfssl_checked_Some sql_select_no_faults select_certs_def
        cert_GetCertificatesByID_def cert_checked_Some by_serial_def)
qed

definition demo_x509 :: x509_env where
  "demo_x509 = \<lparr>pem_Decode = Some, x509_ParseCertificate = (\<lambda>b. Inr
     \<lparr>x_CommonName = string_of b, x_SerialNumber = 1, x_AuthorityKeyId = [], x_PublicKey = ECDSA_PublicKey (string_of b),
      x_NotBefore = 0, x_NotAfter = 100, x_CRLDistributionPoints = [], x_Raw = b\<rparr>)\<rparr>"

theorem insert_cert_found_witness:
  "\<exists>d'. cert_InsertCertificate demo_x509 demo_cert (Some demo_db) = (Inr (), Some d') \<and>
    cfssl_GetCertificate ''1'' ''ab'' (Some d') = (Inr [demo_cert\<lparr>cr_ID := ''pem''\<rparr>], Some d')"
proof -
  have "GetEnrollmentIDFromPEM demo_x509 (bytes_of (cr_PEM demo_cert)) = Inr ''pem''"
    by (simp add: GetEnrollmentIDFromPEM_def GetX509CertificateFromPEM_def demo_x509_def demo_cert_def
        GetEnrollmentIDFromX509Certificate_def)
  then show ?thesis
    using insert_cert_found [of demo_db demo_cert demo_x509 "''pem''"] by (auto simp: demo_db_def demo_cert_def)
qed

text \<open>Without the table, every OCSP operation fails.\<close>

lemma ocsp_unavailable:
  assumes "ocsp_responses d = None" "faults d = []"
  shows "fst (cfssl_InsertOCSP r (Some d)) = Inl (wrapSQLError no_ocsp)"
    and "fst (cfssl_GetOCSP s a (Some d)) = Inl (wrapSQLError no_ocsp)"
    and "fst (cfssl_GetUnexpiredOCSPs (Some d)) = Inl (wrapSQLError no_ocsp)"
    and "fst (cfssl_UpdateOCSP r (Some d)) = Inl (wrapSQLError no_ocsp)"
    and "fst (cfssl_UpsertOCSP r (Some d)) = Inl (wrapSQLError no_ocsp)"
  using assms
  by (simp_all add: cfssl_InsertOCSP_def cfssl_GetOCSP_def cfssl_GetUnexpiredOCSPs_def cfssl_UpdateOCSP_def
      cfssl_UpsertOCSP_def cfssl_checked_Some sql_exec_no_faults sql_select_no_faults insertOCSP_sql_def
      updateOCSP_sql_def select_ocsp_def)

text \<open>
  \<^verbatim>\<open>SetDB\<close> moves half of the accessor: after it, certificates are inserted into the new
  database, while revoking them by serial number still works on the old one, so a certificate that
  was just inserted is not found.
\<close>

theorem SetDB_splits_accessor:
  assumes "c = CertDBAccessor_SetDB (NewCertDBAccessor (Some a)) (Some b)" "a \<noteq> b"
    and "st a = Some d" "st b = Some e" "faults d = []" "faults e = []"
    and "certificates d = []" "certificates e = []"
    and "GetEnrollmentIDFromPEM E (bytes_of (cr_PEM cr)) = Inr uid"
  shows "\<exists>st'. CertDBAccessor_InsertCertificate E c cr st = (Inr (), st') \<and>
    fst (CertDBAccessor_RevokeCertificate c (cr_Serial cr) (cr_AKI cr) reason st') =
      Inl (CFSSLError 11200 ''failed to revoke the certificate: certificate not found'')"
  using assms
  by (auto simp: CertDBAccessor_SetDB_def NewCertDBAccessor_def CertDBAccessor_InsertCertificate_def
      CertDBAccessor_RevokeCertificate_def on_ptr_def cert_InsertCertificate_def cert_checked_Some
      sql_exec_no_faults insertCert_sql_def cfssl_RevokeCertificate_def cfssl_checked_Some update_certs_sql_def
      affected_def cfssl_rows_def CertStoreError_def RecordNotFound_def split: prod.splits)

theorem SetDB_splits_accessor_witness:
  "\<exists>c st'. CertDBAccessor_InsertCertificate demo_x509 c demo_cert (\<lambda>_. Some demo_db) = (Inr (), st') \<and>
    fst (CertDBAccessor_RevokeCertificate c ''1'' ''ab'' 0 st') =
      Inl (CFSSLError 11200 ''failed to revoke the certificate: certificate not found'')"
proof -
  let ?c = "CertDBAccessor_SetDB (NewCertDBAccessor (Some 0)) (Some 1)"
  have "GetEnrollmentIDFromPEM demo_x509 (bytes_of (cr_PEM demo_cert)) = Inr ''pem''"
    by (simp add: GetEnrollmentIDFromPEM_def GetX509CertificateFromPEM_def demo_x509_def demo_cert_def
        GetEnrollmentIDFromX509Certificate_def)
  moreover have "faults demo_db = []" "certificates demo_db = []" by (simp_all add: demo_db_def)
  ultimately have "\<exists>st'. CertDBAccessor_InsertCertificate demo_x509 ?c demo_cert (\<lambda>_. Some demo_db) = (Inr (), st') \<and>
    fst (CertDBAccessor_RevokeCertificate ?c (cr_Serial demo_cert) (cr_AKI demo_cert) 0 st') =
      Inl (CFSSLError 11200 ''failed to revoke the certificate: certificate not found'')"
    by (intro SetDB_splits_accessor [where a = 0 and b = 1 and d = demo_db and e = demo_db]) simp_all
  moreover have "cr_Serial demo_cert = ''1''" "cr_AKI demo_cert = ''ab''" by (simp_all add: demo_cert_def)
  ultimately show ?thesis by auto
qed

end
