(* ===== verification/Auth_Handler.thy ===== *)
theory Auth_Handler
  imports Http_Api Auth_Token User_Registry Server_Config Cert_Accessor
begin

text \<open>
  The authentication wrapper around every endpoint: \<^verbatim>\<open>cli/server/auth.go\<close>, with the certificate
  check of CFSSL's \<^verbatim>\<open>revoke\<close> package it calls.  Fetching and reading CRLs and OCSP responses
  stays a parameter (\<open>ae_CRL\<close>, \<open>ae_OCSP\<close>: revoked, checked).
\<close>

record auth_env =
  ae_sig :: sig_env
  ae_now :: int
  ae_ldapURL :: "string \<Rightarrow> bool"
  ae_CRL :: "Certificate \<Rightarrow> string \<Rightarrow> bool \<times> bool"
  ae_OCSP :: "Certificate \<Rightarrow> bool \<times> bool"

subsection \<open>CFSSL's certificate check (HardFail is false)\<close>

fun revCheck :: "auth_env \<Rightarrow> Certificate \<Rightarrow> string list \<Rightarrow> bool \<times> bool" where
  "revCheck A cert [] = (False, True)"
| "revCheck A cert (url # urls) =
     (if ae_ldapURL A url then revCheck A cert urls
      else (case ae_CRL A cert url of
              (_, False) \<Rightarrow> (False, False)
            | (True, True) \<Rightarrow> (True, True)
            | (False, True) \<Rightarrow> (case ae_OCSP A cert of
                (_, False) \<Rightarrow> (False, False)
              | (True, True) \<Rightarrow> (True, True)
              | (False, True) \<Rightarrow> revCheck A cert urls)))"

definition VerifyCertificate :: "auth_env \<Rightarrow> Certificate \<Rightarrow> bool \<times> bool" where
  "VerifyCertificate A cert =
     (if \<not> ae_now A < x_NotAfter cert then (True, True)
      else if \<not> x_NotBefore cert < ae_now A then (True, True)
      else revCheck A cert (x_CRLDistributionPoints cert))"

subsection \<open>The handler\<close>

definition errNoAuthHdr :: go_error where
  "errNoAuthHdr = ErrorString ''No Authorization header was found''"

definition errBasicAuthNotAllowed :: go_error where
  "errBasicAuthNotAllowed = ErrorString ''Basic authorization is not permitted''"

definition authError :: go_error where
  "authError = HTTPError 400 (ErrorString ''authorization failure'')"

record 's copAuthHandler =
  ah_basic :: bool
  ah_token :: bool
  ah_next :: "HttpRequest \<Rightarrow> 's \<Rightarrow> HttpResponse option \<times> 's"

definition newAuthHandler ::
  "bool \<Rightarrow> bool \<Rightarrow> (HttpRequest \<Rightarrow> 's \<Rightarrow> HttpResponse option \<times> 's) result \<Rightarrow> 's copAuthHandler result" where
  "newAuthHandler basic tok handler = (case handler of
     Inl err \<Rightarrow> Inl err
   | Inr h \<Rightarrow> Inr \<lparr>ah_basic = basic, ah_token = tok, ah_next = h\<rparr>)"

definition newBasicAuthHandler ::
  "(HttpRequest \<Rightarrow> 's \<Rightarrow> HttpResponse option \<times> 's) result \<Rightarrow> 's copAuthHandler result" where
  "newBasicAuthHandler handler = newAuthHandler True False handler"

definition newTokenAuthHandler ::
  "(HttpRequest \<Rightarrow> 's \<Rightarrow> HttpResponse option \<times> 's) result \<Rightarrow> 's copAuthHandler result" where
  "newTokenAuthHandler handler = newAuthHandler False True handler"

definition wrappedPath :: "string \<Rightarrow> string" where
  "wrappedPath path = ''/api/v1/cfssl/'' @ path"

definition NewAuthWrapper ::
  "string \<Rightarrow> (HttpRequest \<Rightarrow> 's \<Rightarrow> HttpResponse option \<times> 's) result \<Rightarrow> string \<times> 's copAuthHandler result" where
  "NewAuthWrapper path handler =
     (if path = ''sign'' \<or> path = ''enroll'' then (wrappedPath path, newBasicAuthHandler handler)
      else (wrappedPath path, newTokenAuthHandler handler))"

text \<open>The check of a request; it may rewind the body and set the enrollment ID header.\<close>

definition copAuthHandler_serveHTTP ::
  "auth_env \<Rightarrow> ('s, 'u) UserRegistry \<Rightarrow> Config \<Rightarrow> 's copAuthHandler \<Rightarrow> HttpRequest \<Rightarrow> 's \<Rightarrow>
   unit result \<times> HttpRequest \<times> 's" where
  "copAuthHandler_serveHTTP A reg cfg ah r s =
     (let r = HTTPRequestToString r in
      if \<not> c_Authentication cfg then (Inr (), r, s)
      else let authHdr = hr_Authorization r in
      if authHdr = [] then (Inl errNoAuthHdr, r, s)
      else (case BasicAuth r of
        Some (user, pwd) \<Rightarrow>
          if \<not> ah_basic ah then (Inl errBasicAuthNotAllowed, r, s)
          else (case reg_GetUser reg user [] s of
                  (Inl err, s) \<Rightarrow> (Inl err, r, s)
                | (Inr u, s) \<Rightarrow> (case usr_Login reg u pwd s of
                    (Inl err, s) \<Rightarrow> (Inl err, r, s)
                  | (Inr _, s) \<Rightarrow> (Inr (), r\<lparr>hr_Eid := user\<rparr>, s)))
      | None \<Rightarrow>
          if ah_token ah then
            (case ReadAll r of
               Inl _ \<Rightarrow> (Inl authError, r, s)
             | Inr body \<Rightarrow> (case VerifyToken (ae_sig A) authHdr (bytes_of body) of
                 Inl _ \<Rightarrow> (Inl authError, r, s)
               | Inr cert \<Rightarrow> (case VerifyCertificate A cert of
                   (revokedOrExpired, wasChecked) \<Rightarrow>
                     if revokedOrExpired then (Inl authError, r, s)
                     else if \<not> wasChecked then (Inl authError, r, s)
                     else (Inr (), r\<lparr>hr_Eid := GetEnrollmentIDFromX509Certificate cert\<rparr>, s))))
          else (Inr (), r, s)))"

definition copAuthHandler_ServeHTTP ::
  "auth_env \<Rightarrow> ('s, 'u) UserRegistry \<Rightarrow> Config \<Rightarrow> 's copAuthHandler \<Rightarrow> HttpRequest \<Rightarrow> 's \<Rightarrow>
   HttpResponse option \<times> 's" where
  "copAuthHandler_ServeHTTP A reg cfg ah r s = (case copAuthHandler_serveHTTP A reg cfg ah r s of
     (Inl (GoPanic _), r, s) \<Rightarrow> (None, s)
   | (Inl err, r, s) \<Rightarrow> (Some (HandleError err), s)
   | (Inr _, r, s) \<Rightarrow> ah_next ah r s)"

subsection \<open>Who gets through\<close>

lemma VerifyCertificate_valid:
  "VerifyCertificate A cert = (False, True) \<Longrightarrow> x_NotBefore cert < ae_now A \<and> ae_now A < x_NotAfter cert"
  by (auto simp: VerifyCertificate_def split: if_splits)

text \<open>A request passes the check in exactly one of four ways.\<close>

lemma serveHTTP_accepts:
  assumes "copAuthHandler_serveHTTP A reg cfg ah r s = (Inr (), r', s')"
  obtains (off) "\<not> c_Authentication cfg" "s' = s"
  | (basic) user pwd u s1 where "ah_basic ah" "BasicAuth r = Some (user, pwd)"
      "reg_GetUser reg user [] s = (Inr u, s1)" "usr_Login reg u pwd s1 = (Inr (), s')" "hr_Eid r' = user"
  | (tok) cert where "ah_token ah" "BasicAuth r = None" "s' = s"
      "VerifyToken (ae_sig A) (hr_Authorization r) (bytes_of (hr_Body r)) = Inr cert"
      "VerifyCertificate A cert = (False, True)" "hr_Eid r' = x_CommonName cert"
  | (bypass) "c_Authentication cfg" "\<not> ah_token ah" "BasicAuth r = None" "hr_Authorization r \<noteq> []" "s' = s"
proof -
  let ?r = "HTTPRequestToString r"
  have b: "BasicAuth ?r = BasicAuth r" "hr_Authorization ?r = hr_Authorization r" "ReadAll ?r = Inr (hr_Body r)"
    by (simp_all add: HTTPRequestToString_def BasicAuth_def ReadAll_def)
  show thesis
  proof (cases "c_Authentication cfg")
    case False
    with assms off show ?thesis by (simp add: copAuthHandler_serveHTTP_def)
  next
    case True
    with assms have ne: "hr_Authorization r \<noteq> []"
      by (auto simp: copAuthHandler_serveHTTP_def b Let_def split: if_splits)
    show ?thesis
    proof (cases "BasicAuth r")
      case (Some up)
      with assms True ne show ?thesis
        by (auto simp: copAuthHandler_serveHTTP_def b Let_def split: prod.splits if_splits sum.splits intro: basic)
    next
      case None
      show ?thesis
      proof (cases "ah_token ah")
        case t: True
        with assms True ne None obtain cert where
          "VerifyToken (ae_sig A) (hr_Authorization r) (bytes_of (hr_Body r)) = Inr cert"
          "VerifyCertificate A cert = (False, True)" "hr_Eid r' = x_CommonName cert" "s' = s"
          by (auto simp: copAuthHandler_serveHTTP_def b Let_def GetEnrollmentIDFromX509Certificate_def
              split: prod.splits if_splits sum.splits)
        with t None show ?thesis by (intro tok)
      next
        case False
        with assms True ne None show ?thesis
          by (intro bypass) (auto simp: copAuthHandler_serveHTTP_def b Let_def)
      qed
    qed
  qed
qed

text \<open>
  C11. Token endpoints are authenticated: with authentication on, a request that passes the wrapper
  of any path other than \<^verbatim>\<open>sign\<close> and \<^verbatim>\<open>enroll\<close> carries a token that verifies for its body, whose
  certificate is within its validity period and not reported revoked by the CRL and OCSP check of
  CFSSL, and the enrollment ID passed on is the certificate's common name; the registry has not been
  touched.  (The check asks the servers named in the certificate; the certificates table, in which COP
  records revocations, is not consulted.)
\<close>

theorem token_endpoint_authenticated:
  assumes "c_Authentication cfg" "path \<noteq> ''sign''" "path \<noteq> ''enroll''"
    and "NewAuthWrapper path handler = (p, Inr ah)"
    and "copAuthHandler_serveHTTP A reg cfg ah r s = (Inr (), r', s')"
  shows "\<exists>cert. VerifyToken (ae_sig A) (hr_Authorization r) (bytes_of (hr_Body r)) = Inr cert \<and>
    x_NotBefore cert < ae_now A \<and> ae_now A < x_NotAfter cert \<and>
    revCheck A cert (x_CRLDistributionPoints cert) = (False, True) \<and> hr_Eid r' = x_CommonName cert \<and> s' = s"
proof -
  have ah: "\<not> ah_basic ah" "ah_token ah"
    using assms(2-4) by (auto simp: NewAuthWrapper_def newTokenAuthHandler_def newAuthHandler_def split: sum.splits)
  from assms(5) show ?thesis
  proof (cases rule: serveHTTP_accepts)
    case (tok cert)
    then have "revCheck A cert (x_CRLDistributionPoints cert) = (False, True)"
      by (auto simp: VerifyCertificate_def split: if_splits)
    with tok VerifyCertificate_valid [of A cert] show ?thesis by blast
  qed (use assms(1) ah in auto)
qed

definition demo_auth :: auth_env where
  "demo_auth = \<lparr>ae_sig = demo_sig, ae_now = 5, ae_ldapURL = (\<lambda>_. False), ae_CRL = (\<lambda>_ _. (False, True)), ae_OCSP = (\<lambda>_. (False, True))\<rparr>"

definition demo_req :: HttpRequest where
  "demo_req = \<lparr>hr_Method = ''POST'', hr_Authorization = demo_token ''alice'' ''{}'', hr_Eid = [], hr_Body = ''{}'', hr_ReadErr = None\<rparr>"

definition ok_handler :: "HttpRequest \<Rightarrow> 's \<Rightarrow> HttpResponse option \<times> 's" where
  "ok_handler r s = (Some (SendResponse JNull), s)"

lemma token_not_basic:
  assumes "VerifyToken E token body = Inr c"
  shows "\<not> HasPrefix token ''Basic '' \<and> token \<noteq> []"
proof -
  obtain x where d: "DecodeToken E token = Inr x"
    using assms by (auto simp: VerifyToken_def split: sum.splits)
  then have ne: "token \<noteq> []" by (auto simp: DecodeToken_def)
  have "B64Decode (Split token (CHR ''.'') ! 0) \<noteq> Inl CorruptInput"
    using d by (auto simp: DecodeToken_def Let_def split: if_splits sum.splits option.splits)
  moreover have "B64Decode (Split token (CHR ''.'') ! 0) = Inl CorruptInput" if p: "HasPrefix token ''Basic ''"
  proof -
    from p obtain t where t: "token = ''Basic '' @ t" by (auto simp: HasPrefix_iff)
    obtain y ys where "Split t (CHR ''.'') = y # ys" by (cases "Split t (CHR ''.'')") auto
    then have "Split token (CHR ''.'') ! 0 = ''Basic '' @ y" by (simp add: t)
    then show ?thesis by (simp add: B64Decode_def b64_val_def is_newline_def split: option.splits)
  qed
  ultimately show ?thesis using ne by blast
qed

lemma serveHTTP_token:
  assumes "VerifyToken (ae_sig A) (hr_Authorization r) (bytes_of (hr_Body r)) = Inr cert"
    and "c_Authentication cfg" "ah_token ah" "VerifyCertificate A cert = (False, True)"
  shows "copAuthHandler_serveHTTP A reg cfg ah r s =
    (Inr (), (HTTPRequestToString r)\<lparr>hr_Eid := x_CommonName cert\<rparr>, s)"
proof -
  have "BasicAuth r = None" "hr_Authorization r \<noteq> []"
    using token_not_basic [OF assms(1)] by (simp_all add: BasicAuth_def)
  moreover have "BasicAuth (HTTPRequestToString r) = BasicAuth r" "ReadAll (HTTPRequestToString r) = Inr (hr_Body r)"
    by (simp_all add: HTTPRequestToString_def BasicAuth_def ReadAll_def)
  ultimately show ?thesis using assms
    by (simp add: copAuthHandler_serveHTTP_def Let_def)
      (simp add: HTTPRequestToString_def GetEnrollmentIDFromX509Certificate_def)
qed

theorem token_endpoint_authenticated_witness:
  "\<exists>ah r'. NewAuthWrapper ''revoke'' (Inr ok_handler) = (''/api/v1/cfssl/revoke'', Inr ah) \<and>
    copAuthHandler_serveHTTP demo_auth db_registry newConfig ah demo_req (Some demo_db) = (Inr (), r', Some demo_db) \<and>
    hr_Eid r' = ''alice''"
proof -
  let ?ah = "\<lparr>ah_basic = False, ah_token = True, ah_next = ok_handler\<rparr> :: sqldb option copAuthHandler"
  let ?r = "(HTTPRequestToString demo_req)\<lparr>hr_Eid := x_CommonName (demo_x ''alice'')\<rparr>"
  have w: "NewAuthWrapper ''revoke'' (Inr ok_handler) = (''/api/v1/cfssl/revoke'', Inr ?ah)"
    by (simp add: NewAuthWrapper_def newTokenAuthHandler_def newAuthHandler_def wrappedPath_def)
  have v: "VerifyToken (ae_sig demo_auth) (hr_Authorization demo_req) (bytes_of (hr_Body demo_req)) = Inr (demo_x ''alice'')"
    using demo_token_verify by (simp add: demo_auth_def demo_req_def)
  have a: "copAuthHandler_serveHTTP demo_auth db_registry newConfig ?ah demo_req (Some demo_db) = (Inr (), ?r, Some demo_db)"
    by (rule serveHTTP_token [OF v]) (simp_all add: newConfig_def VerifyCertificate_def demo_auth_def demo_x_def)
  from token_endpoint_authenticated [OF _ _ _ w a] v have "hr_Eid ?r = x_CommonName (demo_x ''alice'')"
    by (auto simp: newConfig_def)
  with w a show ?thesis by (auto simp: demo_x_def)
qed

text \<open>
  The basic-authentication endpoints do not insist on basic authentication: on \<^verbatim>\<open>sign\<close> and
  \<^verbatim>\<open>enroll\<close>, any \<^verbatim>\<open>Authorization\<close> header that is not empty and does not parse as basic
  authentication passes the wrapper, with no user looked up, no password checked and no login
  counted.
\<close>

lemma basic_wrapper_bypass:
  assumes "\<not> ah_token ah" "hr_Authorization r \<noteq> []" "BasicAuth r = None"
  shows "copAuthHandler_ServeHTTP A reg cfg ah r s = ah_next ah (HTTPRequestToString r) s"
proof -
  have "BasicAuth (HTTPRequestToString r) = BasicAuth r" "hr_Authorization (HTTPRequestToString r) = hr_Authorization r"
    by (simp_all add: HTTPRequestToString_def BasicAuth_def)
  then show ?thesis using assms by (simp add: copAuthHandler_ServeHTTP_def copAuthHandler_serveHTTP_def Let_def)
qed

theorem basic_endpoint_bypass:
  assumes "path = ''sign'' \<or> path = ''enroll''" "NewAuthWrapper path handler = (p, Inr ah)"
    and "hr_Authorization r \<noteq> []" "BasicAuth r = None"
  shows "copAuthHandler_ServeHTTP A reg cfg ah r s = ah_next ah (HTTPRequestToString r) s"
  by (rule basic_wrapper_bypass [OF _ assms(3,4)])
    (use assms(1,2) in \<open>auto simp: NewAuthWrapper_def newBasicAuthHandler_def newAuthHandler_def split: sum.splits if_splits\<close>)

theorem basic_endpoint_bypass_witness:
  "\<exists>p ah. NewAuthWrapper ''enroll'' (Inr ok_handler) = (p, Inr ah) \<and>
    copAuthHandler_ServeHTTP demo_auth db_registry newConfig ah (demo_req\<lparr>hr_Authorization := ''x''\<rparr>) (Some demo_db) =
      (Some (SendResponse JNull), Some demo_db)"
proof -
  let ?ah = "\<lparr>ah_basic = True, ah_token = False, ah_next = ok_handler\<rparr> :: sqldb option copAuthHandler"
  let ?r = "demo_req\<lparr>hr_Authorization := ''x''\<rparr>"
  have w: "NewAuthWrapper ''enroll'' (Inr ok_handler) = (wrappedPath ''enroll'', Inr ?ah)"
    by (simp add: NewAuthWrapper_def newBasicAuthHandler_def newAuthHandler_def)
  have "copAuthHandler_ServeHTTP demo_auth db_registry newConfig ?ah ?r (Some demo_db) =
      ah_next ?ah (HTTPRequestToString ?r) (Some demo_db)"
    by (rule basic_endpoint_bypass [OF _ w]) (simp_all add: BasicAuth_def HasPrefix_def)
  with w show ?thesis by (simp add: ok_handler_def)
qed

text \<open>
  C35. Revocation in the database does not reach the token check: after every certificate of a user
  has been revoked there, a token of the user's certificate is still accepted, as long as the
  certificate is within its dates and names no CRL distribution point.
\<close>

theorem revoked_certificate_authenticates:
  assumes "cert_RevokeCertificatesByID (x_CommonName cert) reason (Some d) = (Inr crs, Some d')"
    and "VerifyToken (ae_sig A) (hr_Authorization r) (bytes_of (hr_Body r)) = Inr cert"
    and "c_Authentication cfg" "ah_token ah" "x_CRLDistributionPoints cert = []"
    and "x_NotBefore cert < ae_now A" "ae_now A < x_NotAfter cert"
  shows "(\<forall>c \<in> set (certificates d'). cr_ID c = x_CommonName cert \<longrightarrow> cr_Status c = ''revoked'') \<and>
    (\<exists>r'. copAuthHandler_serveHTTP A db_registry cfg ah r (Some d') = (Inr (), r', Some d') \<and> hr_Eid r' = x_CommonName cert)"
proof
  show "\<forall>c \<in> set (certificates d'). cr_ID c = x_CommonName cert \<longrightarrow> cr_Status c = ''revoked''"
    using assms(1) by (rule RevokeCertificatesByID_effect) (metis by_id_good_def in_update_rows option.inject revoke_row_simps(2))
  have "VerifyCertificate A cert = (False, True)" using assms(5-7) by (simp add: VerifyCertificate_def)
  from serveHTTP_token [OF assms(2-4) this, where reg = db_registry and s = "Some d'"]
  show "\<exists>r'. copAuthHandler_serveHTTP A db_registry cfg ah r (Some d') = (Inr (), r', Some d') \<and> hr_Eid r' = x_CommonName cert"
    by simp
qed

theorem revoked_certificate_authenticates_witness:
  "\<exists>d' r'. cert_RevokeCertificatesByID ''alice'' 1 (Some (demo_cdb\<lparr>certificates := [demo_cert\<lparr>cr_ID := ''alice''\<rparr>]\<rparr>)) =
      (Inr [demo_cert\<lparr>cr_ID := ''alice''\<rparr>], Some d') \<and>
    copAuthHandler_serveHTTP demo_auth db_registry newConfig \<lparr>ah_basic = False, ah_token = True, ah_next = ok_handler\<rparr> demo_req (Some d') =
      (Inr (), r', Some d') \<and> hr_Eid r' = ''alice''"
proof -
  let ?c = "demo_cert\<lparr>cr_ID := ''alice''\<rparr>"
  let ?d = "demo_cdb\<lparr>certificates := [?c]\<rparr>"
  let ?d' = "demo_cdb\<lparr>certificates := [revoke_row 7 1 ?c]\<rparr>"
  have rv: "cert_RevokeCertificatesByID (x_CommonName (demo_x ''alice'')) 1 (Some ?d) = (Inr [?c], Some ?d')"
    by (simp add: cert_RevokeCertificatesByID_def cert_checked_Some sql_defs demo_cdb_def demo_db_def demo_x_def
        select_certs_def update_certs_sql_def by_id_good_def demo_cert_def update_rows_def affected_def)
  have v: "VerifyToken (ae_sig demo_auth) (hr_Authorization demo_req) (bytes_of (hr_Body demo_req)) = Inr (demo_x ''alice'')"
    using demo_token_verify by (simp add: demo_auth_def demo_req_def)
  from revoked_certificate_authenticates [OF rv v, of newConfig "\<lparr>ah_basic = False, ah_token = True, ah_next = ok_handler\<rparr>"]
  obtain r' where "copAuthHandler_serveHTTP demo_auth db_registry newConfig
      \<lparr>ah_basic = False, ah_token = True, ah_next = ok_handler\<rparr> demo_req (Some ?d') = (Inr (), r', Some ?d')"
    "hr_Eid r' = x_CommonName (demo_x ''alice'')"
    by (auto simp: newConfig_def demo_auth_def demo_x_def)
  with rv show ?thesis by (auto simp: demo_x_def)
qed

subsection \<open>The enrollment limit over HTTP\<close>

text \<open>A series of requests to a basic-authentication endpoint, and which of them pass.\<close>

fun run_auth ::
  "auth_env \<Rightarrow> Config \<Rightarrow> sqldb option copAuthHandler \<Rightarrow> HttpRequest list \<Rightarrow> sqldb option \<Rightarrow> bool list" where
  "run_auth A cfg ah [] h = []"
| "run_auth A cfg ah (r # rs) h = (case copAuthHandler_serveHTTP A db_registry cfg ah r h of
     (res, r', h') \<Rightarrow> (case res of Inl _ \<Rightarrow> False | Inr _ \<Rightarrow> True) # run_auth A cfg ah rs h')"

lemma serveHTTP_basic:
  assumes "c_Authentication cfg" "ah_basic ah" "BasicAuth r = Some (user, pwd)"
  shows "case copAuthHandler_serveHTTP A db_registry cfg ah r h of (res, r', h') \<Rightarrow>
    (res, h') = login_attempt user pwd h"
proof -
  have "BasicAuth (HTTPRequestToString r) = BasicAuth r" "hr_Authorization (HTTPRequestToString r) = hr_Authorization r"
    by (simp_all add: HTTPRequestToString_def BasicAuth_def)
  moreover have "hr_Authorization r \<noteq> []" using assms(3) by (auto simp: BasicAuth_def Let_def HasPrefix_def split: if_splits)
  ultimately show ?thesis using assms
    by (auto simp: copAuthHandler_serveHTTP_def login_attempt_def Let_def split: prod.splits sum.splits)
qed

lemma run_auth_logins:
  assumes "c_Authentication cfg" "ah_basic ah"
  shows "list_all (\<lambda>r. \<exists>p. BasicAuth r = Some (uid, p)) rs \<Longrightarrow>
    run_auth A cfg ah rs h = fst (run_logins uid (map (\<lambda>r. snd (the (BasicAuth r))) rs) h)"
proof (induction rs arbitrary: h)
  case (Cons r rs)
  then obtain p where p: "BasicAuth r = Some (uid, p)" by auto
  obtain res r' h' where s: "copAuthHandler_serveHTTP A db_registry cfg ah r h = (res, r', h')"
    by (cases "copAuthHandler_serveHTTP A db_registry cfg ah r h")
  with serveHTTP_basic [OF assms p, where A = A and h = h] have "login_attempt uid p h = (res, h')" by simp
  with s p Cons show ?case by (simp split: prod.splits)
qed simp

text \<open>
  The enrollment limit holds over HTTP: of any series of requests to \<^verbatim>\<open>enroll\<close> or \<^verbatim>\<open>sign\<close> that
  carry basic authentication for one user, handled one after the other, at most
  \<open>max_enrollments - state\<close> pass, whatever passwords they carry and whichever statements fail.
\<close>

theorem http_enrollment_limit:
  assumes "c_Authentication cfg" "path = ''sign'' \<or> path = ''enroll''" "NewAuthWrapper path handler = (p, Inr ah)"
    and "list_all (\<lambda>r. \<exists>p. BasicAuth r = Some (uid, p)) rs"
    and "unique_ids d" "lookup_user d uid = Some u" "0 < ur_MaxEnrollments u" "ur_State u \<le> ur_MaxEnrollments u"
  shows "int (count_list (run_auth A cfg ah rs (Some d)) True) \<le> ur_MaxEnrollments u - ur_State u"
proof -
  have "ah_basic ah"
    using assms(2,3) by (auto simp: NewAuthWrapper_def newBasicAuthHandler_def newAuthHandler_def split: sum.splits if_splits)
  then have "run_auth A cfg ah rs (Some d) = fst (run_logins uid (map (\<lambda>r. snd (the (BasicAuth r))) rs) (Some d))"
    using assms(1,4) by (intro run_auth_logins)
  then show ?thesis using run_logins_limit [OF assms(5-8)] by simp
qed

theorem http_enrollment_limit_witness:
  "\<exists>p ah. NewAuthWrapper ''enroll'' (Inr ok_handler) = (p, Inr ah) \<and>
    int (count_list (run_auth demo_auth newConfig ah
      (replicate 5 (SetBasicAuth ''admin'' ''adminpw'' demo_req)) (Some demo_db)) True) \<le> 2"
proof -
  let ?ah = "\<lparr>ah_basic = True, ah_token = False, ah_next = ok_handler\<rparr> :: sqldb option copAuthHandler"
  have w: "NewAuthWrapper ''enroll'' (Inr ok_handler) = (wrappedPath ''enroll'', Inr ?ah)"
    by (simp add: NewAuthWrapper_def newBasicAuthHandler_def newAuthHandler_def)
  have "int (count_list (run_auth demo_auth newConfig ?ah (replicate 5 (SetBasicAuth ''admin'' ''adminpw'' demo_req)) (Some demo_db)) True)
      \<le> ur_MaxEnrollments demo_user - ur_State demo_user"
    by (rule http_enrollment_limit [OF _ _ w, where uid = "''admin''"])
      (simp_all add: newConfig_def list_all_iff BasicAuth_Set demo_db_def demo_user_def unique_ids_def lookup_user_def)
  with w show ?thesis by (auto simp: demo_user_def)
qed

end
