(* ===== verification/Sign_Request.thy ===== *)
theory Sign_Request
  imports Json_Codec
begin

text \<open>
  Signing requests: the types of CFSSL's \<^verbatim>\<open>csr\<close> and \<^verbatim>\<open>signer\<close> packages that COP's client sends and its
  server receives, and \<^verbatim>\<open>idp.CSRInfo\<close>, with their JSON.  A nil slice or pointer is \<open>None\<close>.  The text of
  an object identifier is taken after the JSON escapes in it have been resolved.
\<close>

subsection \<open>Requests for a certificate (csr)\<close>

record csr_Name =
  nm_C :: string
  nm_ST :: string
  nm_L :: string
  nm_O :: string
  nm_OU :: string
  nm_SerialNumber :: string

record BasicKeyRequest =
  kr_A :: string
  kr_S :: int

record CAConfig =
  cc_PathLength :: int
  cc_PathLenZero :: bool
  cc_Expiry :: string

definition zero_Name :: csr_Name where
  "zero_Name = \<lparr>nm_C = [], nm_ST = [], nm_L = [], nm_O = [], nm_OU = [], nm_SerialNumber = []\<rparr>"

fun dec_Name :: "json \<Rightarrow> csr_Name option" where
  "dec_Name (JObj kvs) =
     (case (dec_field dec_string ''C'' kvs [], dec_field dec_string ''ST'' kvs [], dec_field dec_string ''L'' kvs [],
            dec_field dec_string ''O'' kvs [], dec_field dec_string ''OU'' kvs [], dec_field dec_string ''SerialNumber'' kvs []) of
        (Some c, Some st, Some l, Some og, Some ou, Some sn) \<Rightarrow>
          Some \<lparr>nm_C = c, nm_ST = st, nm_L = l, nm_O = og, nm_OU = ou, nm_SerialNumber = sn\<rparr>
      | _ \<Rightarrow> None)"
| "dec_Name _ = None"

fun dec_KeyRequest :: "json \<Rightarrow> BasicKeyRequest option" where
  "dec_KeyRequest (JObj kvs) =
     (case (dec_field dec_string ''algo'' kvs [], dec_field dec_int ''size'' kvs 0) of
        (Some a, Some n) \<Rightarrow> Some \<lparr>kr_A = a, kr_S = n\<rparr>
      | _ \<Rightarrow> None)"
| "dec_KeyRequest _ = None"

fun dec_CAConfig :: "json \<Rightarrow> CAConfig option" where
  "dec_CAConfig (JObj kvs) =
     (case (dec_field dec_int ''pathlen'' kvs 0, dec_field dec_bool ''pathlenzero'' kvs False, dec_field dec_string ''expiry'' kvs []) of
        (Some l, Some z, Some e) \<Rightarrow> Some \<lparr>cc_PathLength = l, cc_PathLenZero = z, cc_Expiry = e\<rparr>
      | _ \<Rightarrow> None)"
| "dec_CAConfig _ = None"

definition dec_names :: "json \<Rightarrow> csr_Name list option option" where
  "dec_names v = map_option Some (dec_list dec_Name zero_Name v)"

definition dec_strings :: "json \<Rightarrow> string list option option" where
  "dec_strings v = map_option Some (dec_list dec_string [] v)"

record CSRInfo =
  ci_CN :: string
  ci_Names :: "csr_Name list option"
  ci_Hosts :: "string list option"
  ci_KeyRequest :: "BasicKeyRequest option"
  ci_CA :: "CAConfig option"
  ci_SerialNumber :: string

definition CSRInfo_fields :: "(string \<times> json) list \<Rightarrow> CSRInfo option" where
  "CSRInfo_fields kvs =
     (case (dec_field dec_string ''cn'' kvs [], dec_ref dec_names None ''names'' kvs None,
            dec_ref dec_strings None ''hosts'' kvs None, dec_ref (map_option Some \<circ> dec_KeyRequest) None ''key'' kvs None,
            dec_ref (map_option Some \<circ> dec_CAConfig) None ''ca'' kvs None, dec_field dec_string ''serial'' kvs []) of
        (Some cn, Some ns, Some hs, Some k, Some ca, Some sn) \<Rightarrow>
          Some \<lparr>ci_CN = cn, ci_Names = ns, ci_Hosts = hs, ci_KeyRequest = k, ci_CA = ca, ci_SerialNumber = sn\<rparr>
      | _ \<Rightarrow> None)"

record CertificateRequest =
  cq_CN :: string
  cq_Names :: "csr_Name list option"
  cq_Hosts :: "string list option"
  cq_KeyRequest :: "BasicKeyRequest option"
  cq_CA :: "CAConfig option"
  cq_SerialNumber :: string

definition NewBasicKeyRequest :: BasicKeyRequest where
  "NewBasicKeyRequest = \<lparr>kr_A = ''ecdsa'', kr_S = 256\<rparr>"

text \<open>
  The key request of a certificate request is an interface: an object is decoded into the value it
  points to, whose fields stay where the object has none, \<^verbatim>\<open>null\<close> makes it nil, and nothing can be
  decoded into a nil one.
\<close>

fun dec_key_fields :: "BasicKeyRequest \<Rightarrow> json \<Rightarrow> BasicKeyRequest option" where
  "dec_key_fields k (JObj kvs) =
     (case (dec_field dec_string ''algo'' kvs (kr_A k), dec_field dec_int ''size'' kvs (kr_S k)) of
        (Some a, Some n) \<Rightarrow> Some \<lparr>kr_A = a, kr_S = n\<rparr>
      | _ \<Rightarrow> None)"
| "dec_key_fields k _ = None"

fun dec_key_iface :: "(string \<times> json) list \<Rightarrow> BasicKeyRequest option \<Rightarrow> BasicKeyRequest option option" where
  "dec_key_iface [] z = Some z"
| "dec_key_iface ((k, v) # kvs) z =
     (if ToLower k \<noteq> ''key'' then dec_key_iface kvs z
      else if v = JNull then dec_key_iface kvs None
      else (case z of
              None \<Rightarrow> None
            | Some kr \<Rightarrow> (case dec_key_fields kr v of None \<Rightarrow> None | Some kr \<Rightarrow> dec_key_iface kvs (Some kr))))"

definition CertificateRequest_fields :: "CertificateRequest \<Rightarrow> (string \<times> json) list \<Rightarrow> CertificateRequest option" where
  "CertificateRequest_fields z kvs =
     (case (dec_field dec_string ''CN'' kvs (cq_CN z), dec_ref dec_names None ''names'' kvs (cq_Names z),
            dec_ref dec_strings None ''hosts'' kvs (cq_Hosts z), dec_key_iface kvs (cq_KeyRequest z),
            dec_ref (map_option Some \<circ> dec_CAConfig) None ''ca'' kvs (cq_CA z), dec_field dec_string ''serialnumber'' kvs (cq_SerialNumber z)) of
        (Some cn, Some ns, Some hs, Some k, Some ca, Some sn) \<Rightarrow>
          Some \<lparr>cq_CN = cn, cq_Names = ns, cq_Hosts = hs, cq_KeyRequest = k, cq_CA = ca, cq_SerialNumber = sn\<rparr>
      | _ \<Rightarrow> None)"

subsection \<open>Object identifiers and serial numbers\<close>

text \<open>
  The pattern a text has to match is not anchored, so one digit anywhere is enough; each part between dots
  then has to be a number for \<^verbatim>\<open>Atoi\<close>.
\<close>

definition parseObjectIdentifier :: "string \<Rightarrow> int list option" where
  "parseObjectIdentifier s =
     (if \<not> list_ex is_digit s then None
      else those (map (\<lambda>p. case Atoi p of Inl _ \<Rightarrow> None | Inr i \<Rightarrow> Some i) (Split s (CHR ''.''))))"

fun dec_OID :: "json \<Rightarrow> int list option" where
  "dec_OID (JStr s) = parseObjectIdentifier s"
| "dec_OID _ = None"

definition OID_json :: "int list \<Rightarrow> json" where
  "OID_json oid = JStr (Join (map Itoa oid) ''.'')"

text \<open>\<^verbatim>\<open>big.Int\<close> reads the digits of a number, of any length, and refuses a fraction or an exponent.\<close>

fun dec_bigint :: "json \<Rightarrow> int option" where
  "dec_bigint (JNum n) =
     (if n \<noteq> [] \<and> hd n = CHR ''-'' then map_option (\<lambda>i. - int i) (digits_val 0 (tl n)) else map_option int (digits_val 0 n))"
| "dec_bigint _ = None"

subsection \<open>Requests to sign (signer)\<close>

record csr_Subject =
  sb_CN :: string
  sb_Names :: "csr_Name list option"
  sb_SerialNumber :: string

record csr_Extension =
  ex_ID :: "int list"
  ex_Critical :: bool
  ex_Value :: string

record SignRequest =
  sq_Hosts :: "string list option"
  sq_Request :: string
  sq_Subject :: "csr_Subject option"
  sq_Profile :: string
  sq_CRLOverride :: string
  sq_Label :: string
  sq_Serial :: "int option"
  sq_Extensions :: "csr_Extension list option"

fun dec_Subject :: "json \<Rightarrow> csr_Subject option" where
  "dec_Subject (JObj kvs) =
     (case (dec_field dec_string ''CN'' kvs [], dec_ref dec_names None ''names'' kvs None, dec_field dec_string ''SerialNumber'' kvs []) of
        (Some cn, Some ns, Some sn) \<Rightarrow> Some \<lparr>sb_CN = cn, sb_Names = ns, sb_SerialNumber = sn\<rparr>
      | _ \<Rightarrow> None)"
| "dec_Subject _ = None"

fun dec_Extension :: "json \<Rightarrow> csr_Extension option" where
  "dec_Extension (JObj kvs) =
     (case (dec_own dec_OID ''id'' kvs [], dec_field dec_bool ''critical'' kvs False, dec_field dec_string ''value'' kvs []) of
        (Some i, Some c, Some v) \<Rightarrow> Some \<lparr>ex_ID = i, ex_Critical = c, ex_Value = v\<rparr>
      | _ \<Rightarrow> None)"
| "dec_Extension _ = None"

definition SignRequest_fields :: "(string \<times> json) list \<Rightarrow> SignRequest option" where
  "SignRequest_fields kvs =
     (case (dec_ref dec_strings None ''hosts'' kvs None, dec_field dec_string ''certificate_request'' kvs [],
            dec_ref (map_option Some \<circ> dec_Subject) None ''subject'' kvs None, dec_field dec_string ''profile'' kvs [],
            dec_field dec_string ''crl_override'' kvs [], dec_field dec_string ''label'' kvs [],
            dec_ref (map_option Some \<circ> dec_bigint) None ''serial'' kvs None,
            dec_ref (map_option Some \<circ> dec_list dec_Extension \<lparr>ex_ID = [], ex_Critical = False, ex_Value = []\<rparr>) None ''extensions'' kvs None) of
        (Some hs, Some r, Some sb, Some p, Some crl, Some l, Some sn, Some ex) \<Rightarrow>
          Some \<lparr>sq_Hosts = hs, sq_Request = r, sq_Subject = sb, sq_Profile = p, sq_CRLOverride = crl, sq_Label = l,
                sq_Serial = sn, sq_Extensions = ex\<rparr>
      | _ \<Rightarrow> None)"

definition Name_json :: "csr_Name \<Rightarrow> json" where
  "Name_json n = JObj
     [(''C'', JStr (nm_C n)), (''ST'', JStr (nm_ST n)), (''L'', JStr (nm_L n)), (''O'', JStr (nm_O n)),
      (''OU'', JStr (nm_OU n)), (''SerialNumber'', JStr (nm_SerialNumber n))]"

definition list_json :: "('a \<Rightarrow> json) \<Rightarrow> 'a list option \<Rightarrow> json" where
  "list_json f xs = (case xs of None \<Rightarrow> JNull | Some xs \<Rightarrow> JArr (map f xs))"

definition Subject_json :: "csr_Subject \<Rightarrow> json" where
  "Subject_json s = JObj
     [(''CN'', JStr (sb_CN s)), (''names'', list_json Name_json (sb_Names s)), (''SerialNumber'', JStr (sb_SerialNumber s))]"

definition Extension_json :: "csr_Extension \<Rightarrow> json" where
  "Extension_json e = JObj
     [(''id'', OID_json (ex_ID e)), (''critical'', JBool (ex_Critical e)), (''value'', JStr (ex_Value e))]"

definition SignRequest_json :: "SignRequest \<Rightarrow> json" where
  "SignRequest_json r = JObj
     ([(''hosts'', list_json JStr (sq_Hosts r)), (''certificate_request'', JStr (sq_Request r))]
      @ (case sq_Subject r of None \<Rightarrow> [] | Some s \<Rightarrow> [(''subject'', Subject_json s)])
      @ [(''profile'', JStr (sq_Profile r)), (''crl_override'', JStr (sq_CRLOverride r)), (''label'', JStr (sq_Label r))]
      @ (case sq_Serial r of None \<Rightarrow> [] | Some n \<Rightarrow> [(''serial'', JNum (Itoa n))])
      @ opt_field (sq_Extensions r \<in> {None, Some []}) ''extensions'' (list_json Extension_json (sq_Extensions r)))"

definition SplitHosts :: "string \<Rightarrow> string list option" where
  "SplitHosts hostList = (if hostList = [] then None else Some (Split hostList (CHR '','')))"

subsection \<open>What is marshalled is unmarshalled\<close>

definition OID_ok :: "int list \<Rightarrow> bool" where
  "OID_ok oid \<longleftrightarrow> oid \<noteq> [] \<and> list_all in_int oid"

lemma Itoa_chars: "c \<in> set (Itoa i) \<Longrightarrow> is_digit c \<or> c = CHR ''-''"
  using nat_str_is_digit [of "nat i"] nat_str_is_digit [of "nat (- i)"] by (auto simp: Itoa_def list_all_iff split: if_splits)

lemma Itoa_has_digit: "list_ex is_digit (Itoa i)"
proof -
  have "list_ex is_digit (nat_str n)" for n using nat_str_is_digit [of n] by (cases "nat_str n") auto
  then show ?thesis by (simp add: Itoa_def)
qed

lemma dec_OID_json: "OID_ok oid \<Longrightarrow> dec_OID (OID_json oid) = Some oid"
proof -
  assume ok: "OID_ok oid"
  then obtain i ks where oid: "oid = i # ks" by (cases oid) (auto simp: OID_ok_def)
  have "CHR ''.'' \<notin> set (Itoa j)" for j using Itoa_chars [of "CHR ''.''" j] by (auto simp: is_digit_def)
  then have split: "Split (Join (map Itoa oid) ''.'') (CHR ''.'') = map Itoa oid" using oid by (intro Split_Join) auto
  have "list_ex is_digit (Join (map Itoa oid) ''.'')"
    using Itoa_has_digit [of i] oid by (cases ks) (simp_all add: list_ex_append)
  moreover have "those (map ((\<lambda>p. case Atoi p of Inl _ \<Rightarrow> None | Inr i \<Rightarrow> Some i) \<circ> Itoa) oid) = Some oid"
  proof -
    have "list_all in_int oid" using ok by (simp add: OID_ok_def)
    then show ?thesis by (induction oid) (simp_all add: Atoi_Itoa)
  qed
  ultimately show ?thesis by (simp add: OID_json_def parseObjectIdentifier_def split)
qed

lemma dec_bigint_Itoa: "dec_bigint (JNum (Itoa n)) = Some n"
proof -
  obtain c cs where "nat_str (nat n) = c # cs" by (cases "nat_str (nat n)") auto
  then have "hd (nat_str (nat n)) \<noteq> CHR ''-''" using nat_str_head by simp
  then show ?thesis by (simp add: Itoa_def digits_val_nat_str)
qed

lemma dec_Name_json: "dec_Name (Name_json n) = Some n"
  by (simp add: Name_json_def ToLower_def lower_char_def)

lemma dec_lists_json:
  "dec_strings (JArr (map JStr xs)) = Some (Some xs)"
  "dec_names (JArr (map Name_json ns)) = Some (Some ns)"
  unfolding dec_strings_def dec_names_def
  by (simp_all add: dec_elems_map) (rule dec_elems_map, simp_all add: dec_Name_json, simp add: Name_json_def)

lemma dec_Subject_json: "dec_Subject (Subject_json s) = Some s"
  by (cases "sb_Names s")
    (simp_all add: Subject_json_def list_json_def ToLower_def lower_char_def dec_lists_json)

lemma dec_Extension_json: "OID_ok (ex_ID e) \<Longrightarrow> dec_Extension (Extension_json e) = Some e"
  by (simp add: Extension_json_def ToLower_def lower_char_def dec_OID_json)

lemma dec_Extensions_json:
  "\<forall>e \<in> set es. OID_ok (ex_ID e) \<Longrightarrow> dec_elems dec_Extension z (map Extension_json es) = Some es"
proof (induction es)
  case (Cons e es)
  have "Extension_json e \<noteq> JNull" by (simp add: Extension_json_def)
  with Cons show ?case by (simp add: dec_Extension_json)
qed simp

lemma json_wf_SignRequest: "json_wf (SignRequest_json r)"
proof -
  have n: "json_wf (list_json Name_json ns)" for ns
    by (cases ns) (auto simp: list_json_def Name_json_def list_all_iff)
  have s: "json_wf (Subject_json s)" for s using n by (simp add: Subject_json_def)
  have e: "json_wf (list_json Extension_json es)" for es
    by (cases es) (auto simp: list_json_def Extension_json_def OID_json_def list_all_iff)
  have h: "json_wf (list_json JStr hs)" for hs by (cases hs) (auto simp: list_json_def list_all_iff)
  show ?thesis unfolding SignRequest_json_def opt_field_def
    by (auto simp: n s e h json_wf_Itoa simp del: json_wf.simps(1) split: option.split)
qed

lemma dec_append:
  "dec_field d k (xs @ ys) z = Option.bind (dec_field d k xs z) (dec_field d k ys)"
  "dec_ref d n k (xs @ ys) z = Option.bind (dec_ref d n k xs z) (dec_ref d n k ys)"
  by (induction xs arbitrary: z) (auto split: option.split)

lemma SignRequest_fields_json:
  assumes "sq_Extensions r \<noteq> Some []" "\<forall>es. sq_Extensions r = Some es \<longrightarrow> (\<forall>e \<in> set es. OID_ok (ex_ID e))"
    and "SignRequest_json r = JObj kvs"
  shows "SignRequest_fields kvs = Some r"
proof -
  define sb where "sb = (case sq_Subject r of None \<Rightarrow> [] | Some s \<Rightarrow> [(''subject'', Subject_json s)])"
  define sn where "sn = (case sq_Serial r of None \<Rightarrow> [] | Some n \<Rightarrow> [(''serial'', JNum (Itoa n))])"
  define ex where "ex = opt_field (sq_Extensions r \<in> {None, Some []}) ''extensions'' (list_json Extension_json (sq_Extensions r))"
  let ?a = "[(''hosts'', list_json JStr (sq_Hosts r)), (''certificate_request'', JStr (sq_Request r))]"
  let ?b = "[(''profile'', JStr (sq_Profile r)), (''crl_override'', JStr (sq_CRLOverride r)), (''label'', JStr (sq_Label r))]"
  have kvs: "kvs = ?a @ sb @ ?b @ sn @ ex" using assms(3) by (simp add: SignRequest_json_def sb_def sn_def ex_def)
  have skip: "dec_field d k sb z = Some z" "dec_ref d n k sb z = Some z" if "ToLower ''subject'' \<noteq> ToLower k" for d k z n
    using that by (simp_all add: sb_def split: option.split)
  have skip_sn: "dec_field d k sn z = Some z" "dec_ref d n k sn z = Some z" if "ToLower ''serial'' \<noteq> ToLower k" for d k z n
    using that by (simp_all add: sn_def split: option.split)
  have skip_ex: "dec_field d k ex z = Some z" "dec_ref d n k ex z = Some z" if "ToLower ''extensions'' \<noteq> ToLower k" for d k z n
    using that by (simp_all add: ex_def opt_field_def)
  have strs: "dec_field dec_string ''certificate_request'' kvs [] = Some (sq_Request r)" "dec_field dec_string ''profile'' kvs [] = Some (sq_Profile r)"
    "dec_field dec_string ''crl_override'' kvs [] = Some (sq_CRLOverride r)" "dec_field dec_string ''label'' kvs [] = Some (sq_Label r)"
    unfolding kvs by (simp_all add: dec_append skip skip_sn skip_ex ToLower_def lower_char_def)
  have hosts: "dec_ref dec_strings None ''hosts'' kvs None = Some (sq_Hosts r)"
    unfolding kvs by (cases "sq_Hosts r") (simp_all add: dec_append skip skip_sn skip_ex ToLower_def lower_char_def list_json_def dec_lists_json)
  have "Subject_json s \<noteq> JNull" for s by (simp add: Subject_json_def)
  then have subject: "dec_ref (map_option Some \<circ> dec_Subject) None ''subject'' kvs None = Some (sq_Subject r)"
    unfolding kvs by (cases "sq_Subject r") (simp_all add: dec_append skip_sn skip_ex sb_def ToLower_def lower_char_def dec_Subject_json)
  have serial: "dec_ref (map_option Some \<circ> dec_bigint) None ''serial'' kvs None = Some (sq_Serial r)"
    unfolding kvs by (cases "sq_Serial r")
      (simp_all add: dec_append skip skip_ex sn_def ToLower_def lower_char_def dec_bigint_Itoa del: dec_bigint.simps)
  have exts: "dec_ref (map_option Some \<circ> dec_list dec_Extension \<lparr>ex_ID = [], ex_Critical = False, ex_Value = []\<rparr>) None ''extensions'' kvs None = Some (sq_Extensions r)"
    unfolding kvs using assms(1,2) by (cases "sq_Extensions r")
      (simp_all add: dec_append skip skip_sn ex_def opt_field_def ToLower_def lower_char_def list_json_def dec_Extensions_json)
  show ?thesis by (simp add: SignRequest_fields_def strs hosts subject serial exts)
qed

text \<open>A signing request reaches the server as the client made it.\<close>

lemma SignRequest_roundtrip:
  assumes "sq_Extensions r \<noteq> Some []" "\<forall>es. sq_Extensions r = Some es \<longrightarrow> (\<forall>e \<in> set es. OID_ok (ex_ID e))"
  shows "decode SignRequest_fields (json_print (SignRequest_json r)) = Inr r"
proof -
  obtain kvs where r: "SignRequest_json r = JObj kvs" by (simp add: SignRequest_json_def)
  show ?thesis
    unfolding r using json_wf_SignRequest [of r] SignRequest_fields_json [OF assms r] r by (intro decode_print) simp_all
qed

end
