(* ===== verification/Server_Handlers.thy ===== *)
theory Server_Handlers
  imports Register_User Auth_Handler Sign_Request
begin

text \<open>
  The COP endpoints behind the authentication wrapper: \<^verbatim>\<open>register.go\<close> (its HTTP handler),
  \<^verbatim>\<open>enroll.go\<close> and \<^verbatim>\<open>revoke.go\<close> under \<^verbatim>\<open>cli/server/\<close>.  Signing a certificate request is CFSSL's
  signer, a parameter.  A call on a nil signer panics.
\<close>

subsection \<open>register\<close>

definition registerHandler_Handle ::
  "('s, 'u) UserRegistry \<Rightarrow> Config \<Rightarrow> string \<Rightarrow> 's handler" where
  "registerHandler_Handle reg cfg rnd r s = (case ReadAll r of
     Inl err \<Rightarrow> (Inl err, s)
   | Inr body \<Rightarrow> (case decode RegisterRequest_fields body of
       Inl err \<Rightarrow> (Inl err, s)
     | Inr req \<Rightarrow>
         (case Register_RegisterUser reg cfg rnd (rq_User req) (rq_Type req) (rq_Group req)
                 (rq_Attributes req) (rq_CallerID req) [] s of
            (Inl err, s) \<Rightarrow> (Inl err, s)
          | (Inr tok, s) \<Rightarrow> (Inr (SendResponse (json_bytes (bytes_of tok))), s))))"

definition NewRegisterHandler ::
  "('s, 'u) UserRegistry \<Rightarrow> Config \<Rightarrow> string \<Rightarrow> (HttpRequest \<Rightarrow> 's \<Rightarrow> HttpResponse option \<times> 's) result" where
  "NewRegisterHandler reg cfg rnd = Inr (HTTPHandler_ServeHTTP [''POST''] (registerHandler_Handle reg cfg rnd))"

subsection \<open>enroll and reenroll\<close>

type_synonym 's signer = "SignRequest \<Rightarrow> 's \<Rightarrow> bytes result \<times> 's"

definition signHandler_Handle :: "'s signer \<Rightarrow> string \<Rightarrow> 's handler" where
  "signHandler_Handle sg endpoint r s = (case ReadAll r of
     Inl err \<Rightarrow> (Inl err, s)
   | Inr body \<Rightarrow> (case Unmarshal (decode SignRequest_fields) body endpoint of
       Inl err \<Rightarrow> (Inl err, s)
     | Inr req \<Rightarrow> (case sg req s of
         (Inl (GoPanic msg), s) \<Rightarrow> (Inl (GoPanic msg), s)
       | (Inl err, s) \<Rightarrow>
           (Inl (ErrorString (''Failed signing for endpoint '' @ endpoint @ '': '' @ Error err)), s)
       | (Inr cert, s) \<Rightarrow> (Inr (SendResponse (json_bytes cert)), s))))"

definition newSignHandler ::
  "'s signer \<Rightarrow> string \<Rightarrow> (HttpRequest \<Rightarrow> 's \<Rightarrow> HttpResponse option \<times> 's) result" where
  "newSignHandler sg endpoint = Inr (HTTPHandler_ServeHTTP [''POST''] (signHandler_Handle sg endpoint))"

definition NewEnrollHandler ::
  "'s signer \<Rightarrow> (HttpRequest \<Rightarrow> 's \<Rightarrow> HttpResponse option \<times> 's) result" where
  "NewEnrollHandler sg = newSignHandler sg ''enroll''"

definition NewReenrollHandler ::
  "'s signer \<Rightarrow> (HttpRequest \<Rightarrow> 's \<Rightarrow> HttpResponse option \<times> 's) result" where
  "NewReenrollHandler sg = newSignHandler sg ''reenroll''"

subsection \<open>revoke\<close>

text \<open>The two methods of the certificate accessor the handler calls; the accessor itself may be nil.\<close>

record 's cert_ops =
  co_RevokeCertificate :: "string \<Rightarrow> string \<Rightarrow> int \<Rightarrow> 's \<Rightarrow> unit result \<times> 's"
  co_RevokeCertificatesByID :: "string \<Rightarrow> int \<Rightarrow> 's \<Rightarrow> CertRecord list result \<times> 's"

definition db_cert_ops :: "sqldb option cert_ops" where
  "db_cert_ops = \<lparr>co_RevokeCertificate = cfssl_RevokeCertificate, co_RevokeCertificatesByID = cert_RevokeCertificatesByID\<rparr>"

definition nil_deref :: go_error where
  "nil_deref = GoPanic ''invalid memory address or nil pointer dereference''"

definition revoke_request ::
  "('s, 'u) UserRegistry \<Rightarrow> 's cert_ops option \<Rightarrow> RevocationRequest \<Rightarrow> 's \<Rightarrow> HttpResponse result \<times> 's" where
  "revoke_request reg certdb req s =
     (if rv_Serial req \<noteq> [] \<and> rv_AKI req \<noteq> [] then
        (case certdb of
           None \<Rightarrow> (Inl nil_deref, s)
         | Some co \<Rightarrow> (case co_RevokeCertificate co (rv_Serial req) (rv_AKI req) (rv_Reason req) s of
             (Inl err, s) \<Rightarrow> (Inr (notFound err), s)
           | (Inr _, s) \<Rightarrow> (Inr (SendResponse (JObj [])), s)))
      else if rv_Name req \<noteq> [] then
        (case reg_GetUser reg (rv_Name req) [] s of
           (Inl err, s) \<Rightarrow>
             (Inr (notFound (ErrorString (''Failed to get user '' @ rv_Name req @ '': '' @ Error err))), s)
         | (Inr _, s) \<Rightarrow>
             (case reg_UpdateField reg (rv_Name req) state (GInt (-1)) s of
                (Inl err, s) \<Rightarrow>
                  (Inr (dbErr (ErrorString (''Failed to disable user '' @ rv_Name req @ '': '' @ Error err))), s)
              | (Inr _, s) \<Rightarrow>
                  (case certdb of
                     None \<Rightarrow> (Inl nil_deref, s)
                   | Some co \<Rightarrow> (case co_RevokeCertificatesByID co (rv_Name req) (rv_Reason req) s of
                       (Inl err, s) \<Rightarrow>
                         (Inr (dbErr (ErrorString (''Failed to revoke certificates for user '' @ rv_Name req @ '': '' @ Error err))), s)
                     | (Inr _, s) \<Rightarrow> (Inr (SendResponse (JObj [])), s)))))
      else (Inr (badRequest (ErrorString ''either Name or Serial and AKI are required for a revoke request'')), s))"

definition revokeHandler_Handle ::
  "sig_env \<Rightarrow> ('s, 'u) UserRegistry \<Rightarrow> 's cert_ops option \<Rightarrow> 's handler" where
  "revokeHandler_Handle E reg certdb r s =
     (let authHdr = hr_Authorization r in
      if authHdr = [] then (Inr (authErr (ErrorString ''no authorization header'')), s)
      else (case ReadAll r of
        Inl err \<Rightarrow> (Inr (badRequest err), s)
      | Inr body \<Rightarrow> (case VerifyToken E authHdr (bytes_of body) of
          Inl err \<Rightarrow> (Inr (authErr err), s)
        | Inr cert \<Rightarrow> (case userHasAttribute reg (x_CommonName cert) ''hf.Revoker'' s of
            (Inl err, s) \<Rightarrow> (Inr (authErr err), s)
          | (Inr _, s) \<Rightarrow> (case decode RevocationRequest_fields body of
              Inl err \<Rightarrow> (Inr (badRequest err), s)
            | Inr req \<Rightarrow> revoke_request reg certdb req s)))))"

definition NewRevokeHandler ::
  "sig_env \<Rightarrow> ('s, 'u) UserRegistry \<Rightarrow> 's cert_ops option \<Rightarrow> (HttpRequest \<Rightarrow> 's \<Rightarrow> HttpResponse option \<times> 's) result" where
  "NewRevokeHandler E reg certdb = Inr (HTTPHandler_ServeHTTP [''POST''] (revokeHandler_Handle E reg certdb))"

subsection \<open>Registration trusts the body\<close>

text \<open>
  C36. The register endpoint takes the registrar from the request body.  Whoever the wrapper has
  authenticated, a request whose body has a \<^verbatim>\<open>callerID\<close> is decided by the roles of the user named there:
  it succeeds when that user may register the type, and is refused when not, also if the authenticated
  caller may.  A body without a \<^verbatim>\<open>callerID\<close> is not checked for any role.  So any caller with a valid
  token registers users of any type into any existing group.
\<close>

theorem register_endpoint_trusts_body:
  assumes "faults d = []" "hr_ReadErr r = None" "hr_Body r = json_print (RegisterRequest_json req)"
    and "lookup_user d (rq_User req) = None" "rq_Group req \<in> gr_Name ` set (groups d)"
  shows "if rq_CallerID req = [] \<or> may_register d (rq_CallerID req) (rq_Type req)
    then \<exists>d'. registerHandler_Handle db_registry cfg rnd (r\<lparr>hr_Eid := eid, hr_Authorization := auth\<rparr>) (Some d) =
        (Inr (SendResponse (json_bytes (bytes_of rnd))), Some d') \<and>
      map_option ur_Pass (lookup_user d' (rq_User req)) = Some rnd
    else \<exists>e. registerHandler_Handle db_registry cfg rnd (r\<lparr>hr_Eid := eid, hr_Authorization := auth\<rparr>) (Some d) = (Inl e, Some d)"
proof (cases "rq_CallerID req = [] \<or> may_register d (rq_CallerID req) (rq_Type req)")
  case True
  let ?u = "registered cfg \<lparr>ui_Name = rq_User req, ui_Pass = rnd, ui_Type = rq_Type req, ui_Group = rq_Group req, ui_Attributes = rq_Attributes req\<rparr>"
  let ?d = "d\<lparr>users := users d @ [?u]\<rparr>"
  have "rq_CallerID req = [] \<or> Register_canRegister db_registry (rq_CallerID req) (rq_Type req) (Some d) = (Inr (), Some d)"
    using True assms(1) by (auto intro: canRegister_no_faults)
  then have "Register_RegisterUser db_registry cfg rnd (rq_User req) (rq_Type req) (rq_Group req) (rq_Attributes req) (rq_CallerID req) []
      (Some d) = (Inr rnd, Some ?d)"
    using assms by (intro RegisterUser_no_faults) auto
  moreover have "lookup_user ?d (rq_User req) = Some ?u"
    using assms(4) by (simp add: lookup_user_append registered_def user_record_def)
  moreover have "ur_Pass ?u = rnd" by (simp add: registered_def user_record_def)
  ultimately show ?thesis
    using True assms(2,3) by (simp add: registerHandler_Handle_def ReadAll_def RegisterRequest_roundtrip)
next
  case False
  then obtain e where "Register_RegisterUser db_registry cfg rnd (rq_User req) (rq_Type req) (rq_Group req) (rq_Attributes req)
      (rq_CallerID req) [] (Some d) = (Inl e, Some d)"
    using RegisterUser_refused [OF assms(1)] by blast
  with False assms(2,3) show ?thesis by (simp add: registerHandler_Handle_def ReadAll_def RegisterRequest_roundtrip)
qed

definition demo_regreq :: RegisterRequest where
  "demo_regreq = \<lparr>rq_User = ''mallory'', rq_Group = ''bank_a'', rq_Type = ''Client'', rq_Attributes = [], rq_CallerID = ''admin''\<rparr>"

text \<open>The caller \<^verbatim>\<open>nobody\<close> registers a user in the name of \<^verbatim>\<open>admin\<close>; \<^verbatim>\<open>admin\<close> is refused in the name of \<^verbatim>\<open>nobody\<close>.\<close>

theorem register_endpoint_trusts_body_witness:
  "(\<exists>d'. registerHandler_Handle db_registry demo_cfg ''s3cret''
      (demo_req\<lparr>hr_Body := json_print (RegisterRequest_json demo_regreq), hr_Eid := ''nobody'', hr_Authorization := []\<rparr>) (Some demo_db2) =
      (Inr (SendResponse (json_bytes (bytes_of ''s3cret''))), Some d') \<and>
    map_option ur_Pass (lookup_user d' ''mallory'') = Some ''s3cret'') \<and>
   (\<exists>e. registerHandler_Handle db_registry demo_cfg ''s3cret''
      (demo_req\<lparr>hr_Body := json_print (RegisterRequest_json (demo_regreq\<lparr>rq_CallerID := ''nobody''\<rparr>)), hr_Eid := ''admin'', hr_Authorization := []\<rparr>)
      (Some demo_db2) = (Inl e, Some demo_db2))"
proof -
  have d: "faults demo_db2 = []" "lookup_user demo_db2 ''mallory'' = None" "''bank_a'' \<in> gr_Name ` set (groups demo_db2)"
    "\<not> may_register demo_db2 ''nobody'' ''Client''"
    by (simp_all add: demo_db2_def demo_db_def demo_registrar_def demo_user_def lookup_user_def may_register_def)
  have q: "rq_User demo_regreq = ''mallory''" "rq_Group demo_regreq = ''bank_a''" "rq_Type demo_regreq = ''Client''"
    "rq_CallerID demo_regreq = ''admin''" "hr_ReadErr demo_req = None"
    by (simp_all add: demo_regreq_def demo_req_def)
  show ?thesis
    using register_endpoint_trusts_body [of demo_db2 "demo_req\<lparr>hr_Body := json_print (RegisterRequest_json demo_regreq)\<rparr>"
        demo_regreq demo_cfg "''s3cret''" "[]" "''nobody''"]
      register_endpoint_trusts_body [of demo_db2 "demo_req\<lparr>hr_Body := json_print (RegisterRequest_json (demo_regreq\<lparr>rq_CallerID := ''nobody''\<rparr>))\<rparr>"
        "demo_regreq\<lparr>rq_CallerID := ''nobody''\<rparr>" demo_cfg "''s3cret''" "[]" "''admin''"]
    using d demo_may_register q by simp
qed

subsection \<open>Revocation\<close>

definition is_revoker :: "sqldb \<Rightarrow> string \<Rightarrow> bool" where
  "is_revoker d name \<longleftrightarrow> (\<exists>u. lookup_user d name = Some u \<and> DBUser_GetAttribute (newDBUser u) ''hf.Revoker'' \<noteq> [])"

lemma userHasAttribute_db:
  assumes "userHasAttribute db_registry n k (Some d) = (res, h')"
  obtains d' where "h' = Some d'" "same_tables d d'"
    "res = Inr () \<longrightarrow> (\<exists>u. lookup_user d n = Some u \<and> DBUser_GetAttribute (newDBUser u) k \<noteq> [])"
proof -
  obtain q h1 where q: "Accessor_GetUser n [k] (Some d) = (q, h1)" by (cases "Accessor_GetUser n [k] (Some d)")
  then obtain d' where d': "h1 = Some d'" "same_tables d d'" by (cases rule: GetUser_cases) auto
  with assms q have "h' = Some d'"
    by (auto simp: userHasAttribute_def getUserAttrValue_def split: sum.splits if_splits)
  moreover have "\<exists>u. lookup_user d n = Some u \<and> DBUser_GetAttribute (newDBUser u) k \<noteq> []" if "res = Inr ()"
    using db.userHasAttribute_sound [of n k "Some d" h'] assms that by (auto simp: db_view_def abs_record_def)
  ultimately show thesis using that d'(2) by blast
qed

text \<open>
  C16. Only revokers revoke: unless the request carries a token that verifies for its body and whose
  certificate names a user of the table with a non-empty attribute \<^verbatim>\<open>hf.Revoker\<close>, the revoke
  endpoint answers 400 or 401 and leaves every table as it was.
\<close>

theorem revoke_requires_attribute:
  assumes "\<not> (\<exists>cert. VerifyToken E (hr_Authorization r) (bytes_of (hr_Body r)) = Inr cert \<and> is_revoker d (x_CommonName cert))"
  shows "\<exists>resp d'. revokeHandler_Handle E db_registry certdb r (Some d) = (Inr resp, Some d') \<and>
    hp_Status resp \<in> {400, 401} \<and> same_tables d d'"
proof (cases "hr_Authorization r = [] \<or> hr_ReadErr r \<noteq> None")
  case True
  then show ?thesis
    by (auto simp: revokeHandler_Handle_def ReadAll_def error_statuses Let_def)
next
  case False
  then have body: "ReadAll r = Inr (hr_Body r)" by (simp add: ReadAll_def)
  show ?thesis
  proof (cases "VerifyToken E (hr_Authorization r) (bytes_of (hr_Body r))")
    case (Inl e)
    with False body show ?thesis by (auto simp: revokeHandler_Handle_def error_statuses Let_def)
  next
    case (Inr cert)
    obtain res h' where u: "userHasAttribute db_registry (x_CommonName cert) ''hf.Revoker'' (Some d) = (res, h')"
      by (cases "userHasAttribute db_registry (x_CommonName cert) ''hf.Revoker'' (Some d)")
    from u obtain d' where d': "h' = Some d'" "same_tables d d'"
      "res = Inr () \<longrightarrow> (\<exists>u. lookup_user d (x_CommonName cert) = Some u \<and> DBUser_GetAttribute (newDBUser u) ''hf.Revoker'' \<noteq> [])"
      by (rule userHasAttribute_db)
    with assms Inr have "res \<noteq> Inr ()" by (auto simp: is_revoker_def)
    then obtain e where "res = Inl e" by (cases res) auto
    with False body Inr u d' show ?thesis by (auto simp: revokeHandler_Handle_def error_statuses Let_def)
  qed
qed

theorem revoke_requires_attribute_witness:
  "\<exists>resp d'. revokeHandler_Handle demo_sig db_registry (Some db_cert_ops) demo_req (Some demo_db) = (Inr resp, Some d') \<and>
    hp_Status resp \<in> {400, 401} \<and> same_tables demo_db d'"
proof (rule revoke_requires_attribute)
  have "\<not> is_revoker demo_db ''alice''" by (simp add: is_revoker_def demo_db_def demo_user_def lookup_user_def)
  then show "\<not> (\<exists>cert. VerifyToken demo_sig (hr_Authorization demo_req) (bytes_of (hr_Body demo_req)) = Inr cert \<and>
      is_revoker demo_db (x_CommonName cert))"
    using demo_token_verify [of "''alice''" "''{}''"] by (simp add: demo_req_def demo_x_def)
qed

lemma UpdateField_state_effect:
  assumes "Accessor_UpdateField uid state (GInt v) (Some d) = (Inr (), h')"
  obtains d' where "h' = Some d'" "certificates d' = certificates d"
    "users d' = update_rows (\<lambda>r. ur_Name r = uid) (\<lambda>r. r\<lparr>ur_State := v\<rparr>) (users d)"
proof -
  let ?stmt = "update_users_sql (\<lambda>r. r\<lparr>ur_State := v\<rparr>) uid"
  obtain q d' where q: "sql_exec ?stmt d = (q, d')" by (cases "sql_exec ?stmt d")
  with assms obtain res where "q = Inr res" "h' = Some d'"
    by (auto simp: Accessor_UpdateField_def checked_Some split: sum.splits)
  moreover from q this(1) have "certificates d' = certificates d \<and>
      users d' = update_rows (\<lambda>r. ur_Name r = uid) (\<lambda>r. r\<lparr>ur_State := v\<rparr>) (users d)"
    using same_tables_fields by (cases rule: sql_exec_cases) (auto simp: update_users_sql_def)
  ultimately show thesis using that by blast
qed

lemma revoke_by_serial_effect:
  assumes "cfssl_RevokeCertificate serial akid reason (Some d) = (Inr (), h')"
  obtains d' where "h' = Some d'"
    "certificates d' = update_rows (by_serial serial akid) (revoke_row (clock d) reason) (certificates d)"
proof -
  let ?stmt = "update_certs_sql (by_serial serial akid) reason"
  obtain q d' where q: "sql_exec ?stmt d = (q, d')" by (cases "sql_exec ?stmt d")
  with assms obtain res where r: "q = Inr res" "h' = Some d'"
    by (auto simp: cfssl_RevokeCertificate_def cfssl_checked_Some split: sum.splits)
  from q r update_certs_effect show thesis by (intro that [of d']) auto
qed

definition all_revoked :: "(CertRecord \<Rightarrow> bool) \<Rightarrow> sqldb \<Rightarrow> bool" where
  "all_revoked p d \<longleftrightarrow> (\<forall>c \<in> set (certificates d). p c \<longrightarrow> cr_Status c = ''revoked'')"

lemma all_revoked_update:
  assumes "certificates d' = update_rows p (revoke_row t reason) cs" "\<And>c. q c \<Longrightarrow> cr_Status c \<noteq> ''revoked'' \<Longrightarrow> p c"
  shows "all_revoked q d'"
  unfolding all_revoked_def
proof (intro ballI impI)
  fix c
  assume "c \<in> set (certificates d')" "q c"
  from this(1) consider "\<not> p c" | r where "c = revoke_row t reason r"
    unfolding assms(1) in_update_rows by blast
  then show "cr_Status c = ''revoked''"
  proof cases
    case 1
    with assms(2) [OF \<open>q c\<close>] show ?thesis by blast
  next
    case 2
    then show ?thesis by (simp only: revoke_row_simps)
  qed
qed

lemma lookup_users_eq: "users d' = users e \<Longrightarrow> lookup_user d' = lookup_user e"
  by (simp add: lookup_user_def fun_eq_iff)

lemma revoke_request_success:
  assumes "revoke_request db_registry (Some db_cert_ops) req (Some d) = (Inr resp, h')" "hp_Status resp = 200"
  shows "\<exists>d'. h' = Some d' \<and>
    (if rv_Serial req \<noteq> [] \<and> rv_AKI req \<noteq> [] then all_revoked (by_serial (rv_Serial req) (rv_AKI req)) d'
     else all_revoked (\<lambda>c. cr_ID c = rv_Name req) d' \<and>
       (\<exists>u. lookup_user d' (rv_Name req) = Some u \<and> ur_State u = -1))"
proof (cases "rv_Serial req \<noteq> [] \<and> rv_AKI req \<noteq> []")
  case True
  then obtain "cfssl_RevokeCertificate (rv_Serial req) (rv_AKI req) (rv_Reason req) (Some d) = (Inr (), h')"
    using assms by (auto simp: revoke_request_def db_cert_ops_def error_statuses split: prod.splits sum.splits)
  then show ?thesis
  proof (rule revoke_by_serial_effect)
    fix d'
    assume "h' = Some d'" "certificates d' = update_rows (by_serial (rv_Serial req) (rv_AKI req)) (revoke_row (clock d) (rv_Reason req)) (certificates d)"
    with True all_revoked_update show ?thesis by fastforce
  qed
next
  case False
  with assms obtain u0 h1 h2 crs where
    g: "Accessor_GetUser (rv_Name req) [] (Some d) = (Inr u0, h1)" and
    u: "Accessor_UpdateField (rv_Name req) state (GInt (-1)) h1 = (Inr (), h2)" and
    c: "cert_RevokeCertificatesByID (rv_Name req) (rv_Reason req) h2 = (Inr crs, h')"
    by (auto simp: revoke_request_def db_cert_ops_def error_statuses split: prod.splits sum.splits if_splits)
  from g obtain r d1 where d1: "lookup_user d (rv_Name req) = Some r" "h1 = Some d1" "same_tables d d1"
    by (cases rule: GetUser_cases) auto
  from u d1(2) obtain d2 where d2: "h2 = Some d2"
    "users d2 = update_rows (\<lambda>r. ur_Name r = rv_Name req) (\<lambda>r. r\<lparr>ur_State := -1\<rparr>) (users d1)"
    by (auto elim: UpdateField_state_effect)
  from c d2(1) obtain d3 where d3: "h' = Some d3" "users d3 = users d2"
    "certificates d3 = update_rows (by_id_good (rv_Name req)) (revoke_row (clock d2) (rv_Reason req)) (certificates d2)"
    by (auto elim: RevokeCertificatesByID_effect)
  have "lookup_user d1 (rv_Name req) = Some r" using d1 by (simp add: lookup_same_tables)
  then have "lookup_user d3 (rv_Name req) = Some (r\<lparr>ur_State := -1\<rparr>)"
    using lookup_update_users [where f = "\<lambda>r. r\<lparr>ur_State := -1\<rparr>" and d = d1 and uid = "rv_Name req"] d2(2) d3(2)
      lookup_users_eq [of d3 "d1\<lparr>users := users d2\<rparr>"] by simp
  moreover have "all_revoked (\<lambda>c. cr_ID c = rv_Name req) d3"
    by (rule all_revoked_update [OF d3(3)]) (simp add: by_id_good_def)
  ultimately show ?thesis using False d3(1) by auto
qed

text \<open>
  C17. What a successful revocation means: when the revoke endpoint answers 200, the body was a
  revocation request, and in the resulting database the certificate it names by serial number and
  authority key is revoked, or, for a request by name, every certificate of the user is revoked and
  the user's state is \<^verbatim>\<open>-1\<close>.
\<close>

theorem revoke_endpoint_success:
  assumes "revokeHandler_Handle E db_registry (Some db_cert_ops) r (Some d) = (Inr resp, h')" "hp_Status resp = 200"
  shows "\<exists>req d'. decode RevocationRequest_fields (hr_Body r) = Inr req \<and> h' = Some d' \<and>
    (if rv_Serial req \<noteq> [] \<and> rv_AKI req \<noteq> [] then all_revoked (by_serial (rv_Serial req) (rv_AKI req)) d'
     else all_revoked (\<lambda>c. cr_ID c = rv_Name req) d' \<and>
       (\<exists>u. lookup_user d' (rv_Name req) = Some u \<and> ur_State u = -1))"
proof -
  obtain cert :: Certificate and h1 req where
    b: "ReadAll r = Inr (hr_Body r)" and
    a: "userHasAttribute db_registry (x_CommonName cert) ''hf.Revoker'' (Some d) = (Inr (), h1)" and
    q: "decode RevocationRequest_fields (hr_Body r) = Inr req" "revoke_request db_registry (Some db_cert_ops) req h1 = (Inr resp, h')"
    using assms by (auto simp: revokeHandler_Handle_def Let_def error_statuses ReadAll_def
        split: if_splits sum.splits prod.splits option.splits)
  from a obtain d1 where "h1 = Some d1" by (rule userHasAttribute_db)
  with q revoke_request_success assms(2) show ?thesis by blast
qed

text \<open>On a database that does not fail, a revoker's request by name succeeds.\<close>

definition disabled :: "string \<Rightarrow> int \<Rightarrow> sqldb \<Rightarrow> sqldb" where
  "disabled n reason d = d\<lparr>users := update_rows (\<lambda>r. ur_Name r = n) (\<lambda>r. r\<lparr>ur_State := -1\<rparr>) (users d),
     certificates := update_rows (by_id_good n) (revoke_row (clock d) reason) (certificates d)\<rparr>"

lemma revoke_by_name_handled:
  assumes "faults d = []" "ReadAll r = Inr body" "VerifyToken E (hr_Authorization r) (bytes_of body) = Inr cert"
    and "is_revoker d (x_CommonName cert)" "decode RevocationRequest_fields body = Inr req"
    and "rv_Name req \<noteq> []" "rv_Serial req = [] \<or> rv_AKI req = []" "lookup_user d (rv_Name req) = Some u"
  shows "revokeHandler_Handle E db_registry (Some db_cert_ops) r (Some d) =
    (Inr (SendResponse (JObj [])), Some (disabled (rv_Name req) (rv_Reason req) d))"
proof -
  have "userHasAttribute db_registry (x_CommonName cert) ''hf.Revoker'' (Some d) = (Inr (), Some d)"
    using assms(1,4) by (auto simp: is_revoker_def userHasAttribute_def getUserAttrValue_def GetUser_no_faults)
  moreover have "revoke_request db_registry (Some db_cert_ops) req (Some d) =
      (Inr (SendResponse (JObj [])), Some (disabled (rv_Name req) (rv_Reason req) d))"
    using assms(1,6-8)
    by (auto simp: revoke_request_def GetUser_no_faults UpdateField_no_faults db_cert_ops_def cert_RevokeCertificatesByID_def
        cert_checked_Some sql_exec_no_faults sql_select_no_faults select_certs_def update_certs_sql_def disabled_def)
  ultimately show ?thesis
    using assms(2,3,5) token_not_basic [OF assms(3)] by (simp add: revokeHandler_Handle_def Let_def)
qed

definition demo_rvdb :: sqldb where
  "demo_rvdb = demo_cdb\<lparr>users := [demo_user, demo_user\<lparr>ur_Name := ''alice'',
     ur_Attributes := MarshalAttrs [\<lparr>attr_Name = ''hf.Revoker'', attr_Value = ''true''\<rparr>]\<rparr>]\<rparr>"

definition demo_rvreq :: RevocationRequest where
  "demo_rvreq = \<lparr>rv_Name = ''admin'', rv_Serial = [], rv_AKI = [], rv_Reason = 1\<rparr>"

definition demo_rv :: HttpRequest where
  "demo_rv = (let body = json_print (RevocationRequest_json demo_rvreq) in
     demo_req\<lparr>hr_Body := body, hr_Authorization := demo_token ''alice'' body\<rparr>)"

lemma demo_rv_handled:
  "\<exists>resp h'. revokeHandler_Handle demo_sig db_registry (Some db_cert_ops) demo_rv (Some demo_rvdb) = (Inr resp, h') \<and> hp_Status resp = 200"
proof -
  let ?body = "json_print (RevocationRequest_json demo_rvreq)"
  let ?u = "demo_user\<lparr>ur_Name := ''alice'', ur_Attributes := MarshalAttrs [\<lparr>attr_Name = ''hf.Revoker'', attr_Value = ''true''\<rparr>]\<rparr>"
  have "lookup_user demo_rvdb ''alice'' = Some ?u" by (simp add: demo_rvdb_def demo_user_def lookup_user_def)
  moreover have "DBUser_GetAttribute (newDBUser ?u) ''hf.Revoker'' = ''true''" by (simp add: DBUser_GetAttribute_def newDBUser_def)
  ultimately have "is_revoker demo_rvdb (x_CommonName (demo_x ''alice''))" by (simp add: is_revoker_def demo_x_def)
  moreover have "VerifyToken demo_sig (hr_Authorization demo_rv) (bytes_of ?body) = Inr (demo_x ''alice'')"
    using demo_token_verify [of "''alice''" ?body] by (simp add: demo_rv_def Let_def)
  moreover have "decode RevocationRequest_fields ?body = Inr demo_rvreq"
    by (rule RevocationRequest_roundtrip) (simp add: demo_rvreq_def in_int_def)
  moreover have "faults demo_rvdb = []" "lookup_user demo_rvdb (rv_Name demo_rvreq) = Some demo_user" "rv_Name demo_rvreq \<noteq> []" "rv_Serial demo_rvreq = []"
    by (simp_all add: demo_rvdb_def demo_cdb_def demo_db_def demo_rvreq_def demo_user_def lookup_user_def)
  moreover have "ReadAll demo_rv = Inr ?body" by (simp add: demo_rv_def Let_def demo_req_def ReadAll_def)
  ultimately show ?thesis by (simp add: revoke_by_name_handled error_statuses)
qed

theorem revoke_endpoint_success_witness:
  "\<exists>resp d'. revokeHandler_Handle demo_sig db_registry (Some db_cert_ops) demo_rv (Some demo_rvdb) = (Inr resp, Some d') \<and>
    all_revoked (\<lambda>c. cr_ID c = ''admin'') d' \<and> (\<exists>u. lookup_user d' ''admin'' = Some u \<and> ur_State u = -1)"
proof -
  obtain resp h' where h: "revokeHandler_Handle demo_sig db_registry (Some db_cert_ops) demo_rv (Some demo_rvdb) = (Inr resp, h')"
    "hp_Status resp = 200" using demo_rv_handled by blast
  have "hr_Body demo_rv = json_print (RevocationRequest_json demo_rvreq)" by (simp add: demo_rv_def Let_def)
  then have "decode RevocationRequest_fields (hr_Body demo_rv) = Inr demo_rvreq"
    by (simp add: RevocationRequest_roundtrip demo_rvreq_def in_int_def)
  with revoke_endpoint_success [OF h] h(1) show ?thesis by (auto simp: demo_rvreq_def)
qed

end
