(* ===== verification/Tcert_Crypto.thy ===== *)
theory Tcert_Crypto
  imports Go_Base64 X509_Env Util_Misc
begin

text \<open>
  The helpers of the transaction-certificate library, \<^verbatim>\<open>lib/tcert/util.go\<close> (some of which
  \<^verbatim>\<open>util/cryptoutil.go\<close> has too): UUIDs, PKCS\#7 padding, CBC mode, numbers of a given length, and
  the reading of certificates and keys.  AES itself is a parameter, a pair of functions on blocks;
  \<open>aes_correct\<close> says that decrypting a block undoes encrypting it.  Random bytes are arguments, as
  the result of reading them.
\<close>

unbundle bit_operations_syntax

definition BlockSize :: nat where
  "BlockSize = 16"

record aes_env =
  aes_Encrypt :: "bytes \<Rightarrow> bytes \<Rightarrow> bytes"
  aes_Decrypt :: "bytes \<Rightarrow> bytes \<Rightarrow> bytes"

definition aes_correct :: "aes_env \<Rightarrow> bool" where
  "aes_correct A \<longleftrightarrow> (\<forall>k b. length b = BlockSize \<longrightarrow>
     length (aes_Encrypt A k b) = BlockSize \<and> aes_Decrypt A k (aes_Encrypt A k b) = b)"

subsection \<open>UUIDs\<close>

definition GenerateBytesUUID :: "bytes result \<Rightarrow> bytes result" where
  "GenerateBytesUUID rnd = (case rnd of
     Inl err \<Rightarrow> Inl err
   | Inr uuid \<Rightarrow>
       let uuid = uuid[8 := (uuid ! 8 AND NOT 0xC0) OR 0x80];
           uuid = uuid[6 := (uuid ! 6 AND NOT 0xF0) OR 0x40]
       in Inr uuid)"

text \<open>\<^verbatim>\<open>big.Int.SetBytes\<close>, big-endian, and \<^verbatim>\<open>big.Int.Bytes\<close>.\<close>

definition SetBytes :: "bytes \<Rightarrow> nat" where
  "SetBytes b = fold (\<lambda>w n. n * 256 + unat w) b 0"

fun nat_bytes :: "nat \<Rightarrow> bytes" where
  "nat_bytes n = (if n = 0 then [] else nat_bytes (n div 256) @ [of_nat (n mod 256)])"

declare nat_bytes.simps [simp del]

definition GenerateIntUUID :: "bytes result \<Rightarrow> nat result" where
  "GenerateIntUUID rnd = (case GenerateBytesUUID rnd of
     Inl err \<Rightarrow> Inl err
   | Inr uuid \<Rightarrow> Inr (SetBytes uuid))"

subsection \<open>Padding\<close>

definition PKCS7Padding :: "bytes \<Rightarrow> bytes" where
  "PKCS7Padding src =
     (let padding = BlockSize - length src mod BlockSize;
          padtext = replicate padding (of_nat padding)
      in src @ padtext)"

text \<open>Indexing \<^verbatim>\<open>src[length-1]\<close> and slicing \<^verbatim>\<open>src[len(src)-unpadding:]\<close> panic out of range.\<close>

definition PKCS7UnPadding :: "bytes \<Rightarrow> bytes result" where
  "PKCS7UnPadding src =
     (if src = [] then Inl (GoPanic ''index out of range'')
      else let unpadding = unat (last src) in
        if unpadding > BlockSize \<or> unpadding = 0 then Inl (ErrorString ''invalid padding'')
        else if length src < unpadding then Inl (GoPanic ''slice bounds out of range'')
        else let pad = drop (length src - unpadding) src in
          if \<not> list_all (\<lambda>b. b = of_nat unpadding) pad then Inl (ErrorString ''invalid padding'')
          else Inr (take (length src - unpadding) src))"

subsection \<open>CBC mode\<close>

definition xor_bytes :: "bytes \<Rightarrow> bytes \<Rightarrow> bytes" where
  "xor_bytes a b = map2 (XOR) a b"

function cbc_enc :: "(bytes \<Rightarrow> bytes) \<Rightarrow> bytes \<Rightarrow> bytes \<Rightarrow> bytes" where
  "cbc_enc E iv s =
     (if length s < BlockSize then []
      else let c = E (xor_bytes (take BlockSize s) iv) in c @ cbc_enc E c (drop BlockSize s))"
  by pat_completeness auto
termination
  by (relation "measure (\<lambda>(E, iv, s). length s)") (auto simp: BlockSize_def)

function cbc_dec :: "(bytes \<Rightarrow> bytes) \<Rightarrow> bytes \<Rightarrow> bytes \<Rightarrow> bytes" where
  "cbc_dec D iv s =
     (if length s < BlockSize then []
      else let c = take BlockSize s in xor_bytes (D c) iv @ cbc_dec D c (drop BlockSize s))"
  by pat_completeness auto
termination
  by (relation "measure (\<lambda>(D, iv, s). length s)") (auto simp: BlockSize_def)

declare cbc_enc.simps [simp del] cbc_dec.simps [simp del]

text \<open>\<^verbatim>\<open>aes.NewCipher\<close> takes keys of 16, 24 or 32 bytes.\<close>

definition NewCipher :: "bytes \<Rightarrow> unit result" where
  "NewCipher key = (if length key \<in> {16, 24, 32} then Inr ()
     else Inl (ExtError (''crypto/aes: invalid key size '' @ Itoa (int (length key)))))"

definition CBCEncrypt :: "aes_env \<Rightarrow> bytes result \<Rightarrow> bytes \<Rightarrow> bytes \<Rightarrow> bytes result" where
  "CBCEncrypt A rnd key s =
     (if length s mod BlockSize \<noteq> 0
      then Inl (ErrorString ''CBCEncrypt failure: plaintext is not a multiple of the block size'')
      else (case NewCipher key of
        Inl err \<Rightarrow> Inl err
      | Inr _ \<Rightarrow> (case rnd of
          Inl err \<Rightarrow> Inl (ErrorString (''CBCEncrypt failure in io.ReadFull: '' @ Error err))
        | Inr iv \<Rightarrow> Inr (iv @ cbc_enc (aes_Encrypt A key) iv s))))"

definition CBCPKCS7Encrypt :: "aes_env \<Rightarrow> bytes result \<Rightarrow> bytes \<Rightarrow> bytes \<Rightarrow> bytes result" where
  "CBCPKCS7Encrypt A rnd key src = CBCEncrypt A rnd key (PKCS7Padding src)"

text \<open>
  \<^verbatim>\<open>CBCDecrypt\<close> decrypts in place: the second component is the caller's buffer afterwards.
\<close>

definition CBCDecrypt :: "aes_env \<Rightarrow> bytes \<Rightarrow> bytes \<Rightarrow> bytes result \<times> bytes" where
  "CBCDecrypt A key src = (case NewCipher key of
     Inl err \<Rightarrow> (Inl err, src)
   | Inr _ \<Rightarrow>
       if length src < BlockSize then (Inl (ErrorString ''ciphertext too short''), src)
       else let iv = take BlockSize src; rest = drop BlockSize src in
         if length rest mod BlockSize \<noteq> 0
         then (Inl (ErrorString ''ciphertext is not a multiple of the block size''), src)
         else let pt = cbc_dec (aes_Decrypt A key) iv rest in (Inr pt, iv @ pt))"

definition CBCPKCS7Decrypt :: "aes_env \<Rightarrow> bytes \<Rightarrow> bytes \<Rightarrow> bytes result \<times> bytes" where
  "CBCPKCS7Decrypt A key src = (case CBCDecrypt A key src of
     (Inl err, buf) \<Rightarrow> (Inl err, buf)
   | (Inr pt, buf) \<Rightarrow> (case PKCS7UnPadding pt of Inl err \<Rightarrow> (Inl err, buf) | Inr original \<Rightarrow> (Inr original, buf)))"

subsection \<open>Numbers\<close>

text \<open>\<open>randomNum\<close> is what \<^verbatim>\<open>rand.Int\<close> returns, a number below the upper bound.\<close>

definition GenNumber :: "nat \<Rightarrow> nat \<Rightarrow> nat" where
  "GenNumber randomNum numlen =
     (let lowerBound = 10 ^ (numlen - 1);
          upperBound = 10 ^ numlen;
          val = randomNum + lowerBound;
          valMod = val mod upperBound
      in if valMod < lowerBound then valMod + lowerBound else valMod)"

definition CreateRootPreKey :: "bytes \<Rightarrow> string" where
  "CreateRootPreKey key = StdEncode key"

subsection \<open>Certificates and keys\<close>

definition GetEnrollmentIDFromCert :: "Certificate \<Rightarrow> string" where
  "GetEnrollmentIDFromCert ecert = x_CommonName ecert"

definition ValidateCert :: "int \<Rightarrow> Certificate \<Rightarrow> bool" where
  "ValidateCert currentTime cert =
     (let diffFromExpiry = x_NotAfter cert - currentTime;
          diffFromStart = currentTime - x_NotBefore cert
      in diffFromExpiry > 0 \<and> diffFromStart > 0)"

text \<open>
  \<^verbatim>\<open>x509.ParseCertificates\<close> (a parameter) returns the certificates of a sequence, none for empty
  input; \<^verbatim>\<open>log.Fatal\<close> ends the process, modelled as a panic.
\<close>

definition GetCertificate :: "x509_env \<Rightarrow> (bytes \<Rightarrow> Certificate list result) \<Rightarrow> int \<Rightarrow> bytes \<Rightarrow> Certificate result" where
  "GetCertificate E parse now certificate =
     (let valid = (\<lambda>cs. case cs of
            [] \<Rightarrow> Inl (GoPanic ''index out of range'')
          | c # _ \<Rightarrow> if ValidateCert now c then Inr c else Inl (ErrorString ''Certificate expired''))
      in case pem_Decode E certificate of
           None \<Rightarrow> (case parse certificate of
             Inl _ \<Rightarrow> Inl (ErrorString ''DER Certificate Parse failed'')
           | Inr cs \<Rightarrow> valid cs)
         | Some der \<Rightarrow> (case parse der of
             Inl _ \<Rightarrow> Inl (GoPanic ''PEM Certificatre Parse failed'')
           | Inr cs \<Rightarrow> valid cs))"

definition GetCertitificateSerialNumber ::
  "x509_env \<Rightarrow> (bytes \<Rightarrow> Certificate list result) \<Rightarrow> int \<Rightarrow> bytes \<Rightarrow> int \<times> go_error option" where
  "GetCertitificateSerialNumber E parse now b = (case GetCertificate E parse now b of
     Inl err \<Rightarrow> (-1, Some err)
   | Inr c \<Rightarrow> (x_SerialNumber c, None))"

datatype PrivateKey = RSA_PrivateKey string | ECDSA_PrivateKey string | Other_PrivateKey string

record key_env =
  ke_ParsePKCS1 :: "bytes \<Rightarrow> string result"
  ke_ParsePKCS8 :: "bytes \<Rightarrow> PrivateKey result"
  ke_ParseEC :: "bytes \<Rightarrow> string result"

definition ParsePrivateKey :: "key_env \<Rightarrow> bytes \<Rightarrow> PrivateKey result" where
  "ParsePrivateKey K der = (case ke_ParsePKCS1 K der of
     Inr k \<Rightarrow> Inr (RSA_PrivateKey k)
   | Inl _ \<Rightarrow> (case ke_ParsePKCS8 K der of
       Inr (RSA_PrivateKey k) \<Rightarrow> Inr (RSA_PrivateKey k)
     | Inr (ECDSA_PrivateKey k) \<Rightarrow> Inr (ECDSA_PrivateKey k)
     | Inr (Other_PrivateKey k) \<Rightarrow> Inl (ErrorString ''Key is neither RSA nor ECDSA'')
     | Inl _ \<Rightarrow> (case ke_ParseEC K der of
         Inl err \<Rightarrow> Inl (ErrorString (''Failure parsing private key: '' @ Error err))
       | Inr k \<Rightarrow> Inr (ECDSA_PrivateKey k))))"

definition GetPrivateKey :: "x509_env \<Rightarrow> key_env \<Rightarrow> bytes \<Rightarrow> PrivateKey result" where
  "GetPrivateKey E K buf =
     (case (case pem_Decode E buf of
              None \<Rightarrow> (case ParsePrivateKey K buf of
                Inl err \<Rightarrow> Inl (ErrorString (''Failure parsing DER-encoded private key: '' @ Error err)) | Inr k \<Rightarrow> Inr k)
            | Some der \<Rightarrow> (case ParsePrivateKey K der of
                Inl err \<Rightarrow> Inl (ErrorString (''Failure parsing PEM private key: '' @ Error err)) | Inr k \<Rightarrow> Inr k)) of
        Inl err \<Rightarrow> Inl err
      | Inr (Other_PrivateKey _) \<Rightarrow> Inl (ErrorString ''Key is neither RSA nor ECDSA'')
      | Inr k \<Rightarrow> Inr k)"

definition LoadCert ::
  "x509_env \<Rightarrow> (bytes \<Rightarrow> Certificate list result) \<Rightarrow> int \<Rightarrow> (string \<Rightarrow> bytes result) \<Rightarrow> string \<Rightarrow> Certificate result" where
  "LoadCert E parse now readFile path = (case readFile path of
     Inl err \<Rightarrow> Inl err | Inr buf \<Rightarrow> GetCertificate E parse now buf)"

definition LoadKey :: "x509_env \<Rightarrow> key_env \<Rightarrow> (string \<Rightarrow> bytes result) \<Rightarrow> string \<Rightarrow> PrivateKey result" where
  "LoadKey E K readFile path = (case readFile path of
     Inl err \<Rightarrow> Inl err | Inr buf \<Rightarrow> GetPrivateKey E K buf)"


subsection \<open>Padding and CBC round trips\<close>

lemma PKCS7_blocks: "length (PKCS7Padding src) mod BlockSize = 0"
  by (simp add: PKCS7Padding_def Let_def BlockSize_def) presburger

lemma PKCS7_roundtrip: "PKCS7UnPadding (PKCS7Padding src) = Inr src"
proof -
  define p where "p = 16 - length src mod 16"
  have p: "0 < p" "p \<le> 16" unfolding p_def by auto
  have u: "unat (of_nat p :: byte) = p" using p by (simp add: unat_of_nat)
  have "PKCS7Padding src = src @ replicate p (of_nat p)"
    by (simp add: PKCS7Padding_def BlockSize_def p_def)
  then show ?thesis
    using p u by (simp add: PKCS7UnPadding_def Let_def BlockSize_def list_all_iff)
qed

lemma xor_bytes_length [simp]: "length (xor_bytes a b) = min (length a) (length b)"
  by (simp add: xor_bytes_def)

lemma xor_bytes_cancel: "length a \<le> length b \<Longrightarrow> xor_bytes (xor_bytes a b) b = a"
  by (auto simp: xor_bytes_def xor.assoc intro!: nth_equalityI)

lemma cbc_roundtrip:
  assumes E: "\<And>b. length b = BlockSize \<Longrightarrow> length (E b) = BlockSize \<and> D (E b) = b"
  shows "length iv = BlockSize \<Longrightarrow> length s mod BlockSize = 0 \<Longrightarrow>
    length (cbc_enc E iv s) = length s \<and> cbc_dec D iv (cbc_enc E iv s) = s"
proof (induction s arbitrary: iv rule: measure_induct_rule [of length])
  case (less s)
  show ?case
  proof (cases "length s < BlockSize")
    case True
    then have "s = []" using less.prems by simp
    then show ?thesis by (simp add: cbc_enc.simps cbc_dec.simps BlockSize_def)
  next
    case False
    define c where "c = E (xor_bytes (take BlockSize s) iv)"
    have c: "length c = BlockSize" "D c = xor_bytes (take BlockSize s) iv"
      using E [of "xor_bytes (take BlockSize s) iv"] False less.prems unfolding c_def by auto
    have "length (drop BlockSize s) mod BlockSize = 0"
      using less.prems(2) False by (simp add: le_mod_geq)
    then have IH: "length (cbc_enc E c (drop BlockSize s)) = length (drop BlockSize s)"
      "cbc_dec D c (cbc_enc E c (drop BlockSize s)) = drop BlockSize s"
      using less.IH [of "drop BlockSize s" c] c False by (auto simp: BlockSize_def)
    have enc: "cbc_enc E iv s = c @ cbc_enc E c (drop BlockSize s)"
      using False by (subst cbc_enc.simps) (simp add: c_def Let_def)
    have "cbc_dec D iv (cbc_enc E iv s) = xor_bytes (D c) iv @ drop BlockSize s"
      using c IH False unfolding enc by (subst cbc_dec.simps) (simp add: Let_def)
    then show ?thesis
      using c IH False enc less.prems xor_bytes_cancel [of "take BlockSize s" iv] by auto
  qed
qed

definition demo_aes :: aes_env where
  "demo_aes = (let x = (\<lambda>k b. xor_bytes b (take BlockSize (k @ replicate BlockSize 0)))
     in \<lparr>aes_Encrypt = x, aes_Decrypt = x\<rparr>)"

lemma demo_aes_correct: "aes_correct demo_aes"
  by (simp add: aes_correct_def demo_aes_def Let_def xor_bytes_cancel)

lemma cbc_pkcs7:
  assumes "aes_correct A" "length key \<in> {16, 24, 32}" "length iv = BlockSize"
  shows "\<exists>ct. CBCPKCS7Encrypt A (Inr iv) key src = Inr ct \<and>
    length ct = BlockSize * (length src div BlockSize + 2) \<and>
    CBCPKCS7Decrypt A key ct = (Inr src, iv @ PKCS7Padding src)"
proof -
  let ?p = "PKCS7Padding src"
  let ?c = "cbc_enc (aes_Encrypt A key) iv ?p"
  have rt: "length ?c = length ?p" "cbc_dec (aes_Decrypt A key) iv ?c = ?p"
    using cbc_roundtrip [of "aes_Encrypt A key" "aes_Decrypt A key" iv ?p] assms PKCS7_blocks
    by (auto simp: aes_correct_def)
  have nc: "NewCipher key = Inr ()" using assms(2) by (simp add: NewCipher_def)
  have len: "length ?p = BlockSize * (length src div BlockSize + 1)"
    by (simp add: PKCS7Padding_def Let_def BlockSize_def) presburger
  have "CBCPKCS7Encrypt A (Inr iv) key src = Inr (iv @ ?c)"
    using nc by (simp add: CBCPKCS7Encrypt_def CBCEncrypt_def PKCS7_blocks)
  moreover have "CBCPKCS7Decrypt A key (iv @ ?c) = (Inr src, iv @ ?p)"
    using nc rt assms(3) PKCS7_blocks
    by (simp add: CBCPKCS7Decrypt_def CBCDecrypt_def Let_def PKCS7_roundtrip)
  ultimately show ?thesis using rt len assms(3) by (intro exI [of _ "iv @ ?c"]) simp
qed

lemma CBCPKCS7Encrypt_decrypts:
  assumes "aes_correct A" "CBCPKCS7Encrypt A rnd key src = Inr ct" "\<And>iv. rnd = Inr iv \<Longrightarrow> length iv = BlockSize"
  shows "fst (CBCPKCS7Decrypt A key ct) = Inr src"
proof -
  obtain iv where iv: "rnd = Inr iv" and key: "length key \<in> {16, 24, 32}"
    using assms(2) by (auto simp: CBCPKCS7Encrypt_def CBCEncrypt_def NewCipher_def split: if_splits sum.splits)
  then show ?thesis
    using cbc_pkcs7 [OF assms(1) key assms(3) [OF iv], of src] assms(2) by auto
qed

lemma CBCPKCS7Encrypt_total:
  "length key \<in> {16, 24, 32} \<Longrightarrow> \<exists>ct. CBCPKCS7Encrypt A (Inr iv) key src = Inr ct"
  by (simp add: CBCPKCS7Encrypt_def CBCEncrypt_def NewCipher_def PKCS7_blocks)

text \<open>
  C24. What \<open>CBCPKCS7Encrypt\<close> returns for a key of 16, 24 or 32 bytes decrypts with
  \<open>CBCPKCS7Decrypt\<close> under the same key to the original bytes, whatever they are; the
  ciphertext is the initialisation vector and a whole number of blocks, one of them for the padding.
  Decryption works in place: afterwards the buffer that held the ciphertext holds the padded
  plaintext behind the initialisation vector.
\<close>

theorem cbc_pkcs7_roundtrip:
  assumes "aes_correct A" "length key \<in> {16, 24, 32}" "length iv = BlockSize"
  shows "\<exists>ct. CBCPKCS7Encrypt A (Inr iv) key src = Inr ct \<and>
    length ct = BlockSize * (length src div BlockSize + 2) \<and>
    CBCPKCS7Decrypt A key ct = (Inr src, iv @ PKCS7Padding src)"
  using assms by (rule cbc_pkcs7)

theorem cbc_pkcs7_roundtrip_witness:
  "\<exists>ct. CBCPKCS7Encrypt demo_aes (Inr (replicate 16 7)) (replicate 16 3) [1, 2, 3] = Inr ct \<and>
    length ct = BlockSize * (length [1::byte, 2, 3] div BlockSize + 2) \<and>
    CBCPKCS7Decrypt demo_aes (replicate 16 3) ct = (Inr [1, 2, 3], replicate 16 7 @ PKCS7Padding [1, 2, 3])"
  by (rule cbc_pkcs7_roundtrip) (simp_all add: demo_aes_correct BlockSize_def)

lemma cbc_dec_nil [simp]: "cbc_dec D iv [] = []"
  by (subst cbc_dec.simps) (simp add: BlockSize_def)

text \<open>A ciphertext that holds no block after the initialisation vector makes decryption panic.\<close>

lemma CBCPKCS7Decrypt_short:
  "length key \<in> {16, 24, 32} \<Longrightarrow> length src = BlockSize \<Longrightarrow>
   CBCPKCS7Decrypt A key src = (Inl (GoPanic ''index out of range''), src)"
  by (auto simp: CBCPKCS7Decrypt_def CBCDecrypt_def NewCipher_def Let_def PKCS7UnPadding_def)

subsection \<open>UUIDs and numbers\<close>

lemma byte_variant: "unat (((b::byte) AND NOT 0xC0) OR 0x80) div 64 = 2"
proof -
  have "unat (drop_bit 6 ((b AND NOT 0xC0) OR 0x80)) = 2"
    by (simp add: drop_bit_and drop_bit_or)
  then show ?thesis by (simp add: unat_drop_bit_eq drop_bit_eq_div unat_div_distrib)
qed

lemma byte_version: "unat (((b::byte) AND NOT 0xF0) OR 0x40) div 16 = 4"
proof -
  have "unat (drop_bit 4 ((b AND NOT 0xF0) OR 0x40)) = 4"
    by (simp add: drop_bit_and drop_bit_or)
  then show ?thesis by (simp add: unat_drop_bit_eq drop_bit_eq_div unat_div_distrib)
qed

lemma SetBytes_acc: "fold (\<lambda>w n. n * 256 + unat w) b n = n * 256 ^ length b + SetBytes b"
proof (induction b arbitrary: n)
  case (Cons w b)
  show ?case using Cons [of "n * 256 + unat w"] Cons [of "unat w"]
    by (simp add: SetBytes_def algebra_simps)
qed (simp add: SetBytes_def)

lemma SetBytes_simps: "SetBytes [] = 0" "SetBytes (w # b) = unat w * 256 ^ length b + SetBytes b"
  using SetBytes_acc [of b "unat w"] by (simp_all add: SetBytes_def)

lemma SetBytes_append: "SetBytes (a @ b) = SetBytes a * 256 ^ length b + SetBytes b"
  using SetBytes_acc [of b "SetBytes a"] by (simp add: SetBytes_def)

lemma SetBytes_less: "SetBytes b < 256 ^ length b"
proof (induction b)
  case (Cons w b)
  have "unat w < 256" using unsigned_less [of w, where 'a = nat] by simp
  then have "unat w * 256 ^ length b + SetBytes b < unat w * 256 ^ length b + 256 ^ length b"
    using Cons by simp
  also have "\<dots> \<le> 256 * 256 ^ length b"
    using \<open>unat w < 256\<close> by (metis Suc_leI add.commute mult.commute mult_Suc mult_le_mono1)
  finally show ?case by (simp add: SetBytes_simps)
qed (simp add: SetBytes_simps)


lemma SetBytes_nat_bytes [simp]: "SetBytes (nat_bytes n) = n"
proof (induction n rule: nat_bytes.induct)
  case (1 n)
  have "unat (of_nat (n mod 256) :: byte) = n mod 256" by (simp add: unat_of_nat)
  then show ?case using 1 by (subst nat_bytes.simps) (simp add: SetBytes_append SetBytes_simps)
qed

lemma byte_low:
  "unat (((b::byte) AND NOT 0xF0) OR 0x40) mod 16 = unat b mod 16"
  "unat (((b::byte) AND NOT 0xC0) OR 0x80) mod 64 = unat b mod 64"
proof -
  have "take_bit 4 ((b AND NOT 0xF0) OR 0x40) = take_bit 4 b"
    "take_bit 6 ((b AND NOT 0xC0) OR 0x80) = take_bit 6 b"
    by (simp_all add: take_bit_or take_bit_and) (simp_all add: take_bit_eq_mask mask_eq_exp_minus_1)
  from this [THEN arg_cong [of _ _ unat]]
  show "unat ((b AND NOT 0xF0) OR 0x40) mod 16 = unat b mod 16"
    "unat ((b AND NOT 0xC0) OR 0x80) mod 64 = unat b mod 64"
    by (simp_all add: take_bit_eq_mod unat_mod_distrib)
qed

lemma nibble_split: "v * k = v div 16 * (16 * k) + v mod 16 * k" for v k :: nat
  by (metis distrib_right div_mult_mod_eq mult.assoc)

lemma SetBytes_nibble:
  assumes "length u = 16"
  shows "SetBytes u div 2 ^ 76 mod 16 = unat (u ! 6) div 16"
proof -
  have "u = take 6 u @ [u ! 6] @ drop 7 u"
    using assms id_take_nth_drop [of 6 u] by simp
  then have "SetBytes u = SetBytes (take 6 u @ [u ! 6] @ drop 7 u)" by (rule arg_cong)
  also have "\<dots> = (SetBytes (take 6 u) * 16 + unat (u ! 6) div 16) * 2 ^ 76 +
      (unat (u ! 6) mod 16 * 2 ^ 72 + SetBytes (drop 7 u))"
    using assms nibble_split [of "unat (u ! 6)" "2 ^ 72"] by (simp add: SetBytes_append SetBytes_simps)
  finally have s: "SetBytes u = \<dots>" .
  have "SetBytes (drop 7 u) < 2 ^ 72" using SetBytes_less [of "drop 7 u"] assms by simp
  moreover have "unat (u ! 6) mod 16 \<le> 15" by simp
  ultimately have "unat (u ! 6) mod 16 * 2 ^ 72 + SetBytes (drop 7 u) < 2 ^ 76" by simp
  then have "SetBytes u div 2 ^ 76 = SetBytes (take 6 u) * 16 + unat (u ! 6) div 16"
    unfolding s by simp
  moreover have "unat (u ! 6) div 16 < 16"
    using unsigned_less [of "u ! 6", where 'a = nat] by (simp add: less_mult_imp_div_less)
  ultimately show ?thesis by simp
qed

text \<open>
  From any sixteen random bytes \<open>GenerateBytesUUID\<close> makes a version 4, variant 1 UUID of RFC
  4122 that keeps the other 122 bits as they are; the integer \<open>GenerateIntUUID\<close> makes of it stays
  below \<open>2 ^ 128\<close> and has the version digit 4 at its place.
\<close>

theorem uuid_version_variant:
  assumes "length r = 16"
  shows "\<exists>u. GenerateBytesUUID (Inr r) = Inr u \<and> length u = 16 \<and>
    unat (u ! 6) div 16 = 4 \<and> unat (u ! 6) mod 16 = unat (r ! 6) mod 16 \<and>
    unat (u ! 8) div 64 = 2 \<and> unat (u ! 8) mod 64 = unat (r ! 8) mod 64 \<and>
    (\<forall>i. i \<noteq> 6 \<longrightarrow> i \<noteq> 8 \<longrightarrow> u ! i = r ! i) \<and>
    (\<exists>z. GenerateIntUUID (Inr r) = Inr z \<and> z < 2 ^ 128 \<and> z div 2 ^ 76 mod 16 = 4)"
proof -
  define u where "u = r[8 := (r ! 8 AND NOT 0xC0) OR 0x80, 6 := (r ! 6 AND NOT 0xF0) OR 0x40]"
  have g: "GenerateBytesUUID (Inr r) = Inr u"
    by (simp add: GenerateBytesUUID_def u_def Let_def)
  have len: "length u = 16" using assms by (simp add: u_def)
  have six: "u ! 6 = (r ! 6 AND NOT 0xF0) OR 0x40" and eight: "u ! 8 = (r ! 8 AND NOT 0xC0) OR 0x80"
    and rest: "\<forall>i. i \<noteq> 6 \<longrightarrow> i \<noteq> 8 \<longrightarrow> u ! i = r ! i"
    using assms by (simp_all only: u_def nth_list_update length_list_update) simp_all
  have z: "GenerateIntUUID (Inr r) = Inr (SetBytes u)" by (simp add: GenerateIntUUID_def g)
  have "SetBytes u < 2 ^ 128" using SetBytes_less [of u] len by simp
  moreover have "SetBytes u div 2 ^ 76 mod 16 = 4"
    using SetBytes_nibble [OF len] byte_version [of "r ! 6"] by (simp only: six)
  ultimately show ?thesis
    using g len six eight rest z byte_version [of "r ! 6"] byte_variant [of "r ! 8"]
      byte_low(1) [of "r ! 6"] byte_low(2) [of "r ! 8"] by (metis (no_types))
qed

theorem uuid_version_variant_witness:
  "\<exists>u. GenerateBytesUUID (Inr (replicate 16 0xFF)) = Inr u \<and> length u = 16 \<and>
    unat (u ! 6) div 16 = 4 \<and> unat (u ! 6) mod 16 = unat (replicate 16 (0xFF :: byte) ! 6) mod 16 \<and>
    unat (u ! 8) div 64 = 2 \<and> unat (u ! 8) mod 64 = unat (replicate 16 (0xFF :: byte) ! 8) mod 64 \<and>
    (\<forall>i. i \<noteq> 6 \<longrightarrow> i \<noteq> 8 \<longrightarrow> u ! i = replicate 16 0xFF ! i) \<and>
    (\<exists>z. GenerateIntUUID (Inr (replicate 16 0xFF)) = Inr z \<and> z < 2 ^ 128 \<and> z div 2 ^ 76 mod 16 = 4)"
  by (rule uuid_version_variant) simp

text \<open>Whatever number the random source returns, \<open>GenNumber\<close> has exactly the length asked for.\<close>

lemma GenNumber_length:
  assumes "0 < numlen"
  shows "10 ^ (numlen - 1) \<le> GenNumber r numlen \<and> GenNumber r numlen < 10 ^ numlen"
proof -
  define l :: nat where "l = 10 ^ (numlen - 1)"
  have u: "10 ^ numlen = 10 * l" using assms unfolding l_def by (cases numlen) auto
  have "0 < l" by (simp add: l_def)
  then have "(r + l) mod (10 * l) < 10 * l" by simp
  then show ?thesis using \<open>0 < l\<close> by (auto simp: GenNumber_def Let_def u simp flip: One_nat_def l_def)
qed

end
