(* ===== verification/Tcert_Batch.thy ===== *)
theory Tcert_Batch
  imports Tcert_Crypto "HOL-Library.AList"
begin

text \<open>
  Issuing batches of transaction certificates: \<^verbatim>\<open>lib/tcert/tcert.go\<close> with the request and response
  types of \<^verbatim>\<open>lib/tcert/api.go\<close>.

  What the code takes from elsewhere is collected in the record \<open>tcert_env\<close>: AES, HMAC-SHA384, the
  operations of the elliptic curve of a public key, the signing of a template by
  \<^verbatim>\<open>x509.CreateCertificate\<close>, PEM, the iteration order of a Go map, and the random source.  Reads
  from the random source are numbered: \<open>te_rand E n len\<close> is the result of the \<open>n\<close>-th one, and the
  number is threaded through the code, so that two reads need not agree.
\<close>

record Extension =
  ext_Id :: "nat list"
  ext_Critical :: bool
  ext_Value :: bytes

record Template =
  tp_Subject :: string
  tp_NotBefore :: int
  tp_NotAfter :: int
  tp_IsCA :: bool
  tp_KeyUsage :: nat
  tp_SubjectKeyId :: bytes
  tp_PublicKey :: string
  tp_Extensions :: "Extension list"
  tp_ExtraExtensions :: "Extension list"
  tp_SerialNumber :: nat

type_synonym point = "int \<times> int"

record tcert_env =
  te_aes :: aes_env
  te_HMAC :: "bytes \<Rightarrow> bytes \<Rightarrow> bytes"
  te_rand :: "nat \<Rightarrow> nat \<Rightarrow> bytes result"
  te_randInt :: "nat \<Rightarrow> nat \<Rightarrow> nat result"
  te_MarshalPKIX :: "string \<Rightarrow> bytes"
  te_N :: "string \<Rightarrow> nat"
  te_XY :: "string \<Rightarrow> point"
  te_ScalarBaseMult :: "string \<Rightarrow> bytes \<Rightarrow> point"
  te_CurveAdd :: "string \<Rightarrow> point \<Rightarrow> point \<Rightarrow> point"
  te_PublicKey :: "string \<Rightarrow> point \<Rightarrow> string"
  te_CreateCertificate :: "nat \<Rightarrow> Template \<Rightarrow> Certificate \<Rightarrow> string \<Rightarrow> PrivateKey \<Rightarrow> bytes result"
  te_pemEncode :: "string \<Rightarrow> bytes \<Rightarrow> bytes"
  te_mapOrder :: "(string \<times> int) list \<Rightarrow> (string \<times> int) list"

subsection \<open>Requests and responses (lib/tcert/api.go)\<close>

record GetBatchRequest =
  gb_Count :: "64 word"
  gb_Attrs :: "Attribute list"
  gb_EncryptAttrs :: bool
  gb_ValidityPeriod :: int
  gb_PreKey :: string

record TCert =
  tc_Cert :: bytes
  tc_Keys :: "(string \<times> bytes) list"

record GetBatchResponse =
  br_ID :: nat
  br_TS :: int
  br_Key :: bytes
  br_TCerts :: "TCert list"

subsection \<open>The manager\<close>

definition TCertEncTCertIndex :: "nat list" where
  "TCertEncTCertIndex = [1, 2, 3, 4, 5, 6, 7]"

definition TCertEncEnrollmentID :: "nat list" where
  "TCertEncEnrollmentID = [1, 2, 3, 4, 5, 6, 8]"

definition TCertAttributesHeaders :: "nat list" where
  "TCertAttributesHeaders = [1, 2, 3, 4, 5, 6, 9]"

definition Padding :: bytes where
  "Padding = replicate 16 255"

definition tcertSubject :: string where
  "tcertSubject = ''Fabric Transaction Certificate''"

record Mgr =
  tm_CAKey :: PrivateKey
  tm_CACert :: Certificate
  tm_ValidityPeriod :: int
  tm_MaxAllowedBatchSize :: "64 word"

definition Hour :: int where
  "Hour = 3600 * 10 ^ 9"

definition NewMgr :: "PrivateKey \<Rightarrow> Certificate \<Rightarrow> Mgr result" where
  "NewMgr caKey caCert = Inr
     \<lparr>tm_CAKey = caKey, tm_CACert = caCert, tm_ValidityPeriod = Hour * 24 * 365, tm_MaxAllowedBatchSize = 1000\<rparr>"

definition LoadMgr ::
  "x509_env \<Rightarrow> (bytes \<Rightarrow> Certificate list result) \<Rightarrow> key_env \<Rightarrow> int \<Rightarrow> (string \<Rightarrow> bytes result) \<Rightarrow>
   string \<Rightarrow> string \<Rightarrow> Mgr result" where
  "LoadMgr X parse K now readFile caKeyFile caCertFile = (case LoadKey X K readFile caKeyFile of
     Inl err \<Rightarrow> Inl err
   | Inr caKey \<Rightarrow> (case LoadCert X parse now readFile caCertFile of
       Inl err \<Rightarrow> Inl err
     | Inr caCert \<Rightarrow> NewMgr caKey caCert))"

text \<open>\<^verbatim>\<open>rand.Reader.Read(buf)\<close> with its error ignored: after a failure the buffer is still zero.\<close>

definition rand_fill :: "tcert_env \<Rightarrow> nat \<Rightarrow> nat \<Rightarrow> bytes" where
  "rand_fill E n len = (case te_rand E n len of Inl _ \<Rightarrow> replicate len 0 | Inr b \<Rightarrow> b)"

definition createHMACKey :: "tcert_env \<Rightarrow> nat \<Rightarrow> string" where
  "createHMACKey E n = StdEncode (rand_fill E n 49)"

definition ConvertDERToPEM :: "tcert_env \<Rightarrow> bytes \<Rightarrow> string \<Rightarrow> bytes" where
  "ConvertDERToPEM E der datatype = te_pemEncode E datatype der"

definition buildAttributesHeader :: "tcert_env \<Rightarrow> (string \<times> int) list \<Rightarrow> bytes" where
  "buildAttributesHeader E attributesHeader =
     bytes_of (concat (map (\<lambda>(k, v). k @ ''->'' @ Itoa v @ ''#'') (te_mapOrder E attributesHeader)))"

subsection \<open>Extensions\<close>

definition derived_key :: "tcert_env \<Rightarrow> bytes \<Rightarrow> string \<Rightarrow> bytes" where
  "derived_key E preK0 name = take 32 (te_HMAC E preK0 (bytes_of name))"

text \<open>The loop over the attributes: the attribute extensions, the header map and the keys.\<close>

fun attr_extensions ::
  "tcert_env \<Rightarrow> bool \<Rightarrow> bytes \<Rightarrow> Attribute list \<Rightarrow> nat \<Rightarrow> (string \<times> int) list \<Rightarrow> (string \<times> bytes) list \<Rightarrow> nat \<Rightarrow>
   (Extension list \<times> (string \<times> int) list \<times> (string \<times> bytes) list) result \<times> nat" where
  "attr_extensions E enc preK0 [] count header ks n = (Inr ([], header, ks), n)"
| "attr_extensions E enc preK0 (a # attrs) count header ks n =
     (let count = count + 1;
          name = attr_Name a;
          value = bytes_of (attr_Value a);
          header = AList.update name (int count) header;
          oid = [1, 2, 3, 4, 5, 6, 9 + count];
          ext = (\<lambda>v. \<lparr>ext_Id = oid, ext_Critical = False, ext_Value = v\<rparr>);
          step = (\<lambda>v ks n. case attr_extensions E enc preK0 attrs count header ks n of
                     (Inl err, n) \<Rightarrow> (Inl err, n)
                   | (Inr (exts, header, ks), n) \<Rightarrow> (Inr (ext v # exts, header, ks), n))
      in if enc then
           (let attributeKey = derived_key E preK0 name in
            case CBCPKCS7Encrypt (te_aes E) (te_rand E n 16) attributeKey (value @ Padding) of
              Inl err \<Rightarrow> (Inl err, n + 1)
            | Inr v \<Rightarrow> step v (AList.update name attributeKey ks) (n + 1))
         else step value ks n)"

definition generateExtensions ::
  "tcert_env \<Rightarrow> nat \<Rightarrow> bytes \<Rightarrow> Certificate \<Rightarrow> GetBatchRequest \<Rightarrow> nat \<Rightarrow>
   (Extension list \<times> (string \<times> bytes) list) result \<times> nat" where
  "generateExtensions E tcertid tidx enrollmentCert batchRequest n =
     (let preK0 = te_HMAC E (bytes_of (gb_PreKey batchRequest)) (nat_bytes tcertid);
          enrollmentIDKey = derived_key E preK0 ''enrollmentID'';
          enrollmentID = bytes_of (GetEnrollmentIDFromCert enrollmentCert) @ Padding
      in case CBCPKCS7Encrypt (te_aes E) (te_rand E n 16) enrollmentIDKey enrollmentID of
           Inl err \<Rightarrow> (Inl err, n + 1)
         | Inr encEnrollmentID \<Rightarrow>
             let ks = AList.update ''enrollmentId'' enrollmentIDKey [] in
             (case attr_extensions E (gb_EncryptAttrs batchRequest) preK0 (gb_Attrs batchRequest) 0 [] ks (n + 1) of
                (Inl err, n) \<Rightarrow> (Inl err, n)
              | (Inr (extensions, attributesHeader, ks), n) \<Rightarrow>
                  (Inr (extensions
                     @ [\<lparr>ext_Id = TCertEncTCertIndex, ext_Critical = True, ext_Value = tidx\<rparr>,
                        \<lparr>ext_Id = TCertEncEnrollmentID, ext_Critical = False, ext_Value = encEnrollmentID\<rparr>]
                     @ (if gb_Attrs batchRequest \<noteq> []
                        then [\<lparr>ext_Id = TCertAttributesHeaders, ext_Critical = False,
                               ext_Value = buildAttributesHeader E attributesHeader\<rparr>]
                        else []), ks), n)))"

subsection \<open>Batches\<close>

text \<open>The index of the \<open>i\<close>-th certificate and the scalar its key is derived with.\<close>

definition tcert_index :: "bytes \<Rightarrow> nat \<Rightarrow> bytes" where
  "tcert_index nonce i = bytes_of (Itoa (2 * int i + 1)) @ nonce @ Padding"

definition tcert_scalar :: "tcert_env \<Rightarrow> string \<Rightarrow> bytes \<Rightarrow> bytes \<Rightarrow> nat" where
  "tcert_scalar E pub kdfKey tidx =
     SetBytes (te_HMAC E (te_HMAC E kdfKey [2]) tidx) mod (te_N E pub - 1) + 1"

definition tcert_pub :: "tcert_env \<Rightarrow> string \<Rightarrow> bytes \<Rightarrow> bytes \<Rightarrow> string" where
  "tcert_pub E pub kdfKey tidx =
     (let k = tcert_scalar E pub kdfKey tidx;
          tmp = te_ScalarBaseMult E pub (nat_bytes k)
      in te_PublicKey E pub (te_CurveAdd E pub (te_XY E pub) tmp))"

text \<open>
  One iteration of the loop.  The template of the code is shared by the iterations, each of which
  overwrites the four fields set here.
\<close>

definition one_tcert ::
  "tcert_env \<Rightarrow> Mgr \<Rightarrow> GetBatchRequest \<Rightarrow> Certificate \<Rightarrow> string \<Rightarrow> bytes \<Rightarrow> bytes \<Rightarrow> Template \<Rightarrow>
   nat \<Rightarrow> nat \<Rightarrow> TCert result \<times> nat" where
  "one_tcert E tm req ecert pub kdfKey nonce template i n =
     (case GenerateIntUUID (te_rand E n 16) of
        Inl uuidError \<Rightarrow> (Inl (ErrorString (''Failure generating UUID: '' @ Error uuidError)), n + 1)
      | Inr tcertid \<Rightarrow>
          (let tidx = tcert_index nonce i;
               extKey = take 32 (te_HMAC E kdfKey [1]);
               txPub = tcert_pub E pub kdfKey tidx
           in (case CBCPKCS7Encrypt (te_aes E) (te_rand E (n + 1) 16) extKey tidx of
                 Inl encryptErr \<Rightarrow> (Inl encryptErr, n + 2)
               | Inr encryptedTidx \<Rightarrow>
                   (case generateExtensions E tcertid encryptedTidx ecert req (n + 2) of
                      (Inl extensionErr, n) \<Rightarrow> (Inl extensionErr, n)
                    | (Inr (extensions, ks), n) \<Rightarrow>
                        (let template = template\<lparr>tp_PublicKey := txPub, tp_Extensions := extensions,
                               tp_ExtraExtensions := extensions, tp_SerialNumber := tcertid\<rparr>
                         in (case te_CreateCertificate E n template (tm_CACert tm) txPub (tm_CAKey tm) of
                               Inl err \<Rightarrow>
                                 (Inl (ErrorString (''Failed in TCert x509.CreateCertificate: '' @ Error err)), n + 1)
                             | Inr raw \<Rightarrow>
                                 (Inr \<lparr>tc_Cert = ConvertDERToPEM E raw ''CERTIFICATE'', tc_Keys = ks\<rparr>, n + 1)))))))"

fun tcert_loop ::
  "tcert_env \<Rightarrow> Mgr \<Rightarrow> GetBatchRequest \<Rightarrow> Certificate \<Rightarrow> string \<Rightarrow> bytes \<Rightarrow> bytes \<Rightarrow> Template \<Rightarrow>
   nat \<Rightarrow> nat \<Rightarrow> nat \<Rightarrow> TCert list result \<times> nat" where
  "tcert_loop E tm req ecert pub kdfKey nonce template 0 i n = (Inr [], n)"
| "tcert_loop E tm req ecert pub kdfKey nonce template (Suc m) i n =
     (case one_tcert E tm req ecert pub kdfKey nonce template i n of
        (Inl err, n) \<Rightarrow> (Inl err, n)
      | (Inr t, n) \<Rightarrow>
          (case tcert_loop E tm req ecert pub kdfKey nonce template m (i + 1) n of
             (Inl err, n) \<Rightarrow> (Inl err, n)
           | (Inr ts, n) \<Rightarrow> (Inr (t # ts), n)))"

text \<open>The conversion \<^verbatim>\<open>int(count)\<close> may give a negative number, for which the loop does not run.\<close>

definition batch_count :: "Mgr \<Rightarrow> GetBatchRequest \<Rightarrow> nat result" where
  "batch_count tm req =
     (if gb_Count req = 0 then Inr (nat (sint (tm_MaxAllowedBatchSize tm)))
      else if gb_Count req \<le> tm_MaxAllowedBatchSize tm then Inr (nat (sint (gb_Count req)))
      else Inl (ErrorString (Sprintf ''You may not request %d TCerts; the maximum is %d''
                  [FInt (uint (gb_Count req)), FInt (uint (tm_MaxAllowedBatchSize tm))])))"

definition batch_template :: "int \<Rightarrow> int \<Rightarrow> Template" where
  "batch_template now vp =
     \<lparr>tp_Subject = tcertSubject, tp_NotBefore = now, tp_NotAfter = now + vp, tp_IsCA = False, tp_KeyUsage = 1,
      tp_SubjectKeyId = [1, 2, 3, 4], tp_PublicKey = [], tp_Extensions = [], tp_ExtraExtensions = [], tp_SerialNumber = 0\<rparr>"

text \<open>
  \<open>now\<close> and \<open>now'\<close> are the two readings of the clock, in nanoseconds.  The key of the enrollment
  certificate has to be an ECDSA key: the type assertion panics on any other.
\<close>

definition GetBatch ::
  "tcert_env \<Rightarrow> int \<Rightarrow> int \<Rightarrow> Mgr \<Rightarrow> GetBatchRequest \<Rightarrow> Certificate \<Rightarrow> nat \<Rightarrow> GetBatchResponse result \<times> nat" where
  "GetBatch E now now' tm req ecert n = (case batch_count tm req of
     Inl err \<Rightarrow> (Inl err, n)
   | Inr numTCertsInBatch \<Rightarrow>
       let vp = tm_ValidityPeriod tm;
           vp = (if gb_ValidityPeriod req > 0 \<and> gb_ValidityPeriod req < vp then gb_ValidityPeriod req else vp);
           template = batch_template now vp;
           nonce = rand_fill E n 8 @ replicate 8 0
       in (case x_PublicKey ecert of
             ECDSA_PublicKey pub \<Rightarrow>
               let kdfKey = te_HMAC E (bytes_of (createHMACKey E (n + 1))) (te_MarshalPKIX E pub)
               in (case tcert_loop E tm req ecert pub kdfKey nonce template numTCertsInBatch 0 (n + 2) of
                     (Inl err, n) \<Rightarrow> (Inl err, n)
                   | (Inr ts, n) \<Rightarrow> (case te_randInt E n (10 ^ 20) of
                       Inl _ \<Rightarrow> (Inl (GoPanic ''invalid memory address or nil pointer dereference''), n + 1)
                     | Inr r \<Rightarrow>
                         (Inr \<lparr>br_ID = GenNumber r 20, br_TS = now', br_Key = kdfKey, br_TCerts = ts\<rparr>, n + 1)))
           | _ \<Rightarrow> (Inl (GoPanic ''interface conversion: interface is not *ecdsa.PublicKey''), n + 1)))"

subsection \<open>What the extensions hold\<close>

text \<open>The key decrypts the value to the message and the padding the code appends to it.\<close>

definition opens :: "tcert_env \<Rightarrow> bytes \<Rightarrow> bytes \<Rightarrow> string \<Rightarrow> bool" where
  "opens E key ct msg \<longleftrightarrow> fst (CBCPKCS7Decrypt (te_aes E) key ct) = Inr (bytes_of msg @ Padding)"

lemma attr_extensions_spec:
  assumes "aes_correct (te_aes E)" "\<And>n b. te_rand E n 16 = Inr b \<Longrightarrow> length b = BlockSize"
    and "attr_extensions E enc preK0 attrs count header ks n = (Inr (exts, header', ks'), n')"
  shows "length exts = length attrs \<and>
    map_of ks' = (\<lambda>name. if enc \<and> name \<in> attr_Name ` set attrs then Some (derived_key E preK0 name) else map_of ks name) \<and>
    (\<forall>i < length attrs. ext_Id (exts ! i) = [1, 2, 3, 4, 5, 6, 10 + count + i] \<and>
       (if enc then opens E (derived_key E preK0 (attr_Name (attrs ! i))) (ext_Value (exts ! i)) (attr_Value (attrs ! i))
        else ext_Value (exts ! i) = bytes_of (attr_Value (attrs ! i))))"
  using assms(3)
proof (induction attrs arbitrary: count header ks n exts header' ks' n')
  case (Cons a attrs)
  define ks1 where "ks1 = (if enc then AList.update (attr_Name a) (derived_key E preK0 (attr_Name a)) ks else ks)"
  obtain v exts1 n1 where
    v: "if enc then CBCPKCS7Encrypt (te_aes E) (te_rand E n 16) (derived_key E preK0 (attr_Name a))
          (bytes_of (attr_Value a) @ Padding) = Inr v else v = bytes_of (attr_Value a)"
    and rest: "attr_extensions E enc preK0 attrs (count + 1) (AList.update (attr_Name a) (int (count + 1)) header) ks1 n1 =
      (Inr (exts1, header', ks'), n')"
    and e: "exts = \<lparr>ext_Id = [1, 2, 3, 4, 5, 6, 9 + (count + 1)], ext_Critical = False, ext_Value = v\<rparr> # exts1"
    using Cons.prems unfolding ks1_def
    by (auto simp: Let_def split: if_splits sum.splits prod.splits)
  note IH = Cons.IH [OF rest]
  have "enc \<Longrightarrow> opens E (derived_key E preK0 (attr_Name a)) v (attr_Value a)"
    using v CBCPKCS7Encrypt_decrypts [OF assms(1) _ assms(2)] by (auto simp: opens_def)
  with IH v show ?case
    by (auto simp: e ks1_def update_conv' nth_Cons split: nat.splits)
qed simp

definition demo_curve_key :: string where
  "demo_curve_key = ''5''"

text \<open>
  A small instance: the demonstration cipher, a hash that repeats the message behind the key, and
  the integers modulo eleven for the curve, a public key being the text of its number.
\<close>

definition demo_tenv :: tcert_env where
  "demo_tenv =
     \<lparr>te_aes = demo_aes, te_HMAC = (\<lambda>k m. take 48 (m @ k @ replicate 48 0)),
      te_rand = (\<lambda>n len. Inr (replicate len (of_nat n))), te_randInt = (\<lambda>n m. Inr (n mod m)),
      te_MarshalPKIX = bytes_of, te_N = (\<lambda>_. 11), te_XY = (\<lambda>p. (int (SetBytes (bytes_of p)) mod 11, 0)),
      te_ScalarBaseMult = (\<lambda>_ b. (int (SetBytes b) mod 11, 0)),
      te_CurveAdd = (\<lambda>_ (a, _) (b, _). ((a + b) mod 11, 0)),
      te_PublicKey = (\<lambda>_ (a, _). Itoa a),
      te_CreateCertificate = (\<lambda>_ t _ _ _. Inr (bytes_of (tp_PublicKey t))),
      te_pemEncode = (\<lambda>ty b. bytes_of ty @ b), te_mapOrder = rev\<rparr>"

definition demo_ecert :: Certificate where
  "demo_ecert = \<lparr>x_CommonName = ''admin'', x_SerialNumber = 7, x_AuthorityKeyId = [], x_PublicKey = ECDSA_PublicKey ''5'',
     x_NotBefore = 0, x_NotAfter = 100, x_CRLDistributionPoints = [], x_Raw = []\<rparr>"

definition demo_breq :: GetBatchRequest where
  "demo_breq = \<lparr>gb_Count = 2, gb_Attrs = [\<lparr>attr_Name = ''company'', attr_Value = ''ibm''\<rparr>, \<lparr>attr_Name = ''role'', attr_Value = ''dev''\<rparr>],
     gb_EncryptAttrs = True, gb_ValidityPeriod = 60, gb_PreKey = ''k''\<rparr>"

definition demo_mgr :: Mgr where
  "demo_mgr = \<lparr>tm_CAKey = ECDSA_PrivateKey ''ca'', tm_CACert = demo_ecert, tm_ValidityPeriod = 1000, tm_MaxAllowedBatchSize = 10\<rparr>"

lemma demo_tenv_ok: "aes_correct (te_aes demo_tenv)" "te_rand demo_tenv n len = Inr b \<Longrightarrow> length b = len"
  by (auto simp: demo_tenv_def demo_aes_correct)

subsection \<open>A batch is issued when nothing fails\<close>

text \<open>The random source delivers, the hash has the 48 bytes of SHA-384, and the CA signs.\<close>

definition tcert_env_works :: "tcert_env \<Rightarrow> bool" where
  "tcert_env_works E \<longleftrightarrow>
     (\<forall>k m. length (te_HMAC E k m) = 48) \<and>
     (\<forall>n len. \<exists>b. te_rand E n len = Inr b \<and> length b = len) \<and>
     (\<forall>n m. \<exists>r. te_randInt E n m = Inr r) \<and>
     (\<forall>n t c p k. \<exists>raw. te_CreateCertificate E n t c p k = Inr raw)"

lemma demo_tenv_works: "tcert_env_works demo_tenv"
  by (auto simp: tcert_env_works_def demo_tenv_def)

lemma encrypt_works:
  assumes "tcert_env_works E"
  shows "\<exists>ct. CBCPKCS7Encrypt (te_aes E) (te_rand E n 16) (take 32 (te_HMAC E k m)) src = Inr ct"
proof -
  obtain b where "te_rand E n 16 = Inr b" using assms unfolding tcert_env_works_def by meson
  moreover have "length (te_HMAC E k m) = 48" using assms unfolding tcert_env_works_def by meson
  ultimately show ?thesis using CBCPKCS7Encrypt_total [of "take 32 (te_HMAC E k m)"] by simp
qed

lemma attr_extensions_works:
  assumes "tcert_env_works E"
  shows "\<exists>r n'. attr_extensions E enc preK0 attrs count header ks n = (Inr r, n')"
proof (induction attrs arbitrary: count header ks n)
  case (Cons a attrs)
  obtain ct where "CBCPKCS7Encrypt (te_aes E) (te_rand E n 16) (derived_key E preK0 (attr_Name a)) (bytes_of (attr_Value a) @ Padding) = Inr ct"
    using encrypt_works [OF assms] unfolding derived_key_def by blast
  then show ?case
    using Cons [of "Suc count" "AList.update (attr_Name a) (int (Suc count)) header"
        "AList.update (attr_Name a) (derived_key E preK0 (attr_Name a)) ks" "Suc n"]
      Cons [of "Suc count" "AList.update (attr_Name a) (int (Suc count)) header" ks n]
    by (auto simp: Let_def)
qed simp

lemma generateExtensions_works:
  assumes "tcert_env_works E"
  shows "\<exists>exts ks n'. generateExtensions E tcertid tidx ecert req n = (Inr (exts, ks), n')"
proof -
  define preK0 where "preK0 = te_HMAC E (bytes_of (gb_PreKey req)) (nat_bytes tcertid)"
  define idk where "idk = derived_key E preK0 ''enrollmentID''"
  obtain ct where "CBCPKCS7Encrypt (te_aes E) (te_rand E n 16) idk (bytes_of (x_CommonName ecert) @ Padding) = Inr ct"
    using encrypt_works [OF assms] unfolding idk_def derived_key_def by blast
  moreover obtain exts header ks n' where
    "attr_extensions E (gb_EncryptAttrs req) preK0 (gb_Attrs req) 0 [] (AList.update ''enrollmentId'' idk []) (n + 1) = (Inr (exts, header, ks), n')"
    using attr_extensions_works [OF assms, of "gb_EncryptAttrs req" preK0 "gb_Attrs req" 0 "[]" "AList.update ''enrollmentId'' idk []" "n + 1"] by auto
  ultimately show ?thesis
    unfolding generateExtensions_def GetEnrollmentIDFromCert_def Let_def preK0_def [symmetric] idk_def [symmetric] by simp
qed

lemma one_tcert_works:
  assumes "tcert_env_works E"
  shows "\<exists>t n'. one_tcert E tm req ecert pub kdfKey nonce template i n = (Inr t, n')"
proof -
  obtain b where "te_rand E n 16 = Inr b" using assms unfolding tcert_env_works_def by meson
  then obtain tcertid where u: "GenerateIntUUID (te_rand E n 16) = Inr tcertid"
    by (simp add: GenerateIntUUID_def GenerateBytesUUID_def Let_def)
  obtain ct where ct: "CBCPKCS7Encrypt (te_aes E) (te_rand E (n + 1) 16) (take 32 (te_HMAC E kdfKey [1])) (tcert_index nonce i) = Inr ct"
    using encrypt_works [OF assms] by blast
  obtain exts ks n1 where g: "generateExtensions E tcertid ct ecert req (n + 2) = (Inr (exts, ks), n1)"
    using generateExtensions_works [OF assms] by blast
  have "\<And>n t c p k. \<exists>raw. te_CreateCertificate E n t c p k = Inr raw" using assms unfolding tcert_env_works_def by blast
  then obtain raw where "te_CreateCertificate E n1 (template\<lparr>tp_PublicKey := tcert_pub E pub kdfKey (tcert_index nonce i),
      tp_Extensions := exts, tp_ExtraExtensions := exts, tp_SerialNumber := tcertid\<rparr>) (tm_CACert tm)
      (tcert_pub E pub kdfKey (tcert_index nonce i)) (tm_CAKey tm) = Inr raw" by blast
  with u ct g show ?thesis by (simp add: one_tcert_def Let_def)
qed

lemma tcert_loop_works:
  assumes "tcert_env_works E"
  shows "\<exists>ts n'. tcert_loop E tm req ecert pub kdfKey nonce template m i n = (Inr ts, n')"
proof (induction m arbitrary: i n)
  case (Suc m)
  obtain t n1 where t: "one_tcert E tm req ecert pub kdfKey nonce template i n = (Inr t, n1)"
    using one_tcert_works [OF assms] by blast
  show ?case using Suc [of "i + 1" n1] t by auto
qed simp

lemma tcert_loop_each:
  assumes "tcert_loop E tm req ecert pub kdfKey nonce template m i n = (Inr ts, n')"
  shows "length ts = m \<and> (\<forall>j < m. \<exists>n0 n1. one_tcert E tm req ecert pub kdfKey nonce template (i + j) n0 = (Inr (ts ! j), n1))"
  using assms
proof (induction m arbitrary: i n ts)
  case (Suc m)
  obtain t n1 ts1 where t: "one_tcert E tm req ecert pub kdfKey nonce template i n = (Inr t, n1)"
    and r: "tcert_loop E tm req ecert pub kdfKey nonce template m (i + 1) n1 = (Inr ts1, n')" and ts: "ts = t # ts1"
    using Suc.prems by (auto split: sum.splits prod.splits)
  show ?case
  proof (intro conjI allI impI)
    fix j assume "j < Suc m"
    then show "\<exists>n0 n1. one_tcert E tm req ecert pub kdfKey nonce template (i + j) n0 = (Inr (ts ! j), n1)"
      using t Suc.IH [OF r] by (cases j) (auto simp: ts)
  qed (use Suc.IH [OF r] ts in simp)
qed simp

text \<open>
  C22. The keys handed out with a TCert open what is encrypted in it.  When attributes are encrypted, the
  key under an attribute's name decrypts its extension to its value followed by the sixteen bytes \<^verbatim>\<open>0xFF\<close> of
  \<^verbatim>\<open>Padding\<close>; without encryption the value stands in the extension.  The key under \<^verbatim>\<open>enrollmentId\<close> decrypts
  the enrollment ID extension to the caller's enrollment ID followed by the same bytes, unless an
  encrypted attribute is itself called \<^verbatim>\<open>enrollmentId\<close>: then that attribute's key has replaced it.
  Attribute number \<open>i\<close> has the object identifier ending in \<open>10 + i\<close>, and the index and enrollment ID
  extensions follow the attributes.
\<close>

theorem tcert_extensions_decrypt:
  assumes "aes_correct (te_aes E)" "\<And>n b. te_rand E n 16 = Inr b \<Longrightarrow> length b = BlockSize"
    and "generateExtensions E tcertid tidx ecert req n = (Inr (exts, ks), n')"
  shows "(\<forall>i < length (gb_Attrs req). ext_Id (exts ! i) = [1, 2, 3, 4, 5, 6, 10 + i] \<and>
      (if gb_EncryptAttrs req
       then \<exists>key. map_of ks (attr_Name (gb_Attrs req ! i)) = Some key \<and>
         opens E key (ext_Value (exts ! i)) (attr_Value (gb_Attrs req ! i))
       else ext_Value (exts ! i) = bytes_of (attr_Value (gb_Attrs req ! i)))) \<and>
    exts ! length (gb_Attrs req) = \<lparr>ext_Id = TCertEncTCertIndex, ext_Critical = True, ext_Value = tidx\<rparr> \<and>
    (\<exists>key ct. opens E key ct (x_CommonName ecert) \<and>
      exts ! (length (gb_Attrs req) + 1) = \<lparr>ext_Id = TCertEncEnrollmentID, ext_Critical = False, ext_Value = ct\<rparr> \<and>
      (\<not> (gb_EncryptAttrs req \<and> ''enrollmentId'' \<in> attr_Name ` set (gb_Attrs req)) \<longrightarrow> map_of ks ''enrollmentId'' = Some key))"
proof -
  define preK0 where "preK0 = te_HMAC E (bytes_of (gb_PreKey req)) (nat_bytes tcertid)"
  define idk where "idk = derived_key E preK0 ''enrollmentID''"
  obtain ct aexts header n1 tl where
    ct: "CBCPKCS7Encrypt (te_aes E) (te_rand E n 16) idk (bytes_of (x_CommonName ecert) @ Padding) = Inr ct"
    and at: "attr_extensions E (gb_EncryptAttrs req) preK0 (gb_Attrs req) 0 [] (AList.update ''enrollmentId'' idk []) (n + 1) =
      (Inr (aexts, header, ks), n1)"
    and ex: "exts = aexts @ [\<lparr>ext_Id = TCertEncTCertIndex, ext_Critical = True, ext_Value = tidx\<rparr>,
      \<lparr>ext_Id = TCertEncEnrollmentID, ext_Critical = False, ext_Value = ct\<rparr>] @ tl"
    using assms(3) unfolding generateExtensions_def GetEnrollmentIDFromCert_def Let_def preK0_def [symmetric] idk_def [symmetric]
    by (auto split: sum.splits prod.splits)
  note S = attr_extensions_spec [OF assms(1,2) at]
  have "\<not> (gb_EncryptAttrs req \<and> ''enrollmentId'' \<in> attr_Name ` set (gb_Attrs req)) \<longrightarrow> map_of ks ''enrollmentId'' = Some idk"
    using S [THEN conjunct2, THEN conjunct1] by (auto simp: update_conv')
  moreover have "opens E idk ct (x_CommonName ecert)"
    using CBCPKCS7Encrypt_decrypts [OF assms(1) ct assms(2)] by (simp add: opens_def)
  moreover have "exts ! (length (gb_Attrs req) + 1) = \<lparr>ext_Id = TCertEncEnrollmentID, ext_Critical = False, ext_Value = ct\<rparr>"
    "exts ! length (gb_Attrs req) = \<lparr>ext_Id = TCertEncTCertIndex, ext_Critical = True, ext_Value = tidx\<rparr>"
    using S by (simp_all add: ex nth_append)
  moreover have "\<forall>i < length (gb_Attrs req). ext_Id (exts ! i) = [1, 2, 3, 4, 5, 6, 10 + i] \<and>
      (if gb_EncryptAttrs req
       then \<exists>key. map_of ks (attr_Name (gb_Attrs req ! i)) = Some key \<and>
         opens E key (ext_Value (exts ! i)) (attr_Value (gb_Attrs req ! i))
       else ext_Value (exts ! i) = bytes_of (attr_Value (gb_Attrs req ! i)))"
    using S by (auto simp: ex nth_append)
  ultimately show ?thesis by blast
qed

theorem tcert_extensions_decrypt_witness:
  "\<exists>exts ks n'. generateExtensions demo_tenv 5 [9] demo_ecert demo_breq 0 = (Inr (exts, ks), n') \<and>
    (\<exists>key. map_of ks ''role'' = Some key \<and> opens demo_tenv key (ext_Value (exts ! 1)) ''dev'') \<and>
    (\<exists>key ct. map_of ks ''enrollmentId'' = Some key \<and> opens demo_tenv key ct ''admin'' \<and>
      exts ! 3 = \<lparr>ext_Id = TCertEncEnrollmentID, ext_Critical = False, ext_Value = ct\<rparr>)"
proof -
  obtain exts ks n' where g: "generateExtensions demo_tenv 5 [9] demo_ecert demo_breq 0 = (Inr (exts, ks), n')"
    using generateExtensions_works [OF demo_tenv_works] by blast
  have "''enrollmentId'' \<notin> attr_Name ` set (gb_Attrs demo_breq)" by (simp add: demo_breq_def)
  moreover from tcert_extensions_decrypt [OF demo_tenv_ok(1) _ g] demo_tenv_ok(2) [of _ 16]
  have "(\<forall>i < length (gb_Attrs demo_breq). ext_Id (exts ! i) = [1, 2, 3, 4, 5, 6, 10 + i] \<and>
      (if gb_EncryptAttrs demo_breq
       then \<exists>key. map_of ks (attr_Name (gb_Attrs demo_breq ! i)) = Some key \<and>
         opens demo_tenv key (ext_Value (exts ! i)) (attr_Value (gb_Attrs demo_breq ! i))
       else ext_Value (exts ! i) = bytes_of (attr_Value (gb_Attrs demo_breq ! i)))) \<and>
    exts ! length (gb_Attrs demo_breq) = \<lparr>ext_Id = TCertEncTCertIndex, ext_Critical = True, ext_Value = [9]\<rparr> \<and>
    (\<exists>key ct. opens demo_tenv key ct (x_CommonName demo_ecert) \<and>
      exts ! (length (gb_Attrs demo_breq) + 1) = \<lparr>ext_Id = TCertEncEnrollmentID, ext_Critical = False, ext_Value = ct\<rparr> \<and>
      (\<not> (gb_EncryptAttrs demo_breq \<and> ''enrollmentId'' \<in> attr_Name ` set (gb_Attrs demo_breq)) \<longrightarrow> map_of ks ''enrollmentId'' = Some key))"
    by (simp add: BlockSize_def)
  ultimately show ?thesis using g by (auto simp: demo_breq_def demo_ecert_def numeral_3_eq_3)
qed

subsection \<open>What a batch holds\<close>

definition batch_validity :: "Mgr \<Rightarrow> GetBatchRequest \<Rightarrow> int" where
  "batch_validity tm req = (if gb_ValidityPeriod req > 0 then min (gb_ValidityPeriod req) (tm_ValidityPeriod tm) else tm_ValidityPeriod tm)"

text \<open>The certificate is what the CA signed for an end-entity template with this key and validity.\<close>

definition issued :: "tcert_env \<Rightarrow> Mgr \<Rightarrow> int \<Rightarrow> int \<Rightarrow> string \<Rightarrow> bytes \<Rightarrow> bool" where
  "issued E tm from to pub cert \<longleftrightarrow> (\<exists>r t raw.
     te_CreateCertificate E r t (tm_CACert tm) pub (tm_CAKey tm) = Inr raw \<and> cert = ConvertDERToPEM E raw ''CERTIFICATE'' \<and>
     tp_PublicKey t = pub \<and> tp_NotBefore t = from \<and> tp_NotAfter t = to \<and> \<not> tp_IsCA t \<and> tp_Subject t = tcertSubject)"

lemma one_tcert_issued:
  assumes "one_tcert E tm req ecert pub kdfKey nonce template i n = (Inr t, n')"
    and "\<not> tp_IsCA template" "tp_Subject template = tcertSubject"
  shows "issued E tm (tp_NotBefore template) (tp_NotAfter template) (tcert_pub E pub kdfKey (tcert_index nonce i)) (tc_Cert t)"
proof -
  obtain tcertid exts ks r raw where
    "te_CreateCertificate E r (template\<lparr>tp_PublicKey := tcert_pub E pub kdfKey (tcert_index nonce i),
        tp_Extensions := exts, tp_ExtraExtensions := exts, tp_SerialNumber := tcertid\<rparr>) (tm_CACert tm)
       (tcert_pub E pub kdfKey (tcert_index nonce i)) (tm_CAKey tm) = Inr raw"
    "t = \<lparr>tc_Cert = ConvertDERToPEM E raw ''CERTIFICATE'', tc_Keys = ks\<rparr>"
    using assms(1) by (auto simp: one_tcert_def Let_def split: sum.splits prod.splits)
  then show ?thesis using assms(2,3) unfolding issued_def
    by (intro exI [of _ r] exI [of _ raw] exI [of _ "template\<lparr>tp_PublicKey := tcert_pub E pub kdfKey (tcert_index nonce i),
        tp_Extensions := exts, tp_ExtraExtensions := exts, tp_SerialNumber := tcertid\<rparr>"]) simp
qed

lemma batch_count_ok:
  "gb_Count req \<le> tm_MaxAllowedBatchSize tm \<Longrightarrow>
   batch_count tm req = Inr (if gb_Count req = 0 then nat (sint (tm_MaxAllowedBatchSize tm)) else nat (sint (gb_Count req)))"
  by (simp add: batch_count_def)

lemma GetBatch_ecdsa:
  assumes "x_PublicKey ecert = ECDSA_PublicKey pub"
  shows "GetBatch E now now' tm req ecert n = (case batch_count tm req of Inl err \<Rightarrow> (Inl err, n) | Inr m \<Rightarrow>
      (let key = te_HMAC E (bytes_of (createHMACKey E (n + 1))) (te_MarshalPKIX E pub) in
       case tcert_loop E tm req ecert pub key (rand_fill E n 8 @ replicate 8 0) (batch_template now (batch_validity tm req)) m 0 (n + 2) of
         (Inl err, n) \<Rightarrow> (Inl err, n)
       | (Inr ts, n) \<Rightarrow> (case te_randInt E n (10 ^ 20) of
           Inl _ \<Rightarrow> (Inl (GoPanic ''invalid memory address or nil pointer dereference''), n + 1)
         | Inr r \<Rightarrow> (Inr \<lparr>br_ID = GenNumber r 20, br_TS = now', br_Key = key, br_TCerts = ts\<rparr>, n + 1))))"
proof -
  have "(if gb_ValidityPeriod req > 0 \<and> gb_ValidityPeriod req < tm_ValidityPeriod tm then gb_ValidityPeriod req
      else tm_ValidityPeriod tm) = batch_validity tm req"
    by (simp add: batch_validity_def)
  then show ?thesis unfolding GetBatch_def Let_def assms PublicKey.case by (simp only:)
qed

lemma GetBatch_works:
  assumes "x_PublicKey ecert = ECDSA_PublicKey pub" "tcert_env_works E" "gb_Count req \<le> tm_MaxAllowedBatchSize tm"
  shows "\<exists>resp n'. GetBatch E now now' tm req ecert n = (Inr resp, n')"
proof -
  obtain ts n1 where l: "tcert_loop E tm req ecert pub (te_HMAC E (bytes_of (createHMACKey E (n + 1))) (te_MarshalPKIX E pub))
      (rand_fill E n 8 @ replicate 8 0) (batch_template now (batch_validity tm req))
      (if gb_Count req = 0 then nat (sint (tm_MaxAllowedBatchSize tm)) else nat (sint (gb_Count req))) 0 (n + 2) = (Inr ts, n1)"
    using tcert_loop_works [OF assms(2)] by blast
  obtain r where "te_randInt E n1 (10 ^ 20) = Inr r" using assms(2) unfolding tcert_env_works_def by meson
  then show ?thesis
    unfolding GetBatch_ecdsa [OF assms(1)] Let_def batch_count_ok [OF assms(3)] using l by simp
qed

text \<open>
  C20. A batch that is issued has the number of certificates asked for, the manager's maximum for zero
  (as Go's \<^verbatim>\<open>int\<close>, so none for a number of \<open>2\<^sup>6\<^sup>3\<close> or more, which the manager's 1000 excludes),
  and never more than that; it is issued only for an ECDSA enrollment key.  The certificate number
  \<open>j\<close> is what the CA signed for an end-entity template whose key is derived from the enrollment key
  with the key in the response and the index of \<open>j\<close>, valid from now for the requested period if
  that is positive and shorter than the configured one, else for the configured one.  And when the
  random source, the hash and the CA work, every such request within the maximum gets its batch.
\<close>

theorem GetBatch_spec:
  assumes "x_PublicKey ecert = ECDSA_PublicKey pub"
  shows "(\<forall>resp n'. GetBatch E now now' tm req ecert n = (Inr resp, n') \<longrightarrow>
      gb_Count req \<le> tm_MaxAllowedBatchSize tm \<and>
      length (br_TCerts resp) = (if gb_Count req = 0 then nat (sint (tm_MaxAllowedBatchSize tm)) else nat (sint (gb_Count req))) \<and>
      (\<forall>j < length (br_TCerts resp). issued E tm now (now + batch_validity tm req)
         (tcert_pub E pub (br_Key resp) (tcert_index (rand_fill E n 8 @ replicate 8 0) j)) (tc_Cert (br_TCerts resp ! j)))) \<and>
    (tcert_env_works E \<longrightarrow> gb_Count req \<le> tm_MaxAllowedBatchSize tm \<longrightarrow>
      (\<exists>resp n'. GetBatch E now now' tm req ecert n = (Inr resp, n')))"
proof (intro conjI impI allI)
  let ?nonce = "rand_fill E n 8 @ replicate 8 0" and ?tp = "batch_template now (batch_validity tm req)"
  let ?key = "te_HMAC E (bytes_of (createHMACKey E (n + 1))) (te_MarshalPKIX E pub)"
  note G = GetBatch_ecdsa [OF assms, of E now now' tm req n, unfolded Let_def]
  {
    fix resp n' assume ok: "GetBatch E now now' tm req ecert n = (Inr resp, n')"
    then obtain m ts n1 where m: "batch_count tm req = Inr m" and l: "tcert_loop E tm req ecert pub ?key ?nonce ?tp m 0 (n + 2) = (Inr ts, n1)"
      and r: "br_Key resp = ?key" "br_TCerts resp = ts"
      unfolding G by (auto split: sum.splits prod.splits)
    show c: "gb_Count req \<le> tm_MaxAllowedBatchSize tm" using m by (auto simp: batch_count_def split: if_splits)
    show "length (br_TCerts resp) = (if gb_Count req = 0 then nat (sint (tm_MaxAllowedBatchSize tm)) else nat (sint (gb_Count req)))"
      using m tcert_loop_each [OF l] r batch_count_ok [OF c] by simp
    fix j assume "j < length (br_TCerts resp)"
    then obtain n0 n1 where "one_tcert E tm req ecert pub ?key ?nonce ?tp (0 + j) n0 = (Inr (ts ! j), n1)"
      using tcert_loop_each [OF l] r by blast
    from one_tcert_issued [OF this]
    show "issued E tm now (now + batch_validity tm req) (tcert_pub E pub (br_Key resp) (tcert_index (rand_fill E n 8 @ replicate 8 0) j))
        (tc_Cert (br_TCerts resp ! j))"
      using r by (simp add: batch_template_def)
  }
qed (use GetBatch_works [OF assms] in blast)

theorem GetBatch_spec_witness:
  "\<exists>resp n'. GetBatch demo_tenv 100 200 demo_mgr demo_breq demo_ecert 0 = (Inr resp, n') \<and> length (br_TCerts resp) = 2 \<and>
    issued demo_tenv demo_mgr 100 160 (tcert_pub demo_tenv ''5'' (br_Key resp) (tcert_index (replicate 16 0) 1)) (tc_Cert (br_TCerts resp ! 1))"
proof -
  have pk: "x_PublicKey demo_ecert = ECDSA_PublicKey ''5''" by (simp add: demo_ecert_def)
  have c: "gb_Count demo_breq \<le> tm_MaxAllowedBatchSize demo_mgr" "nat (sint (gb_Count demo_breq)) = 2" "gb_Count demo_breq \<noteq> 0"
    "batch_validity demo_mgr demo_breq = 60"
    by (simp_all add: demo_breq_def demo_mgr_def batch_validity_def)
  have nc: "rand_fill demo_tenv 0 8 @ replicate 8 0 = replicate 16 0"
    by (simp add: rand_fill_def demo_tenv_def numeral_eq_Suc)
  note S = GetBatch_spec [OF pk, of demo_tenv 100 200 demo_mgr demo_breq 0]
  obtain resp n' where g: "GetBatch demo_tenv 100 200 demo_mgr demo_breq demo_ecert 0 = (Inr resp, n')"
    using S demo_tenv_works c(1) by blast
  then show ?thesis using S [THEN conjunct1, rule_format, OF g] c nc
    by (intro exI [of _ resp] exI [of _ n']) auto
qed

text \<open>An RSA enrollment certificate makes the type assertion panic, whatever the request.\<close>

lemma GetBatch_not_ecdsa:
  assumes "\<And>pub. x_PublicKey ecert \<noteq> ECDSA_PublicKey pub" "gb_Count req \<le> tm_MaxAllowedBatchSize tm"
  shows "\<exists>msg. GetBatch E now now' tm req ecert n = (Inl (GoPanic msg), n + 1)"
proof (cases "x_PublicKey ecert")
  case (ECDSA_PublicKey p)
  with assms(1) [of p] show ?thesis by simp
qed (simp_all add: GetBatch_def Let_def batch_count_ok [OF assms(2)])

subsection \<open>Keys of the certificates\<close>

lemma nat_str_inj: "nat_str m = nat_str n \<Longrightarrow> m = n"
  by (metis digits_val_nat_str option.inject)

lemma tcert_index_inj: "tcert_index nonce i = tcert_index nonce j \<Longrightarrow> i = j"
  by (auto simp: tcert_index_def Itoa_def dest!: bytes_of_inj nat_str_inj)

text \<open>
  C23. Whoever holds the enrollment private key \<open>d\<close> can compute the private key of every certificate of
  a batch from the key in the response and the certificate's index: the public key in the
  certificate belongs to the scalar \<open>d + k\<close>, where \<open>k\<close> comes from that key and the index alone and
  lies strictly between zero and the order of the curve; different positions in the batch have
  different indices.  The curve enters as a group: adding the points of two scalars gives the point
  of their sum.
\<close>

theorem tcert_key_pair:
  assumes "\<And>a b. te_CurveAdd E pub (te_ScalarBaseMult E pub (nat_bytes a)) (te_ScalarBaseMult E pub (nat_bytes b)) =
      te_ScalarBaseMult E pub (nat_bytes (a + b))"
    and "te_XY E pub = te_ScalarBaseMult E pub (nat_bytes d)" "1 < te_N E pub"
  shows "\<forall>i. \<exists>k. k = tcert_scalar E pub kdfKey (tcert_index nonce i) \<and> 0 < k \<and> k < te_N E pub \<and>
      tcert_pub E pub kdfKey (tcert_index nonce i) = te_PublicKey E pub (te_ScalarBaseMult E pub (nat_bytes (d + k))) \<and>
      (\<forall>j. tcert_index nonce j = tcert_index nonce i \<longrightarrow> j = i)"
proof -
  have "x mod (te_N E pub - 1) + 1 < te_N E pub" for x
    using mod_less_divisor [of "te_N E pub - 1" x] assms(3) by linarith
  then have "0 < tcert_scalar E pub kdfKey t" "tcert_scalar E pub kdfKey t < te_N E pub" for t
    by (simp_all add: tcert_scalar_def)
  then show ?thesis
    using tcert_index_inj by (auto simp: tcert_pub_def Let_def assms(1,2))
qed

theorem tcert_key_pair_witness:
  "\<forall>i. \<exists>k. k = tcert_scalar demo_tenv ''5'' [1, 2, 3] (tcert_index [0] i) \<and> 0 < k \<and> k < te_N demo_tenv ''5'' \<and>
      tcert_pub demo_tenv ''5'' [1, 2, 3] (tcert_index [0] i) =
        te_PublicKey demo_tenv ''5'' (te_ScalarBaseMult demo_tenv ''5'' (nat_bytes (9 + k))) \<and>
      (\<forall>j. tcert_index [0] j = tcert_index [0] i \<longrightarrow> j = i)"
  by (rule tcert_key_pair)
    (simp_all add: demo_tenv_def mod_add_eq SetBytes_simps bytes_of_def)

end
