(* ===== verification/Key_Tree.thy ===== *)
theory Key_Tree
  imports Cop_Error
begin

text \<open>
  The tree of derived keys, \<^verbatim>\<open>lib/tcert/keytree.go\<close>: a key for every path of names, derived from
  the key of the parent path and cached under the names joined with slashes.  Key derivation is
  the crypto provider's (\<open>derive\<close>, a parameter of type \<open>'k \<Rightarrow> string \<Rightarrow> 'k result\<close>).
\<close>

definition keyPathSep :: string where
  "keyPathSep = ''/''"

record 'k KeyTree =
  kt_KeyDeriv :: "'k \<Rightarrow> string \<Rightarrow> 'k result"
  kt_rootKey :: 'k
  kt_keys :: "string \<rightharpoonup> 'k"

definition NewKeyTree :: "('k \<Rightarrow> string \<Rightarrow> 'k result) \<Rightarrow> 'k \<Rightarrow> 'k KeyTree" where
  "NewKeyTree bccspMgr rootKey = \<lparr>kt_KeyDeriv = bccspMgr, kt_rootKey = rootKey, kt_keys = Map.empty\<rparr>"

definition KeyTree_deriveChildKey :: "'k KeyTree \<Rightarrow> 'k \<Rightarrow> string \<Rightarrow> string \<Rightarrow> 'k result" where
  "KeyTree_deriveChildKey m parentKey childName path = (case kt_KeyDeriv m parentKey childName of
     Inl err \<Rightarrow> Inl (ErrorString (''Failed to derive key '' @ path @ '': '' @ Error err))
   | Inr key \<Rightarrow> Inr key)"

function KeyTree_GetKey :: "string list \<Rightarrow> 'k KeyTree \<Rightarrow> 'k result \<times> 'k KeyTree" where
  "KeyTree_GetKey path m =
     (if path = [] then (Inr (kt_rootKey m), m)
      else let pathStr = Join path keyPathSep in
        (case kt_keys m pathStr of
           Some key \<Rightarrow> (Inr key, m)
         | None \<Rightarrow> (case KeyTree_GetKey (butlast path) m of
             (Inl err, m) \<Rightarrow> (Inl err, m)
           | (Inr parentKey, m) \<Rightarrow>
               (case KeyTree_deriveChildKey m parentKey (last path) pathStr of
                  Inl err \<Rightarrow> (Inl err, m)
                | Inr key \<Rightarrow> (Inr key, m\<lparr>kt_keys := (kt_keys m)(pathStr \<mapsto> key)\<rparr>)))))"
  by pat_completeness auto
termination
  by (relation "measure (\<lambda>(path, m). length path)") auto

declare KeyTree_GetKey.simps [simp del]

subsection \<open>What a path's key is\<close>

text \<open>The key of a path, computed without a cache.\<close>

fun derive_from :: "('k \<Rightarrow> string \<Rightarrow> 'k result) \<Rightarrow> 'k \<Rightarrow> string list \<Rightarrow> 'k option" where
  "derive_from D k [] = Some k"
| "derive_from D k (n # ns) = (case D k n of Inl _ \<Rightarrow> None | Inr k' \<Rightarrow> derive_from D k' ns)"

definition path_key :: "'k KeyTree \<Rightarrow> string list \<Rightarrow> 'k option" where
  "path_key m path = derive_from (kt_KeyDeriv m) (kt_rootKey m) path"

definition slash_free :: "string list \<Rightarrow> bool" where
  "slash_free path \<longleftrightarrow> (\<forall>n \<in> set path. CHR ''/'' \<notin> set n)"

text \<open>Every cached key is the key of the path its name splits into.\<close>

definition cache_ok :: "'k KeyTree \<Rightarrow> bool" where
  "cache_ok m \<longleftrightarrow> (\<forall>s k. kt_keys m s = Some k \<longrightarrow> path_key m (Split s (CHR ''/'')) = Some k)"

definition to_option :: "'a result \<Rightarrow> 'a option" where
  "to_option r = (case r of Inl _ \<Rightarrow> None | Inr x \<Rightarrow> Some x)"

lemma derive_from_snoc:
  "derive_from D k (ns @ [n]) = (case derive_from D k ns of None \<Rightarrow> None | Some k' \<Rightarrow> to_option (D k' n))"
  by (induction ns arbitrary: k) (auto simp: to_option_def split: sum.splits)

lemma cache_ok_new: "cache_ok (NewKeyTree D root)"
  by (simp add: cache_ok_def NewKeyTree_def)

lemma slash_free_butlast: "slash_free path \<Longrightarrow> slash_free (butlast path)"
  by (auto simp: slash_free_def dest: in_set_butlastD)

lemma slash_free_Split: "slash_free (Split s (CHR ''/''))"
  by (auto simp: slash_free_def dest: Split_parts)

lemma Split_Join_path: "path \<noteq> [] \<Longrightarrow> slash_free path \<Longrightarrow> Split (Join path keyPathSep) (CHR ''/'') = path"
  unfolding keyPathSep_def slash_free_def by (intro Split_Join) auto

lemma cache_ok_cached:
  assumes "cache_ok m" "path \<noteq> []" "slash_free path" "kt_keys m (Join path keyPathSep) = Some k"
  shows "path_key m path = Some k"
  using assms Split_Join_path [of path] unfolding cache_ok_def by metis

lemma cache_ok_insert:
  assumes "cache_ok m" "path \<noteq> []" "slash_free path" "path_key m path = Some k"
  shows "cache_ok (m\<lparr>kt_keys := (kt_keys m)(Join path keyPathSep \<mapsto> k)\<rparr>)"
  using assms Split_Join_path [of path] by (auto simp: cache_ok_def path_key_def)

text \<open>A path that is not in the cache: its parent's key is got, and the child's derived from it.\<close>

lemma path_key_parent:
  "path \<noteq> [] \<Longrightarrow> path_key m path = (case path_key m (butlast path) of None \<Rightarrow> None | Some k \<Rightarrow> to_option (kt_KeyDeriv m k (last path)))"
  using derive_from_snoc [of _ _ "butlast path" "last path"] by (simp add: path_key_def)

lemma GetKey_uncached:
  assumes "path \<noteq> []" "kt_keys m (Join path keyPathSep) = None" "KeyTree_GetKey (butlast path) m = (q, m1)"
  shows "KeyTree_GetKey path m = (case q of
     Inl err \<Rightarrow> (Inl err, m1)
   | Inr parentKey \<Rightarrow> (case KeyTree_deriveChildKey m1 parentKey (last path) (Join path keyPathSep) of
       Inl err \<Rightarrow> (Inl err, m1)
     | Inr key \<Rightarrow> (Inr key, m1\<lparr>kt_keys := (kt_keys m1)(Join path keyPathSep \<mapsto> key)\<rparr>)))"
  using assms by (simp add: KeyTree_GetKey.simps [of path] Let_def)

lemma GetKey_correct:
  assumes "cache_ok m" "slash_free path" "KeyTree_GetKey path m = (r, m')"
  shows "to_option r = path_key m path \<and> cache_ok m' \<and> kt_KeyDeriv m' = kt_KeyDeriv m \<and> kt_rootKey m' = kt_rootKey m"
  using assms
proof (induction path m arbitrary: r m' rule: KeyTree_GetKey.induct)
  case (1 path m)
  let ?s = "Join path keyPathSep"
  consider "path = []" | k where "path \<noteq> []" "kt_keys m ?s = Some k" | "path \<noteq> []" "kt_keys m ?s = None"
    by (cases "kt_keys m ?s") auto
  then show ?case
  proof cases
    case 1
    with "1.prems" show ?thesis by (auto simp: KeyTree_GetKey.simps path_key_def to_option_def)
  next
    case (2 k)
    with "1.prems" show ?thesis
      by (auto simp: KeyTree_GetKey.simps [of path] cache_ok_cached to_option_def)
  next
    case 3
    obtain q m1 where q: "KeyTree_GetKey (butlast path) m = (q, m1)" by (cases "KeyTree_GetKey (butlast path) m")
    have IH: "to_option q = path_key m (butlast path)" "cache_ok m1" "kt_KeyDeriv m1 = kt_KeyDeriv m" "kt_rootKey m1 = kt_rootKey m"
      using "1.IH" [OF 3(1) refl 3(2) "1.prems"(1) slash_free_butlast [OF "1.prems"(2)] q] by auto
    then have pk: "path_key m1 path = path_key m path" by (simp add: path_key_def)
    show ?thesis
      using "1.prems"(2,3) IH pk path_key_parent [OF 3(1), of m] cache_ok_insert [OF IH(2) 3(1)] 3
      by (auto simp: GetKey_uncached [OF 3 q] KeyTree_deriveChildKey_def to_option_def split: sum.splits option.splits)
  qed
qed

text \<open>A series of requests.\<close>

fun get_keys :: "string list list \<Rightarrow> 'k KeyTree \<Rightarrow> 'k KeyTree" where
  "get_keys [] m = m"
| "get_keys (p # ps) m = get_keys ps (snd (KeyTree_GetKey p m))"

lemma get_keys_ok:
  "list_all slash_free ps \<Longrightarrow> cache_ok m \<Longrightarrow>
   cache_ok (get_keys ps m) \<and> kt_KeyDeriv (get_keys ps m) = kt_KeyDeriv m \<and> kt_rootKey (get_keys ps m) = kt_rootKey m"
proof (induction ps arbitrary: m)
  case (Cons p ps)
  obtain r m' where "KeyTree_GetKey p m = (r, m')" by (cases "KeyTree_GetKey p m")
  with Cons GetKey_correct [of m p r m'] show ?case by simp
qed simp

text \<open>
  C27. The key tree's cache is invisible for names without slashes: however many keys were requested
  before, \<^verbatim>\<open>GetKey\<close> returns exactly the key obtained by deriving along the path from the root (and
  fails exactly when that derivation fails).
\<close>

theorem keytree_exact:
  assumes "list_all slash_free ps" "slash_free path"
  shows "to_option (fst (KeyTree_GetKey path (get_keys ps (NewKeyTree D root)))) = derive_from D root path"
proof -
  let ?m = "get_keys ps (NewKeyTree D root)"
  obtain r m' where r: "KeyTree_GetKey path ?m = (r, m')" by (cases "KeyTree_GetKey path ?m")
  have "cache_ok ?m" "kt_KeyDeriv ?m = D" "kt_rootKey ?m = root"
    using get_keys_ok [OF assms(1) cache_ok_new [of D root]] by (auto simp: NewKeyTree_def)
  with GetKey_correct [OF _ assms(2) r] r show ?thesis by (simp add: path_key_def)
qed

definition demo_deriv :: "string \<Rightarrow> string \<Rightarrow> string result" where
  "demo_deriv k n = Inr (k @ ''>'' @ n)"

theorem keytree_exact_witness:
  "to_option (fst (KeyTree_GetKey [''bank'', ''b''] (get_keys [[''bank'', ''a''], [''bank'']] (NewKeyTree demo_deriv ''root'')))) =
     Some ''root>bank>b''"
  using keytree_exact [of "[[''bank'', ''a''], [''bank'']]" "[''bank'', ''b'']" demo_deriv "''root''"]
  by (simp add: slash_free_def demo_deriv_def)

text \<open>
  With slashes in names the cache confuses nodes: after the key of \<open>[a, b]\<close> was requested, the
  request for the child of the root named \<open>a/b\<close> returns that key and not its own, although the
  comment on the tree says that the key of one node cannot be had from others outside its sub-tree.
\<close>

theorem keytree_collision:
  assumes "CHR ''/'' \<notin> set a" "CHR ''/'' \<notin> set b" "derive_from D root [a, b] = Some k"
  shows "fst (KeyTree_GetKey [a @ ''/'' @ b] (get_keys [[a, b]] (NewKeyTree D root))) = Inr k"
proof -
  let ?m = "NewKeyTree D root"
  obtain r m' where r: "KeyTree_GetKey [a, b] ?m = (r, m')" by (cases "KeyTree_GetKey [a, b] ?m")
  have "slash_free [a, b]" using assms(1,2) by (simp add: slash_free_def)
  with GetKey_correct [OF cache_ok_new _ r] assms(3) have rk: "r = Inr k"
    by (auto simp: path_key_def NewKeyTree_def to_option_def split: sum.splits)
  have "kt_keys m' (a @ ''/'' @ b) = Some k"
    using r rk by (subst (asm) KeyTree_GetKey.simps)
      (auto simp: Let_def keyPathSep_def NewKeyTree_def split: option.splits prod.splits sum.splits)
  then have "KeyTree_GetKey [a @ ''/'' @ b] m' = (Inr k, m')"
    by (subst KeyTree_GetKey.simps) (simp add: Let_def)
  with r show ?thesis by simp
qed

theorem keytree_collision_witness:
  "fst (KeyTree_GetKey [''a/b''] (get_keys [[''a'', ''b'']] (NewKeyTree demo_deriv ''root''))) = Inr ''root>a>b'' \<and>
   derive_from demo_deriv ''root'' [''a/b''] = Some ''root>a/b''"
  using keytree_collision [of "''a''" "''b''" demo_deriv "''root''" "''root>a>b''"]
  by (simp add: demo_deriv_def)

end
