(* ===== verification/Tcert_Handler.thy ===== *)
theory Tcert_Handler
  imports Tcert_Batch Key_Tree Auth_Handler Register_User "HOL-Library.List_Lexorder" "HOL-Library.Char_ord"
begin

text \<open>
  The TCert endpoint, \<^verbatim>\<open>cli/server/tcert.go\<close>, and the two helpers of \<^verbatim>\<open>util/bccsp.go\<close> it uses.  It
  takes the enrollment certificate from the authorization header, looks up the caller's attributes
  and affiliation, derives the key of the affiliation path and asks the TCert library for a batch.

  The handler's state is the registry's, the key tree with its cache, and the number of reads
  taken from the random source.  The crypto provider is a parameter: its keys have a type \<open>'k\<close>,
  \<open>ski\<close> is the identifier of a key.
\<close>

record ('s, 'k) tcert_state =
  ts_reg :: 's
  ts_tree :: "'k KeyTree"
  ts_rand :: nat

subsection \<open>The crypto provider (util/bccsp.go)\<close>

text \<open>The configuration is passed as an optional value; only its absence is accepted.\<close>

definition GetBCCSP :: "'p result \<Rightarrow> 'c option \<Rightarrow> 'p result" where
  "GetBCCSP provider cfg = (case cfg of
     None \<Rightarrow> provider
   | Some _ \<Rightarrow> Inl (ErrorString ''BCCSP config structure must be defined''))"

record 'k bccsp =
  csp_KeyGen :: "'k result"
  csp_KeyDeriv :: "'k \<Rightarrow> string \<Rightarrow> 'k result"

definition GenRootKey :: "'k bccsp \<Rightarrow> 'k result" where
  "GenRootKey csp = csp_KeyGen csp"

subsection \<open>The response as JSON\<close>

text \<open>A map is printed with its keys in order, a nil slice as \<^verbatim>\<open>null\<close>.\<close>

definition TCert_json :: "TCert \<Rightarrow> json" where
  "TCert_json t = JObj
     ([(''cert'', json_bytes (tc_Cert t))]
      @ opt_field (tc_Keys t = []) ''keys'' (JObj (map (\<lambda>(k, v). (k, json_bytes v)) (sort_key fst (tc_Keys t)))))"

definition GetBatchResponse_json :: "(int \<Rightarrow> string) \<Rightarrow> GetBatchResponse \<Rightarrow> json" where
  "GetBatchResponse_json fmtTime b = JObj
     [(''id'', JNum (nat_str (br_ID b))), (''ts'', JStr (fmtTime (br_TS b))), (''key'', json_bytes (br_Key b)),
      (''tcerts'', if br_TCerts b = [] then JNull else JArr (map TCert_json (br_TCerts b)))]"

subsection \<open>The handler\<close>

definition getCertFromAuthHdr :: "sig_env \<Rightarrow> HttpRequest \<Rightarrow> Certificate result" where
  "getCertFromAuthHdr S r =
     (let authHdr = hr_Authorization r in
      if authHdr = [] then Inl errNoAuthHdr
      else (case DecodeToken S authHdr of
        Inl err \<Rightarrow> Inl err
      | Inr (cert, _, _) \<Rightarrow> Inr cert))"

definition requested_attrs :: "('s, 'u) UserRegistry \<Rightarrow> 'u \<Rightarrow> string list \<Rightarrow> Attribute list" where
  "requested_attrs reg user attrNames =
     [\<lparr>attr_Name = name, attr_Value = usr_GetAttribute reg user name\<rparr>.
        name \<leftarrow> attrNames, usr_GetAttribute reg user name \<noteq> []]"

definition getUserInfo ::
  "('s, 'u) UserRegistry \<Rightarrow> string \<Rightarrow> string list \<Rightarrow> 's \<Rightarrow> (Attribute list \<times> string list) result \<times> 's" where
  "getUserInfo reg uid attrNames s = (case reg_GetUser reg uid attrNames s of
     (Inl err, s) \<Rightarrow> (Inl err, s)
   | (Inr user, s) \<Rightarrow> (Inr (requested_attrs reg user attrNames, usr_GetAffiliationPath reg user), s))"

record 'k tcert_world =
  tw_sig :: sig_env
  tw_env :: tcert_env
  tw_ski :: "'k \<Rightarrow> bytes"
  tw_now :: int
  tw_now' :: int
  tw_fmtTime :: "int \<Rightarrow> string"

definition batch_request :: "GetPrivateSignersRequest \<Rightarrow> Attribute list \<Rightarrow> string \<Rightarrow> GetBatchRequest" where
  "batch_request req attrs prekeyStr =
     \<lparr>gb_Count = ps_Count req, gb_Attrs = attrs, gb_EncryptAttrs = ps_EncryptAttrs req,
      gb_ValidityPeriod = ps_ValidityPeriod req, gb_PreKey = prekeyStr\<rparr>"

definition tcertHandler_handle ::
  "'k tcert_world \<Rightarrow> ('s, 'u) UserRegistry \<Rightarrow> Mgr \<Rightarrow> ('s, 'k) tcert_state handler" where
  "tcertHandler_handle W reg mgr r st = (case ReadAll r of
     Inl err \<Rightarrow> (Inl (ErrorString (''Failure reading request body: '' @ Error err)), st)
   | Inr body \<Rightarrow> (case Unmarshal (decode GetPrivateSignersRequest_fields) body ''tcert request'' of
       Inl err \<Rightarrow> (Inl err, st)
     | Inr req \<Rightarrow> (case getCertFromAuthHdr (tw_sig W) r of
         Inl err \<Rightarrow> (Inl err, st)
       | Inr cert \<Rightarrow>
           (let uid = GetEnrollmentIDFromCert cert in
            (case getUserInfo reg uid (ps_AttrNames req) (ts_reg st) of
               (Inl err, s) \<Rightarrow> (Inl err, st\<lparr>ts_reg := s\<rparr>)
             | (Inr (attrs, affiliationPath), s) \<Rightarrow>
                 (let st = st\<lparr>ts_reg := s\<rparr> in
                  (case KeyTree_GetKey affiliationPath (ts_tree st) of
                     (Inl err, tree) \<Rightarrow>
                       (Inl (ErrorString (''Failed to get prekey for user '' @ uid @ '': '' @ Error err)), st\<lparr>ts_tree := tree\<rparr>)
                   | (Inr pk, tree) \<Rightarrow>
                       (let st = st\<lparr>ts_tree := tree\<rparr>;
                            tcertReq = batch_request req attrs (string_of (tw_ski W pk))
                        in (case GetBatch (tw_env W) (tw_now W) (tw_now' W) mgr tcertReq cert (ts_rand st) of
                              (Inl err, n) \<Rightarrow> (Inl err, st\<lparr>ts_rand := n\<rparr>)
                            | (Inr resp, n) \<Rightarrow>
                                (Inr (SendResponse (GetBatchResponse_json (tw_fmtTime W) resp)), st\<lparr>ts_rand := n\<rparr>))))))))))"

text \<open>Every error becomes a bad request; a panic stays one.\<close>

definition tcertHandler_Handle ::
  "'k tcert_world \<Rightarrow> ('s, 'u) UserRegistry \<Rightarrow> Mgr \<Rightarrow> ('s, 'k) tcert_state handler" where
  "tcertHandler_Handle W reg mgr r st = (case tcertHandler_handle W reg mgr r st of
     (Inl (GoPanic msg), st) \<Rightarrow> (Inl (GoPanic msg), st)
   | (Inl err, st) \<Rightarrow> (Inl (HTTPError 400 err), st)
   | (Inr resp, st) \<Rightarrow> (Inr resp, st))"

text \<open>The handler and its fresh key tree; \<open>mgr\<close> is the result of \<open>LoadMgr\<close> on the CA's files.\<close>

definition initTCertHandler ::
  "'k tcert_world \<Rightarrow> ('s, 'u) UserRegistry \<Rightarrow> 'k bccsp result \<Rightarrow> Mgr result \<Rightarrow>
   ((HttpRequest \<Rightarrow> ('s, 'k) tcert_state \<Rightarrow> HttpResponse option \<times> ('s, 'k) tcert_state) \<times> 'k KeyTree) result" where
  "initTCertHandler W reg provider loadMgr = (case GetBCCSP provider (None :: unit option) of
     Inl err \<Rightarrow> Inl err
   | Inr csp \<Rightarrow> (case loadMgr of
       Inl err \<Rightarrow> Inl err
     | Inr mgr \<Rightarrow> (case GenRootKey csp of
         Inl err \<Rightarrow> Inl err
       | Inr rootKey \<Rightarrow>
           Inr (HTTPHandler_ServeHTTP [''POST''] (tcertHandler_Handle W reg mgr), NewKeyTree (csp_KeyDeriv csp) rootKey))))"

definition NewTCertHandler ::
  "'k tcert_world \<Rightarrow> ('s, 'u) UserRegistry \<Rightarrow> 'k bccsp result \<Rightarrow> Mgr result \<Rightarrow>
   ((HttpRequest \<Rightarrow> ('s, 'k) tcert_state \<Rightarrow> HttpResponse option \<times> ('s, 'k) tcert_state) \<times> 'k KeyTree) result" where
  "NewTCertHandler W reg provider loadMgr = (case initTCertHandler W reg provider loadMgr of
     Inl err \<Rightarrow> Inl (ErrorString (''Failed to initialize TCert handler: '' @ Error err))
   | Inr handler \<Rightarrow> Inr handler)"

subsection \<open>Whose attributes and whose key\<close>

context user_registry
begin

lemma getUserInfo_view: "getUserInfo reg n names s = (r, s') \<Longrightarrow> view s' = view s"
  by (auto simp: getUserInfo_def dest: GetUser_view split: prod.splits sum.splits)

lemma getUserInfo_found:
  assumes "getUserInfo reg n names s = (Inr (attrs, path), s')"
  shows "\<exists>a. view s n = Some a \<and> path = au_path a \<and>
    attrs = [\<lparr>attr_Name = k, attr_Value = au_attr a k\<rparr>. k \<leftarrow> names, au_attr a k \<noteq> []]"
proof -
  obtain u where u: "reg_GetUser reg n names s = (Inr u, s')" "attrs = requested_attrs reg u names" "path = usr_GetAffiliationPath reg u"
    using assms by (auto simp: getUserInfo_def split: prod.splits sum.splits)
  obtain a where a: "view s n = Some a" "usr_GetAffiliationPath reg u = au_path a" "\<forall>k \<in> set names. usr_GetAttribute reg u k = au_attr a k"
    using GetUser_found [OF u(1)] by blast
  have "requested_attrs reg u names = [\<lparr>attr_Name = k, attr_Value = au_attr a k\<rparr>. k \<leftarrow> names, au_attr a k \<noteq> []]"
    unfolding requested_attrs_def using a(3) by (intro arg_cong [of _ _ concat] map_cong) auto
  with u a show ?thesis by blast
qed

lemma tcert_request:
  assumes "tcertHandler_handle W reg mgr r st = (Inr resp, st')" "cache_ok (ts_tree st)"
    and "\<forall>n a. view (ts_reg st) n = Some a \<longrightarrow> slash_free (au_path a)"
  shows "\<exists>req cert a k batch. decode GetPrivateSignersRequest_fields (hr_Body r) = Inr req \<and>
    getCertFromAuthHdr (tw_sig W) r = Inr cert \<and> view (ts_reg st) (x_CommonName cert) = Some a \<and>
    path_key (ts_tree st) (au_path a) = Some k \<and>
    GetBatch (tw_env W) (tw_now W) (tw_now' W) mgr
      (batch_request req [\<lparr>attr_Name = x, attr_Value = au_attr a x\<rparr>. x \<leftarrow> ps_AttrNames req, au_attr a x \<noteq> []] (string_of (tw_ski W k)))
      cert (ts_rand st) = (Inr batch, ts_rand st') \<and>
    resp = SendResponse (GetBatchResponse_json (tw_fmtTime W) batch) \<and>
    cache_ok (ts_tree st') \<and> view (ts_reg st') = view (ts_reg st)"
proof -
  obtain req cert attrs path s k tree batch where
    req: "ReadAll r = Inr (hr_Body r)" "decode GetPrivateSignersRequest_fields (hr_Body r) = Inr req"
    and cert: "getCertFromAuthHdr (tw_sig W) r = Inr cert"
    and info: "getUserInfo reg (x_CommonName cert) (ps_AttrNames req) (ts_reg st) = (Inr (attrs, path), s)"
    and key: "KeyTree_GetKey path (ts_tree st) = (Inr k, tree)"
    and batch: "GetBatch (tw_env W) (tw_now W) (tw_now' W) mgr (batch_request req attrs (string_of (tw_ski W k))) cert (ts_rand st) =
      (Inr batch, ts_rand st')"
    and st': "resp = SendResponse (GetBatchResponse_json (tw_fmtTime W) batch)" "ts_tree st' = tree" "ts_reg st' = s"
    using assms(1)
    by (auto simp: tcertHandler_handle_def Let_def GetEnrollmentIDFromCert_def Unmarshal_def ReadAll_def
        split: sum.splits prod.splits option.splits)
  obtain a where a: "view (ts_reg st) (x_CommonName cert) = Some a" "path = au_path a"
    "attrs = [\<lparr>attr_Name = x, attr_Value = au_attr a x\<rparr>. x \<leftarrow> ps_AttrNames req, au_attr a x \<noteq> []]"
    using getUserInfo_found [OF info] by blast
  have "path_key (ts_tree st) path = Some k" "cache_ok tree"
    using GetKey_correct [OF assms(2) _ key] assms(3) a(1,2) by (auto simp: to_option_def)
  with req cert a batch st' getUserInfo_view [OF info] show ?thesis by blast
qed

end

lemma abs_record_simps:
  "au_attr (abs_record u) = DBUser_GetAttribute (newDBUser u)" "au_path (abs_record u) = Split (ur_Group u) (CHR ''/'')"
  by (simp_all add: abs_record_def newDBUser_def)

lemma db_view_slash_free: "db_view h n = Some a \<Longrightarrow> slash_free (au_path a)"
  by (auto simp: db_view_def abs_record_def newDBUser_def slash_free_Split split: option.splits)

text \<open>A request within the maximum, of a stored user with an ECDSA enrollment key, is answered.\<close>

lemma tcert_handle_works:
  assumes "hr_ReadErr r = None" "decode GetPrivateSignersRequest_fields (hr_Body r) = Inr req" "getCertFromAuthHdr (tw_sig W) r = Inr cert"
    and "ts_reg st = Some d" "faults d = []" "lookup_user d (x_CommonName cert) = Some u" "cache_ok (ts_tree st)"
    and "path_key (ts_tree st) (Split (ur_Group u) (CHR ''/'')) = Some k"
    and "x_PublicKey cert = ECDSA_PublicKey pub" "tcert_env_works (tw_env W)" "ps_Count req \<le> tm_MaxAllowedBatchSize mgr"
  shows "\<exists>resp st'. tcertHandler_handle W db_registry mgr r st = (Inr resp, st')"
proof -
  define attrs where "attrs = requested_attrs db_registry (newDBUser u) (ps_AttrNames req)"
  have info: "getUserInfo db_registry (x_CommonName cert) (ps_AttrNames req) (Some d) =
      (Inr (attrs, Split (ur_Group u) (CHR ''/'')), Some d)"
    using assms(5,6) by (simp add: getUserInfo_def GetUser_no_faults attrs_def DBUser_GetAffiliationPath_def newDBUser_def)
  obtain q tree where q: "KeyTree_GetKey (Split (ur_Group u) (CHR ''/'')) (ts_tree st) = (q, tree)"
    by (cases "KeyTree_GetKey (Split (ur_Group u) (CHR ''/'')) (ts_tree st)")
  have "q = Inr k"
    using GetKey_correct [OF assms(7) slash_free_Split q] assms(8) by (auto simp: to_option_def split: sum.splits)
  moreover obtain b n where "GetBatch (tw_env W) (tw_now W) (tw_now' W) mgr (batch_request req attrs (string_of (tw_ski W k))) cert (ts_rand st) = (Inr b, n)"
    using GetBatch_works [OF assms(9,10), of "batch_request req attrs (string_of (tw_ski W k))" mgr] assms(11)
    by (force simp: batch_request_def)
  ultimately show ?thesis
    using assms(1-4) info q
    by (simp add: tcertHandler_handle_def ReadAll_def Unmarshal_def GetEnrollmentIDFromCert_def Let_def)
qed

text \<open>
  C21. A TCert request that is answered is answered with data of the caller alone: the caller is the
  subject of the certificate in the authorization header and is a stored user; the batch is made for
  exactly those requested attributes the user has a value for, with the stored values, under the
  identifier of the key derived along the user's stored affiliation path; and the key cache stays
  correct and the users unchanged.
\<close>

theorem tcert_endpoint_own_data:
  assumes "tcertHandler_handle W db_registry mgr r st = (Inr resp, st')" "cache_ok (ts_tree st)" "ts_reg st = Some d"
  shows "\<exists>req cert u k batch. decode GetPrivateSignersRequest_fields (hr_Body r) = Inr req \<and>
    getCertFromAuthHdr (tw_sig W) r = Inr cert \<and> lookup_user d (x_CommonName cert) = Some u \<and>
    path_key (ts_tree st) (Split (ur_Group u) (CHR ''/'')) = Some k \<and>
    GetBatch (tw_env W) (tw_now W) (tw_now' W) mgr
      (batch_request req [\<lparr>attr_Name = x, attr_Value = DBUser_GetAttribute (newDBUser u) x\<rparr>.
          x \<leftarrow> ps_AttrNames req, DBUser_GetAttribute (newDBUser u) x \<noteq> []] (string_of (tw_ski W k)))
      cert (ts_rand st) = (Inr batch, ts_rand st') \<and>
    resp = SendResponse (GetBatchResponse_json (tw_fmtTime W) batch) \<and>
    cache_ok (ts_tree st') \<and> db_view (ts_reg st') = db_view (Some d)"
proof -
  have sf: "\<forall>n a. db_view (ts_reg st) n = Some a \<longrightarrow> slash_free (au_path a)"
    using db_view_slash_free by blast
  obtain req cert a k batch where
    *: "decode GetPrivateSignersRequest_fields (hr_Body r) = Inr req" "getCertFromAuthHdr (tw_sig W) r = Inr cert"
      "db_view (ts_reg st) (x_CommonName cert) = Some a" "path_key (ts_tree st) (au_path a) = Some k"
      "GetBatch (tw_env W) (tw_now W) (tw_now' W) mgr
        (batch_request req [\<lparr>attr_Name = x, attr_Value = au_attr a x\<rparr>. x \<leftarrow> ps_AttrNames req, au_attr a x \<noteq> []] (string_of (tw_ski W k)))
        cert (ts_rand st) = (Inr batch, ts_rand st')"
      "resp = SendResponse (GetBatchResponse_json (tw_fmtTime W) batch)" "cache_ok (ts_tree st')" "db_view (ts_reg st') = db_view (ts_reg st)"
    using db.tcert_request [OF assms(1,2) sf] by blast
  obtain u where u: "lookup_user d (x_CommonName cert) = Some u" and a: "a = abs_record u"
    using *(3) assms(3) by (auto simp: db_view_def)
  show ?thesis using * [unfolded a abs_record_simps assms(3)] u by blast
qed

definition demo_ecx :: "string \<Rightarrow> Certificate" where
  "demo_ecx k = (demo_x k)\<lparr>x_PublicKey := ECDSA_PublicKey ''5''\<rparr>"

definition demo_world :: "string tcert_world" where
  "demo_world = \<lparr>tw_sig = demo_sig\<lparr>se_x509 := \<lparr>pem_Decode = Some, x509_ParseCertificate = (\<lambda>b. Inr (demo_ecx (string_of b)))\<rparr>\<rparr>,
     tw_env = demo_tenv, tw_ski = bytes_of, tw_now = 100, tw_now' = 200, tw_fmtTime = Itoa\<rparr>"

definition demo_signers :: GetPrivateSignersRequest where
  "demo_signers = \<lparr>ps_Count = 2, ps_AttrNames = [registrarRoles, ''none''], ps_EncryptAttrs = True, ps_ValidityPeriod = 60\<rparr>"

definition demo_treq :: HttpRequest where
  "demo_treq = \<lparr>hr_Method = ''POST'', hr_Authorization = B64Encode (bytes_of ''admin'') @ ''.'' @ B64Encode [1],
     hr_Eid = [], hr_Body = json_print (GetPrivateSignersRequest_json demo_signers), hr_ReadErr = None\<rparr>"

definition demo_tstate :: "(sqldb option, string) tcert_state" where
  "demo_tstate = \<lparr>ts_reg = Some demo_db2, ts_tree = NewKeyTree demo_deriv ''root'', ts_rand = 0\<rparr>"

lemma demo_treq_cert: "getCertFromAuthHdr (tw_sig demo_world) demo_treq = Inr (demo_ecx ''admin'')"
proof -
  have "GetX509CertificateFromPEM (se_x509 (tw_sig demo_world)) (bytes_of ''admin'') = Inr (demo_ecx ''admin'')"
    by (simp add: GetX509CertificateFromPEM_def demo_world_def)
  from DecodeToken_make [OF this, of "[1]"] show ?thesis
    by (simp add: getCertFromAuthHdr_def demo_treq_def Let_def)
qed

theorem tcert_endpoint_own_data_witness:
  "\<exists>resp st' batch. tcertHandler_handle demo_world db_registry demo_mgr demo_treq demo_tstate = (Inr resp, st') \<and>
    GetBatch demo_tenv 100 200 demo_mgr
      (batch_request demo_signers [\<lparr>attr_Name = registrarRoles, attr_Value = ''client,peer''\<rparr>] ''root>bank>a'')
      (demo_ecx ''admin'') 0 = (Inr batch, ts_rand st') \<and>
    resp = SendResponse (GetBatchResponse_json Itoa batch)"
proof -
  have req: "decode GetPrivateSignersRequest_fields (hr_Body demo_treq) = Inr demo_signers" "hr_ReadErr demo_treq = None"
    by (simp_all add: demo_treq_def GetPrivateSignersRequest_roundtrip demo_signers_def in_int_def)
  have lu: "lookup_user demo_db2 (x_CommonName (demo_ecx ''admin'')) = Some demo_registrar"
    by (simp add: demo_ecx_def demo_x_def lookup_user_def demo_db2_def demo_registrar_def demo_user_def)
  have at: "DBUser_GetAttribute (newDBUser demo_registrar) ''none'' = []"
    by (simp add: demo_registrar_def DBUser_GetAttribute_def newDBUser_def registrarRoles_def)
  have pth: "Split (ur_Group demo_registrar) (CHR ''/'') = [''bank'', ''a'']"
    by (simp add: demo_registrar_def demo_user_def)
  have attrs: "[\<lparr>attr_Name = x, attr_Value = DBUser_GetAttribute (newDBUser demo_registrar) x\<rparr>.
      x \<leftarrow> ps_AttrNames demo_signers, DBUser_GetAttribute (newDBUser demo_registrar) x \<noteq> []] =
      [\<lparr>attr_Name = registrarRoles, attr_Value = ''client,peer''\<rparr>]"
    by (simp add: demo_signers_def at demo_registrar_roles)
  have pk: "path_key (ts_tree demo_tstate) [''bank'', ''a''] = Some ''root>bank>a''"
    by (simp add: path_key_def demo_tstate_def NewKeyTree_def demo_deriv_def)
  have co: "cache_ok (ts_tree demo_tstate)" by (simp add: demo_tstate_def cache_ok_new)
  have "\<exists>resp st'. tcertHandler_handle demo_world db_registry demo_mgr demo_treq demo_tstate = (Inr resp, st')"
    using demo_treq_cert req lu co pk pth demo_tenv_works
    by (intro tcert_handle_works [where req = demo_signers and cert = "demo_ecx ''admin''" and d = demo_db2 and u = demo_registrar and pub = "''5''"])
      (simp_all add: demo_tstate_def demo_world_def demo_db2_def demo_db_def demo_ecx_def demo_signers_def demo_mgr_def)
  then obtain resp st' where h: "tcertHandler_handle demo_world db_registry demo_mgr demo_treq demo_tstate = (Inr resp, st')"
    by blast
  from tcert_endpoint_own_data [OF h co, of demo_db2] req demo_treq_cert
  show ?thesis using h lu attrs pth pk by (auto simp: demo_tstate_def demo_world_def)
qed

end
