(* ===== verification/Server_Routes.thy ===== *)
theory Server_Routes
  imports Server_Handlers Tcert_Handler "HOL-Library.Multiset"
begin

text \<open>
  The endpoint table of \<^verbatim>\<open>cli/server/server.go\<close>, \<^verbatim>\<open>registerHandlers\<close>, and the dispatch of Go's
  default request multiplexer (\<^verbatim>\<open>net/http\<close>, Go 1.7) to the wrapped handlers.

  The state the handlers share is that of the registry, of the TCert key tree and of the random
  source (\<open>tcert_state\<close>).  What a request draws from outside, the clock and the CRL and OCSP
  answers, the random secret of a registration, the CFSSL signature, is its \<open>request_env\<close>; the
  package-level variables that \<^verbatim>\<open>serverMain\<close> sets are a \<open>server\<close>.  The handlers CFSSL provides are
  parameters.
\<close>

subsection \<open>The CFSSL signer\<close>

text \<open>
  The end of \<^verbatim>\<open>Sign\<close> of CFSSL's local signer: checking the request against the policy and signing is
  the parameter \<open>issue\<close>, which gives the record of the new certificate; with a database accessor
  the record is stored, as good, before the certificate is returned.
\<close>

definition local_Sign ::
  "(SignRequest \<Rightarrow> CertRecord result) \<Rightarrow> (CertRecord \<Rightarrow> 's \<Rightarrow> unit result \<times> 's) option \<Rightarrow> 's signer" where
  "local_Sign issue dbAccessor req s = (case issue req of
     Inl err \<Rightarrow> (Inl err, s)
   | Inr certRecord \<Rightarrow>
       (let certRecord = certRecord\<lparr>cr_Status := ''good''\<rparr>;
            signedCert = bytes_of (cr_PEM certRecord)
        in (case dbAccessor of
              None \<Rightarrow> (Inr signedCert, s)
            | Some InsertCertificate \<Rightarrow>
                (case InsertCertificate certRecord s of
                   (Inl err, s) \<Rightarrow> (Inl err, s)
                 | (Inr _, s) \<Rightarrow> (Inr signedCert, s)))))"

subsection \<open>The running server\<close>

record 'k request_env =
  re_auth :: auth_env
  re_secret :: string
  re_issue :: "SignRequest \<Rightarrow> CertRecord result"
  re_tcert :: "'k tcert_world"

record ('s, 'u, 'k) server =
  sv_CFG :: Config
  sv_userRegistry :: "('s, 'u) UserRegistry"
  sv_certDBAccessor :: "'s cert_ops option"
  sv_enrollSigner :: "(CertRecord \<Rightarrow> 's \<Rightarrow> unit result \<times> 's) option option"
  sv_ocspSigner :: bool
  sv_bccsp :: "'k bccsp result"
  sv_tcertMgr :: "Mgr result"
  sv_cfssl :: "string \<Rightarrow> (HttpRequest \<Rightarrow> ('s, 'k) tcert_state \<Rightarrow> HttpResponse option \<times> ('s, 'k) tcert_state) result"

definition on_reg :: "('s \<Rightarrow> 'a \<times> 's) \<Rightarrow> ('s, 'k) tcert_state \<Rightarrow> 'a \<times> ('s, 'k) tcert_state" where
  "on_reg f st = (case f (ts_reg st) of (a, s) \<Rightarrow> (a, st\<lparr>ts_reg := s\<rparr>))"

text \<open>The registry as a component of the shared state.\<close>

definition server_registry :: "('s, 'u) UserRegistry \<Rightarrow> (('s, 'k) tcert_state, 'u) UserRegistry" where
  "server_registry reg =
     \<lparr>reg_GetUser = (\<lambda>n as. on_reg (reg_GetUser reg n as)), reg_InsertUser = (\<lambda>u. on_reg (reg_InsertUser reg u)),
      reg_UpdateUser = (\<lambda>u. on_reg (reg_UpdateUser reg u)), reg_DeleteUser = (\<lambda>n. on_reg (reg_DeleteUser reg n)),
      reg_UpdateField = (\<lambda>n f v. on_reg (reg_UpdateField reg n f v)), reg_GetField = (\<lambda>n f. on_reg (reg_GetField reg n f)),
      reg_GetGroup = (\<lambda>g. on_reg (reg_GetGroup reg g)), reg_GetRootGroup = on_reg (reg_GetRootGroup reg),
      reg_InsertGroup = (\<lambda>g p. on_reg (reg_InsertGroup reg g p)), reg_DeleteGroup = (\<lambda>g. on_reg (reg_DeleteGroup reg g)),
      usr_GetName = usr_GetName reg, usr_Login = (\<lambda>u p. on_reg (usr_Login reg u p)),
      usr_GetAffiliationPath = usr_GetAffiliationPath reg, usr_GetAttribute = usr_GetAttribute reg\<rparr>"

definition handler_on_reg ::
  "(HttpRequest \<Rightarrow> 's \<Rightarrow> HttpResponse option \<times> 's) result \<Rightarrow>
   (HttpRequest \<Rightarrow> ('s, 'k) tcert_state \<Rightarrow> HttpResponse option \<times> ('s, 'k) tcert_state) result" where
  "handler_on_reg h = (case h of Inl err \<Rightarrow> Inl err | Inr f \<Rightarrow> Inr (\<lambda>r. on_reg (f r)))"

definition enroll_signer :: "'k request_env \<Rightarrow> ('s, 'u, 'k) server \<Rightarrow> 's signer" where
  "enroll_signer W sv = (case sv_enrollSigner sv of
     None \<Rightarrow> (\<lambda>req s. (Inl nil_deref, s))
   | Some dbAccessor \<Rightarrow> local_Sign (re_issue W) dbAccessor)"

subsection \<open>The endpoint table\<close>

definition errBadSigner :: go_error where
  "errBadSigner = ErrorString ''signer not initialized''"

definition needs_signer :: "('s, 'u, 'k) server \<Rightarrow> string \<Rightarrow>
   (HttpRequest \<Rightarrow> ('s, 'k) tcert_state \<Rightarrow> HttpResponse option \<times> ('s, 'k) tcert_state) result" where
  "needs_signer sv path = (if sv_enrollSigner sv = None then Inl errBadSigner else sv_cfssl sv path)"

definition endpoints :: "'k request_env \<Rightarrow> ('s, 'u, 'k) server \<Rightarrow>
   (string \<times> (HttpRequest \<Rightarrow> ('s, 'k) tcert_state \<Rightarrow> HttpResponse option \<times> ('s, 'k) tcert_state) result) list" where
  "endpoints W sv =
     [(''register'', handler_on_reg (NewRegisterHandler (sv_userRegistry sv) (sv_CFG sv) (re_secret W))),
      (''enroll'', handler_on_reg (NewEnrollHandler (enroll_signer W sv))),
      (''reenroll'', handler_on_reg (NewReenrollHandler (enroll_signer W sv))),
      (''revoke'', handler_on_reg (NewRevokeHandler (ae_sig (re_auth W)) (sv_userRegistry sv) (sv_certDBAccessor sv))),
      (''tcert'', case NewTCertHandler (re_tcert W) (sv_userRegistry sv) (sv_bccsp sv) (sv_tcertMgr sv) of
         Inl err \<Rightarrow> Inl err | Inr (h, _) \<Rightarrow> Inr h),
      (''sign'', needs_signer sv ''sign''),
      (''authsign'', needs_signer sv ''authsign''),
      (''info'', needs_signer sv ''info''),
      (''gencrl'', needs_signer sv ''gencrl''),
      (''newcert'', needs_signer sv ''newcert''),
      (''bundle'', sv_cfssl sv ''bundle''),
      (''newkey'', sv_cfssl sv ''newkey''),
      (''init_ca'', sv_cfssl sv ''init_ca''),
      (''scan'', sv_cfssl sv ''scan''),
      (''scaninfo'', sv_cfssl sv ''scaninfo''),
      (''certinfo'', sv_cfssl sv ''certinfo''),
      (''ocspsign'', if sv_ocspSigner sv then sv_cfssl sv ''ocspsign'' else Inl errBadSigner),
      (''/'', sv_cfssl sv ''/'')]"

subsection \<open>Go's request multiplexer\<close>

datatype 's mux_entry = MuxHandler "'s copAuthHandler" | MuxRedirect string

type_synonym 's mux = "(string \<times> 's mux_entry) list"

fun is_explicit :: "'s mux_entry option \<Rightarrow> bool" where
  "is_explicit (Some (MuxHandler _)) = True"
| "is_explicit _ = False"

definition mux_put :: "string \<Rightarrow> 's mux_entry \<Rightarrow> 's mux \<Rightarrow> 's mux" where
  "mux_put k e m = (k, e) # filter (\<lambda>kv. fst kv \<noteq> k) m"

text \<open>A pattern that ends in a slash also redirects the pattern without it.\<close>

definition http_Handle :: "string \<Rightarrow> 's copAuthHandler \<Rightarrow> 's mux \<Rightarrow> 's mux result" where
  "http_Handle pattern h m =
     (if pattern = [] then Inl (GoPanic (''http: invalid pattern '' @ pattern))
      else if is_explicit (map_of m pattern) then Inl (GoPanic (''http: multiple registrations for '' @ pattern))
      else let m = mux_put pattern (MuxHandler h) m in
        Inr (if last pattern = CHR ''/'' \<and> \<not> is_explicit (map_of m (butlast pattern))
             then mux_put (butlast pattern) (MuxRedirect pattern) m else m))"

definition pathMatch :: "string \<Rightarrow> string \<Rightarrow> bool" where
  "pathMatch pattern path =
     (if pattern = [] then False
      else if last pattern \<noteq> CHR ''/'' then pattern = path
      else HasPrefix path pattern)"

text \<open>The longest matching pattern wins.\<close>

fun mux_match :: "'s mux \<Rightarrow> string \<Rightarrow> (string \<times> 's mux_entry) option" where
  "mux_match [] path = None"
| "mux_match ((k, e) # m) path = (case mux_match m path of
     None \<Rightarrow> if pathMatch k path then Some (k, e) else None
   | Some (k', e') \<Rightarrow> if pathMatch k path \<and> length k > length k' then Some (k, e) else Some (k', e'))"

definition cleanPath :: "string \<Rightarrow> string" where
  "cleanPath p =
     (if p = [] then ''/''
      else let p = (if hd p \<noteq> CHR ''/'' then CHR ''/'' # p else p);
               np = Clean p
           in if last p = CHR ''/'' \<and> np \<noteq> ''/'' then np @ ''/'' else np)"

datatype 's routed = Serve "'s copAuthHandler" | Moved string | NoRoute

definition mux_Handler :: "'s mux \<Rightarrow> string \<Rightarrow> string \<Rightarrow> 's routed" where
  "mux_Handler m meth path =
     (if meth \<noteq> ''CONNECT'' \<and> cleanPath path \<noteq> path then Moved (cleanPath path)
      else (case mux_match m path of
              None \<Rightarrow> NoRoute
            | Some (_, MuxHandler h) \<Rightarrow> Serve h
            | Some (_, MuxRedirect url) \<Rightarrow> Moved url))"

subsection \<open>Registration and service\<close>

fun registerHandlers ::
  "(string \<times> (HttpRequest \<Rightarrow> 's \<Rightarrow> HttpResponse option \<times> 's) result) list \<Rightarrow> 's mux \<Rightarrow> 's mux result" where
  "registerHandlers [] m = Inr m"
| "registerHandlers ((path, getHandler) # es) m = (case getHandler of
     Inl err \<Rightarrow> registerHandlers es m
   | Inr handler \<Rightarrow> (case NewAuthWrapper path (Inr handler) of
       (path, Inl err) \<Rightarrow> registerHandlers es m
     | (path, Inr handler) \<Rightarrow> (case http_Handle path handler m of
         Inl e \<Rightarrow> Inl e
       | Inr m \<Rightarrow> registerHandlers es m)))"

datatype answer = Response HttpResponse | MovedPermanently string | PageNotFound | Aborted

text \<open>A request to the server that registered the endpoints in the order \<open>table\<close>.\<close>

definition serve_mux ::
  "'k request_env \<Rightarrow> ('s, 'u, 'k) server \<Rightarrow> ('s, 'k) tcert_state mux \<Rightarrow> string \<Rightarrow> HttpRequest \<Rightarrow>
   ('s, 'k) tcert_state \<Rightarrow> answer \<times> ('s, 'k) tcert_state" where
  "serve_mux W sv m path r st = (case mux_Handler m (hr_Method r) path of
     NoRoute \<Rightarrow> (PageNotFound, st)
   | Moved url \<Rightarrow> (MovedPermanently url, st)
   | Serve ah \<Rightarrow> (case copAuthHandler_ServeHTTP (re_auth W) (server_registry (sv_userRegistry sv)) (sv_CFG sv) ah r st of
       (None, st) \<Rightarrow> (Aborted, st)
     | (Some resp, st) \<Rightarrow> (Response resp, st)))"

definition serve ::
  "'k request_env \<Rightarrow> ('s, 'u, 'k) server \<Rightarrow> string \<Rightarrow> HttpRequest \<Rightarrow>
   ('s, 'k) tcert_state \<Rightarrow> answer \<times> ('s, 'k) tcert_state" where
  "serve W sv path r st = (case registerHandlers (endpoints W sv) [] of
     Inl _ \<Rightarrow> (Aborted, st)
   | Inr m \<Rightarrow> serve_mux W sv m path r st)"

subsection \<open>What the multiplexer does\<close>

lemma map_of_mux_put [simp]: "map_of (mux_put k e m) = (map_of m)(k \<mapsto> e)"
proof
  fix x
  show "map_of (mux_put k e m) x = ((map_of m)(k \<mapsto> e)) x"
    by (cases "x = k") (induction m; auto simp: mux_put_def)+
qed

lemma distinct_mux_put: "distinct (map fst m) \<Longrightarrow> distinct (map fst (mux_put k e m))"
  by (auto simp: mux_put_def distinct_map filter_id_conv inj_on_def)

lemma mux_match_Some:
  "mux_match m path = Some (k, e) \<Longrightarrow> (k, e) \<in> set m \<and> pathMatch k path"
  by (induction m path arbitrary: k e rule: mux_match.induct) (auto split: option.splits if_splits)

lemma mux_match_longest:
  "(k, e) \<in> set m \<Longrightarrow> pathMatch k path \<Longrightarrow> \<exists>k' e'. mux_match m path = Some (k', e') \<and> length k \<le> length k'"
proof (induction m path arbitrary: k e rule: mux_match.induct)
  case (2 k0 e0 m path)
  show ?case
  proof (cases "(k, e) \<in> set m")
    case True
    with 2(1) [OF True 2(3)] show ?thesis by fastforce
  next
    case False
    with 2(2,3) show ?thesis by (auto split: option.splits)
  qed
qed simp

lemma pathMatch_length: "pathMatch k path \<Longrightarrow> length path \<le> length k \<Longrightarrow> k = path"
  by (auto simp: pathMatch_def HasPrefix_def split: if_splits)

lemma pathMatch_self: "path \<noteq> [] \<Longrightarrow> pathMatch path path"
  by (simp add: pathMatch_def HasPrefix_def)

text \<open>An entry for the path itself is found.\<close>

lemma mux_match_exact:
  assumes "distinct (map fst m)" "map_of m path = Some e" "path \<noteq> []"
  shows "mux_match m path = Some (path, e)"
proof -
  have "(path, e) \<in> set m" using assms(2) by (rule map_of_SomeD)
  then obtain k e' where k: "mux_match m path = Some (k, e')" "length path \<le> length k"
    using mux_match_longest pathMatch_self [OF assms(3)] by blast
  from mux_match_Some [OF k(1)] k(2) pathMatch_length have "k = path" "(path, e') \<in> set m" by auto
  with k(1) assms(1,2) show ?thesis by (simp add: map_of_is_SomeI)
qed

subsection \<open>What registration leaves in the table\<close>

definition wrapper :: "string \<Rightarrow> (HttpRequest \<Rightarrow> 's \<Rightarrow> HttpResponse option \<times> 's) \<Rightarrow> 's copAuthHandler" where
  "wrapper p h = \<lparr>ah_basic = p = ''sign'' \<or> p = ''enroll'', ah_token = \<not> (p = ''sign'' \<or> p = ''enroll''), ah_next = h\<rparr>"

lemma NewAuthWrapper_wrapper: "NewAuthWrapper p (Inr h) = (wrappedPath p, Inr (wrapper p h))"
  by (simp add: NewAuthWrapper_def newBasicAuthHandler_def newTokenAuthHandler_def newAuthHandler_def wrapper_def)

lemma wrappedPath_simps [simp]: "wrappedPath p \<noteq> []" "wrappedPath p = wrappedPath q \<longleftrightarrow> p = q"
  "p \<noteq> [] \<Longrightarrow> last (wrappedPath p) = last p"
  by (simp_all add: wrappedPath_def)

text \<open>An entry of the table comes from an endpoint, or redirects to one whose name ends in a slash.\<close>

inductive from_table :: "(string \<times> (HttpRequest \<Rightarrow> 's \<Rightarrow> HttpResponse option \<times> 's) result) list \<Rightarrow> string \<Rightarrow> 's mux_entry \<Rightarrow> bool" for es where
  handler: "(p, Inr h) \<in> set es \<Longrightarrow> from_table es (wrappedPath p) (MuxHandler (wrapper p h))"
| redirect: "(p, Inr h) \<in> set es \<Longrightarrow> last (wrappedPath p) = CHR ''/'' \<Longrightarrow>
    from_table es (butlast (wrappedPath p)) (MuxRedirect (wrappedPath p))"

inductive_cases from_table_handlerE: "from_table es k (MuxHandler ah)"

definition table_mux :: "(string \<times> (HttpRequest \<Rightarrow> 's \<Rightarrow> HttpResponse option \<times> 's) result) list \<Rightarrow> 's mux \<Rightarrow> bool" where
  "table_mux es m \<longleftrightarrow> distinct (map fst m) \<and> (\<forall>(k, e) \<in> set m. from_table es k e) \<and>
     (\<forall>p h. (p, Inr h) \<in> set es \<longrightarrow> map_of m (wrappedPath p) = Some (MuxHandler (wrapper p h)))"

lemma from_table_mono: "from_table es k e \<Longrightarrow> set es \<subseteq> set es' \<Longrightarrow> from_table es' k e"
  by (induction rule: from_table.induct) (auto intro: from_table.intros)

lemma table_mux_skip: "table_mux es m \<Longrightarrow> table_mux (es @ [(p, Inl err)]) m"
  by (auto simp: table_mux_def intro: from_table_mono)

lemma map_of_explicit: "table_mux es m \<Longrightarrow> map_of m k = Some (MuxHandler ah) \<Longrightarrow> k \<in> wrappedPath ` fst ` set es"
proof -
  assume "table_mux es m" "map_of m k = Some (MuxHandler ah)"
  then have "from_table es k (MuxHandler ah)" by (auto simp: table_mux_def dest: map_of_SomeD)
  then show ?thesis by (cases rule: from_table.cases) (auto simp: rev_image_eqI)
qed

lemma is_explicit_iff: "is_explicit e \<longleftrightarrow> (\<exists>ah. e = Some (MuxHandler ah))"
  by (cases e rule: is_explicit.cases) auto

lemma table_mux_add:
  assumes "table_mux es m" "p \<notin> fst ` set es"
  shows "\<exists>m'. http_Handle (wrappedPath p) (wrapper p h) m = Inr m' \<and> table_mux (es @ [(p, Inr h)]) m'"
proof -
  let ?k = "wrappedPath p" and ?es = "es @ [(p, Inr h)]"
  let ?m = "mux_put ?k (MuxHandler (wrapper p h)) m"
  have "\<not> is_explicit (map_of m ?k)"
    using map_of_explicit [OF assms(1), of ?k] assms(2) by (force simp: is_explicit_iff)
  moreover have t: "table_mux ?es ?m"
    unfolding table_mux_def
  proof (intro conjI allI impI)
    show "distinct (map fst ?m)" using assms(1) by (simp add: table_mux_def distinct_mux_put)
    show "\<forall>(k, e) \<in> set ?m. from_table ?es k e"
      using assms(1) by (auto simp: table_mux_def mux_put_def intro: from_table_mono handler)
    show "map_of ?m (wrappedPath q) = Some (MuxHandler (wrapper q g))" if "(q, Inr g) \<in> set ?es" for q g
      using that assms by (force simp: table_mux_def)
  qed
  moreover have "table_mux ?es (mux_put (butlast ?k) (MuxRedirect ?k) ?m)"
    if e: "last ?k = CHR ''/''" "\<not> is_explicit (map_of ?m (butlast ?k))"
    unfolding table_mux_def
  proof (intro conjI allI impI)
    show "distinct (map fst (mux_put (butlast ?k) (MuxRedirect ?k) ?m))" using t by (simp add: table_mux_def distinct_mux_put)
    have "from_table ?es (butlast ?k) (MuxRedirect ?k)" using e(1) by (intro redirect [of p h]) auto
    then show "\<forall>(k, e) \<in> set (mux_put (butlast ?k) (MuxRedirect ?k) ?m). from_table ?es k e"
      using t by (auto simp: table_mux_def mux_put_def)
    show "map_of (mux_put (butlast ?k) (MuxRedirect ?k) ?m) (wrappedPath q) = Some (MuxHandler (wrapper q g))"
      if "(q, Inr g) \<in> set ?es" for q g
    proof -
      have q: "map_of ?m (wrappedPath q) = Some (MuxHandler (wrapper q g))" using t that unfolding table_mux_def by blast
      then have "wrappedPath q \<noteq> butlast ?k" using e(2) by force
      with q show ?thesis by (simp only: map_of_mux_put) simp
    qed
  qed
  ultimately show ?thesis by (simp add: http_Handle_def Let_def)
qed

lemma registerHandlers_table:
  "table_mux es0 m \<Longrightarrow> distinct (map fst (es0 @ es)) \<Longrightarrow> \<exists>m'. registerHandlers es m = Inr m' \<and> table_mux (es0 @ es) m'"
proof (induction es arbitrary: es0 m)
  case (Cons e es)
  obtain p g where e: "e = (p, g)" by (cases e)
  from Cons.prems(2) have d: "distinct (map fst ((es0 @ [(p, g)]) @ es))" by (simp add: e)
  show ?case
  proof (cases g)
    case (Inl err)
    with Cons.IH [OF _ d] table_mux_skip [OF Cons.prems(1)] e show ?thesis by fastforce
  next
    case (Inr h)
    have "p \<notin> fst ` set es0" using d by auto
    then obtain m' where m': "http_Handle (wrappedPath p) (wrapper p h) m = Inr m'" "table_mux (es0 @ [(p, g)]) m'"
      using table_mux_add [OF Cons.prems(1)] Inr by blast
    with Cons.IH [OF m'(2) d] e Inr show ?thesis by (simp add: NewAuthWrapper_wrapper)
  qed
qed simp

subsection \<open>Clean paths\<close>

definition path_elem :: "string \<Rightarrow> bool" where
  "path_elem e \<longleftrightarrow> e \<noteq> [] \<and> CHR ''/'' \<notin> set e"

lemma clean_elems_parts:
  "list_all path_elem out \<Longrightarrow> list_all (\<lambda>x. CHR ''/'' \<notin> set x) es \<Longrightarrow> list_all path_elem (clean_elems True es out)"
proof (induction es arbitrary: out)
  case (Cons e es)
  from Cons.prems have "e \<noteq> [] \<Longrightarrow> path_elem e" by (simp add: path_elem_def)
  with Cons show ?case by (auto split: list.splits)
qed simp

text \<open>A cleaned path has no empty element but the first and perhaps the last.\<close>

lemma cleanPath_parts:
  assumes "e \<in> set (butlast (tl (Split (cleanPath p) (CHR ''/''))))"
  shows "e \<noteq> []"
proof -
  define q where "q = (if p = [] \<or> hd p \<noteq> CHR ''/'' then CHR ''/'' # p else p)"
  define es where "es = rev (clean_elems True (Split q (CHR ''/'')) [])"
  have q: "IsAbs q" "q \<noteq> []" by (auto simp: q_def IsAbs_def HasPrefix_def neq_Nil_conv)
  then have clean: "Clean q = CHR ''/'' # Join es ''/''" by (simp add: Clean_def es_def)
  have parts: "x \<noteq> [] \<and> CHR ''/'' \<notin> set x" if "x \<in> set es" for x
    using clean_elems_parts [of "[]" "Split q (CHR ''/'')"] that Split_parts by (auto simp: es_def list_all_iff path_elem_def)
  have split: "Split (CHR ''/'' # Join xs ''/'') (CHR ''/'') = [] # xs" if "xs \<noteq> []" "\<And>x. x \<in> set xs \<Longrightarrow> CHR ''/'' \<notin> set x" for xs
    using Split_Join [OF that] by simp
  have "Clean ''/'' = ''/''" by code_simp
  then have "cleanPath p = Clean q \<or> cleanPath p = Clean q @ ''/'' \<and> Clean q \<noteq> ''/''"
    by (auto simp: cleanPath_def q_def Let_def)
  then show ?thesis
  proof
    assume "cleanPath p = Clean q"
    with assms clean parts split show ?thesis by (cases "es = []") (auto dest: in_set_butlastD)
  next
    assume c: "cleanPath p = Clean q @ ''/'' \<and> Clean q \<noteq> ''/''"
    then have "es \<noteq> []" using clean by auto
    then have "Join es ''/'' @ ''/'' = Join (es @ [[]]) ''/''" by (induction es rule: induct_list012) auto
    moreover have "Split (CHR ''/'' # Join (es @ [[]]) ''/'') (CHR ''/'') = [] # es @ [[]]"
      using parts by (intro split) auto
    ultimately have "Split (cleanPath p) (CHR ''/'') = [] # es @ [[]]" using c clean by simp
    with assms parts show ?thesis by auto
  qed
qed

lemma static_path_not_clean: "cleanPath p = p \<Longrightarrow> \<not> HasPrefix p ''/api/v1/cfssl//''"
proof
  assume c: "cleanPath p = p" and "HasPrefix p ''/api/v1/cfssl//''"
  then obtain t where t: "p = ''/api/v1/cfssl//'' @ t" by (auto simp: HasPrefix_iff)
  have "[] \<in> set (butlast (tl (Split p (CHR ''/''))))" by (simp add: t)
  with c cleanPath_parts [of "[]" p] show False by simp
qed

subsection \<open>Routing\<close>

definition endpoint_names :: "string list" where
  "endpoint_names =
     [''register'', ''enroll'', ''reenroll'', ''revoke'', ''tcert'', ''sign'', ''authsign'', ''info'', ''gencrl'', ''newcert'',
      ''bundle'', ''newkey'', ''init_ca'', ''scan'', ''scaninfo'', ''certinfo'', ''ocspsign'', ''/'']"

lemma endpoints_names: "map fst (endpoints W sv) = endpoint_names"
  by (simp add: endpoints_def endpoint_names_def)

lemma endpoint_names_facts:
  "distinct endpoint_names"
  "list_all (\<lambda>p. p = ''/'' \<or> p \<noteq> [] \<and> last p \<noteq> CHR ''/'' \<and> cleanPath (wrappedPath p) = wrappedPath p) endpoint_names"
  by code_simp+

lemma endpoint_name:
  assumes "(p, h) \<in> set (endpoints W sv)" "p \<noteq> ''/''"
  shows "p \<noteq> [] \<and> last p \<noteq> CHR ''/'' \<and> cleanPath (wrappedPath p) = wrappedPath p"
proof -
  have "p \<in> set endpoint_names" using assms(1) unfolding endpoints_names [of W sv, symmetric] by force
  with endpoint_names_facts(2) assms(2) show ?thesis unfolding list_all_iff by blast
qed

lemma table_registered:
  assumes "mset table = mset (endpoints W sv)"
  obtains m where "registerHandlers table [] = Inr m" "table_mux table m" "set table = set (endpoints W sv)"
proof -
  have "mset (map fst table) = mset endpoint_names"
    unfolding endpoints_names [of W sv, symmetric] using assms by (metis mset_map)
  then have "distinct (map fst ([] @ table))"
    using endpoint_names_facts(1) mset_eq_imp_distinct_iff [of "map fst table" endpoint_names] by simp
  moreover have "table_mux [] []" by (simp add: table_mux_def)
  ultimately show thesis using registerHandlers_table [of "[]" "[]" table] assms that mset_eq_setD by force
qed

lemma routed_from_table:
  assumes "table_mux table m" "set table = set (endpoints W sv)" "meth \<noteq> ''CONNECT''" "mux_Handler m meth path = Serve ah"
  shows "\<exists>p h. path = wrappedPath p \<and> p \<noteq> ''/'' \<and> (p, Inr h) \<in> set (endpoints W sv) \<and> ah = wrapper p h"
proof -
  have clean: "cleanPath path = path"
  proof (rule ccontr)
    assume "cleanPath path \<noteq> path"
    with assms(3) have "mux_Handler m meth path = Moved (cleanPath path)" by (simp only: mux_Handler_def) simp
    with assms(4) show False by simp
  qed
  obtain k where k: "mux_match m path = Some (k, MuxHandler ah)"
    using assms(4) unfolding mux_Handler_def clean by (auto split: option.splits prod.splits mux_entry.splits)
  then have "(k, MuxHandler ah) \<in> set m" "pathMatch k path" using mux_match_Some by blast+
  then have "pathMatch k path" "from_table table k (MuxHandler ah)" using assms(1) unfolding table_mux_def by blast+
  then obtain p h where p: "k = wrappedPath p" "ah = wrapper p h" "(p, Inr h) \<in> set (endpoints W sv)"
    using assms(2) by (auto elim: from_table_handlerE)
  have "p \<noteq> ''/''"
  proof
    assume "p = ''/''"
    with p(1) \<open>pathMatch k path\<close> have "HasPrefix path ''/api/v1/cfssl//''" by (simp add: wrappedPath_def pathMatch_def)
    with static_path_not_clean clean show False by blast
  qed
  moreover from this p(3) have "p \<noteq> []" "last p \<noteq> CHR ''/''" using endpoint_name by blast+
  ultimately show ?thesis using p \<open>pathMatch k path\<close> by (auto simp: pathMatch_def)
qed

lemma routed_endpoint:
  assumes "table_mux table m" "set table = set (endpoints W sv)" "(p, Inr h) \<in> set (endpoints W sv)" "p \<noteq> ''/''"
  shows "mux_Handler m meth (wrappedPath p) = Serve (wrapper p h)"
proof -
  have "mux_match m (wrappedPath p) = Some (wrappedPath p, MuxHandler (wrapper p h))"
    using assms(1-3) unfolding table_mux_def by (intro mux_match_exact) auto
  with endpoint_name [OF assms(3,4)] show ?thesis by (simp add: mux_Handler_def)
qed

text \<open>A request to an endpoint runs its wrapper; for a valid token, the handler itself.\<close>

lemma serve_endpoint:
  assumes "(p, Inr h) \<in> set (endpoints W sv)" "p \<noteq> ''/''"
  shows "serve W sv (wrappedPath p) r st =
    (case copAuthHandler_ServeHTTP (re_auth W) (server_registry (sv_userRegistry sv)) (sv_CFG sv) (wrapper p h) r st of
       (None, st) \<Rightarrow> (Aborted, st) | (Some resp, st) \<Rightarrow> (Response resp, st))"
proof -
  obtain m where m: "registerHandlers (endpoints W sv) [] = Inr m" "table_mux (endpoints W sv) m"
    using table_registered [of "endpoints W sv" W sv] by blast
  with routed_endpoint [OF m(2) refl assms] show ?thesis by (simp add: serve_def serve_mux_def)
qed

lemma serve_token_endpoint:
  assumes "(p, Inr h) \<in> set (endpoints W sv)" "p \<noteq> ''/''" "p \<noteq> ''sign''" "p \<noteq> ''enroll''"
    and "c_Authentication (sv_CFG sv)" "VerifyToken (ae_sig (re_auth W)) (hr_Authorization r) (bytes_of (hr_Body r)) = Inr cert"
    and "VerifyCertificate (re_auth W) cert = (False, True)"
  shows "serve W sv (wrappedPath p) r st =
    (case h ((HTTPRequestToString r)\<lparr>hr_Eid := x_CommonName cert\<rparr>) st of
       (None, st) \<Rightarrow> (Aborted, st) | (Some resp, st) \<Rightarrow> (Response resp, st))"
proof -
  have "ah_token (wrapper p h)" using assms(3,4) by (simp add: wrapper_def)
  from serveHTTP_token [OF assms(6,5) this assms(7), of "server_registry (sv_userRegistry sv)" st] show ?thesis
    by (simp add: serve_endpoint [OF assms(1,2)] copAuthHandler_ServeHTTP_def) (simp add: wrapper_def)
qed

text \<open>
  C10. The endpoint table is served as written, in whatever order the map is visited: registration
  never panics; a request, by any method but \<^verbatim>\<open>CONNECT\<close>, to the path of an enabled endpoint reaches that endpoint's handler
  behind basic authentication for \<^verbatim>\<open>sign\<close> and \<^verbatim>\<open>enroll\<close> and behind token authentication for every
  other one; and no other path reaches a handler.  The exception is the static endpoint \<^verbatim>\<open>/\<close>, which
  the API prefix turns into \<^verbatim>\<open>/api/v1/cfssl//\<close>: no cleaned path matches it, so the static files are
  not served at all (the multiplexer does not clean the path of a \<^verbatim>\<open>CONNECT\<close> request).
\<close>

theorem endpoint_routing:
  assumes "mset table = mset (endpoints W sv)" "meth \<noteq> ''CONNECT''"
  shows "\<exists>m. registerHandlers table [] = Inr m \<and>
    (\<forall>path ah. mux_Handler m meth path = Serve ah \<longleftrightarrow>
      (\<exists>p h. path = wrappedPath p \<and> p \<noteq> ''/'' \<and> (p, Inr h) \<in> set (endpoints W sv) \<and> ah = wrapper p h))"
proof -
  obtain m where m: "registerHandlers table [] = Inr m" "table_mux table m" "set table = set (endpoints W sv)"
    using table_registered [OF assms(1)] by blast
  then show ?thesis using routed_from_table [OF m(2,3) assms(2)] routed_endpoint [OF m(2,3)] by blast
qed

subsection \<open>Authentication of every request\<close>

lemma routed_wrapper:
  assumes "table_mux table m" "mux_Handler m meth path = Serve ah"
  shows "\<exists>p h. (p, Inr h) \<in> set table \<and> pathMatch (wrappedPath p) path \<and> ah = wrapper p h"
proof -
  obtain k where k: "mux_match m path = Some (k, MuxHandler ah)"
    using assms(2) unfolding mux_Handler_def by (auto split: if_split_asm option.splits prod.splits mux_entry.splits)
  then have "(k, MuxHandler ah) \<in> set m" "pathMatch k path" using mux_match_Some by blast+
  then have "pathMatch k path" "from_table table k (MuxHandler ah)" using assms(1) unfolding table_mux_def by blast+
  from this(2,1) show ?thesis by cases blast
qed

lemma pathMatch_wrapped: "pathMatch (wrappedPath p) path \<Longrightarrow> p = q \<Longrightarrow> q \<noteq> [] \<Longrightarrow> last q \<noteq> CHR ''/'' \<Longrightarrow> path = wrappedPath q"
  by (simp add: pathMatch_def)

definition acceptable :: "auth_env \<Rightarrow> HttpRequest \<Rightarrow> bool" where
  "acceptable A r \<longleftrightarrow> (\<exists>cert. VerifyToken (ae_sig A) (hr_Authorization r) (bytes_of (hr_Body r)) = Inr cert \<and>
     VerifyCertificate A cert = (False, True))"

lemma serveHTTP_refused:
  assumes "c_Authentication cfg" "\<not> ah_basic ah" "ah_token ah" "\<not> acceptable A r"
  shows "\<exists>e. copAuthHandler_serveHTTP A reg cfg ah r s = (Inl e, HTTPRequestToString r, s) \<and>
    e \<in> {errNoAuthHdr, errBasicAuthNotAllowed, authError}"
proof -
  let ?r = "HTTPRequestToString r"
  have r: "hr_Authorization ?r = hr_Authorization r" "ReadAll ?r = Inr (hr_Body r)"
    by (simp_all add: HTTPRequestToString_def ReadAll_def)
  show ?thesis
  proof (cases "VerifyToken (ae_sig A) (hr_Authorization r) (bytes_of (hr_Body r))")
    case (Inl e)
    with assms(1-3) r show ?thesis by (auto simp: copAuthHandler_serveHTTP_def Let_def split: option.splits)
  next
    case (Inr cert)
    with assms(4) have "VerifyCertificate A cert \<noteq> (False, True)" by (simp add: acceptable_def)
    with Inr assms(1-3) r show ?thesis
      by (auto simp: copAuthHandler_serveHTTP_def Let_def split: option.splits prod.splits)
  qed
qed

lemma ServeHTTP_refused:
  assumes "c_Authentication cfg" "\<not> ah_basic ah" "ah_token ah" "\<not> acceptable A r"
  shows "\<exists>resp. copAuthHandler_ServeHTTP A reg cfg ah r s = (Some resp, s) \<and> hp_Status resp \<in> {400, 500}"
  using serveHTTP_refused [OF assms, of reg s]
  by (auto simp: copAuthHandler_ServeHTTP_def HandleError_def http_Error_def errNoAuthHdr_def errBasicAuthNotAllowed_def authError_def)

lemma server_refuses:
  assumes "c_Authentication (sv_CFG sv)" "path \<noteq> wrappedPath ''sign''" "path \<noteq> wrappedPath ''enroll''" "\<not> acceptable (re_auth W) r"
  shows "\<exists>ans. serve W sv path r st = (ans, st) \<and> (\<forall>resp. ans = Response resp \<longrightarrow> hp_Status resp \<in> {400, 500})"
proof -
  obtain m where m: "registerHandlers (endpoints W sv) [] = Inr m" "table_mux (endpoints W sv) m"
    using table_registered [of "endpoints W sv" W sv] by blast
  show ?thesis
  proof (cases "mux_Handler m (hr_Method r) path")
    case (Serve ah)
    then obtain p h where p: "pathMatch (wrappedPath p) path" "ah = wrapper p h" using routed_wrapper [OF m(2)] by blast
    have "p \<noteq> ''sign''" by (rule notI, rule notE [OF assms(2)], rule pathMatch_wrapped [OF p(1)]) simp_all
    moreover have "p \<noteq> ''enroll''" by (rule notI, rule notE [OF assms(3)], rule pathMatch_wrapped [OF p(1)]) simp_all
    ultimately have ah: "\<not> ah_basic ah" "ah_token ah" by (simp_all add: p(2) wrapper_def)
    from ServeHTTP_refused [OF assms(1) ah assms(4), of "server_registry (sv_userRegistry sv)" st] obtain resp where
      "copAuthHandler_ServeHTTP (re_auth W) (server_registry (sv_userRegistry sv)) (sv_CFG sv) ah r st = (Some resp, st)"
      "hp_Status resp \<in> {400, 500}" by blast
    with m(1) Serve show ?thesis by (simp add: serve_def serve_mux_def)
  qed (use m(1) in \<open>simp_all add: serve_def serve_mux_def\<close>)
qed

text \<open>
  C2. No request without a valid token changes anything: with authentication on, a request to any
  path but those of \<^verbatim>\<open>sign\<close> and \<^verbatim>\<open>enroll\<close>, whatever its method, that carries no token whose signature
  verifies for its body with a certificate in date and not revoked, is answered with status 400 or
  500, redirected or not found, and leaves the registry, the certificates, the key cache and the
  random source exactly as they were.
\<close>

theorem server_requires_token:
  assumes "c_Authentication (sv_CFG sv)" "path \<noteq> wrappedPath ''sign''" "path \<noteq> wrappedPath ''enroll''"
    and "\<not> (\<exists>cert. VerifyToken (ae_sig (re_auth W)) (hr_Authorization r) (bytes_of (hr_Body r)) = Inr cert \<and>
               VerifyCertificate (re_auth W) cert = (False, True))"
  shows "\<exists>ans. serve W sv path r st = (ans, st) \<and> (\<forall>resp. ans = Response resp \<longrightarrow> hp_Status resp \<in> {400, 500})"
  using assms by (intro server_refuses) (simp_all add: acceptable_def)

definition demo_renv :: "string request_env" where
  "demo_renv = \<lparr>re_auth = demo_auth, re_secret = ''s3cret'',
     re_issue = (\<lambda>q. Inr (demo_cert\<lparr>cr_PEM := sq_Request q\<rparr>)), re_tcert = demo_world\<rparr>"

definition demo_server :: "(sqldb option, DBUser, string) server" where
  "demo_server = \<lparr>sv_CFG = newConfig, sv_userRegistry = db_registry, sv_certDBAccessor = Some db_cert_ops,
     sv_enrollSigner = Some (Some (cert_InsertCertificate demo_x509)), sv_ocspSigner = False,
     sv_bccsp = Inr \<lparr>csp_KeyGen = Inr ''root'', csp_KeyDeriv = demo_deriv\<rparr>, sv_tcertMgr = Inr demo_mgr,
     sv_cfssl = (\<lambda>_. Inr ok_handler)\<rparr>"

theorem server_requires_token_witness:
  "\<exists>ans. serve demo_renv demo_server (wrappedPath ''revoke'') (demo_req\<lparr>hr_Authorization := []\<rparr>) demo_tstate = (ans, demo_tstate) \<and>
    (\<forall>resp. ans = Response resp \<longrightarrow> hp_Status resp \<in> {400, 500})"
proof (rule server_requires_token)
  show "\<not> (\<exists>cert. VerifyToken (ae_sig (re_auth demo_renv)) (hr_Authorization (demo_req\<lparr>hr_Authorization := []\<rparr>))
      (bytes_of (hr_Body (demo_req\<lparr>hr_Authorization := []\<rparr>))) = Inr cert \<and> VerifyCertificate (re_auth demo_renv) cert = (False, True))"
    by (simp add: VerifyToken_def DecodeToken_def)
qed (simp_all add: demo_server_def newConfig_def)

lemma demo_revoke_endpoint:
  "(''revoke'', Inr (\<lambda>r. on_reg (HTTPHandler_ServeHTTP [''POST''] (revokeHandler_Handle demo_sig db_registry (Some db_cert_ops)) r)))
     \<in> set (endpoints demo_renv demo_server)"
  by (simp add: endpoints_def handler_on_reg_def NewRevokeHandler_def demo_server_def demo_renv_def demo_auth_def)

theorem endpoint_routing_witness:
  "\<exists>m ah. registerHandlers (rev (endpoints demo_renv demo_server)) [] = Inr m \<and>
    mux_Handler m ''POST'' ''/api/v1/cfssl/revoke'' = Serve ah \<and> ah_token ah \<and> \<not> ah_basic ah"
proof -
  let ?h = "\<lambda>r. on_reg (HTTPHandler_ServeHTTP [''POST''] (revokeHandler_Handle demo_sig db_registry (Some db_cert_ops)) r)
    :: (sqldb option, string) tcert_state \<Rightarrow> _"
  obtain m where m: "registerHandlers (rev (endpoints demo_renv demo_server)) [] = Inr m"
    "\<forall>path ah. mux_Handler m ''POST'' path = Serve ah \<longleftrightarrow>
      (\<exists>p h. path = wrappedPath p \<and> p \<noteq> ''/'' \<and> (p, Inr h) \<in> set (endpoints demo_renv demo_server) \<and> ah = wrapper p h)"
    using endpoint_routing [of "rev (endpoints demo_renv demo_server)" demo_renv demo_server "''POST''"] by auto
  have "mux_Handler m ''POST'' (wrappedPath ''revoke'') = Serve (wrapper ''revoke'' ?h)"
    unfolding m(2) [rule_format]
    by (intro exI [of _ "''revoke''"] exI [of _ ?h] conjI demo_revoke_endpoint refl) simp
  with m(1) show ?thesis by (auto simp: wrappedPath_def wrapper_def)
qed

end
