(* ===== verification/Os_World.thy ===== *)
theory Os_World
  imports Server_Config
begin

text \<open>
  The operating system as the commands see it: environment variables and files, with the mode a
  file was created with.  Every call consumes one entry of a schedule of failures.  On it, the file
  helpers of \<^verbatim>\<open>util/util.go\<close>.

  Writing needs the directory of the file, and truncates an existing file without changing its mode.
\<close>

record os_world =
  os_Getenv :: "string \<Rightarrow> string"
  os_files :: "string \<rightharpoonup> bytes \<times> nat"
  os_dirs :: "string \<Rightarrow> bool"
  os_faults :: "go_error option list"

definition os_call :: "(os_world \<Rightarrow> 'a result \<times> os_world) \<Rightarrow> os_world \<Rightarrow> 'a result \<times> os_world" where
  "os_call f w = (case os_faults w of
     [] \<Rightarrow> f w
   | None # fs \<Rightarrow> f (w\<lparr>os_faults := fs\<rparr>)
   | Some e # fs \<Rightarrow> (Inl e, w\<lparr>os_faults := fs\<rparr>))"

definition os_NotExist :: go_error where
  "os_NotExist = ExtError ''no such file or directory''"

definition ioutil_ReadFile :: "string \<Rightarrow> os_world \<Rightarrow> bytes result \<times> os_world" where
  "ioutil_ReadFile file = os_call (\<lambda>w. (case os_files w file of None \<Rightarrow> Inl os_NotExist | Some (b, _) \<Rightarrow> Inr b, w))"

definition ioutil_WriteFile :: "string \<Rightarrow> bytes \<Rightarrow> nat \<Rightarrow> os_world \<Rightarrow> unit result \<times> os_world" where
  "ioutil_WriteFile file buf perm = os_call (\<lambda>w.
     if \<not> os_dirs w (FilepathDir file) then (Inl os_NotExist, w)
     else let mode = (case os_files w file of None \<Rightarrow> perm | Some (_, m) \<Rightarrow> m)
          in (Inr (), w\<lparr>os_files := (os_files w)(file \<mapsto> (buf, mode))\<rparr>))"

definition os_Stat_path :: "string \<Rightarrow> os_world \<Rightarrow> unit result \<times> os_world" where
  "os_Stat_path p = os_call (\<lambda>w. (if os_files w p \<noteq> None \<or> os_dirs w p then Inr () else Inl os_NotExist, w))"

text \<open>All directories on the way to the path; a file on the way is an error.\<close>

definition on_way :: "string \<Rightarrow> string \<Rightarrow> bool" where
  "on_way q p \<longleftrightarrow> q \<noteq> [] \<and> (q = p \<or> HasPrefix p (q @ ''/''))"

fun file_on_way :: "(string \<rightharpoonup> 'f) \<Rightarrow> string \<Rightarrow> string \<Rightarrow> bool" where
  "file_on_way fs pre [] = (fs pre \<noteq> None)"
| "file_on_way fs pre (c # cs) = (c = CHR ''/'' \<and> pre \<noteq> [] \<and> fs pre \<noteq> None \<or> file_on_way fs (pre @ [c]) cs)"

definition os_MkdirAll :: "string \<Rightarrow> os_world \<Rightarrow> unit result \<times> os_world" where
  "os_MkdirAll p = os_call (\<lambda>w.
     if file_on_way (os_files w) [] p then (Inl (ExtError ''not a directory''), w)
     else (Inr (), w\<lparr>os_dirs := \<lambda>q. os_dirs w q \<or> on_way q p\<rparr>))"

subsection \<open>util/util.go\<close>

definition ReadFile :: "string \<Rightarrow> os_world \<Rightarrow> bytes result \<times> os_world" where
  "ReadFile file w = (case ioutil_ReadFile file w of
     (Inl err, w) \<Rightarrow> (Inl (COPError (WrapError err (code_num ReadFileError) ''failed reading file at %s'' [FStr file])), w)
   | (Inr b, w) \<Rightarrow> (Inr b, w))"

definition WriteFile :: "string \<Rightarrow> bytes \<Rightarrow> nat \<Rightarrow> os_world \<Rightarrow> unit result \<times> os_world" where
  "WriteFile file buf perm w = (case ioutil_WriteFile file buf perm w of
     (Inl err, w) \<Rightarrow> (Inl (COPError (WrapError err (code_num WriteFileError) ''failed reading file at %s'' [FStr file])), w)
   | (Inr _, w) \<Rightarrow> (Inr (), w))"

text \<open>Any error but non-existence counts as existence.\<close>

definition FileExists :: "string \<Rightarrow> os_world \<Rightarrow> bool \<times> os_world" where
  "FileExists name w = (case os_Stat_path name w of
     (Inl err, w) \<Rightarrow> (err \<noteq> os_NotExist, w)
   | (Inr _, w) \<Rightarrow> (True, w))"

subsection \<open>Lemmas\<close>

lemma os_call_no_faults: "os_faults w = [] \<Longrightarrow> os_call f w = f w"
  by (simp add: os_call_def)

lemma WriteFile_no_faults:
  "os_faults w = [] \<Longrightarrow> os_dirs w (FilepathDir file) \<Longrightarrow>
   WriteFile file buf perm w = (Inr (), w\<lparr>os_files := (os_files w)(file \<mapsto>
     (buf, case os_files w file of None \<Rightarrow> perm | Some (_, m) \<Rightarrow> m))\<rparr>)"
  by (simp add: WriteFile_def ioutil_WriteFile_def os_call_no_faults Let_def)

lemma ReadFile_no_faults:
  "os_faults w = [] \<Longrightarrow> os_files w file = Some (b, m) \<Longrightarrow> ReadFile file w = (Inr b, w)"
  by (simp add: ReadFile_def ioutil_ReadFile_def os_call_no_faults)

end
