(* ===== verification/Tls_Config.thy ===== *)
theory Tls_Config
  imports Os_World Server_Config
begin

text \<open>
  The TLS configuration of a client, \<^verbatim>\<open>lib/tls/tls.go\<close>, used by the client library and by the server for
  its connection to MySQL.  Loading a key pair and recognising certificates in a file are parameters.
\<close>

record tls_env =
  tl_LoadKeyPair :: "string \<Rightarrow> string \<Rightarrow> bytes result"
  tl_IsCertPEM :: "bytes \<Rightarrow> bool"

record tls_Config =
  tg_Certificates :: "bytes option list"
  tg_RootCAs :: "bytes list"

fun append_cas :: "tls_env \<Rightarrow> string list \<Rightarrow> bytes list \<Rightarrow> os_world \<Rightarrow> bytes list result \<times> os_world" where
  "append_cas T [] pool w = (Inr pool, w)"
| "append_cas T (cacert # files) pool w = (case ioutil_ReadFile cacert w of
     (Inl err, w) \<Rightarrow> (Inl err, w)
   | (Inr caCert, w) \<Rightarrow>
       if tl_IsCertPEM T caCert then append_cas T files (pool @ [caCert]) w
       else (Inl (COPError (NewError (code_num TLSError)
               ''Failed to parse and append certificate [certificate: %s]'' [FStr cacert])), w))"

text \<open>A missing client certificate is only logged; the empty certificate is used.\<close>

definition GetClientTLSConfig :: "tls_env \<Rightarrow> ClientTLSConfig \<Rightarrow> os_world \<Rightarrow> tls_Config result \<times> os_world" where
  "GetClientTLSConfig T cfg w =
     (let certs = [case tl_LoadKeyPair T (kc_CertFile (ct_Client cfg)) (kc_KeyFile (ct_Client cfg)) of
                     Inl _ \<Rightarrow> None | Inr c \<Rightarrow> Some c]
      in case append_cas T (ct_CACertFiles cfg) [] w of
           (Inl err, w) \<Rightarrow> (Inl err, w)
         | (Inr pool, w) \<Rightarrow> (Inr \<lparr>tg_Certificates = certs, tg_RootCAs = pool\<rparr>, w))"

subsection \<open>Lemmas\<close>

lemma ioutil_ReadFile_same: "os_faults w = [] \<Longrightarrow> snd (ioutil_ReadFile file w) = w"
  by (simp add: ioutil_ReadFile_def os_call_no_faults)

lemma append_cas_same: "os_faults w = [] \<Longrightarrow> snd (append_cas T files pool w) = w"
proof (induction T files pool w rule: append_cas.induct)
  case (2 T cacert files pool w)
  then show ?case using ioutil_ReadFile_same [of w cacert] by (auto split: prod.splits sum.splits)
qed simp

lemma GetClientTLSConfig_same: "os_faults w = [] \<Longrightarrow> snd (GetClientTLSConfig T cfg w) = w"
  using append_cas_same [of w T "ct_CACertFiles cfg" "[]"]
  by (auto simp: GetClientTLSConfig_def Let_def split: prod.splits sum.splits)

end
