(* ===== verification/Db_Util.thy ===== *)
theory Db_Util
  imports User_Registry Tls_Config
begin

text \<open>
  Opening and creating the database, \<^verbatim>\<open>cli/server/dbutil/dbutil.go\<close>.

  The database systems are a store of databases, by path for SQLite and by name for the servers:
  each has the tables created in it and its rows.  A handle \<^verbatim>\<open>*sqlx.DB\<close> is a driver and the
  database it is connected to; which database a connection string selects is the driver's
  business, a parameter \<open>dsn\<close>.  Every call to the driver or to the file system consumes one entry of a
  schedule of failures, as the statements of the accessors do.

  The two regular expressions are written as the functions they denote.  \<open>ms_custom\<close> is the TLS
  configuration that the MySQL driver knows by the name \<^verbatim>\<open>custom\<close>, which may be nil, and \<open>ms_os\<close> the
  files it is made from.
\<close>

record dbms =
  ms_dbs :: "string \<rightharpoonup> string list \<times> sqldb"
  ms_faults :: "go_error option list"
  ms_custom :: "tls_Config option option"
  ms_os :: os_world

record db_handle =
  dh_driver :: db_driver
  dh_db :: string

definition db_call :: "(dbms \<Rightarrow> 'a result \<times> dbms) \<Rightarrow> dbms \<Rightarrow> 'a result \<times> dbms" where
  "db_call f w = (case ms_faults w of
     [] \<Rightarrow> f w
   | None # fs \<Rightarrow> f (w\<lparr>ms_faults := fs\<rparr>)
   | Some e # fs \<Rightarrow> (Inl e, w\<lparr>ms_faults := fs\<rparr>))"

definition new_db :: "db_driver \<Rightarrow> sqldb" where
  "new_db drv = \<lparr>driver = drv, users = [], groups = [], certificates = [], ocsp_responses = None, clock = 0, faults = []\<rparr>"

definition sqlx_Open :: "db_driver \<Rightarrow> string \<Rightarrow> dbms \<Rightarrow> db_handle result \<times> dbms" where
  "sqlx_Open drv db = db_call (\<lambda>w. (Inr \<lparr>dh_driver = drv, dh_db = db\<rparr>, w))"

definition ErrNotExist :: go_error where
  "ErrNotExist = ExtError ''file does not exist''"

definition os_Stat :: "string \<Rightarrow> dbms \<Rightarrow> unit result \<times> dbms" where
  "os_Stat path = db_call (\<lambda>w. (if ms_dbs w path = None then Inl ErrNotExist else Inr (), w))"

definition db_Ping :: "db_handle \<Rightarrow> dbms \<Rightarrow> unit result \<times> dbms" where
  "db_Ping h = db_call (\<lambda>w. (Inr (), w))"

text \<open>\<^verbatim>\<open>CREATE TABLE\<close>; on SQLite the code adds \<^verbatim>\<open>IF NOT EXISTS\<close>, and the file appears with the first table.\<close>

definition create_table :: "db_handle \<Rightarrow> string \<Rightarrow> dbms \<Rightarrow> unit result \<times> dbms" where
  "create_table h t = db_call (\<lambda>w. case ms_dbs w (dh_db h) of
     None \<Rightarrow> if dh_driver h = Sqlite3
             then (Inr (), w\<lparr>ms_dbs := (ms_dbs w)(dh_db h \<mapsto> ([t], new_db Sqlite3))\<rparr>)
             else (Inl (ExtError ''database does not exist''), w)
   | Some (ts, d) \<Rightarrow>
       if t \<in> set ts then (if dh_driver h = Sqlite3 then Inr () else Inl (ExtError ''table already exists''), w)
       else (Inr (), w\<lparr>ms_dbs := (ms_dbs w)(dh_db h \<mapsto> (ts @ [t], d))\<rparr>))"

definition create_database :: "db_driver \<Rightarrow> string \<Rightarrow> dbms \<Rightarrow> unit result \<times> dbms" where
  "create_database drv name = db_call (\<lambda>w.
     if ms_dbs w name = None then (Inr (), w\<lparr>ms_dbs := (ms_dbs w)(name \<mapsto> ([], new_db drv))\<rparr>)
     else (Inl (ExtError ''database already exists''), w))"

definition database_exists :: "string \<Rightarrow> dbms \<Rightarrow> bool result \<times> dbms" where
  "database_exists name = db_call (\<lambda>w. (Inr (ms_dbs w name \<noteq> None), w))"

fun create_tables :: "db_handle \<Rightarrow> string list \<Rightarrow> dbms \<Rightarrow> unit result \<times> dbms" where
  "create_tables h [] w = (Inr (), w)"
| "create_tables h (t # ts) w = (case create_table h t w of
     (Inl err, w) \<Rightarrow> (Inl err, w)
   | (Inr _, w) \<Rightarrow> create_tables h ts w)"

definition cop_tables :: "string list" where
  "cop_tables = [''users'', ''groups'', ''certificates'']"

subsection \<open>Connection strings\<close>

definition is_space :: "char \<Rightarrow> bool" where
  "is_space c \<longleftrightarrow> c \<in> {CHR 0x09, CHR 0x0A, CHR 0x0C, CHR 0x0D, CHR 0x20}"

text \<open>The first match of \<^verbatim>\<open>(?:\/([^\/?]+))|(?:dbname=([^\s]+))\<close>.\<close>

fun find_db_name :: "string \<Rightarrow> string" where
  "find_db_name [] = []"
| "find_db_name (c # cs) =
     (let n1 = takeWhile (\<lambda>x. x \<noteq> CHR ''/'' \<and> x \<noteq> CHR ''?'') cs;
          n2 = takeWhile (\<lambda>x. \<not> is_space x) (drop 7 (c # cs))
      in if c = CHR ''/'' \<and> n1 \<noteq> [] then n1
         else if HasPrefix (c # cs) ''dbname='' \<and> n2 \<noteq> [] then n2
         else find_db_name cs)"

definition getDBName :: "string \<Rightarrow> string" where
  "getDBName datasource = find_db_name (ToLower datasource)"

text \<open>Every match of \<^verbatim>\<open>(dbname=)([^\s]+)\<close> removed.\<close>

function strip_dbname :: "string \<Rightarrow> string" where
  "strip_dbname s = (case s of
     [] \<Rightarrow> []
   | c # cs \<Rightarrow>
       let n = takeWhile (\<lambda>x. \<not> is_space x) (drop 7 s) in
       if HasPrefix s ''dbname='' \<and> n \<noteq> [] then strip_dbname (drop (7 + length n) s) else c # strip_dbname cs)"
  by pat_completeness auto
termination
  by (relation "measure length") auto

declare strip_dbname.simps [simp del]

definition getConnStr :: "string \<Rightarrow> string" where
  "getConnStr datasource = strip_dbname datasource"

text \<open>Every match of \<^verbatim>\<open>\/([a-zA-z]+)\<close> replaced by a slash; \<^verbatim>\<open>A-z\<close> is the whole range between them.\<close>

definition is_A_z :: "char \<Rightarrow> bool" where
  "is_A_z c \<longleftrightarrow> 0x41 \<le> (of_char c :: nat) \<and> of_char c \<le> (0x7A :: nat)"

function strip_mysql_db :: "string \<Rightarrow> string" where
  "strip_mysql_db s = (case s of
     [] \<Rightarrow> []
   | c # cs \<Rightarrow> if c = CHR ''/'' then c # strip_mysql_db (dropWhile is_A_z cs) else c # strip_mysql_db cs)"
  by pat_completeness auto
termination
  by (relation "measure length") (auto simp: length_dropWhile_le le_imp_less_Suc)

declare strip_mysql_db.simps [simp del]

subsection \<open>The constructors\<close>

definition nil_panic :: go_error where
  "nil_panic = GoPanic ''invalid memory address or nil pointer dereference''"

definition createSQLiteDBTables :: "string \<Rightarrow> dbms \<Rightarrow> unit result \<times> dbms" where
  "createSQLiteDBTables datasource w = (case sqlx_Open Sqlite3 datasource w of
     (Inl err, w) \<Rightarrow> (Inl (COPError (WrapError err (code_num DatabaseError) ''Failed to connect to database'' [])), w)
   | (Inr db, w) \<Rightarrow> create_tables db cop_tables w)"

definition NewUserRegistrySQLLite3 :: "string \<Rightarrow> dbms \<Rightarrow> (db_handle \<times> bool) result \<times> dbms" where
  "NewUserRegistrySQLLite3 datasource w =
     (let datasource = FilepathJoin [datasource] in
      case (if datasource = [] then (Inr False, w)
            else (case os_Stat datasource w of
              (Inl err, w) \<Rightarrow>
                if err = ErrNotExist
                then (case createSQLiteDBTables datasource w of
                        (Inl err2, w) \<Rightarrow> (Inl err2, w)
                      | (Inr _, w) \<Rightarrow> (Inr False, w))
                else (Inr True, w)
            | (Inr _, w) \<Rightarrow> (Inr False, w))) of
        (Inl err, w) \<Rightarrow> (Inl err, w)
      | (Inr exists, w) \<Rightarrow> (case sqlx_Open Sqlite3 datasource w of
          (Inl err, w) \<Rightarrow> (Inl err, w)
        | (Inr db, w) \<Rightarrow> (Inr (db, exists), w)))"

text \<open>
  A failing \<^verbatim>\<open>sqlx.Open\<close> of the new database is only logged, and its nil handle used.
\<close>

definition createPostgresDBTables :: "(string \<Rightarrow> string) \<Rightarrow> string \<Rightarrow> string \<Rightarrow> dbms \<Rightarrow> unit result \<times> dbms" where
  "createPostgresDBTables dsn datasource dbName w = (case create_database Postgres dbName w of
     (Inl err, w) \<Rightarrow> (Inl (COPError (WrapError err (code_num DatabaseError) ''Failed to create Postgres database'' [])), w)
   | (Inr _, w) \<Rightarrow> (case sqlx_Open Postgres (dsn datasource) w of
       (Inl err, w) \<Rightarrow> (Inl nil_panic, w)
     | (Inr database, w) \<Rightarrow> create_tables database cop_tables w))"

definition postgres_connStr :: "string \<Rightarrow> ClientTLSConfig option \<Rightarrow> string" where
  "postgres_connStr datasource clientTLSConfig =
     (let connStr = getConnStr datasource in
      case clientTLSConfig of
        None \<Rightarrow> connStr
      | Some c \<Rightarrow>
          (let connStr = (case ct_CACertFiles c of [] \<Rightarrow> connStr | root # _ \<Rightarrow> connStr @ '' sslrootcert='' @ root)
           in connStr @ '' sslcert='' @ kc_CertFile (ct_Client c) @ '' sslkey='' @ kc_KeyFile (ct_Client c)))"

text \<open>
  When the query of the catalogue fails, the error that is wrapped is the nil result of the ping:
  \<^verbatim>\<open>WrapError\<close> dereferences it.
\<close>

definition NewUserRegistryPostgres ::
  "(string \<Rightarrow> string) \<Rightarrow> string \<Rightarrow> ClientTLSConfig option \<Rightarrow> dbms \<Rightarrow> (db_handle \<times> bool) result \<times> dbms" where
  "NewUserRegistryPostgres dsn datasource clientTLSConfig w =
     (let dbName = getDBName datasource;
          connStr = postgres_connStr datasource clientTLSConfig
      in case sqlx_Open Postgres (dsn connStr) w of
           (Inl err, w) \<Rightarrow> (Inl (COPError (WrapError err (code_num DatabaseError) ''Failed to open database'' [])), w)
         | (Inr db, w) \<Rightarrow> (case db_Ping db w of
             (Inl err, w) \<Rightarrow> (Inl err, w)
           | (Inr _, w) \<Rightarrow> (case database_exists dbName w of
               (Inl err2, w) \<Rightarrow> (Inl nil_panic, w)
             | (Inr found, w) \<Rightarrow>
                 (case (if found then (Inr (), w)
                        else createPostgresDBTables dsn (connStr @ '' dbname='' @ dbName) dbName w) of
                    (Inl err, w) \<Rightarrow> (Inl err, w)
                  | (Inr _, w) \<Rightarrow> (case sqlx_Open Postgres (dsn datasource) w of
                      (Inl err, w) \<Rightarrow> (Inl err, w)
                    | (Inr db, w) \<Rightarrow> (Inr (db, found), w))))))"

definition createMySQLTables :: "(string \<Rightarrow> string) \<Rightarrow> string \<Rightarrow> string \<Rightarrow> dbms \<Rightarrow> unit result \<times> dbms" where
  "createMySQLTables dsn datasource dbName w = (case create_database MySQL dbName w of
     (Inl err, w) \<Rightarrow> (Inl (GoPanic (Error err)), w)
   | (Inr _, w) \<Rightarrow> (case sqlx_Open MySQL (dsn datasource) w of
       (Inl err, w) \<Rightarrow> (Inl nil_panic, w)
     | (Inr database, w) \<Rightarrow> create_tables database cop_tables w))"

text \<open>A configuration that cannot be made is only logged, and nil is registered.\<close>

definition RegisterTLSConfig :: "tls_env \<Rightarrow> ClientTLSConfig option \<Rightarrow> dbms \<Rightarrow> dbms" where
  "RegisterTLSConfig T clientTLSConfig w = (case clientTLSConfig of
     None \<Rightarrow> w
   | Some c \<Rightarrow> (case GetClientTLSConfig T c (ms_os w) of
       (Inl err, os) \<Rightarrow> w\<lparr>ms_custom := Some None, ms_os := os\<rparr>
     | (Inr tlsConfig, os) \<Rightarrow> w\<lparr>ms_custom := Some (Some tlsConfig), ms_os := os\<rparr>))"

text \<open>A failing ping is only logged, and so is the error of \<open>createMySQLTables\<close>, unless it panics.\<close>

definition NewUserRegistryMySQL ::
  "tls_env \<Rightarrow> (string \<Rightarrow> string) \<Rightarrow> string \<Rightarrow> ClientTLSConfig option \<Rightarrow> dbms \<Rightarrow> (db_handle \<times> bool) result \<times> dbms" where
  "NewUserRegistryMySQL T dsn datasource clientTLSConfig w =
     (let dbName = getDBName datasource;
          connStr = strip_mysql_db datasource;
          w = RegisterTLSConfig T clientTLSConfig w
      in case sqlx_Open MySQL (dsn connStr) w of
           (Inl err, w) \<Rightarrow> (Inl (COPError (WrapError err (code_num DatabaseError) ''Failed to open database'' [])), w)
         | (Inr db, w) \<Rightarrow>
             (let w = snd (db_Ping db w) in
              case database_exists dbName w of
                (Inl err, w) \<Rightarrow>
                  (Inl (COPError (WrapError err (code_num DatabaseError)
                     (''Failed to query '' @ [CHR 0x27] @ ''INFORMATION_SCHEMA.SCHEMATA table'') [])), w)
              | (Inr found, w) \<Rightarrow>
                  (let exists = (found \<and> dbName \<noteq> []) in
                   case (if exists then (Inr (), w) else createMySQLTables dsn datasource dbName w) of
                     (Inl (GoPanic msg), w) \<Rightarrow> (Inl (GoPanic msg), w)
                   | (_, w) \<Rightarrow> (case sqlx_Open MySQL (dsn datasource) w of
                       (Inl err, w) \<Rightarrow> (Inl err, w)
                     | (Inr db, w) \<Rightarrow> (Inr (db, exists), w)))))"


subsection \<open>What the constructors leave behind\<close>

lemma db_call_no_faults: "ms_faults w = [] \<Longrightarrow> db_call f w = f w"
  by (simp add: db_call_def)

lemmas dbms_defs = sqlx_Open_def os_Stat_def db_Ping_def create_table_def create_database_def database_exists_def

lemma FilepathJoin_single: "FilepathJoin [d] = (if d = [] then [] else Clean d)"
  by (simp add: FilepathJoin_def Let_def)

text \<open>The tables a database has, and its rows.\<close>

definition has_tables :: "dbms \<Rightarrow> string \<Rightarrow> bool" where
  "has_tables w k \<longleftrightarrow> (case ms_dbs w k of None \<Rightarrow> False | Some (ts, _) \<Rightarrow> set cop_tables \<subseteq> set ts)"

definition db_rows :: "dbms \<Rightarrow> string \<Rightarrow> sqldb option" where
  "db_rows w k = map_option snd (ms_dbs w k)"

text \<open>Without failures: a missing file becomes an empty database with the three tables, an existing one is left alone.\<close>

lemma NewUserRegistrySQLLite3_no_faults:
  assumes "ms_faults w = []" "ds \<noteq> []" "Clean ds \<noteq> []"
  shows "NewUserRegistrySQLLite3 ds w = (Inr (\<lparr>dh_driver = Sqlite3, dh_db = Clean ds\<rparr>, False),
    if ms_dbs w (Clean ds) = None then w\<lparr>ms_dbs := (ms_dbs w)(Clean ds \<mapsto> (cop_tables, new_db Sqlite3))\<rparr> else w)"
  using assms
  by (cases "ms_dbs w (Clean ds)")
    (simp_all add: NewUserRegistrySQLLite3_def FilepathJoin_single dbms_defs db_call_no_faults createSQLiteDBTables_def
      cop_tables_def Let_def)

text \<open>On the servers the driver has to select the database that the code's own parsing names.\<close>

lemma NewUserRegistryPostgres_no_faults:
  assumes "ms_faults w = []" "dsn (postgres_connStr ds tlsc @ '' dbname='' @ getDBName ds) = getDBName ds" "dsn ds = getDBName ds"
  shows "NewUserRegistryPostgres dsn ds tlsc w = (Inr (\<lparr>dh_driver = Postgres, dh_db = getDBName ds\<rparr>, ms_dbs w (getDBName ds) \<noteq> None),
    if ms_dbs w (getDBName ds) = None then w\<lparr>ms_dbs := (ms_dbs w)(getDBName ds \<mapsto> (cop_tables, new_db Postgres))\<rparr> else w)"
  using assms
  by (cases "ms_dbs w (getDBName ds)")
    (simp_all add: NewUserRegistryPostgres_def dbms_defs db_call_no_faults createPostgresDBTables_def cop_tables_def Let_def)

lemma RegisterTLSConfig_keeps [simp]:
  "ms_dbs (RegisterTLSConfig T c w) = ms_dbs w" "ms_faults (RegisterTLSConfig T c w) = ms_faults w"
  by (simp_all add: RegisterTLSConfig_def split: option.splits prod.splits sum.splits)

lemma RegisterTLSConfig_os: "os_faults (ms_os w) = [] \<Longrightarrow> ms_os (RegisterTLSConfig T c w) = ms_os w"
  using GetClientTLSConfig_same [of "ms_os w" T]
  by (auto simp: RegisterTLSConfig_def split: option.splits prod.splits sum.splits) (metis snd_conv)+

lemma RegisterTLSConfig_again:
  assumes "os_faults (ms_os w) = []" "ms_os w' = ms_os w" "ms_custom w' = ms_custom (RegisterTLSConfig T c w)"
  shows "RegisterTLSConfig T c w' = w'"
  using assms GetClientTLSConfig_same [OF assms(1), of T]
  by (cases w') (auto simp: RegisterTLSConfig_def split: option.splits prod.splits sum.splits, (metis snd_conv)+)

lemma NewUserRegistryMySQL_no_faults:
  assumes "ms_faults w = []" "dsn ds = getDBName ds" "getDBName ds \<noteq> []"
  shows "NewUserRegistryMySQL T dsn ds tlsc w = (Inr (\<lparr>dh_driver = MySQL, dh_db = getDBName ds\<rparr>, ms_dbs w (getDBName ds) \<noteq> None),
    (RegisterTLSConfig T tlsc w)\<lparr>ms_dbs := if ms_dbs w (getDBName ds) = None then (ms_dbs w)(getDBName ds \<mapsto> (cop_tables, new_db MySQL)) else ms_dbs w\<rparr>)"
  using assms
  by (cases "ms_dbs w (getDBName ds)")
    (simp_all add: NewUserRegistryMySQL_def dbms_defs db_call_no_faults createMySQLTables_def cop_tables_def Let_def)

text \<open>
  PostgreSQL: a failing query of the catalogue ends in a panic, because the error that is wrapped is
  the nil one of the ping before.
\<close>

lemma NewUserRegistryPostgres_query_panic:
  "ms_faults w = [None, None, Some e] \<Longrightarrow> fst (NewUserRegistryPostgres dsn ds tlsc w) = Inl nil_panic"
  by (simp add: NewUserRegistryPostgres_def dbms_defs db_call_def Let_def)

subsection \<open>Parsing of connection strings\<close>

text \<open>
  A PostgreSQL string without a slash before the field: the name after the first \<^verbatim>\<open>dbname=\<close> is found,
  and the field is cut out of the string that connects without a database.
\<close>

definition dbname_first :: "string \<Rightarrow> string \<Rightarrow> bool" where
  "dbname_first pre rest \<longleftrightarrow> (\<forall>k < length pre. \<not> HasPrefix (drop k pre @ rest) ''dbname='')"

lemma dbname_first_Cons:
  "dbname_first (c # pre) rest \<longleftrightarrow> \<not> HasPrefix (c # pre @ rest) ''dbname='' \<and> dbname_first pre rest"
  by (simp add: dbname_first_def All_less_Suc2)

lemma takeWhile_name:
  "list_all (\<lambda>c. \<not> is_space c) n \<Longrightarrow> post = [] \<or> is_space (hd post) \<Longrightarrow> takeWhile (\<lambda>x. \<not> is_space x) (n @ post) = n"
  by (cases post) (auto simp: list_all_iff takeWhile_append)

lemma find_db_name_dbname:
  assumes "n \<noteq> []" "list_all (\<lambda>c. \<not> is_space c) n" "post = [] \<or> is_space (hd post)"
  shows "CHR ''/'' \<notin> set pre \<Longrightarrow> dbname_first pre (''dbname='' @ n @ post) \<Longrightarrow> find_db_name (pre @ ''dbname='' @ n @ post) = n"
proof (induction pre)
  case Nil
  then show ?case using assms takeWhile_name [OF assms(2,3)] by (simp add: HasPrefix_def)
next
  case (Cons c pre)
  then show ?case by (auto simp add: dbname_first_Cons Let_def)
qed

lemma strip_dbname_dbname:
  assumes "n \<noteq> []" "list_all (\<lambda>c. \<not> is_space c) n" "post = [] \<or> is_space (hd post)"
  shows "dbname_first pre (''dbname='' @ n @ post) \<Longrightarrow> strip_dbname (pre @ ''dbname='' @ n @ post) = pre @ strip_dbname post"
proof (induction pre)
  case Nil
  then show ?case
    using assms takeWhile_name [OF assms(2,3)] by (subst strip_dbname.simps) (simp add: HasPrefix_def numeral_eq_Suc)
next
  case (Cons c pre)
  then show ?case by (subst append_Cons, subst strip_dbname.simps) (simp add: dbname_first_Cons Let_def)
qed

text \<open>
  A slash before the field, as in the path of a certificate, makes the first path element the name
  of the database; and MySQL names keep what follows their first character outside the letters.
\<close>

lemma find_db_name_slash:
  assumes "CHR ''/'' \<notin> set pre" "dbname_first pre (CHR ''/'' # rest)"
    and "takeWhile (\<lambda>x. x \<noteq> CHR ''/'' \<and> x \<noteq> CHR ''?'') rest = n" "n \<noteq> []"
  shows "find_db_name (pre @ CHR ''/'' # rest) = n"
  using assms(1,2)
proof (induction pre)
  case Nil
  then show ?case using assms(3,4) by simp
next
  case (Cons c pre)
  then show ?case by (auto simp add: dbname_first_Cons Let_def)
qed

lemma getDBName_certificate_path: "getDBName ''host=h sslrootcert=/etc/root.pem dbname=cop'' = ''etc''"
  by code_simp

lemma strip_mysql_db_digits: "strip_mysql_db ''root@tcp(localhost)/cop1?x=y'' = ''root@tcp(localhost)/1?x=y''"
  by code_simp

end
