(* ===== verification/Bootstrap_Db.thy ===== *)
theory Bootstrap_Db
  imports Register_User
begin

text \<open>
  Filling the database at server start: \<^verbatim>\<open>cli/server/bootstrap.go\<close> and \<^verbatim>\<open>bootstrapDB\<close> of
  \<^verbatim>\<open>server.go\<close>.  The affiliation groups come from the package viper, which is a parameter: the
  elements of a string slice, and the keys of a string map in the order \<^verbatim>\<open>range\<close> visits them.
  \<open>rnd n\<close> is the string \<^verbatim>\<open>util.RandomString\<close> returns for the user \<open>n\<close>, if it is called.

  Results of \<^verbatim>\<open>RegisterUser\<close> and of \<^verbatim>\<open>registerGroup\<close> are dropped, as in the code.
\<close>

record viper =
  vp_GetStringSlice :: "string \<Rightarrow> string list"
  vp_GetStringMapString :: "string \<Rightarrow> string list"

definition Bootstrap_registerGroup ::
  "('s, 'u) UserRegistry \<Rightarrow> string \<Rightarrow> string \<Rightarrow> 's \<Rightarrow> unit result \<times> 's" where
  "Bootstrap_registerGroup reg name parentName s = (case reg_GetGroup reg name s of
     (Inr _, s) \<Rightarrow> (Inl (ErrorString ''Group already registered''), s)
   | (Inl _, s) \<Rightarrow> reg_InsertGroup reg name parentName s)"

primrec Bootstrap_populateGroup ::
  "nat \<Rightarrow> ('s, 'u) UserRegistry \<Rightarrow> viper \<Rightarrow> string \<Rightarrow> string \<Rightarrow> string \<Rightarrow> 's \<Rightarrow> 's" where
  "Bootstrap_populateGroup 0 reg vp name parent key s =
     (let s = snd (Bootstrap_registerGroup reg name parent s);
          newKey = key @ ''.'' @ name
      in fold (\<lambda>c s. snd (Bootstrap_registerGroup reg c name s)) (vp_GetStringSlice vp newKey) s)"
| "Bootstrap_populateGroup (Suc level) reg vp name parent key s =
     (let s = snd (Bootstrap_registerGroup reg name parent s);
          newKey = key @ ''.'' @ name
      in fold (\<lambda>c s. Bootstrap_populateGroup level reg vp c name newKey s) (vp_GetStringMapString vp newKey) s)"

definition FilepathBase :: "string \<Rightarrow> string" where
  "FilepathBase p =
     (let q = rev (dropWhile (\<lambda>c. c = CHR ''/'') (rev p)) in
      if p = [] then ''.'' else if q = [] then ''/''
      else rev (takeWhile (\<lambda>c. c \<noteq> CHR ''/'') (rev q)))"

text \<open>\<^verbatim>\<open>filename[1]\<close> panics when the name of the configuration file has no dot.\<close>

definition Bootstrap_PopulateGroupsTable ::
  "('s, 'u) UserRegistry \<Rightarrow> viper \<Rightarrow> string \<Rightarrow> 's \<Rightarrow> unit result \<times> 's" where
  "Bootstrap_PopulateGroupsTable reg vp configFile s =
     (let filename = Split (FilepathBase configFile) (CHR ''.'') in
      if length filename < 2 then (Inl (GoPanic ''index out of range''), s)
      else let key = ''groups'' in
        (Inr (), fold (\<lambda>name s. Bootstrap_populateGroup 1 reg vp name [] key s) (vp_GetStringMapString vp key) s))"

fun populate_users ::
  "('s, 'u) UserRegistry \<Rightarrow> Config \<Rightarrow> (string \<Rightarrow> string) \<Rightarrow> (string \<times> ConfigUser option) list \<Rightarrow> 's \<Rightarrow> unit result \<times> 's" where
  "populate_users reg cfg rnd [] s = (Inr (), s)"
| "populate_users reg cfg rnd ((name, info) # us) s = (case info of
     None \<Rightarrow> (Inl (GoPanic ''nil pointer dereference''), s)
   | Some i \<Rightarrow>
       populate_users reg cfg rnd us
         (snd (Register_RegisterUser reg cfg (rnd name) name (cu_Type i) (cu_Group i) (cu_Attributes i) []
            [cu_Pass i, Itoa (c_MaxEnrollments cfg)] s)))"

definition Bootstrap_PopulateUsersTable ::
  "('s, 'u) UserRegistry \<Rightarrow> Config \<Rightarrow> (string \<Rightarrow> string) \<Rightarrow> 's \<Rightarrow> unit result \<times> 's" where
  "Bootstrap_PopulateUsersTable reg cfg rnd s = populate_users reg cfg rnd (c_Users cfg) s"

definition bootstrapDB ::
  "('s, 'u) UserRegistry \<Rightarrow> viper \<Rightarrow> Config \<Rightarrow> string \<Rightarrow> (string \<Rightarrow> string) \<Rightarrow> 's \<Rightarrow> unit result \<times> 's" where
  "bootstrapDB reg vp cfg configFile rnd s = (case Bootstrap_PopulateGroupsTable reg vp configFile s of
     (Inl e, s) \<Rightarrow> (Inl e, s)
   | (Inr _, s) \<Rightarrow> Bootstrap_PopulateUsersTable reg cfg rnd s)"

subsection \<open>On a database that does not fail\<close>

definition has_group :: "sqldb \<Rightarrow> string \<Rightarrow> bool" where
  "has_group d n \<longleftrightarrow> n \<in> gr_Name ` set (groups d)"

definition add_group :: "string \<Rightarrow> string \<Rightarrow> sqldb \<Rightarrow> sqldb" where
  "add_group n p d = (if has_group d n then d
     else d\<lparr>groups := groups d @ [\<lparr>gr_Name = n, gr_ParentID = p, gr_Prekey = None\<rparr>]\<rparr>)"

lemma add_group_simps [simp]:
  "faults (add_group n p d) = faults d" "users (add_group n p d) = users d"
  "has_group (add_group n p d) m \<longleftrightarrow> has_group d m \<or> m = n"
  by (auto simp: add_group_def has_group_def)

lemma registerGroup_no_faults:
  assumes "faults d = []"
  shows "snd (Bootstrap_registerGroup db_registry n p (Some d)) = Some (add_group n p d)"
proof (cases "filter (\<lambda>g. gr_Name g = n) (groups d)")
  case Nil
  then have "\<not> has_group d n" by (auto simp: has_group_def filter_empty_conv)
  with Nil assms show ?thesis
    by (simp add: Bootstrap_registerGroup_def GetGroup_no_faults add_group_def Accessor_InsertGroup_def
        checked_Some sql_exec_no_faults insertGroup_sql_def)
next
  case (Cons g gs)
  then have "g \<in> set (filter (\<lambda>g. gr_Name g = n) (groups d))" by simp
  then have "has_group d n" by (auto simp: has_group_def)
  with Cons assms show ?thesis
    by (simp add: Bootstrap_registerGroup_def GetGroup_no_faults add_group_def)
qed

text \<open>The groups a configuration names, with their parents, in the order they are registered.\<close>

primrec group_list :: "nat \<Rightarrow> viper \<Rightarrow> string \<Rightarrow> string \<Rightarrow> string \<Rightarrow> (string \<times> string) list" where
  "group_list 0 vp name parent key =
     (name, parent) # map (\<lambda>c. (c, name)) (vp_GetStringSlice vp (key @ ''.'' @ name))"
| "group_list (Suc level) vp name parent key =
     (name, parent) # concat (map (\<lambda>c. group_list level vp c name (key @ ''.'' @ name))
        (vp_GetStringMapString vp (key @ ''.'' @ name)))"

definition add_groups :: "(string \<times> string) list \<Rightarrow> sqldb \<Rightarrow> sqldb" where
  "add_groups gs d = fold (\<lambda>(n, p) d. add_group n p d) gs d"

lemma add_groups_simps [simp]:
  "faults (add_groups gs d) = faults d" "users (add_groups gs d) = users d"
  "has_group (add_groups gs d) m \<longleftrightarrow> has_group d m \<or> m \<in> fst ` set gs"
  by (induction gs arbitrary: d) (auto simp: add_groups_def split_def)

lemma add_groups_present: "list_all (\<lambda>g. has_group d (fst g)) gs \<Longrightarrow> add_groups gs d = d"
  by (induction gs) (auto simp: add_groups_def add_group_def)

lemma add_groups_append: "add_groups (xs @ ys) d = add_groups ys (add_groups xs d)"
  by (simp add: add_groups_def)

lemma add_groups_Cons: "add_groups ((n, p) # gs) d = add_groups gs (add_group n p d)"
  by (simp add: add_groups_def)

lemma fold_registerGroup:
  "faults d = [] \<Longrightarrow> fold (\<lambda>c s. snd (Bootstrap_registerGroup db_registry c name s)) cs (Some d) =
     Some (add_groups (map (\<lambda>c. (c, name)) cs) d)"
  by (induction cs arbitrary: d) (simp_all add: registerGroup_no_faults add_groups_def)

lemma fold_groups:
  assumes "\<And>c d. faults d = [] \<Longrightarrow> f c (Some d) = Some (add_groups (gl c) d)" "faults d = []"
  shows "fold f cs (Some d) = Some (add_groups (concat (map gl cs)) d)"
  using assms(2) by (induction cs arbitrary: d) (simp_all add: assms(1) add_groups_append, simp add: add_groups_def)

lemma populateGroup_no_faults:
  "faults d = [] \<Longrightarrow> Bootstrap_populateGroup level db_registry vp name parent key (Some d) =
     Some (add_groups (group_list level vp name parent key) d)"
proof (induction level arbitrary: name parent key d)
  case 0
  then show ?case by (simp add: registerGroup_no_faults fold_registerGroup add_groups_Cons)
next
  case (Suc level)
  have "fold (\<lambda>c s. Bootstrap_populateGroup level db_registry vp c name (key @ ''.'' @ name) s)
      (vp_GetStringMapString vp (key @ ''.'' @ name)) (Some (add_group name parent d)) =
    Some (add_groups (concat (map (\<lambda>c. group_list level vp c name (key @ ''.'' @ name))
      (vp_GetStringMapString vp (key @ ''.'' @ name)))) (add_group name parent d))"
    by (rule fold_groups) (use Suc in auto)
  with Suc.prems show ?case by (simp add: registerGroup_no_faults add_groups_Cons Let_def)
qed

definition config_groups :: "viper \<Rightarrow> (string \<times> string) list" where
  "config_groups vp = concat (map (\<lambda>n. group_list 1 vp n [] ''groups'') (vp_GetStringMapString vp ''groups''))"

lemma PopulateGroupsTable_no_faults:
  assumes "faults d = []" "length (Split (FilepathBase cf) (CHR ''.'')) \<ge> 2"
  shows "Bootstrap_PopulateGroupsTable db_registry vp cf (Some d) = (Inr (), Some (add_groups (config_groups vp) d))"
proof -
  have "fold (\<lambda>name s. Bootstrap_populateGroup 1 db_registry vp name [] ''groups'' s)
      (vp_GetStringMapString vp ''groups'') (Some d) = Some (add_groups (config_groups vp) d)"
    unfolding config_groups_def
    by (intro fold_groups populateGroup_no_faults assms(1))
  with assms(2) show ?thesis
    by (simp add: Bootstrap_PopulateGroupsTable_def Let_def del: Bootstrap_populateGroup.simps One_nat_def)
qed

definition add_user :: "Config \<Rightarrow> string \<Rightarrow> string \<Rightarrow> ConfigUser \<Rightarrow> sqldb \<Rightarrow> sqldb" where
  "add_user cfg rnd n i d =
     (if lookup_user d n \<noteq> None \<or> (Register_requireGroup (cu_Type i) \<and> \<not> has_group d (cu_Group i)) then d
      else d\<lparr>users := users d @ [registered cfg \<lparr>ui_Name = n,
             ui_Pass = (if cu_Pass i \<noteq> [] then cu_Pass i else rnd), ui_Type = cu_Type i,
             ui_Group = cu_Group i, ui_Attributes = cu_Attributes i\<rparr>]\<rparr>)"

lemma add_user_simps [simp]:
  "faults (add_user cfg rnd n i d) = faults d" "groups (add_user cfg rnd n i d) = groups d"
  "has_group (add_user cfg rnd n i d) = has_group d"
  by (auto simp: add_user_def has_group_def)

lemma RegisterUser_boot:
  assumes "faults d = []"
  shows "snd (Register_RegisterUser db_registry cfg rnd n (cu_Type i) (cu_Group i) (cu_Attributes i) []
      [cu_Pass i, m] (Some d)) = Some (add_user cfg rnd n i d)"
proof -
  have "\<not> has_group d (cu_Group i) \<Longrightarrow> filter (\<lambda>g. gr_Name g = cu_Group i) (groups d) = []"
    by (force simp: has_group_def filter_empty_conv)
  then have grp: "Register_requireGroup (cu_Type i) \<Longrightarrow> \<not> has_group d (cu_Group i) \<Longrightarrow>
      Register_validateID db_registry n (cu_Type i) (cu_Group i) (Some d) = (Inl ErrNoRows, Some d)"
    using assms by (simp add: Register_validateID_def Register_isValidGroup_def GetGroup_no_faults)
  have ok: "\<not> (Register_requireGroup (cu_Type i) \<and> \<not> has_group d (cu_Group i)) \<Longrightarrow>
      Register_validateID db_registry n (cu_Type i) (cu_Group i) (Some d) = (Inr (), Some d)"
    using assms by (intro validateID_no_faults) (auto simp: has_group_def)
  have old: "lookup_user d n \<noteq> None \<Longrightarrow>
      snd (Register_registerUserID db_registry cfg rnd n (cu_Type i) (cu_Group i) (cu_Attributes i) [cu_Pass i, m] (Some d)) = Some d"
    using assms by (auto simp: Register_registerUserID_def Let_def GetUser_no_faults)
  show ?thesis
  proof (cases "Register_requireGroup (cu_Type i) \<and> \<not> has_group d (cu_Group i)")
    case True
    with grp show ?thesis by (simp add: Register_RegisterUser_def add_user_def)
  next
    case False
    with ok old assms show ?thesis
      by (cases "lookup_user d n") (auto simp: Register_RegisterUser_def add_user_def registerUserID_no_faults)
  qed
qed

definition add_users :: "Config \<Rightarrow> (string \<Rightarrow> string) \<Rightarrow> (string \<times> ConfigUser option) list \<Rightarrow> sqldb \<Rightarrow> sqldb" where
  "add_users cfg rnd us d = fold (\<lambda>(n, i) d. add_user cfg (rnd n) n (the i) d) us d"

lemma populate_users_no_faults:
  "faults d = [] \<Longrightarrow> None \<notin> snd ` set us \<Longrightarrow>
   populate_users db_registry cfg rnd us (Some d) = (Inr (), Some (add_users cfg rnd us d))"
  by (induction us arbitrary: d) (auto simp: RegisterUser_boot add_users_def split: option.split)

text \<open>A user is done when it is in the table, or its group is missing.\<close>

definition user_done :: "sqldb \<Rightarrow> string \<times> ConfigUser option \<Rightarrow> bool" where
  "user_done d u \<longleftrightarrow> lookup_user d (fst u) \<noteq> None \<or>
     (Register_requireGroup (cu_Type (the (snd u))) \<and> \<not> has_group d (cu_Group (the (snd u))))"

lemma add_user_done: "user_done (add_user cfg r n (the i) d) (n, i)"
  by (auto simp: user_done_def add_user_def lookup_user_append registered_def user_record_def)

lemma add_user_keeps: "lookup_user d x = Some r \<Longrightarrow> lookup_user (add_user cfg rnd n i d) x = Some r"
  by (auto simp: add_user_def lookup_user_append)

lemma user_done_add_user: "user_done d u \<Longrightarrow> user_done (add_user cfg rnd n i d) u"
  using add_user_keeps [of d "fst u" _ cfg rnd n i] by (auto simp: user_done_def)

lemma add_users_done: "u \<in> set us \<or> user_done d u \<Longrightarrow> user_done (add_users cfg rnd us d) u"
proof (induction us arbitrary: d)
  case (Cons v us)
  obtain n i where v: "v = (n, i)" by (cases v)
  from Cons.prems v have "u \<in> set us \<or> user_done (add_user cfg (rnd n) n (the i) d) u"
    using add_user_done [of cfg "rnd n" n i d] by (auto intro: user_done_add_user)
  from Cons.IH [OF this] v show ?case by (simp add: add_users_def)
qed (simp add: add_users_def)

lemma add_users_id: "(\<And>u. u \<in> set us \<Longrightarrow> user_done d u) \<Longrightarrow> add_users cfg rnd us d = d"
proof (induction us)
  case (Cons v us)
  obtain n i where v: "v = (n, i)" by (cases v)
  with Cons.prems [of v] have "add_user cfg (rnd n) n (the i) d = d" by (auto simp: user_done_def add_user_def)
  with Cons v show ?case by (simp add: add_users_def)
qed (simp add: add_users_def)

lemma add_users_fields [simp]:
  "faults (add_users cfg rnd us d) = faults d" "groups (add_users cfg rnd us d) = groups d"
  by (induction us arbitrary: d) (auto simp: add_users_def)

lemma add_users_keeps: "lookup_user d x = Some r \<Longrightarrow> lookup_user (add_users cfg rnd us d) x = Some r"
  by (induction us arbitrary: d) (auto simp: add_users_def intro: add_user_keeps)

lemma bootstrapDB_no_faults:
  assumes "faults d = []" "length (Split (FilepathBase cf) (CHR ''.'')) \<ge> 2" "None \<notin> snd ` set (c_Users cfg)"
  shows "bootstrapDB db_registry vp cfg cf rnd (Some d) =
    (Inr (), Some (add_users cfg rnd (c_Users cfg) (add_groups (config_groups vp) d)))"
  using assms
  by (simp add: bootstrapDB_def PopulateGroupsTable_no_faults Bootstrap_PopulateUsersTable_def populate_users_no_faults)

text \<open>
  Bootstrapping the database fills it once: after it every configured group exists, every
  configured user whose group exists (or who needs none) is in the table, users that were there
  before are unchanged, and bootstrapping again, as every start on SQLite does, changes nothing,
  whatever random secrets the second run draws.
\<close>

lemma bootstrap_idempotent:
  assumes "faults d = []" "length (Split (FilepathBase cf) (CHR ''.'')) \<ge> 2" "None \<notin> snd ` set (c_Users cfg)"
  shows "\<exists>d'. bootstrapDB db_registry vp cfg cf rnd (Some d) = (Inr (), Some d') \<and>
    bootstrapDB db_registry vp cfg cf rnd' (Some d') = (Inr (), Some d') \<and>
    fst ` set (config_groups vp) \<subseteq> gr_Name ` set (groups d') \<and>
    (\<forall>n i. (n, Some i) \<in> set (c_Users cfg) \<longrightarrow>
       \<not> Register_requireGroup (cu_Type i) \<or> cu_Group i \<in> gr_Name ` set (groups d') \<longrightarrow> lookup_user d' n \<noteq> None) \<and>
    (\<forall>x r. lookup_user d x = Some r \<longrightarrow> lookup_user d' x = Some r)"
proof -
  let ?g = "add_groups (config_groups vp) d"
  let ?d = "add_users cfg rnd (c_Users cfg) ?g"
  have g: "has_group ?d n \<longleftrightarrow> has_group d n \<or> n \<in> fst ` set (config_groups vp)" for n
    using add_groups_simps(3) [of "config_groups vp" d n] by (simp add: has_group_def)
  have "add_groups (config_groups vp) ?d = ?d" by (rule add_groups_present) (auto simp: g list_all_iff)
  moreover have fin: "user_done ?d u" if "u \<in> set (c_Users cfg)" for u using that by (simp add: add_users_done)
  then have "add_users cfg rnd' (c_Users cfg) ?d = ?d" by (rule add_users_id)
  ultimately have "bootstrapDB db_registry vp cfg cf rnd' (Some ?d) = (Inr (), Some ?d)"
    using assms by (simp add: bootstrapDB_no_faults)
  moreover have "fst ` set (config_groups vp) \<subseteq> gr_Name ` set (groups ?d)"
    using g by (auto simp: has_group_def simp del: add_users_fields)
  moreover have "lookup_user ?d n \<noteq> None"
    if "(n, Some i) \<in> set (c_Users cfg)" "\<not> Register_requireGroup (cu_Type i) \<or> cu_Group i \<in> gr_Name ` set (groups ?d)" for n i
    using fin [OF that(1)] that(2) by (auto simp: user_done_def has_group_def)
  moreover have "lookup_user ?d x = Some r" if "lookup_user d x = Some r" for x r
    using that by (intro add_users_keeps) (simp add: lookup_user_def)
  ultimately show ?thesis
    using bootstrapDB_no_faults [OF assms] by (intro exI [of _ ?d] conjI allI impI) simp_all
qed

definition demo_viper :: viper where
  "demo_viper = \<lparr>vp_GetStringSlice = (\<lambda>k. if k = ''groups.banks.bank_a'' then [''a1''] else []),
     vp_GetStringMapString = (\<lambda>k. if k = ''groups'' then [''banks''] else if k = ''groups.banks'' then [''bank_a''] else [])\<rparr>"

definition demo_boot_cfg :: Config where
  "demo_boot_cfg = demo_cfg\<lparr>c_Users := [(''testUser'', Some \<lparr>cu_Pass = ''user1'', cu_Type = ''client'', cu_Group = ''bank_a'', cu_Attributes = []\<rparr>)]\<rparr>"

end
