(* ===== verification/Go_Net.thy ===== *)
theory Go_Net
  imports Util_Misc
begin

text \<open>
  The parts of Go's \<^verbatim>\<open>net\<close> and \<^verbatim>\<open>net/url\<close> the program uses: splitting and joining \<^verbatim>\<open>host:port\<close>
  (Go 1.7), and the record of a parsed URL.  Parsing a URL is a parameter of the operations that
  need it.
\<close>

record URL =
  url_Scheme :: string
  url_Opaque :: string
  url_User :: "(string \<times> string) option"
  url_Host :: string
  url_Path :: string

definition last_index :: "char \<Rightarrow> string \<Rightarrow> nat option" where
  "last_index c s = (if c \<in> set s then Some (length s - 1 - length (takeWhile (\<lambda>x. x \<noteq> c) (rev s))) else None)"

definition first_index :: "char \<Rightarrow> string \<Rightarrow> nat option" where
  "first_index c s = (if c \<in> set s then Some (length (takeWhile (\<lambda>x. x \<noteq> c) s)) else None)"

definition addr_error :: "string \<Rightarrow> string \<Rightarrow> go_error" where
  "addr_error msg hostport = ExtError (msg @ '' in address '' @ hostport)"

definition SplitHostPort :: "string \<Rightarrow> (string \<times> string) result" where
  "SplitHostPort hostport = (case last_index (CHR '':'') hostport of
     None \<Rightarrow> Inl (addr_error ''missing port'' hostport)
   | Some i \<Rightarrow>
       let finish = (\<lambda>host j k.
         if CHR ''['' \<in> set (drop j hostport) then Inl (addr_error ''unexpected bracket'' hostport)
         else if CHR '']'' \<in> set (drop k hostport) then Inl (addr_error ''unexpected bracket'' hostport)
         else Inr (host, drop (i + 1) hostport))
       in if hd hostport = CHR ''['' then
            (case first_index (CHR '']'') hostport of
               None \<Rightarrow> Inl (addr_error ''missing bracket'' hostport)
             | Some e \<Rightarrow>
                 if e + 1 = length hostport then Inl (addr_error ''missing port'' hostport)
                 else if e + 1 = i then finish (take (e - 1) (drop 1 hostport)) 1 (e + 1)
                 else if hostport ! (e + 1) = CHR '':'' then Inl (addr_error ''too many colons'' hostport)
                 else Inl (addr_error ''missing port'' hostport))
          else let host = take i hostport in
            if CHR '':'' \<in> set host then Inl (addr_error ''too many colons'' hostport)
            else if CHR ''%'' \<in> set host then Inl (addr_error ''missing brackets'' hostport)
            else finish host 0 0)"

definition JoinHostPort :: "string \<Rightarrow> string \<Rightarrow> string" where
  "JoinHostPort host port =
     (if CHR '':'' \<in> set host \<or> CHR ''%'' \<in> set host then ''['' @ host @ '']:'' @ port
      else host @ '':'' @ port)"

subsection \<open>Lemmas\<close>

lemma last_index_append:
  assumes "c \<notin> set t"
  shows "last_index c (s @ c # t) = Some (length s)"
proof -
  have "takeWhile (\<lambda>x. x \<noteq> c) (rev t @ c # rev s) = rev t"
    using assms by (induction t rule: rev_induct) (auto simp: takeWhile_append)
  then show ?thesis by (simp add: last_index_def)
qed

lemma SplitHostPort_plain:
  assumes "set host \<inter> {CHR '':'', CHR ''%'', CHR ''['', CHR '']''} = {}" "set port \<inter> {CHR '':'', CHR ''['', CHR '']''} = {}"
  shows "SplitHostPort (host @ '':'' @ port) = Inr (host, port)"
proof -
  have "last_index (CHR '':'') (host @ '':'' @ port) = Some (length host)"
    using assms(2) by (auto intro: last_index_append)
  moreover have "hd (host @ '':'' @ port) \<noteq> CHR ''[''" using assms(1) by (cases host) auto
  ultimately show ?thesis using assms by (auto simp: SplitHostPort_def Let_def)
qed

lemma JoinSplitHostPort:
  assumes "set host \<inter> {CHR '':'', CHR ''%'', CHR ''['', CHR '']''} = {}" "set port \<inter> {CHR '':'', CHR ''['', CHR '']''} = {}"
  shows "SplitHostPort (JoinHostPort host port) = Inr (host, port)"
  using SplitHostPort_plain [OF assms] assms(1) by (auto simp: JoinHostPort_def)

end
