(* ===== verification/Ldap_Client.thy ===== *)
theory Ldap_Client
  imports User_Registry Go_Net Server_Config
begin

text \<open>
  The LDAP user registry: \<^verbatim>\<open>cli/server/ldap/client.go\<close>.  The directory server is part of the
  registry's state: what a search of it finds, whether it accepts a bind, and a schedule of network
  failures, one entry for each dial, bind and search.  Everything else is the client, which caches
  its administrator connection.
\<close>

record ldap_entry =
  le_DN :: string
  le_attrs :: "string \<Rightarrow> string"

record Client =
  lcl_Host :: string
  lcl_Port :: int
  lcl_UseSSL :: bool
  lcl_AdminDN :: string
  lcl_AdminPassword :: string
  lcl_Base :: string
  lcl_UserFilter :: string
  lcl_GroupFilter :: string
  lcl_AdminConn :: bool

record ldap_world =
  lw_client :: Client
  lw_search :: "string \<Rightarrow> string \<Rightarrow> ldap_entry list"
  lw_bind :: "string \<Rightarrow> string \<Rightarrow> go_error option"
  lw_faults :: "go_error option list"

definition net_op :: "ldap_world \<Rightarrow> go_error option \<times> ldap_world" where
  "net_op w = (case lw_faults w of [] \<Rightarrow> (None, w) | f # fs \<Rightarrow> (f, w\<lparr>lw_faults := fs\<rparr>))"

subsection \<open>Making a client\<close>

definition cfgVal :: "string \<Rightarrow> string \<Rightarrow> string" where
  "cfgVal val1 val2 = (if val1 \<noteq> [] then val1 else val2)"

definition NewClient :: "(string \<Rightarrow> URL result) \<Rightarrow> ldap_Config option \<Rightarrow> Client result" where
  "NewClient parse cfg = (case cfg of
     None \<Rightarrow> Inl (ErrorString ''LDAP configuration is nil'')
   | Some cfg \<Rightarrow>
       if lc_URL cfg = [] then Inl (ErrorString (''LDAP configuration requires a '' @ squoted ''URL''))
       else (case parse (lc_URL cfg) of
         Inl err \<Rightarrow> Inl err
       | Inr u \<Rightarrow>
           if url_Scheme u \<noteq> ''ldap'' \<and> url_Scheme u \<noteq> ''ldaps''
           then Inl (ErrorString (''invalid LDAP scheme: '' @ url_Scheme u))
           else
             let defaultPort = (if url_Scheme u = ''ldap'' then ''389'' else ''636'') in
             (case (if CHR '':'' \<notin> set (url_Host u) then Inr (url_Host u, defaultPort)
                    else (case SplitHostPort (url_Host u) of
                      Inl err \<Rightarrow> Inl (ErrorString (''invalid LDAP host:port ('' @ url_Host u @ ''): '' @ Error err))
                    | Inr hp \<Rightarrow> Inr hp)) of
                Inl err \<Rightarrow> Inl err
              | Inr (host, port) \<Rightarrow> (case Atoi port of
                  Inl err \<Rightarrow> Inl (ErrorString (''invalid LDAP port ('' @ port @ ''): '' @ Error err))
                | Inr portVal \<Rightarrow>
                    let base = cfgVal (lc_Base cfg) (url_Path u);
                        base = (if base \<noteq> [] \<and> HasPrefix base ''/'' then drop 1 base else base)
                    in Inr \<lparr>lcl_Host = host, lcl_Port = portVal, lcl_UseSSL = (url_Scheme u = ''ldaps''),
                            lcl_AdminDN = (case url_User u of None \<Rightarrow> [] | Some (n, p) \<Rightarrow> n),
                            lcl_AdminPassword = (case url_User u of None \<Rightarrow> [] | Some (n, p) \<Rightarrow> p),
                            lcl_Base = base, lcl_UserFilter = cfgVal (lc_UserFilter cfg) ''(uid=%s)'',
                            lcl_GroupFilter = cfgVal (lc_GroupFilter cfg) ''(memberUid=%s)'', lcl_AdminConn = False\<rparr>))))"

subsection \<open>Connections\<close>

definition Client_newConnection :: "ldap_world \<Rightarrow> unit result \<times> ldap_world" where
  "Client_newConnection w =
     (let lc = lw_client w;
          address = Sprintf ''%s:%d'' [FStr (lcl_Host lc), FInt (lcl_Port lc)];
          how = (if lcl_UseSSL lc then ''TLS'' else ''TCP'')
      in case net_op w of
           (Some err, w) \<Rightarrow>
             (Inl (ErrorString (''Failed to connect to LDAP server over '' @ how @ '' at '' @ address @ '': '' @ Error err)), w)
         | (None, w) \<Rightarrow>
             if lcl_AdminDN lc \<noteq> [] \<and> lcl_AdminPassword lc \<noteq> [] then
               (case net_op w of
                  (Some err, w) \<Rightarrow> (Inl (ErrorString (''LDAP bind failure as '' @ lcl_AdminDN lc @ '': '' @ Error err)), w)
                | (None, w) \<Rightarrow> (case lw_bind w (lcl_AdminDN lc) (lcl_AdminPassword lc) of
                    Some err \<Rightarrow> (Inl (ErrorString (''LDAP bind failure as '' @ lcl_AdminDN lc @ '': '' @ Error err)), w)
                  | None \<Rightarrow> (Inr (), w)))
             else (Inr (), w))"

definition Client_adminConnect :: "ldap_world \<Rightarrow> unit result \<times> ldap_world" where
  "Client_adminConnect w =
     (if \<not> lcl_AdminConn (lw_client w) then
        (case Client_newConnection w of
           (Inl err, w) \<Rightarrow> (Inl err, w)
         | (Inr _, w) \<Rightarrow> (Inr (), w\<lparr>lw_client := (lw_client w)\<lparr>lcl_AdminConn := True\<rparr>\<rparr>))
      else (Inr (), w))"

subsection \<open>Users\<close>

record ldap_User =
  lu_name :: string
  lu_dn :: string
  lu_attrs :: "string \<rightharpoonup> string"

fun ldap_attrs :: "ldap_entry \<Rightarrow> string list \<Rightarrow> (string \<rightharpoonup> string) \<Rightarrow> (string \<rightharpoonup> string)" where
  "ldap_attrs e [] m = m"
| "ldap_attrs e (attrName # ns) m =
     (if attrName = ''dn'' then ldap_attrs e ns (m(''dn'' \<mapsto> le_DN e))
      else ldap_attrs e ns (m(attrName \<mapsto> le_attrs e attrName)))"

text \<open>The search request as \<^verbatim>\<open>fmt\<close> prints it, with the scope of a whole subtree and no limits or controls.\<close>

definition search_text :: "string \<Rightarrow> string \<Rightarrow> string list \<Rightarrow> string" where
  "search_text base filt attrNames =
     ''&{BaseDN:'' @ base @ '' Scope:2 DerefAliases:0 SizeLimit:0 TimeLimit:0 TypesOnly:false Filter:'' @ filt @
     '' Attributes:['' @ Join attrNames '' '' @ ''] Controls:[]}''"

definition Client_GetUser :: "string \<Rightarrow> string list \<Rightarrow> ldap_world \<Rightarrow> ldap_User result \<times> ldap_world" where
  "Client_GetUser username attrNames w = (case Client_adminConnect w of
     (Inl err, w) \<Rightarrow> (Inl err, w)
   | (Inr _, w) \<Rightarrow>
       let filt = Sprintf (lcl_UserFilter (lw_client w)) [FStr username] in
       (case net_op w of
          (Some err, w) \<Rightarrow> (Inl (ErrorString (''LDAP search failure: '' @ Error err @ ''; search request: '' @
            search_text (lcl_Base (lw_client w)) filt attrNames)), w)
        | (None, w) \<Rightarrow> (case lw_search w (lcl_Base (lw_client w)) filt of
            [] \<Rightarrow> (Inl (ErrorString (''User '' @ squoted username @ '' does not exist in LDAP directory'')), w)
          | [e] \<Rightarrow> (Inr \<lparr>lu_name = username, lu_dn = le_DN e, lu_attrs = ldap_attrs e attrNames Map.empty\<rparr>, w)
          | _ \<Rightarrow> (Inl (ErrorString (''Multiple users with name '' @ squoted username @ '' exist in LDAP directory'')), w))))"

definition errNotSupported :: go_error where
  "errNotSupported = ErrorString ''Not supported''"

definition User_GetName :: "ldap_User \<Rightarrow> string" where
  "User_GetName u = lu_dn u"

definition User_Login :: "ldap_User \<Rightarrow> string \<Rightarrow> ldap_world \<Rightarrow> unit result \<times> ldap_world" where
  "User_Login u password w = (case Client_newConnection w of
     (Inl err, w) \<Rightarrow> (Inl err, w)
   | (Inr _, w) \<Rightarrow> (case net_op w of
       (Some err, w) \<Rightarrow>
         (Inl (ErrorString (''LDAP authentication failure for user '' @ squoted (lu_name u) @ '' (DN='' @ lu_dn u @ ''): '' @ Error err)), w)
     | (None, w) \<Rightarrow> (case lw_bind w (lu_dn u) password of
         Some err \<Rightarrow>
           (Inl (ErrorString (''LDAP authentication failure for user '' @ squoted (lu_name u) @ '' (DN='' @ lu_dn u @ ''): '' @ Error err)), w)
       | None \<Rightarrow> (Inr (), w))))"

definition reverse :: "string list \<Rightarrow> string list" where
  "reverse xs = map (\<lambda>i. xs ! (length xs - i - 1)) [0..<length xs]"

definition User_GetAffiliationPath :: "ldap_User \<Rightarrow> string list" where
  "User_GetAffiliationPath u = reverse (Split (lu_dn u) (CHR '',''))"

definition User_GetAttribute :: "ldap_User \<Rightarrow> string \<Rightarrow> string" where
  "User_GetAttribute u name = (case lu_attrs u name of Some v \<Rightarrow> v | None \<Rightarrow> [])"

text \<open>Everything that would change the directory, and groups, are not supported.\<close>

definition ldap_registry :: "(ldap_world, ldap_User) UserRegistry" where
  "ldap_registry =
     \<lparr>reg_GetUser = Client_GetUser, reg_InsertUser = (\<lambda>_ w. (Inl errNotSupported, w)),
      reg_UpdateUser = (\<lambda>_ w. (Inl errNotSupported, w)), reg_DeleteUser = (\<lambda>_ w. (Inl errNotSupported, w)),
      reg_UpdateField = (\<lambda>_ _ _ w. (Inl errNotSupported, w)), reg_GetField = (\<lambda>_ _ w. (Inl errNotSupported, w)),
      reg_GetGroup = (\<lambda>_ w. (Inl errNotSupported, w)), reg_GetRootGroup = (\<lambda>w. (Inl errNotSupported, w)),
      reg_InsertGroup = (\<lambda>_ _ w. (Inl errNotSupported, w)), reg_DeleteGroup = (\<lambda>_ w. (Inl errNotSupported, w)),
      usr_GetName = User_GetName, usr_Login = User_Login,
      usr_GetAffiliationPath = User_GetAffiliationPath, usr_GetAttribute = User_GetAttribute\<rparr>"

subsection \<open>The LDAP client is a user registry\<close>

lemma reverse_rev: "reverse xs = rev xs"
  unfolding reverse_def by (rule nth_equalityI) (simp_all add: rev_nth)

lemma ldap_attrs_get:
  "ldap_attrs e ns m k = (if k \<in> set ns then Some (if k = ''dn'' then le_DN e else le_attrs e k) else m k)"
  by (induction ns arbitrary: m) auto

definition same_dir :: "ldap_world \<Rightarrow> ldap_world \<Rightarrow> bool" where
  "same_dir w w' \<longleftrightarrow> lw_search w' = lw_search w \<and> lw_bind w' = lw_bind w \<and>
     (\<exists>b. lw_client w' = (lw_client w)\<lparr>lcl_AdminConn := b\<rparr>)"

lemma conn_self [simp]: "\<exists>b. (c :: Client) = c\<lparr>lcl_AdminConn := b\<rparr>"
  by (rule exI [of _ "lcl_AdminConn c"]) simp

lemma same_dir_refl [simp]: "same_dir w w"
  by (simp add: same_dir_def)

lemma same_dir_trans: "same_dir a b \<Longrightarrow> same_dir b c \<Longrightarrow> same_dir a c"
  by (auto simp: same_dir_def)

lemma net_op_same: "net_op w = (r, w') \<Longrightarrow> same_dir w w'"
  by (auto simp: net_op_def same_dir_def split: list.splits)

lemma newConnection_same: "Client_newConnection w = (r, w') \<Longrightarrow> same_dir w w'"
  by (auto simp: Client_newConnection_def Let_def dest!: net_op_same intro: same_dir_trans
      split: prod.splits option.splits if_splits)

lemma adminConnect_same: "Client_adminConnect w = (r, w') \<Longrightarrow> same_dir w w'"
  using newConnection_same
  by (fastforce simp: Client_adminConnect_def same_dir_def split: prod.splits sum.splits if_splits)

definition ldap_view :: "ldap_world \<Rightarrow> string \<Rightarrow> abs_user option" where
  "ldap_view w n = (case lw_search w (lcl_Base (lw_client w)) (Sprintf (lcl_UserFilter (lw_client w)) [FStr n]) of
     [e] \<Rightarrow> Some \<lparr>au_attr = (\<lambda>k. if k = ''dn'' then le_DN e else le_attrs e k), au_path = rev (Split (le_DN e) (CHR '',''))\<rparr>
   | _ \<Rightarrow> None)"

lemma ldap_view_same: "same_dir w w' \<Longrightarrow> ldap_view w' = ldap_view w"
  by (auto simp: same_dir_def ldap_view_def fun_eq_iff)

lemma GetUser_same: "Client_GetUser n as w = (r, w') \<Longrightarrow> same_dir w w'"
  by (auto simp: Client_GetUser_def Let_def dest!: adminConnect_same net_op_same intro: same_dir_trans
      split: prod.splits sum.splits option.splits list.splits)

lemma ldap_GetUser_found:
  assumes "Client_GetUser n as w = (Inr u, w')"
  shows "\<exists>e. lw_search w (lcl_Base (lw_client w)) (Sprintf (lcl_UserFilter (lw_client w)) [FStr n]) = [e] \<and>
    u = \<lparr>lu_name = n, lu_dn = le_DN e, lu_attrs = ldap_attrs e as Map.empty\<rparr>"
proof -
  obtain w1 w2 where w1: "Client_adminConnect w = (Inr (), w1)" and w2: "net_op w1 = (None, w2)"
    using assms by (auto simp: Client_GetUser_def Let_def split: prod.splits sum.splits option.splits)
  with assms have "\<exists>e. lw_search w2 (lcl_Base (lw_client w2)) (Sprintf (lcl_UserFilter (lw_client w1)) [FStr n]) = [e] \<and>
      u = \<lparr>lu_name = n, lu_dn = le_DN e, lu_attrs = ldap_attrs e as Map.empty\<rparr>"
    by (auto simp: Client_GetUser_def Let_def split: list.splits)
  with adminConnect_same [OF w1] net_op_same [OF w2] show ?thesis by (auto simp: same_dir_def)
qed

interpretation ldap: user_registry ldap_registry ldap_view
proof (unfold_locales, goal_cases)
  case (1 n as s r s')
  then show ?case by (auto simp: ldap_registry_def dest: GetUser_same ldap_view_same)
next
  case (2 n as s u s')
  then have "Client_GetUser n as s = (Inr u, s')" by (simp add: ldap_registry_def)
  from ldap_GetUser_found [OF this] show ?case
    by (auto simp: ldap_view_def ldap_registry_def User_GetAffiliationPath_def reverse_rev User_GetAttribute_def ldap_attrs_get)
qed

lemma ldap_ops [simp]:
  "reg_GetUser ldap_registry = Client_GetUser" "reg_InsertUser ldap_registry = (\<lambda>_ w. (Inl errNotSupported, w))"
  "reg_GetGroup ldap_registry = (\<lambda>_ w. (Inl errNotSupported, w))"
  "reg_UpdateField ldap_registry = (\<lambda>_ _ _ w. (Inl errNotSupported, w))"
  "usr_Login ldap_registry = User_Login" "usr_GetAttribute ldap_registry = User_GetAttribute"
  by (simp_all add: ldap_registry_def)

text \<open>
  C28. Attribute checks on LDAP: when \<^verbatim>\<open>userHasAttribute\<close> passes (as the revoke endpoint requires
  for \<^verbatim>\<open>hf.Revoker\<close>), the user filter matches exactly one entry of the directory, and that entry has
  a value for the attribute; the directory is unchanged and network failures never make it pass.
\<close>

theorem ldap_attribute_check:
  assumes "userHasAttribute ldap_registry name attr w = (Inr (), w')"
  shows "\<exists>e. lw_search w (lcl_Base (lw_client w)) (Sprintf (lcl_UserFilter (lw_client w)) [FStr name]) = [e] \<and>
    (if attr = ''dn'' then le_DN e else le_attrs e attr) \<noteq> [] \<and> ldap_view w' = ldap_view w"
proof -
  from ldap.userHasAttribute_sound [OF assms] obtain a where "ldap_view w name = Some a" "au_attr a attr \<noteq> []" by blast
  moreover have "ldap_view w' = ldap_view w" by (rule ldap.userHasAttribute_view [OF assms])
  ultimately show ?thesis
    by (auto simp: ldap_view_def split: list.splits if_splits)
qed

definition demo_ldap :: ldap_world where
  "demo_ldap = \<lparr>lw_client = \<lparr>lcl_Host = ''localhost'', lcl_Port = 389, lcl_UseSSL = False, lcl_AdminDN = [], lcl_AdminPassword = [],
       lcl_Base = ''dc=org'', lcl_UserFilter = ''(uid=%s)'', lcl_GroupFilter = ''(memberUid=%s)'', lcl_AdminConn = False\<rparr>,
     lw_search = (\<lambda>base filt. if filt = ''(uid=jim)'' then [\<lparr>le_DN = ''uid=jim,dc=org'', le_attrs = (\<lambda>k. if k = ''mail'' then ''j@x'' else [])\<rparr>] else []),
     lw_bind = (\<lambda>dn pw. if pw = ''jimpw'' \<or> pw = [] then None else Some (ExtError ''Invalid Credentials'')),
     lw_faults = []\<rparr>"

lemma demo_ldap_user:
  "Client_GetUser ''jim'' as demo_ldap =
     (Inr \<lparr>lu_name = ''jim'', lu_dn = ''uid=jim,dc=org'',
        lu_attrs = ldap_attrs \<lparr>le_DN = ''uid=jim,dc=org'', le_attrs = (\<lambda>k. if k = ''mail'' then ''j@x'' else [])\<rparr> as Map.empty\<rparr>,
      demo_ldap\<lparr>lw_client := (lw_client demo_ldap)\<lparr>lcl_AdminConn := True\<rparr>\<rparr>)"
  by (simp add: Client_GetUser_def Client_adminConnect_def Client_newConnection_def net_op_def demo_ldap_def Let_def fmt_extra_def)

theorem ldap_attribute_check_witness:
  "\<exists>w' e. userHasAttribute ldap_registry ''jim'' ''mail'' demo_ldap = (Inr (), w') \<and>
    lw_search demo_ldap ''dc=org'' ''(uid=jim)'' = [e] \<and> le_attrs e ''mail'' \<noteq> []"
proof -
  let ?w = "demo_ldap\<lparr>lw_client := (lw_client demo_ldap)\<lparr>lcl_AdminConn := True\<rparr>\<rparr>"
  have h: "userHasAttribute ldap_registry ''jim'' ''mail'' demo_ldap = (Inr (), ?w)"
    by (simp add: userHasAttribute_def getUserAttrValue_def demo_ldap_user User_GetAttribute_def)
  from ldap_attribute_check [OF h] show ?thesis using h
    by (simp add: demo_ldap_def fmt_extra_def)
qed

text \<open>
  An empty password: on a directory that answers a bind with a name and no password with
  success (an unauthenticated bind), \<^verbatim>\<open>Login\<close> accepts every user it can find, because the client
  passes the empty password on.
\<close>

theorem ldap_empty_password_login:
  assumes "lw_faults w = []" "lcl_AdminDN (lw_client w) = [] \<or> lcl_AdminPassword (lw_client w) = []"
    and "\<And>dn. lw_bind w dn [] = None"
    and "lw_search w (lcl_Base (lw_client w)) (Sprintf (lcl_UserFilter (lw_client w)) [FStr name]) = [e]"
  shows "\<exists>u w'. Client_GetUser name [] w = (Inr u, w') \<and> fst (User_Login u [] w') = Inr ()"
proof -
  have conn: "Client_newConnection w = (Inr (), w)"
    using assms(1,2) by (auto simp: Client_newConnection_def net_op_def Let_def)
  let ?w = "w\<lparr>lw_client := (lw_client w)\<lparr>lcl_AdminConn := True\<rparr>\<rparr>"
  have adm: "Client_adminConnect w = (Inr (), ?w)"
    using conn by (cases "lcl_AdminConn (lw_client w)") (auto simp: Client_adminConnect_def)
  have conn': "Client_newConnection ?w = (Inr (), ?w)"
    using assms(1,2) by (auto simp: Client_newConnection_def net_op_def Let_def)
  show ?thesis using adm conn' assms
    by (simp add: Client_GetUser_def Let_def net_op_def User_Login_def)
qed

theorem ldap_empty_password_login_witness:
  "\<exists>u w'. Client_GetUser ''jim'' [] demo_ldap = (Inr u, w') \<and> fst (User_Login u [] w') = Inr ()"
  by (rule ldap_empty_password_login [where e = "\<lparr>le_DN = ''uid=jim,dc=org'', le_attrs = (\<lambda>k. if k = ''mail'' then ''j@x'' else [])\<rparr>"])
    (simp_all add: demo_ldap_def fmt_extra_def)

text \<open>The filter is the user name put into the pattern, with nothing escaped.\<close>

lemma default_filter: "Sprintf ''(uid=%s)'' [FStr name] = ''(uid='' @ name @ '')''"
  by (simp add: fmt_extra_def)

end
