(* ===== verification/Server_Factory.thy ===== *)
theory Server_Factory
  imports Db_Util Bootstrap_Db Ldap_Client Cert_Accessor
begin

text \<open>
  The choice of the user registry, \<^verbatim>\<open>cli/server/factory.go\<close>: the LDAP client when LDAP is configured, else
  the accessor on the configured database, which is bootstrapped when it is reported as new.

  Bootstrapping runs the accessor on the rows of the opened database; what it does to a database
  that lacks some of the three tables is left to the engine, the parameter \<open>fe_incomplete\<close>.
\<close>

record factory_env =
  fe_parse :: "string \<Rightarrow> URL result"
  fe_dsn :: "string \<Rightarrow> string"
  fe_tls :: tls_env
  fe_viper :: viper
  fe_configFile :: string
  fe_rnd :: "string \<Rightarrow> string"
  fe_incomplete :: "db_handle \<Rightarrow> dbms \<Rightarrow> unit result \<times> dbms"

datatype registry = LdapRegistry Client | DbRegistry db_handle

definition bootstrap_handle :: "factory_env \<Rightarrow> Config \<Rightarrow> db_handle \<Rightarrow> dbms \<Rightarrow> unit result \<times> dbms" where
  "bootstrap_handle E cfg h w =
     (if has_tables w (dh_db h)
      then (case ms_dbs w (dh_db h) of
              None \<Rightarrow> fe_incomplete E h w
            | Some (ts, d) \<Rightarrow>
                (case bootstrapDB db_registry (fe_viper E) cfg (fe_configFile E) (fe_rnd E) (Some d) of
                   (r, None) \<Rightarrow> (r, w)
                 | (r, Some d') \<Rightarrow> (r, w\<lparr>ms_dbs := (ms_dbs w)(dh_db h \<mapsto> (ts, d'))\<rparr>)))
      else fe_incomplete E h w)"

definition open_registry :: "factory_env \<Rightarrow> Config \<Rightarrow> dbms \<Rightarrow> (db_handle \<times> bool) result \<times> dbms" where
  "open_registry E cfg w =
     (if c_DBdriver cfg = ''sqlite3'' then NewUserRegistrySQLLite3 (c_DataSource cfg) w
      else if c_DBdriver cfg = ''postgres''
      then NewUserRegistryPostgres (fe_dsn E) (c_DataSource cfg) (Some (tc_DBClient (c_TLSConf cfg))) w
      else if c_DBdriver cfg = ''mysql'' then NewUserRegistryMySQL (fe_tls E) (fe_dsn E) (c_DataSource cfg) (Some (tc_DBClient (c_TLSConf cfg))) w
      else (Inl (ErrorString (''invalid '' @ squoted ''DBDriver'' @ '' in config file: '' @ c_DBdriver cfg)), w))"

definition InitUserRegistry :: "factory_env \<Rightarrow> Config \<Rightarrow> dbms \<Rightarrow> registry result \<times> dbms" where
  "InitUserRegistry E cfg w = (case c_LDAP cfg of
     Some l \<Rightarrow> (case NewClient (fe_parse E) (Some l) of
       Inl err \<Rightarrow> (Inl err, w)
     | Inr c \<Rightarrow> (Inr (LdapRegistry c), w))
   | None \<Rightarrow> (case open_registry E cfg w of
       (Inl err, w) \<Rightarrow> (Inl err, w)
     | (Inr (db, exists), w) \<Rightarrow>
         if exists then (Inr (DbRegistry db), w)
         else (case bootstrap_handle E cfg db w of
                 (Inl err, w) \<Rightarrow> (Inl err, w)
               | (Inr _, w) \<Rightarrow> (Inr (DbRegistry db), w))))"

text \<open>
  The certificate accessor on the database, which becomes the global one and CFSSL's.  With LDAP the
  global database stays nil, and \<^verbatim>\<open>SignerFromConfigAndDB\<close> does not get here.
\<close>

definition InitCertificateAccessor :: "db_ptr \<Rightarrow> CertDBAccessor" where
  "InitCertificateAccessor db = NewCertDBAccessor db"

subsection \<open>Starting and restarting the server\<close>

definition config_db :: "Config \<Rightarrow> string" where
  "config_db cfg = (if c_DBdriver cfg = ''sqlite3'' then Clean (c_DataSource cfg) else getDBName (c_DataSource cfg))"

definition config_driver :: "Config \<Rightarrow> db_driver" where
  "config_driver cfg = (if c_DBdriver cfg = ''sqlite3'' then Sqlite3 else if c_DBdriver cfg = ''postgres'' then Postgres else MySQL)"

text \<open>The configuration names a supported driver, and the driver reads the data source as the code does.\<close>

definition db_reachable :: "factory_env \<Rightarrow> Config \<Rightarrow> bool" where
  "db_reachable E cfg \<longleftrightarrow> (let ds = c_DataSource cfg; n = getDBName ds in
     c_DBdriver cfg = ''sqlite3'' \<and> ds \<noteq> [] \<and> Clean ds \<noteq> [] \<or>
     c_DBdriver cfg = ''postgres'' \<and> fe_dsn E ds = n \<and>
       fe_dsn E (postgres_connStr ds (Some (tc_DBClient (c_TLSConf cfg))) @ '' dbname='' @ n) = n \<or>
     c_DBdriver cfg = ''mysql'' \<and> fe_dsn E ds = n \<and> n \<noteq> [])"

text \<open>Opening a MySQL database registers the TLS configuration first.\<close>

definition with_tls :: "factory_env \<Rightarrow> Config \<Rightarrow> dbms \<Rightarrow> dbms" where
  "with_tls E cfg w = (if config_driver cfg = MySQL then RegisterTLSConfig (fe_tls E) (Some (tc_DBClient (c_TLSConf cfg))) w else w)"

lemma with_tls_simps [simp]:
  "ms_dbs (with_tls E cfg w) = ms_dbs w" "ms_faults (with_tls E cfg w) = ms_faults w"
  "with_tls (E\<lparr>fe_rnd := rnd\<rparr>) = with_tls E" "with_tls (E\<lparr>fe_configFile := cf\<rparr>) = with_tls E"
  by (simp_all add: with_tls_def fun_eq_iff)

lemma with_tls_os: "os_faults (ms_os w) = [] \<Longrightarrow> ms_os (with_tls E cfg w) = ms_os w"
  by (simp add: with_tls_def RegisterTLSConfig_os)

lemma with_tls_again:
  "os_faults (ms_os w) = [] \<Longrightarrow> ms_os w' = ms_os w \<Longrightarrow> ms_custom w' = ms_custom (with_tls E cfg w) \<Longrightarrow> with_tls E cfg w' = w'"
  by (simp add: with_tls_def RegisterTLSConfig_again split: if_splits)

lemma open_registry_no_faults:
  assumes "db_reachable E cfg" "ms_faults w = []"
  shows "open_registry E cfg w =
    (Inr (\<lparr>dh_driver = config_driver cfg, dh_db = config_db cfg\<rparr>, config_driver cfg \<noteq> Sqlite3 \<and> ms_dbs w (config_db cfg) \<noteq> None),
     (with_tls E cfg w)\<lparr>ms_dbs := if ms_dbs w (config_db cfg) = None
        then (ms_dbs w)(config_db cfg \<mapsto> (cop_tables, new_db (config_driver cfg))) else ms_dbs w\<rparr>)"
proof -
  consider (s) "c_DBdriver cfg = ''sqlite3''" "c_DataSource cfg \<noteq> []" "Clean (c_DataSource cfg) \<noteq> []"
    | (p) "c_DBdriver cfg = ''postgres''" "fe_dsn E (c_DataSource cfg) = getDBName (c_DataSource cfg)"
        "fe_dsn E (postgres_connStr (c_DataSource cfg) (Some (tc_DBClient (c_TLSConf cfg))) @ '' dbname='' @ getDBName (c_DataSource cfg)) =
         getDBName (c_DataSource cfg)"
    | (m) "c_DBdriver cfg = ''mysql''" "fe_dsn E (c_DataSource cfg) = getDBName (c_DataSource cfg)" "getDBName (c_DataSource cfg) \<noteq> []"
    using assms(1) unfolding db_reachable_def Let_def by blast
  then show ?thesis
  proof cases
    case s
    with NewUserRegistrySQLLite3_no_faults [OF assms(2) s(2,3)] show ?thesis
      by (simp add: open_registry_def config_db_def config_driver_def with_tls_def)
  next
    case p
    with NewUserRegistryPostgres_no_faults [OF assms(2) p(3,2)] show ?thesis
      by (simp add: open_registry_def config_db_def config_driver_def with_tls_def)
  next
    case m
    with NewUserRegistryMySQL_no_faults [of w "fe_dsn E" "c_DataSource cfg", OF assms(2) m(2,3), of "fe_tls E"] show ?thesis
      by (simp add: open_registry_def config_db_def config_driver_def with_tls_def)
  qed
qed

lemma bootstrap_handle_rows:
  assumes "ms_dbs w (dh_db h) = Some (ts, d)" "set cop_tables \<subseteq> set ts"
    and "bootstrapDB db_registry (fe_viper E) cfg (fe_configFile E) (fe_rnd E) (Some d) = (Inr (), Some d')"
  shows "bootstrap_handle E cfg h w = (Inr (), w\<lparr>ms_dbs := (ms_dbs w)(dh_db h \<mapsto> (ts, d'))\<rparr>)"
  using assms by (simp add: bootstrap_handle_def has_tables_def)

text \<open>Every configured group is there, and every configured user whose group exists or who needs none.\<close>

definition populated :: "factory_env \<Rightarrow> Config \<Rightarrow> sqldb \<Rightarrow> bool" where
  "populated E cfg d \<longleftrightarrow> fst ` set (config_groups (fe_viper E)) \<subseteq> gr_Name ` set (groups d) \<and>
     (\<forall>n i. (n, Some i) \<in> set (c_Users cfg) \<longrightarrow>
       \<not> Register_requireGroup (cu_Type i) \<or> cu_Group i \<in> gr_Name ` set (groups d) \<longrightarrow> lookup_user d n \<noteq> None)"

lemma populated_user:
  assumes "populated E cfg d" "(n, Some i) \<in> set (c_Users cfg)" "cu_Group i \<in> fst ` set (config_groups (fe_viper E))"
  shows "lookup_user d n \<noteq> None"
  using assms unfolding populated_def by blast

definition startable :: "factory_env \<Rightarrow> Config \<Rightarrow> dbms \<Rightarrow> bool" where
  "startable E cfg w \<longleftrightarrow> c_LDAP cfg = None \<and> db_reachable E cfg \<and> ms_faults w = [] \<and> os_faults (ms_os w) = [] \<and>
     length (Split (FilepathBase (fe_configFile E)) (CHR ''.'')) \<ge> 2 \<and> None \<notin> snd ` set (c_Users cfg) \<and>
     (case ms_dbs w (config_db cfg) of None \<Rightarrow> True | Some (ts, d) \<Rightarrow> set cop_tables \<subseteq> set ts \<and> faults d = [])"

lemma bootstrap_populates:
  assumes "faults d = []" "length (Split (FilepathBase (fe_configFile E)) (CHR ''.'')) \<ge> 2" "None \<notin> snd ` set (c_Users cfg)"
  shows "\<exists>d'. bootstrapDB db_registry (fe_viper E) cfg (fe_configFile E) (fe_rnd E) (Some d) = (Inr (), Some d') \<and>
    (\<forall>rnd'. bootstrapDB db_registry (fe_viper E) cfg (fe_configFile E) rnd' (Some d') = (Inr (), Some d')) \<and>
    faults d' = [] \<and> populated E cfg d' \<and> (\<forall>x r. lookup_user d x = Some r \<longrightarrow> lookup_user d' x = Some r)"
proof -
  let ?d = "add_users cfg (fe_rnd E) (c_Users cfg) (add_groups (config_groups (fe_viper E)) d)"
  have e: "bootstrapDB db_registry (fe_viper E) cfg (fe_configFile E) (fe_rnd E) (Some d) = (Inr (), Some ?d)"
    using assms by (rule bootstrapDB_no_faults)
  have "bootstrapDB db_registry (fe_viper E) cfg (fe_configFile E) rnd' (Some ?d) = (Inr (), Some ?d) \<and> populated E cfg ?d \<and>
      (\<forall>x r. lookup_user d x = Some r \<longrightarrow> lookup_user ?d x = Some r)" for rnd'
    using bootstrap_idempotent [OF assms, of "fe_viper E" "fe_rnd E" rnd'] e unfolding populated_def by simp
  moreover have "faults ?d = []" using assms(1) by simp
  ultimately show ?thesis using e by blast
qed

text \<open>One start: the database is opened, created if missing, and bootstrapped if that is due.\<close>

lemma InitUserRegistry_once:
  assumes "startable E cfg w"
  shows "\<exists>w' ts d'. InitUserRegistry E cfg w = (Inr (DbRegistry \<lparr>dh_driver = config_driver cfg, dh_db = config_db cfg\<rparr>), w') \<and>
    ms_faults w' = [] \<and> ms_dbs w' (config_db cfg) = Some (ts, d') \<and> set cop_tables \<subseteq> set ts \<and> faults d' = [] \<and>
    (\<forall>d x r. db_rows w (config_db cfg) = Some d \<longrightarrow> lookup_user d x = Some r \<longrightarrow> lookup_user d' x = Some r) \<and>
    ms_os w' = ms_os w \<and> ms_custom w' = ms_custom (with_tls E cfg w) \<and>
    (if config_driver cfg \<noteq> Sqlite3 \<and> ms_dbs w (config_db cfg) \<noteq> None then w' = with_tls E cfg w
     else populated E cfg d' \<and> (\<forall>rnd'. bootstrapDB db_registry (fe_viper E) cfg (fe_configFile E) rnd' (Some d') = (Inr (), Some d')))"
proof -
  let ?k = "config_db cfg" and ?h = "\<lparr>dh_driver = config_driver cfg, dh_db = config_db cfg\<rparr>"
  define w1 where "w1 = (with_tls E cfg w)\<lparr>ms_dbs := if ms_dbs w ?k = None
    then (ms_dbs w)(?k \<mapsto> (cop_tables, new_db (config_driver cfg))) else ms_dbs w\<rparr>"
  have w1: "ms_os w1 = ms_os w" "ms_custom w1 = ms_custom (with_tls E cfg w)" "ms_faults w1 = ms_faults w"
    using with_tls_os assms by (simp_all add: w1_def startable_def)
  note A = assms [unfolded startable_def]
  have op: "open_registry E cfg w = (Inr (?h, config_driver cfg \<noteq> Sqlite3 \<and> ms_dbs w ?k \<noteq> None), w1)"
    using open_registry_no_faults [of E cfg w] A unfolding w1_def by blast
  obtain ts d where d: "ms_dbs w1 ?k = Some (ts, d)" "set cop_tables \<subseteq> set ts" "faults d = []"
    using A by (cases "ms_dbs w ?k") (auto simp: w1_def new_db_def)
  have old: "lookup_user d x = Some r" if "db_rows w ?k = Some d0" "lookup_user d0 x = Some r" for d0 x r
    using that d(1) by (auto simp: w1_def db_rows_def split: if_splits)
  show ?thesis
  proof (cases "config_driver cfg \<noteq> Sqlite3 \<and> ms_dbs w ?k \<noteq> None")
    case True
    with op d old A w1 show ?thesis by (intro exI [of _ w1] exI [of _ ts] exI [of _ d]) (auto simp: InitUserRegistry_def w1_def)
  next
    case False
    obtain d' where d': "bootstrapDB db_registry (fe_viper E) cfg (fe_configFile E) (fe_rnd E) (Some d) = (Inr (), Some d')"
      "\<And>rnd'. bootstrapDB db_registry (fe_viper E) cfg (fe_configFile E) rnd' (Some d') = (Inr (), Some d')"
      "faults d' = []" "populated E cfg d'" "\<forall>x r. lookup_user d x = Some r \<longrightarrow> lookup_user d' x = Some r"
      using bootstrap_populates [of d E cfg] A d(3) by blast
    have ev: "InitUserRegistry E cfg w = (Inr (DbRegistry ?h), w1\<lparr>ms_dbs := (ms_dbs w1)(?k \<mapsto> (ts, d'))\<rparr>)"
      using bootstrap_handle_rows [of w1 ?h ts d E cfg d'] op d d'(1) False A by (auto simp: InitUserRegistry_def)
    show ?thesis
      using ev d d' old A False w1
      by (intro exI [of _ "w1\<lparr>ms_dbs := (ms_dbs w1)(?k \<mapsto> (ts, d'))\<rparr>"] exI [of _ ts] exI [of _ d']) auto
  qed
qed

text \<open>
  C19. Starting the server on a database: when nothing fails, the registry is the accessor on the
  configured database, with its three tables; on SQLite, and on a server whenever the database was
  missing, it holds afterwards every configured group and every configured user whose group exists;
  the users stored before are unchanged; and a second start, whatever random secrets it draws,
  changes nothing at all.
\<close>

theorem server_restart:
  assumes "startable E cfg w"
  shows "\<exists>h w' d'. InitUserRegistry E cfg w = (Inr (DbRegistry h), w') \<and> dh_db h = config_db cfg \<and>
    has_tables w' (config_db cfg) \<and> db_rows w' (config_db cfg) = Some d' \<and>
    (ms_dbs w (config_db cfg) = None \<or> c_DBdriver cfg = ''sqlite3'' \<longrightarrow> populated E cfg d') \<and>
    (\<forall>d x r. db_rows w (config_db cfg) = Some d \<longrightarrow> lookup_user d x = Some r \<longrightarrow> lookup_user d' x = Some r) \<and>
    InitUserRegistry (E\<lparr>fe_rnd := rnd'\<rparr>) cfg w' = (Inr (DbRegistry h), w')"
proof -
  let ?k = "config_db cfg" and ?E = "E\<lparr>fe_rnd := rnd'\<rparr>"
  let ?h = "\<lparr>dh_driver = config_driver cfg, dh_db = ?k\<rparr>"
  note A = assms [unfolded startable_def]
  obtain w' ts d' where once: "InitUserRegistry E cfg w = (Inr (DbRegistry ?h), w')" "ms_faults w' = []"
    "ms_dbs w' ?k = Some (ts, d')" "set cop_tables \<subseteq> set ts" "faults d' = []"
    "\<forall>d x r. db_rows w ?k = Some d \<longrightarrow> lookup_user d x = Some r \<longrightarrow> lookup_user d' x = Some r"
    "ms_os w' = ms_os w" "ms_custom w' = ms_custom (with_tls E cfg w)"
    "if config_driver cfg \<noteq> Sqlite3 \<and> ms_dbs w ?k \<noteq> None then w' = with_tls E cfg w
     else populated E cfg d' \<and> (\<forall>rnd'. bootstrapDB db_registry (fe_viper E) cfg (fe_configFile E) rnd' (Some d') = (Inr (), Some d'))"
    using InitUserRegistry_once [OF assms] by blast
  have "with_tls ?E cfg w' = w'" using with_tls_again [of w w' E cfg] once(7,8) A by simp
  then have tls: "(with_tls ?E cfg w')\<lparr>ms_dbs := ms_dbs w'\<rparr> = w'" by simp
  have re: "db_reachable ?E cfg" using A by (simp add: db_reachable_def)
  have op: "open_registry ?E cfg w' = (Inr (?h, config_driver cfg \<noteq> Sqlite3), w')"
    using open_registry_no_faults [OF re once(2)] once(3) tls by simp
  have "InitUserRegistry ?E cfg w' = (Inr (DbRegistry ?h), w')"
  proof (cases "config_driver cfg = Sqlite3")
    case True
    with once(9) have "bootstrapDB db_registry (fe_viper ?E) cfg (fe_configFile ?E) (fe_rnd ?E) (Some d') = (Inr (), Some d')" by simp
    with bootstrap_handle_rows [of w' ?h ts d' ?E cfg d'] once(3,4) have "bootstrap_handle ?E cfg ?h w' = (Inr (), w')"
      by (simp add: map_upd_triv)
    with op A True show ?thesis by (simp add: InitUserRegistry_def)
  qed (use op A in \<open>simp add: InitUserRegistry_def\<close>)
  moreover have "ms_dbs w ?k = None \<or> c_DBdriver cfg = ''sqlite3'' \<longrightarrow> populated E cfg d'"
    using once(9) by (auto simp: config_driver_def split: if_splits)
  ultimately show ?thesis
    using once by (intro exI [of _ ?h] exI [of _ w'] exI [of _ d']) (auto simp: has_tables_def db_rows_def)
qed

definition demo_factory :: factory_env where
  "demo_factory = \<lparr>fe_parse = (\<lambda>_. Inl (ErrorString [])), fe_dsn = (\<lambda>s. s),
     fe_tls = \<lparr>tl_LoadKeyPair = (\<lambda>_ _. Inl (ErrorString [])), tl_IsCertPEM = (\<lambda>_. True)\<rparr>, fe_viper = demo_viper, fe_configFile = ''/etc/cop.json'',
     fe_rnd = (\<lambda>_. ''r''), fe_incomplete = (\<lambda>_ w. (Inr (), w))\<rparr>"

definition demo_dbms :: dbms where
  "demo_dbms = \<lparr>ms_dbs = Map.empty, ms_faults = [], ms_custom = None,
     ms_os = \<lparr>os_Getenv = (\<lambda>_. []), os_files = Map.empty, os_dirs = (\<lambda>_. True), os_faults = []\<rparr>\<rparr>"

definition demo_sqlite_cfg :: Config where
  "demo_sqlite_cfg = demo_boot_cfg\<lparr>c_DBdriver := ''sqlite3'', c_DataSource := ''cop.db'', c_LDAP := None\<rparr>"

theorem server_restart_witness:
  "\<exists>h w' d'. InitUserRegistry demo_factory demo_sqlite_cfg demo_dbms = (Inr (DbRegistry h), w') \<and>
    db_rows w' (config_db demo_sqlite_cfg) = Some d' \<and> lookup_user d' ''testUser'' \<noteq> None \<and>
    InitUserRegistry (demo_factory\<lparr>fe_rnd := \<lambda>_. ''q''\<rparr>) demo_sqlite_cfg w' = (Inr (DbRegistry h), w')"
proof -
  have "Clean ''cop.db'' \<noteq> []" by code_simp
  then have s: "startable demo_factory demo_sqlite_cfg demo_dbms"
    by (simp add: startable_def db_reachable_def Let_def demo_sqlite_cfg_def demo_boot_cfg_def demo_factory_def demo_dbms_def FilepathBase_def)
  have g: "''bank_a'' \<in> fst ` set (config_groups (fe_viper demo_factory))"
    by (simp add: demo_factory_def config_groups_def demo_viper_def)
  obtain i where i: "(''testUser'', Some i) \<in> set (c_Users demo_sqlite_cfg)" "cu_Group i = ''bank_a''"
    by (simp add: demo_sqlite_cfg_def demo_boot_cfg_def)
  from server_restart [OF s, of "\<lambda>_. ''q''"] show ?thesis
  proof (elim exE conjE, goal_cases)
    case (1 h w' d')
    from 1(5) have "populated demo_factory demo_sqlite_cfg d'" by (simp add: demo_dbms_def)
    then have "lookup_user d' ''testUser'' \<noteq> None" using i(1) by (rule populated_user) (simp add: i(2) g)
    then show ?case by (intro exI conjI) (rule 1 | assumption)+
  qed
qed

text \<open>With LDAP configured nothing is opened, and the registry refuses every change.\<close>

lemma InitUserRegistry_ldap:
  "c_LDAP cfg = Some l \<Longrightarrow> snd (InitUserRegistry E cfg w) = w \<and> (\<forall>h. fst (InitUserRegistry E cfg w) \<noteq> Inr (DbRegistry h))"
  by (auto simp: InitUserRegistry_def split: sum.splits)

end
