(* ===== verification/Server_Main.thy ===== *)
theory Server_Main
  imports Server_Routes Server_Factory Os_World
begin

text \<open>
  Starting the server: \<^verbatim>\<open>CreateHome\<close>, \<^verbatim>\<open>SignerFromConfigAndDB\<close>, \<^verbatim>\<open>serverMain\<close>, \<^verbatim>\<open>startMain\<close>, \<^verbatim>\<open>Start\<close> and the
  static file box of \<^verbatim>\<open>cli/server/server.go\<close>, and \<^verbatim>\<open>cop server init\<close> (\<^verbatim>\<open>cli/server/init.go\<close>).

  A start ends with the address and the kind of listener, and with the package-level variables set;
  accepting connections is Go's HTTP server, whose dispatch is in \<open>Server_Routes\<close>.  CFSSL's signing
  policy has a type of its own, \<open>'p\<close>; making a signer from it is a parameter.
\<close>

subsection \<open>The home directory\<close>

definition CreateHome :: "os_world \<Rightarrow> string result \<times> os_world" where
  "CreateHome w =
     (let home = os_Getenv w ''COP_HOME'';
          home = (if home = [] then
                    (let home = os_Getenv w ''HOME'' in if home \<noteq> [] then home @ ''/.cop'' else home)
                  else home);
          home = (if home = [] then ''/var/hyperledger/fabric/dev/.fabric-cop'' else home)
      in (case os_Stat_path home w of
            (Inl err, w) \<Rightarrow>
              if err = os_NotExist then
                (case os_MkdirAll home w of
                   (Inl err, w) \<Rightarrow> (Inl err, w)
                 | (Inr _, w) \<Rightarrow> (Inr home, w))
              else (Inr home, w)
          | (Inr _, w) \<Rightarrow> (Inr home, w)))"

subsection \<open>The static box\<close>

definition box_redirects :: "(string \<times> string) list" where
  "box_redirects = [(''/scan'', ''/index.html''), (''/bundle'', ''/index.html'')]"

definition httpBox_Open :: "(string \<Rightarrow> 'f result) \<Rightarrow> string \<Rightarrow> 'f result" where
  "httpBox_Open box_Open name =
     (if HasPrefix name ''/api/v1/cfssl/'' then Inl os_NotExist
      else (case map_of box_redirects name of
              Some location \<Rightarrow> box_Open location
            | None \<Rightarrow> box_Open name))"

subsection \<open>The signer\<close>

record 'p signing_env =
  sn_CFG :: "'p option"
  sn_DefaultConfig :: 'p
  sn_Remote :: string
  sn_OverrideRemotes :: "string \<Rightarrow> 'p \<Rightarrow> 'p result"
  sn_NewSigner :: "'p \<Rightarrow> unit result"

text \<open>The signer, with its certificate accessor when there is a database.\<close>

definition SignerFromConfigAndDB :: "'p signing_env \<Rightarrow> db_ptr \<Rightarrow> CertDBAccessor option result" where
  "SignerFromConfigAndDB S db =
     (let policy = (case sn_CFG S of Some p \<Rightarrow> p | None \<Rightarrow> sn_DefaultConfig S)
      in (case (if sn_Remote S \<noteq> [] then sn_OverrideRemotes S (sn_Remote S) policy else Inr policy) of
            Inl err \<Rightarrow> Inl err
          | Inr policy \<Rightarrow> (case sn_NewSigner S policy of
              Inl err \<Rightarrow> Inl err
            | Inr _ \<Rightarrow> Inr (if db \<noteq> None then Some (InitCertificateAccessor db) else None))))"

subsection \<open>serverMain\<close>

datatype listener =
    ListenMutualTLS string string string string
  | ListenTLS string string string
  | Listen string

record 'p start_env =
  sm_factory :: factory_env
  sm_cwd :: "string result"
  sm_LoadPlatforms :: "unit result"
  sm_signing :: "'p signing_env"
  sm_ocspSigner :: "unit result"
  sm_LoadPEMCertPool :: "string \<Rightarrow> unit result"

record globals =
  gl_CFG :: Config
  gl_userRegistry :: registry
  gl_enrollSigner :: "CertDBAccessor option option"
  gl_certDBAccessor :: "CertDBAccessor option"
  gl_ocspSigner :: bool

definition serverMain ::
  "'p start_env \<Rightarrow> string list \<Rightarrow> cli_Config \<Rightarrow> Config \<Rightarrow> registry \<Rightarrow> (listener \<times> globals) result" where
  "serverMain E args conf cfg reg =
     (if args \<noteq> [] then Inl (ErrorString ''argument is provided but not defined; please refer to the usage by flag -h'')
      else (case sm_LoadPlatforms E of
        Inl err \<Rightarrow> Inl err
      | Inr _ \<Rightarrow>
          (let db = (case reg of DbRegistry _ \<Rightarrow> Some 0 | LdapRegistry _ \<Rightarrow> None);
               enrollSigner = (case SignerFromConfigAndDB (sm_signing E) db of Inl _ \<Rightarrow> None | Inr a \<Rightarrow> Some a);
               gl = \<lparr>gl_CFG = cfg, gl_userRegistry = reg, gl_enrollSigner = enrollSigner,
                     gl_certDBAccessor = (case enrollSigner of None \<Rightarrow> None | Some a \<Rightarrow> a),
                     gl_ocspSigner = (case sm_ocspSigner E of Inl _ \<Rightarrow> False | Inr _ \<Rightarrow> True)\<rparr>;
               addr = JoinHostPort (cli_Address conf) (Itoa (cli_Port conf))
           in if \<not> c_TLSDisable cfg then
                (if cli_MutualTLSCAFile conf \<noteq> [] then
                   (case sm_LoadPEMCertPool E (cli_MutualTLSCAFile conf) of
                      Inl err \<Rightarrow> Inl (ErrorString (''failed to load mutual TLS CA file: '' @ Error err))
                    | Inr _ \<Rightarrow> Inr (ListenMutualTLS addr (cli_MutualTLSCAFile conf) (cli_TLSCertFile conf) (cli_TLSKeyFile conf), gl))
                 else Inr (ListenTLS addr (cli_TLSCertFile conf) (cli_TLSKeyFile conf), gl))
              else Inr (Listen addr, gl))))"

text \<open>The file read inside \<open>configInit\<close>.\<close>

definition read_config :: "os_world \<Rightarrow> string \<Rightarrow> string result" where
  "read_config w f = (case fst (ioutil_ReadFile f w) of Inl err \<Rightarrow> Inl err | Inr b \<Rightarrow> Inr (string_of b))"

definition startMain ::
  "'p start_env \<Rightarrow> string list \<Rightarrow> cli_Config \<Rightarrow> os_world \<Rightarrow> dbms \<Rightarrow> (listener \<times> globals) result \<times> os_world \<times> dbms" where
  "startMain E args c w ms = (case CreateHome w of
     (Inl err, w) \<Rightarrow> (Inl err, w, ms)
   | (Inr homeDir, w) \<Rightarrow> (case configInit (sm_cwd E) (os_Getenv w) (read_config w) c of
       Inl err \<Rightarrow> (Inl err, w, ms)
     | Inr (c, cfg, configFile, configDir) \<Rightarrow>
         (case InitUserRegistry ((sm_factory E)\<lparr>fe_configFile := configFile\<rparr>) cfg
                  (ms\<lparr>ms_os := snd (ioutil_ReadFile configFile w)\<rparr>) of
            (Inl err, ms) \<Rightarrow> (Inl err, ms_os ms, ms)
          | (Inr reg, ms) \<Rightarrow> (serverMain E args c cfg reg, ms_os ms, ms))))"

text \<open>The command line \<^verbatim>\<open>Start\<close> runs, for tests.\<close>

definition Start_args :: "string \<Rightarrow> string \<Rightarrow> string list" where
  "Start_args dir cfg =
     [''server'', ''start'', ''-ca'', FilepathJoin [dir, ''ec.pem''], ''-ca-key'', FilepathJoin [dir, ''ec-key.pem''],
      ''-config'', FilepathJoin [dir, cfg]]"

subsection \<open>cop server init\<close>

definition PopFirstArgument :: "string list \<Rightarrow> (string \<times> string list) result" where
  "PopFirstArgument args = (case args of
     [] \<Rightarrow> Inl (ErrorString ''not enough arguments are supplied --- please refer to the usage'')
   | a # as \<Rightarrow> Inr (a, as))"

definition ReadStdin :: "bytes result \<Rightarrow> string \<Rightarrow> os_world \<Rightarrow> bytes result \<times> os_world" where
  "ReadStdin stdin filename w = (if filename = ''-'' then (stdin, w) else ioutil_ReadFile filename w)"

text \<open>\<^verbatim>\<open>initca.New\<close>, which makes the key and the certificate, is CFSSL's.\<close>

record init_env =
  ie_stdin :: "bytes result"
  ie_GetDefault :: "unit result"
  ie_New :: "CertificateRequest \<Rightarrow> (bytes \<times> bytes) result"

text \<open>\<^verbatim>\<open>log.Fatal\<close> ends the process.\<close>

definition initMain :: "init_env \<Rightarrow> string list \<Rightarrow> os_world \<Rightarrow> unit result \<times> os_world" where
  "initMain E args w = (case PopFirstArgument args of
     Inl err \<Rightarrow> (Inl (ErrorString (Error err)), w)
   | Inr (csrFile, _) \<Rightarrow> (case ReadStdin (ie_stdin E) csrFile w of
       (Inl err, w) \<Rightarrow> (Inl (ErrorString (Error err)), w)
     | (Inr csrFileBytes, w) \<Rightarrow> (case decode (CertificateRequest_fields
             \<lparr>cq_CN = [], cq_Names = None, cq_Hosts = None, cq_KeyRequest = Some NewBasicKeyRequest, cq_CA = None, cq_SerialNumber = []\<rparr>)
             (string_of csrFileBytes) of
         Inl err \<Rightarrow> (Inl (ErrorString (Error err)), w)
       | Inr req \<Rightarrow> (case ie_GetDefault E of
           Inl err \<Rightarrow> (Inl (ErrorString (Error err)), w)
         | Inr _ \<Rightarrow> (case ie_New E req of
             Inl err \<Rightarrow> (Inl (ErrorString (Error err)), w)
           | Inr (cert, key) \<Rightarrow> (case CreateHome w of
               (Inl err, w) \<Rightarrow> (Inl (ErrorString (Error err)), w)
             | (Inr COPHome, w) \<Rightarrow>
                 (case ioutil_WriteFile (COPHome @ ''/server-cert.pem'') cert 493 w of
                    (Inl _, w) \<Rightarrow> (Inl (GoPanic ''Error writing server-cert.pem to $COPHome directory''), w)
                  | (Inr _, w) \<Rightarrow>
                      (case ioutil_WriteFile (COPHome @ ''/server-key.pem'') key 493 w of
                         (Inl _, w) \<Rightarrow> (Inl (GoPanic ''Error writing server-key.pem to $COPHome directory''), w)
                       | (Inr _, w) \<Rightarrow> (Inr (), w)))))))))"

subsection \<open>The server a start leaves running\<close>

definition db_server ::
  "x509_env \<Rightarrow> 'k bccsp result \<Rightarrow> Mgr result \<Rightarrow>
   (string \<Rightarrow> (HttpRequest \<Rightarrow> (sqldb option, 'k) tcert_state \<Rightarrow> HttpResponse option \<times> (sqldb option, 'k) tcert_state) result) \<Rightarrow>
   globals \<Rightarrow> (sqldb option, DBUser, 'k) server" where
  "db_server X csp mgr cfssl gl =
     \<lparr>sv_CFG = gl_CFG gl, sv_userRegistry = db_registry,
      sv_certDBAccessor = map_option (\<lambda>_. db_cert_ops) (gl_certDBAccessor gl),
      sv_enrollSigner = map_option (map_option (\<lambda>_. cert_InsertCertificate X)) (gl_enrollSigner gl),
      sv_ocspSigner = gl_ocspSigner gl, sv_bccsp = csp, sv_tcertMgr = mgr, sv_cfssl = cfssl\<rparr>"

definition ldap_server ::
  "'k bccsp result \<Rightarrow> Mgr result \<Rightarrow>
   (string \<Rightarrow> (HttpRequest \<Rightarrow> (ldap_world, 'k) tcert_state \<Rightarrow> HttpResponse option \<times> (ldap_world, 'k) tcert_state) result) \<Rightarrow>
   globals \<Rightarrow> (ldap_world, ldap_User, 'k) server" where
  "ldap_server csp mgr cfssl gl =
     \<lparr>sv_CFG = gl_CFG gl, sv_userRegistry = ldap_registry, sv_certDBAccessor = None,
      sv_enrollSigner = map_option (\<lambda>_. None) (gl_enrollSigner gl),
      sv_ocspSigner = gl_ocspSigner gl, sv_bccsp = csp, sv_tcertMgr = mgr, sv_cfssl = cfssl\<rparr>"

subsection \<open>A first start\<close>

lemma CreateHome_files:
  "os_faults w = [] \<Longrightarrow> CreateHome w = (r, w1) \<Longrightarrow> \<exists>ds. w1 = w\<lparr>os_dirs := ds\<rparr>"
  by (auto simp: CreateHome_def Let_def os_Stat_path_def os_MkdirAll_def os_call_no_faults split: if_splits)
    (metis os_world.surjective os_world.update_convs(3))+

lemma Clean_abs: "IsAbs p \<Longrightarrow> Clean p \<noteq> []"
  by (auto simp: Clean_def Let_def)

lemma serverMain_result:
  assumes "sm_LoadPlatforms E = Inr ()" "\<And>f. sm_LoadPEMCertPool E f = Inr ()"
  shows "\<exists>l gl. serverMain E [] conf cfg reg = Inr (l, gl) \<and> gl_CFG gl = cfg \<and> gl_userRegistry gl = reg \<and>
    ((\<exists>addr. l = Listen addr) \<longleftrightarrow> c_TLSDisable cfg)"
  using assms by (auto simp: serverMain_def Let_def)

lemma startMain_steps:
  assumes "os_faults w = []" "CreateHome w = (Inr home, w1)" "configInit (sm_cwd E) (os_Getenv w) (read_config w) c = Inr (c', cfg, cf, cd)"
    and "InitUserRegistry ((sm_factory E)\<lparr>fe_configFile := cf\<rparr>) cfg (ms\<lparr>ms_os := w1\<rparr>) = (Inr reg, ms')"
  shows "startMain E args c w ms = (serverMain E args c' cfg reg, ms_os ms', ms')"
proof -
  obtain ds where "w1 = w\<lparr>os_dirs := ds\<rparr>" using CreateHome_files assms(1,2) by blast
  then have "read_config w1 = read_config w" "os_Getenv w1 = os_Getenv w" "snd (ioutil_ReadFile cf w1) = w1"
    using assms(1) by (auto simp: read_config_def fun_eq_iff ioutil_ReadFile_def os_call_def)
  with assms show ?thesis by (simp add: startMain_def)
qed

text \<open>
  C18. The server starts: with a readable configuration file that has a dot in its name, parses, names
  neither LDAP nor a database and has no null user, on a machine without any database, and when nothing fails,
  \<^verbatim>\<open>cop server start\<close> creates the database \<^verbatim>\<open>cop.db\<close> in the directory of the file, fills it with every configured group and every
  configured user whose group exists, and listens, with TLS unless the file disables it.
\<close>

theorem first_start:
  assumes "os_faults w = []" "CreateHome w = (Inr home, w1)" "sm_cwd E = Inr wd" "IsAbs wd" "FilepathAbs (Inr wd) (cli_ConfigFile c) = Inr cf"
    and "os_files w cf = Some (body, mode)" "decode (Config_fields newConfig) (string_of body) = Inr c0"
    and "c_LDAP c0 = None" "c_DBdriver c0 = []" "None \<notin> snd ` set (c_Users c0)"
    and "length (Split (FilepathBase cf) (CHR ''.'')) \<ge> 2"
    and "ms_dbs ms = Map.empty" "ms_faults ms = []"
    and "sm_LoadPlatforms E = Inr ()" "\<And>f. sm_LoadPEMCertPool E f = Inr ()"
  shows "\<exists>l gl w' ms' h d. startMain E [] c w ms = (Inr (l, gl), w', ms') \<and>
    ((\<exists>addr. l = Listen addr) \<longleftrightarrow> c_TLSDisable (gl_CFG gl)) \<and> c_Users (gl_CFG gl) = c_Users c0 \<and>
    c_Authentication (gl_CFG gl) = c_Authentication c0 \<and>
    gl_userRegistry gl = DbRegistry h \<and> dh_db h = FilepathJoin [FilepathDir cf, ''cop.db''] \<and>
    db_rows ms' (dh_db h) = Some d \<and> populated (sm_factory E) (gl_CFG gl) d"
proof -
  have dir: "IsAbs (FilepathDir cf)" by (rule IsAbs_FilepathDir [OF FilepathAbs_IsAbs [OF assms(4,5)]])
  have rd: "read_config w cf = Inr (string_of body)"
    using assms(1,6) by (simp add: read_config_def ioutil_ReadFile_def os_call_no_faults)
  obtain c' cfg where ci: "configInit (Inr wd) (os_Getenv w) (read_config w) c = Inr (c', cfg, cf, FilepathDir cf)"
    and cfg: "c_Users cfg = c_Users c0" "c_Authentication cfg = c_Authentication c0" "c_LDAP cfg = None"
      "c_DBdriver cfg = ''sqlite3''" "c_DataSource cfg = FilepathJoin [FilepathDir cf, ''cop.db'']"
    using configInit_result [where readFile = "read_config w", OF assms(4,5) rd assms(7), of "os_Getenv w"] assms(8,9)
    by (auto simp: config_initialised_def)
  let ?F = "(sm_factory E)\<lparr>fe_configFile := cf\<rparr>"
  have ds: "IsAbs (c_DataSource cfg)" "config_db cfg = FilepathJoin [FilepathDir cf, ''cop.db'']"
    using cfg(4,5) IsAbs_Join [OF dir] FilepathJoin_Clean [OF dir] by (simp_all add: config_db_def)
  then have "c_DataSource cfg \<noteq> []" by (auto simp: IsAbs_def HasPrefix_def)
  then have "db_reachable ?F cfg" using Clean_abs [OF ds(1)] cfg(4) by (simp add: db_reachable_def Let_def)
  moreover obtain ds where "w1 = w\<lparr>os_dirs := ds\<rparr>" using CreateHome_files assms(1,2) by blast
  ultimately have "startable ?F cfg (ms\<lparr>ms_os := w1\<rparr>)" using cfg assms by (simp add: startable_def)
  from InitUserRegistry_once [OF this] obtain ms' ts d where
    reg: "InitUserRegistry ?F cfg (ms\<lparr>ms_os := w1\<rparr>) = (Inr (DbRegistry \<lparr>dh_driver = config_driver cfg, dh_db = config_db cfg\<rparr>), ms')"
    "ms_dbs ms' (config_db cfg) = Some (ts, d)" "populated ?F cfg d"
    using cfg(4) by (auto simp: config_driver_def)
  from startMain_steps [OF assms(1,2) ci [folded assms(3)] reg(1), of "[]"] have
    "startMain E [] c w ms = (serverMain E [] c' cfg (DbRegistry \<lparr>dh_driver = config_driver cfg, dh_db = config_db cfg\<rparr>), ms_os ms', ms')" .
  moreover have "populated (sm_factory E) cfg d" using reg(3) by (simp add: populated_def)
  moreover have "db_rows ms' (config_db cfg) = Some d" using reg(2) by (simp add: db_rows_def)
  ultimately show ?thesis
    using serverMain_result [OF assms(14,15), of c' cfg "DbRegistry \<lparr>dh_driver = config_driver cfg, dh_db = config_db cfg\<rparr>"] cfg ds(2)
    by fastforce
qed

definition demo_start :: "unit start_env" where
  "demo_start = \<lparr>sm_factory = demo_factory, sm_cwd = Inr ''/etc'', sm_LoadPlatforms = Inr (),
     sm_signing = \<lparr>sn_CFG = None, sn_DefaultConfig = (), sn_Remote = [], sn_OverrideRemotes = (\<lambda>_ p. Inr p), sn_NewSigner = (\<lambda>_. Inr ())\<rparr>,
     sm_ocspSigner = Inl (ErrorString ''no responder''), sm_LoadPEMCertPool = (\<lambda>_. Inr ())\<rparr>"

definition demo_os0 :: os_world where
  "demo_os0 = \<lparr>os_Getenv = (\<lambda>_. []), os_files = [''/etc/cop.json'' \<mapsto> (bytes_of ''{}'', 420)], os_dirs = (\<lambda>_. False), os_faults = []\<rparr>"

theorem first_start_witness:
  "\<exists>l gl w' ms' h d. startMain demo_start [] demo_cli demo_os0 demo_dbms = (Inr (l, gl), w', ms') \<and>
    gl_userRegistry gl = DbRegistry h \<and> db_rows ms' (dh_db h) = Some d \<and> populated demo_factory (gl_CFG gl) d"
proof -
  have p: "decode (Config_fields newConfig) ''{}'' = Inr newConfig"
    using json_parse_print [of "JObj []"] by (simp add: decode_def root_fields_def Config_fields_def newConfig_def)
  have f: "FilepathAbs (Inr ''/etc'') (cli_ConfigFile demo_cli) = Inr ''/etc/cop.json''"
    by (simp add: demo_cli_def FilepathAbs_def IsAbs_def HasPrefix_def FilepathJoin_def Clean_def Let_def)
  have o: "os_files demo_os0 ''/etc/cop.json'' = Some (bytes_of ''{}'', 420)" by (simp add: demo_os0_def)
  have p': "decode (Config_fields newConfig) (string_of (bytes_of ''{}'')) = Inr newConfig" using p by simp
  let ?home = "''/var/hyperledger/fabric/dev/.fabric-cop''"
  have h: "CreateHome demo_os0 = (Inr ?home, demo_os0\<lparr>os_dirs := \<lambda>q. on_way q ?home\<rparr>)"
    by (simp add: CreateHome_def demo_os0_def os_Stat_path_def os_MkdirAll_def os_call_def Let_def)
  from first_start [of demo_os0 ?home _ demo_start "''/etc''" demo_cli "''/etc/cop.json''" _ _ newConfig demo_dbms, OF _ h _ _ f o p']
  show ?thesis by (auto simp: demo_os0_def demo_start_def demo_dbms_def newConfig_def IsAbs_def HasPrefix_def FilepathBase_def)
qed

subsection \<open>Revocation with LDAP\<close>

lemma serverMain_ldap:
  assumes "serverMain E args conf cfg (LdapRegistry cl) = Inr (l, gl)"
  shows "gl_certDBAccessor gl = None \<and> gl_CFG gl = cfg"
  using assms by (auto simp: serverMain_def SignerFromConfigAndDB_def Let_def split: sum.splits if_splits)

text \<open>
  C40. With LDAP as the registry no certificate accessor is ever made, and a request of an authorized
  revoker to revoke a certificate by its serial number and authority key, on a server that
  started, dereferences a nil pointer: the connection is dropped without an answer.
\<close>

theorem ldap_revoke_aborts:
  assumes "serverMain E args conf cfg (LdapRegistry cl) = Inr (l, gl)" "c_Authentication cfg"
    and "hr_Method r = ''POST''" "VerifyToken (ae_sig (re_auth W)) (hr_Authorization r) (bytes_of (hr_Body r)) = Inr cert"
    and "VerifyCertificate (re_auth W) cert = (False, True)"
    and "userHasAttribute ldap_registry (x_CommonName cert) ''hf.Revoker'' (ts_reg st) = (Inr (), lw)"
    and "decode RevocationRequest_fields (hr_Body r) = Inr req" "rv_Serial req \<noteq> []" "rv_AKI req \<noteq> []"
  shows "gl_certDBAccessor gl = None \<and>
    serve W (ldap_server csp mgr cfssl gl) (wrappedPath ''revoke'') r st = (Aborted, st\<lparr>ts_reg := lw\<rparr>)"
proof
  let ?sv = "ldap_server csp mgr cfssl gl"
  let ?h = "\<lambda>r. on_reg (HTTPHandler_ServeHTTP [''POST''] (revokeHandler_Handle (ae_sig (re_auth W)) ldap_registry None) r)"
  show "gl_certDBAccessor gl = None" using serverMain_ldap [OF assms(1)] by blast
  have auth: "c_Authentication (sv_CFG ?sv)" using serverMain_ldap [OF assms(1)] assms(2) by (simp add: ldap_server_def)
  have e: "(''revoke'', Inr ?h) \<in> set (endpoints W ?sv)"
    by (simp add: endpoints_def handler_on_reg_def NewRevokeHandler_def ldap_server_def)
  have "hr_Authorization r \<noteq> []" using assms(4) by (auto simp: VerifyToken_def DecodeToken_def)
  then have "revokeHandler_Handle (ae_sig (re_auth W)) ldap_registry None ((HTTPRequestToString r)\<lparr>hr_Eid := x_CommonName cert\<rparr>) (ts_reg st) =
      (Inl nil_deref, lw)"
    using assms(4,6-9) by (simp add: revokeHandler_Handle_def HTTPRequestToString_def ReadAll_def revoke_request_def Let_def)
  then have "?h ((HTTPRequestToString r)\<lparr>hr_Eid := x_CommonName cert\<rparr>) st = (None, st\<lparr>ts_reg := lw\<rparr>)"
    using assms(3) by (simp add: on_reg_def HTTPHandler_ServeHTTP_def nil_deref_def) (simp add: HTTPRequestToString_def)
  then show "serve W ?sv (wrappedPath ''revoke'') r st = (Aborted, st\<lparr>ts_reg := lw\<rparr>)"
    using serve_token_endpoint [OF e _ _ _ auth assms(4,5), of st] by simp
qed

definition demo_revoker :: ldap_world where
  "demo_revoker = demo_ldap\<lparr>lw_search := (\<lambda>base filt. if filt = ''(uid=alice)''
     then [\<lparr>le_DN = ''uid=alice,dc=org'', le_attrs = (\<lambda>k. if k = ''hf.Revoker'' then ''true'' else [])\<rparr>] else [])\<rparr>"

definition demo_globals :: globals where
  "demo_globals = \<lparr>gl_CFG = newConfig, gl_userRegistry = LdapRegistry (lw_client demo_ldap), gl_enrollSigner = Some None,
     gl_certDBAccessor = None, gl_ocspSigner = False\<rparr>"

definition demo_rvserial :: RevocationRequest where
  "demo_rvserial = \<lparr>rv_Name = [], rv_Serial = ''7'', rv_AKI = ''ab'', rv_Reason = 1\<rparr>"

definition demo_rv2 :: HttpRequest where
  "demo_rv2 = (let body = json_print (RevocationRequest_json demo_rvserial) in
     demo_req\<lparr>hr_Body := body, hr_Authorization := demo_token ''alice'' body\<rparr>)"

definition demo_ldap_state :: "(ldap_world, string) tcert_state" where
  "demo_ldap_state = \<lparr>ts_reg = demo_revoker, ts_tree = NewKeyTree demo_deriv ''root'', ts_rand = 0\<rparr>"

theorem ldap_revoke_aborts_witness:
  "\<exists>st'. serve demo_renv (ldap_server (Inr \<lparr>csp_KeyGen = Inr ''root'', csp_KeyDeriv = demo_deriv\<rparr>) (Inr demo_mgr) (\<lambda>_. Inr ok_handler) demo_globals)
      (wrappedPath ''revoke'') demo_rv2 demo_ldap_state = (Aborted, st')"
proof -
  let ?body = "json_print (RevocationRequest_json demo_rvserial)"
  have s: "serverMain demo_start [] demo_cli newConfig (LdapRegistry (lw_client demo_ldap)) =
      Inr (ListenTLS (JoinHostPort [] (Itoa 8888)) [] [], demo_globals)"
    by (simp add: serverMain_def demo_start_def SignerFromConfigAndDB_def newConfig_def demo_cli_def demo_globals_def Let_def)
  have r: "hr_Body demo_rv2 = ?body" "hr_Method demo_rv2 = ''POST''" by (simp_all add: demo_rv2_def Let_def demo_req_def)
  have v: "VerifyToken (ae_sig (re_auth demo_renv)) (hr_Authorization demo_rv2) (bytes_of (hr_Body demo_rv2)) = Inr (demo_x ''alice'')"
    using demo_token_verify [of "''alice''" ?body] by (simp add: r) (simp add: demo_rv2_def demo_renv_def demo_auth_def Let_def)
  have c: "VerifyCertificate (re_auth demo_renv) (demo_x ''alice'') = (False, True)"
    by (simp add: VerifyCertificate_def demo_renv_def demo_auth_def demo_x_def)
  have q: "decode RevocationRequest_fields (hr_Body demo_rv2) = Inr demo_rvserial"
    unfolding r by (rule RevocationRequest_roundtrip) (simp add: demo_rvserial_def in_int_def)
  obtain lw where u: "userHasAttribute ldap_registry (x_CommonName (demo_x ''alice'')) ''hf.Revoker'' (ts_reg demo_ldap_state) = (Inr (), lw)"
    by (simp add: userHasAttribute_def getUserAttrValue_def Client_GetUser_def Client_adminConnect_def Client_newConnection_def
        net_op_def demo_ldap_def demo_revoker_def demo_ldap_state_def demo_x_def Let_def fmt_extra_def User_GetAttribute_def)
  from ldap_revoke_aborts [OF s _ r(2) v c u q] show ?thesis by (auto simp: newConfig_def demo_rvserial_def)
qed

end
