(* ===== verification/Server_System.thy ===== *)
theory Server_System
  imports Server_Main
begin

text \<open>
  The running server as a transition system: one step serves one request, with whatever clock,
  random values, signature and revocation answers it meets.  The database may fail at any statement.

  What every step keeps is proved once, for any relation between the databases before and after:
  the locale \<open>store_rel\<close> asks for it at the level of the SQL statements the server runs, the locale
  \<open>request_rel\<close> at the level of the operations its handlers call, and the first gives the second.
\<close>

subsection \<open>The transition system\<close>

text \<open>
  A server whose registry, certificate operations and signer are the given ones.  CFSSL's own endpoints
  reach the store only through the accessor they are given, by inserting certificates.
\<close>

definition on_backend ::
  "('s, 'u) UserRegistry \<Rightarrow> 's cert_ops \<Rightarrow> (CertRecord \<Rightarrow> 's \<Rightarrow> unit result \<times> 's) \<Rightarrow> ('s, 'u, 'k) server \<Rightarrow> bool" where
  "on_backend reg co ins sv \<longleftrightarrow> sv_userRegistry sv = reg \<and> (\<forall>c. sv_certDBAccessor sv = Some c \<longrightarrow> c = co) \<and>
     (\<forall>f. sv_enrollSigner sv = Some (Some f) \<longrightarrow> f = ins)"

definition cfssl_uses :: "(CertRecord \<Rightarrow> 's \<Rightarrow> unit result \<times> 's) \<Rightarrow> ('s, 'u, 'k) server \<Rightarrow> bool" where
  "cfssl_uses ins sv \<longleftrightarrow> (\<forall>p h r st. sv_cfssl sv p = Inr h \<longrightarrow>
     (\<exists>crs. ts_reg (snd (h r st)) = fold (\<lambda>cr s. snd (ins cr s)) crs (ts_reg st)))"

text \<open>A server on a database, as \<open>db_server\<close> makes it.\<close>

abbreviation on_database :: "x509_env \<Rightarrow> (sqldb option, DBUser, 'k) server \<Rightarrow> bool" where
  "on_database X \<equiv> on_backend db_registry db_cert_ops (cert_InsertCertificate X)"

abbreviation cfssl_inserts :: "x509_env \<Rightarrow> (sqldb option, 'u, 'k) server \<Rightarrow> bool" where
  "cfssl_inserts X \<equiv> cfssl_uses (cert_InsertCertificate X)"

text \<open>\<open>Ws\<close> are the environments requests can meet; it may be the set of all of them.\<close>

inductive reachable ::
  "'k request_env set \<Rightarrow> ('s, 'u, 'k) server \<Rightarrow> ('s, 'k) tcert_state \<Rightarrow> ('s, 'k) tcert_state \<Rightarrow> bool" for Ws sv st where
  start: "reachable Ws sv st st"
| request: "reachable Ws sv st st' \<Longrightarrow> W \<in> Ws \<Longrightarrow> serve W sv path r st' = (ans, st'') \<Longrightarrow> reachable Ws sv st st''"

inductive_simps reachable_empty: "reachable {} sv st st'"

lemma db_server_on_database: "on_database X (db_server X csp mgr cfssl gl)"
  by (auto simp: on_backend_def db_server_def)

text \<open>A login: the user is read, and checked against the password.\<close>

definition reg_login :: "('s, 'u) UserRegistry \<Rightarrow> string \<Rightarrow> string \<Rightarrow> 's \<Rightarrow> unit result \<times> 's" where
  "reg_login reg n p s = (case reg_GetUser reg n [] s of (Inl e, s) \<Rightarrow> (Inl e, s) | (Inr u, s) \<Rightarrow> usr_Login reg u p s)"

lemma db_login: "reg_login db_registry = login_attempt"
  by (intro ext) (simp add: reg_login_def login_attempt_def split: sum.split prod.split)

text \<open>What holds of each operation on the registry holds of a login and of a registration.\<close>

lemma login_rel:
  assumes "\<And>a b c. R a b \<Longrightarrow> R b c \<Longrightarrow> R a c" "\<And>h. R h (snd (reg_GetUser reg n [] h))" "\<And>u h. R h (snd (usr_Login reg u p h))"
  shows "R h (snd (reg_login reg n p h))"
  using assms(2) [of h] assms(1,3) by (cases "reg_GetUser reg n [] h") (auto simp: reg_login_def split: sum.split)

lemma registerUserID_rel:
  assumes trans: "\<And>a b c. R a b \<Longrightarrow> R b c \<Longrightarrow> R a c"
    and ops: "\<And>h. R h (snd (reg_GetUser reg n [] h))" "\<And>u h. R h (snd (reg_InsertUser reg u h))"
      "\<And>v h. R h (snd (reg_UpdateField reg n maxEnrollments (GInt v) h))"
  shows "R h (snd (Register_registerUserID reg cfg rnd n t g as opt h))"
proof -
  define tok where "tok = (if opt \<noteq> [] \<and> hd opt \<noteq> [] then hd opt else rnd)"
  let ?u = "\<lparr>ui_Name = n, ui_Pass = tok, ui_Type = t, ui_Group = g, ui_Attributes = as\<rparr>"
  obtain r1 h1 where g: "reg_GetUser reg n [] h = (r1, h1)" by (cases "reg_GetUser reg n [] h")
  obtain r2 h2 where i: "reg_InsertUser reg ?u h1 = (r2, h2)" by (cases "reg_InsertUser reg ?u h1")
  obtain r3 h3 where f: "reg_UpdateField reg n maxEnrollments (GInt (c_MaxEnrollments cfg)) h2 = (r3, h3)"
    by (cases "reg_UpdateField reg n maxEnrollments (GInt (c_MaxEnrollments cfg)) h2")
  have "R h h1" "R h1 h2" "R h2 h3"
    using ops(1) [of h] ops(2) [of h1 ?u] ops(3) [of h2 "c_MaxEnrollments cfg"] g i f by simp_all
  then have "R h h1" "R h h2" "R h h3" by (blast intro: trans)+
  moreover have "snd (Register_registerUserID reg cfg rnd n t g as opt h) \<in> {h1, h2, h3}"
    unfolding Register_registerUserID_def Let_def tok_def [symmetric] using g i f by (simp split: sum.split)
  ultimately show ?thesis by auto
qed

subsection \<open>What the handlers do, operation by operation\<close>

locale request_rel =
  fixes reg :: "('s, 'u) UserRegistry"
    and co :: "'s cert_ops"
    and ins :: "CertRecord \<Rightarrow> 's \<Rightarrow> unit result \<times> 's"
    and R :: "'s \<Rightarrow> 's \<Rightarrow> bool"
  assumes refl: "R h h"
    and trans: "R a b \<Longrightarrow> R b c \<Longrightarrow> R a c"
    and GetUser: "R h (snd (reg_GetUser reg n ks h))"
    and GetGroup: "R h (snd (reg_GetGroup reg g h))"
    and login: "R h (snd (reg_login reg n p h))"
    and registerUserID: "R h (snd (Register_registerUserID reg cfg rnd n t g as opt h))"
    and disable: "R h (snd (reg_UpdateField reg n state (GInt (-1)) h))"
    and RevokeCertificate: "R h (snd (co_RevokeCertificate co serial akid reason h))"
    and RevokeCertificatesByID: "R h (snd (co_RevokeCertificatesByID co n reason h))"
    and InsertCertificate: "R h (snd (ins cr h))"
begin

lemma canRegister: "R h (snd (Register_canRegister reg registrar t h))"
  using GetUser [of h registrar "[]"]
  by (cases "reg_GetUser reg registrar [] h") (auto simp: Register_canRegister_def Let_def split: sum.split)

lemma validateID: "R h (snd (Register_validateID reg n t g h))"
  using GetGroup [of h g]
  by (cases "reg_GetGroup reg g h")
    (auto simp: Register_validateID_def Register_isValidGroup_def refl split: sum.split)

lemma RegisterUser: "R h (snd (Register_RegisterUser reg cfg rnd n t g as registrar opt h))"
proof -
  let ?c = "if registrar \<noteq> [] then Register_canRegister reg registrar t h else (Inr (), h)"
  obtain r1 h1 where c: "?c = (r1, h1)" by (cases ?c)
  obtain r2 h2 where v: "Register_validateID reg n t g h1 = (r2, h2)"
    by (cases "Register_validateID reg n t g h1")
  have "R h h1" "R h1 h2"
    using canRegister [of h registrar t] validateID [of h1 n t g] c v by (auto simp: refl split: if_splits)
  then have "R h h1" "R h h2" "R h (snd (Register_registerUserID reg cfg rnd n t g as opt h2))"
    by (blast intro: trans registerUserID)+
  then show ?thesis by (simp add: Register_RegisterUser_def c v split: sum.split)
qed

lemma registerHandler: "R h (snd (registerHandler_Handle reg cfg rnd r h))"
proof (cases "ReadAll r")
  case (Inr body)
  show ?thesis
  proof (cases "decode RegisterRequest_fields body")
    case (Inl err)
    with Inr show ?thesis by (simp add: registerHandler_Handle_def refl)
  next
    case req: (Inr req)
    let ?x = "Register_RegisterUser reg cfg rnd (rq_User req) (rq_Type req) (rq_Group req) (rq_Attributes req) (rq_CallerID req) [] h"
    have "snd (registerHandler_Handle reg cfg rnd r h) = snd ?x"
      using Inr req by (cases ?x) (simp add: registerHandler_Handle_def split: sum.split)
    then show ?thesis by (simp only: RegisterUser)
  qed
qed (simp add: registerHandler_Handle_def refl)

lemma local_Sign:
  assumes "\<And>f. dbAccessor = Some f \<Longrightarrow> f = ins"
  shows "R h (snd (local_Sign issue dbAccessor q h))"
proof (cases "issue q")
  case (Inr cr)
  let ?cr = "cr\<lparr>cr_Status := ''good''\<rparr>"
  show ?thesis
  proof (cases dbAccessor)
    case (Some f)
    have "snd (local_Sign issue dbAccessor q h) = snd (ins ?cr h)"
      using Inr Some assms [OF Some]
      by (cases "ins ?cr h") (simp add: local_Sign_def Let_def split: sum.split)
    then show ?thesis by (simp only: InsertCertificate)
  qed (use Inr in \<open>simp add: local_Sign_def Let_def refl\<close>)
qed (simp add: local_Sign_def refl)

lemma signHandler:
  assumes "on_backend reg co ins sv"
  shows "R h (snd (signHandler_Handle (enroll_signer W sv) ep r h))"
proof -
  have sign: "R h (snd (enroll_signer W sv q h))" for q
    using assms by (auto simp: enroll_signer_def on_backend_def refl intro: local_Sign split: option.split)
  show ?thesis
  proof (cases "ReadAll r")
    case (Inr body)
    show ?thesis
    proof (cases "Unmarshal (decode SignRequest_fields) body ep")
      case req: (Inr q)
      have "snd (signHandler_Handle (enroll_signer W sv) ep r h) = snd (enroll_signer W sv q h)"
        using Inr req by (cases "enroll_signer W sv q h") (simp add: signHandler_Handle_def split: sum.split go_error.split)
      with sign show ?thesis by simp
    qed (use Inr in \<open>simp add: signHandler_Handle_def refl\<close>)
  qed (simp add: signHandler_Handle_def refl)
qed

lemma userHasAttribute: "R h (snd (userHasAttribute reg n k h))"
  using GetUser [of h n "[k]"]
  by (cases "reg_GetUser reg n [k] h") (auto simp: userHasAttribute_def getUserAttrValue_def split: sum.split)

lemma revoke_request:
  assumes "\<And>c. certdb = Some c \<Longrightarrow> c = co"
  shows "R h (snd (revoke_request reg certdb req h))"
proof -
  let ?n = "rv_Name req" and ?reason = "rv_Reason req"
  obtain r0 h0 where s: "co_RevokeCertificate co (rv_Serial req) (rv_AKI req) ?reason h = (r0, h0)"
    by (cases "co_RevokeCertificate co (rv_Serial req) (rv_AKI req) ?reason h")
  obtain r1 h1 where g: "reg_GetUser reg ?n [] h = (r1, h1)" by (cases "reg_GetUser reg ?n [] h")
  obtain r2 h2 where u: "reg_UpdateField reg ?n state (GInt (-1)) h1 = (r2, h2)"
    by (cases "reg_UpdateField reg ?n state (GInt (-1)) h1")
  obtain r3 h3 where c: "co_RevokeCertificatesByID co ?n ?reason h2 = (r3, h3)" by (cases "co_RevokeCertificatesByID co ?n ?reason h2")
  have "R h h0" "R h h1" "R h1 h2" "R h2 h3"
    using RevokeCertificate [of h "rv_Serial req" "rv_AKI req" ?reason] GetUser [of h ?n "[]"] disable [of h1 ?n]
      RevokeCertificatesByID [of h2 ?n ?reason] s g u c by simp_all
  then have "R h h0" "R h h1" "R h h2" "R h h3" by (blast intro: trans)+
  with s g u c assms show ?thesis
    by (cases certdb) (auto simp: revoke_request_def refl split: sum.split)
qed

lemma revokeHandler:
  assumes "\<And>c. certdb = Some c \<Longrightarrow> c = co"
  shows "R h (snd (revokeHandler_Handle E reg certdb r h))"
proof (cases "hr_Authorization r = []")
  case False
  show ?thesis
  proof (cases "ReadAll r")
    case (Inr body)
    show ?thesis
    proof (cases "VerifyToken E (hr_Authorization r) (bytes_of body)")
      case cert: (Inr cert)
      obtain a h1 where u: "userHasAttribute reg (x_CommonName cert) ''hf.Revoker'' h = (a, h1)"
        by (cases "userHasAttribute reg (x_CommonName cert) ''hf.Revoker'' h")
      have h1: "R h h1" using userHasAttribute [of h "x_CommonName cert" "''hf.Revoker''"] u by simp
      with revoke_request [of certdb h1, OF assms] trans have "R h (snd (revoke_request reg certdb req h1))" for req by blast
      with h1 False Inr cert u show ?thesis by (simp add: revokeHandler_Handle_def split: sum.split)
    qed (use False Inr in \<open>simp add: revokeHandler_Handle_def refl\<close>)
  qed (use False in \<open>simp add: revokeHandler_Handle_def refl\<close>)
qed (simp add: revokeHandler_Handle_def refl)

lemma getUserInfo: "R h (snd (getUserInfo reg n ks h))"
  using GetUser [of h n ks] by (cases "reg_GetUser reg n ks h") (auto simp: getUserInfo_def split: sum.split)

lemma tcertHandler_handle: "R (ts_reg st) (ts_reg (snd (tcertHandler_handle W reg mgr r st)))"
proof (cases "ReadAll r")
  case (Inr body)
  show ?thesis
  proof (cases "Unmarshal (decode GetPrivateSignersRequest_fields) body ''tcert request''")
    case req: (Inr req)
    show ?thesis
    proof (cases "getCertFromAuthHdr (tw_sig W) r")
      case cert: (Inr cert)
      obtain a s where u: "getUserInfo reg (GetEnrollmentIDFromCert cert) (ps_AttrNames req) (ts_reg st) = (a, s)"
        by (cases "getUserInfo reg (GetEnrollmentIDFromCert cert) (ps_AttrNames req) (ts_reg st)")
      have "ts_reg (snd (tcertHandler_handle W reg mgr r st)) = s"
        using Inr req cert u by (simp add: tcertHandler_handle_def Let_def split: sum.split prod.split)
      with getUserInfo [of "ts_reg st" "GetEnrollmentIDFromCert cert" "ps_AttrNames req"] u show ?thesis by simp
    qed (use Inr req in \<open>simp add: tcertHandler_handle_def refl\<close>)
  qed (use Inr in \<open>simp add: tcertHandler_handle_def refl\<close>)
qed (simp add: tcertHandler_handle_def refl)

lemma tcertHandler: "R (ts_reg st) (ts_reg (snd (tcertHandler_Handle W reg mgr r st)))"
  using tcertHandler_handle [of st W mgr r]
  by (cases "tcertHandler_handle W reg mgr r st") (simp add: tcertHandler_Handle_def split: sum.split go_error.split)

text \<open>The method check and the wrapper add nothing.\<close>

lemma HTTPHandler:
  assumes "\<And>r s. P s (snd (handle r s))" "\<And>s. P s s"
  shows "P s (snd (HTTPHandler_ServeHTTP ms handle r s))"
  using assms(1) [of s r] assms(2) [of s]
  by (cases "handle r s") (auto simp: HTTPHandler_ServeHTTP_def split: sum.split go_error.split)

lemma on_reg: "R (ts_reg st) (snd (f (ts_reg st))) \<Longrightarrow> R (ts_reg st) (ts_reg (snd (on_reg f st)))"
  by (cases "f (ts_reg st)") (simp add: on_reg_def)

definition R_state :: "('s, 'k) tcert_state \<Rightarrow> ('s, 'k) tcert_state \<Rightarrow> bool" where
  "R_state st st' \<longleftrightarrow> R (ts_reg st) (ts_reg st')"

lemma endpoint:
  assumes "on_backend reg co ins sv" "cfssl_uses ins sv" "(p, Inr h) \<in> set (endpoints W sv)"
  shows "R_state st (snd (h r st))"
proof -
  have cfssl: "R_state st (snd (f r st))" if f: "sv_cfssl sv q = Inr f" for q f
  proof -
    have "R s (fold (\<lambda>cr s. snd (ins cr s)) crs s)" for crs s
      by (induction crs arbitrary: s) (auto intro: refl trans InsertCertificate)
    with assms(2) f show ?thesis unfolding cfssl_uses_def R_state_def by metis
  qed
  have db: "sv_userRegistry sv = reg" "\<And>c. sv_certDBAccessor sv = Some c \<Longrightarrow> c = co"
    using assms(1) by (auto simp: on_backend_def)
  have on: "R_state st (snd (on_reg (HTTPHandler_ServeHTTP ms handle r) st))" if "\<And>r h. R h (snd (handle r h))" for ms handle
    unfolding R_state_def by (rule on_reg, rule HTTPHandler [of R], rule that, rule refl)
  have tcert: "R_state st (snd (HTTPHandler_ServeHTTP ms (tcertHandler_Handle T reg mgr) r st))" for ms T mgr
    by (rule HTTPHandler) (simp_all add: R_state_def tcertHandler refl)
  from assms(3) consider "h = (\<lambda>r. on_reg (HTTPHandler_ServeHTTP [''POST''] (registerHandler_Handle reg (sv_CFG sv) (re_secret W)) r))"
    | ep where "h = (\<lambda>r. on_reg (HTTPHandler_ServeHTTP [''POST''] (signHandler_Handle (enroll_signer W sv) ep) r))"
    | "h = (\<lambda>r. on_reg (HTTPHandler_ServeHTTP [''POST''] (revokeHandler_Handle (ae_sig (re_auth W)) reg (sv_certDBAccessor sv)) r))"
    | mgr where "h = HTTPHandler_ServeHTTP [''POST''] (tcertHandler_Handle (re_tcert W) reg mgr)"
    | q where "sv_cfssl sv q = Inr h"
    unfolding endpoints_def needs_signer_def handler_on_reg_def NewRegisterHandler_def NewEnrollHandler_def NewReenrollHandler_def
      newSignHandler_def NewRevokeHandler_def NewTCertHandler_def initTCertHandler_def db(1)
    by (auto split: sum.splits if_splits)
  then show ?thesis
    by cases (auto intro!: on tcert registerHandler signHandler [OF assms(1)] revokeHandler [OF db(2)] intro: cfssl)
qed

lemma serveHTTP:
  "R_state st (snd (snd (copAuthHandler_serveHTTP A (server_registry reg) cfg ah r st)))"
proof (cases "BasicAuth (HTTPRequestToString r)")
  case None
  then show ?thesis by (simp add: copAuthHandler_serveHTTP_def Let_def R_state_def refl split: sum.split prod.split)
next
  case (Some up)
  obtain n p where up: "up = (n, p)" by (cases up)
  obtain q h1 where q: "reg_GetUser reg n [] (ts_reg st) = (q, h1)" by (cases "reg_GetUser reg n [] (ts_reg st)")
  have "ts_reg (snd (snd (copAuthHandler_serveHTTP A (server_registry reg) cfg ah r st))) \<in> {ts_reg st, snd (reg_login reg n p (ts_reg st))}"
    using Some up q
    by (auto simp: copAuthHandler_serveHTTP_def Let_def server_registry_def on_reg_def reg_login_def split: sum.split prod.split)
  then show ?thesis using login refl by (auto simp: R_state_def)
qed

lemma serve:
  assumes "on_backend reg co ins sv" "cfssl_uses ins sv" "serve W sv path r st = (ans, st')"
  shows "R (ts_reg st) (ts_reg st')"
proof -
  obtain m where m: "registerHandlers (endpoints W sv) [] = Inr m" "table_mux (endpoints W sv) m"
    using table_registered [of "endpoints W sv" W sv] by blast
  show ?thesis
  proof (cases "mux_Handler m (hr_Method r) path")
    case (Serve ah)
    then obtain p h where p: "(p, Inr h) \<in> set (endpoints W sv)" "ah = wrapper p h" using routed_wrapper [OF m(2)] by blast
    obtain a r1 st1 where a: "copAuthHandler_serveHTTP (re_auth W) (server_registry reg) (sv_CFG sv) ah r st = (a, r1, st1)"
      by (cases "copAuthHandler_serveHTTP (re_auth W) (server_registry reg) (sv_CFG sv) ah r st")
    have st1: "R_state st st1" using serveHTTP [of st "re_auth W" "sv_CFG sv" ah r] a by simp
    have "st' = st1 \<or> st' = snd (h r1 st1)"
      using assms(1,3) m(1) Serve a p(2)
      by (auto simp: serve_def serve_mux_def copAuthHandler_ServeHTTP_def on_backend_def wrapper_def
          split: sum.splits go_error.splits prod.splits option.splits)
    with st1 endpoint [OF assms(1,2) p(1), of st1 r1] show ?thesis by (auto simp: R_state_def intro: trans)
  qed (use assms(3) m(1) in \<open>simp_all add: serve_def serve_mux_def refl\<close>)
qed

lemma reachable_rel:
  assumes "reachable Ws sv st st'" "on_backend reg co ins sv" "cfssl_uses ins sv"
  shows "R (ts_reg st) (ts_reg st')"
  using assms by (induction rule: reachable.induct) (auto intro: refl trans serve)

end


subsection \<open>The same, statement by statement\<close>

locale store_rel =
  fixes S :: "sqldb \<Rightarrow> sqldb \<Rightarrow> bool"
  assumes same: "same_tables d d' \<Longrightarrow> S d d'"
    and S_trans: "S a b \<Longrightarrow> S b c \<Longrightarrow> S a c"
    and insertUser: "insertUser_sql u d = Inr (n, d') \<Longrightarrow> S d d'"
    and setState: "update_users_sql (\<lambda>r. r\<lparr>ur_State := v\<rparr>) uid d = Inr (n, d') \<Longrightarrow> S d d'"
    and setMax: "update_users_sql (\<lambda>r. r\<lparr>ur_MaxEnrollments := v\<rparr>) uid d = Inr (n, d') \<Longrightarrow> S d d'"
    and updateCerts: "update_certs_sql p reason d = Inr (n, d') \<Longrightarrow> S d d'"
    and insertCert: "insertCert_sql cr d = Inr (n, d') \<Longrightarrow> S d d'"
begin

definition lifted :: "sqldb option \<Rightarrow> sqldb option \<Rightarrow> bool" where
  "lifted = rel_option S"

lemma exec:
  assumes "\<And>d n d'. stmt d = Inr (n, d') \<Longrightarrow> S d d'"
  shows "S d (snd (sql_exec stmt d))"
proof (cases "sql_exec stmt d")
  case (Pair r d')
  then show ?thesis
    by (cases rule: sql_exec_cases) (auto simp: Pair intro: same S_trans assms)
qed

lemma get: "S d (snd (sql_get q d))"
  by (cases "sql_get q d") (auto intro: same sql_get_same)

lemma lifted_map: "(\<And>d. S d (f d)) \<Longrightarrow> lifted h (map_option f h)"
  by (cases h) (simp_all add: lifted_def)

lemma lifted_refl: "lifted h h"
  by (cases h) (simp_all add: lifted_def same)

lemma lifted_trans: "lifted a b \<Longrightarrow> lifted b c \<Longrightarrow> lifted a c"
  by (cases a; cases b; cases c) (auto simp: lifted_def intro: S_trans)

lemma lifted_reads: "lifted h (snd (Accessor_GetUser n ks h))" "lifted h (snd (Accessor_GetGroup g h))"
  unfolding snd_Accessor by (rule lifted_map, rule get)+

lemma lifted_InsertUser: "lifted h (snd (Accessor_InsertUser u h))"
  unfolding snd_Accessor by (rule lifted_map, rule exec, erule insertUser)

lemma lifted_UpdateField:
  "lifted h (snd (Accessor_UpdateField uid state (GInt v) h))"
  "lifted h (snd (Accessor_UpdateField uid maxEnrollments (GInt v) h))"
  unfolding snd_UpdateField by (rule lifted_map, rule exec, erule setState, rule lifted_map, rule exec, erule setMax)

lemma lifted_Login: "lifted h (snd (DBUser_Login u p h))"
proof (cases h)
  case (Some d)
  let ?x = "sql_exec (update_users_sql (\<lambda>r. r\<lparr>ur_State := u_state u + 1\<rparr>) (u_name u)) d"
  have x: "S d (snd ?x)" by (rule exec, erule setState)
  have "snd (DBUser_Login u p h) \<in> {h, Some (snd ?x)}"
    using Some by (cases ?x) (simp add: DBUser_Login_def Let_def split: sum.split option.split)
  with x same Some show ?thesis by (auto simp: lifted_def)
qed (simp add: DBUser_Login_def lifted_refl)

lemma lifted_login: "lifted h (snd (login_attempt n p h))"
  unfolding db_login [symmetric] by (rule login_rel) (auto intro: lifted_trans simp: lifted_reads lifted_Login)

lemma lifted_registerUserID: "lifted h (snd (Register_registerUserID db_registry cfg rnd n t g as opt h))"
  by (rule registerUserID_rel) (auto intro: lifted_trans simp: lifted_reads lifted_InsertUser lifted_UpdateField)

lemma lifted_cfssl: "(\<And>d. S d (snd (f d))) \<Longrightarrow> lifted h (snd (cfssl_checked f h))"
  by (cases h) (simp_all add: cfssl_checked_def lifted_def split_def)

lemma lifted_cert: "(\<And>d. S d (snd (f d))) \<Longrightarrow> lifted h (snd (cert_checked f h))"
  by (cases h) (simp_all add: cert_checked_def cert_checkDB_def lifted_def split_def)

lemma lifted_RevokeCertificate: "lifted h (snd (cfssl_RevokeCertificate serial akid reason h))"
  unfolding cfssl_RevokeCertificate_def
proof (rule lifted_cfssl)
  fix d
  have "S d (snd (sql_exec (update_certs_sql (by_serial serial akid) reason) d))" by (rule exec, erule updateCerts)
  then show "S d (snd (case sql_exec (update_certs_sql (by_serial serial akid) reason) d of
      (Inl e, d) \<Rightarrow> (Inl (wrapSQLError e), d)
    | (Inr res, d) \<Rightarrow> (cfssl_rows (CFSSLError (CertStoreError + RecordNotFound)
        ''failed to revoke the certificate: certificate not found'') res, d)))"
    by (simp add: split_def split: sum.split)
qed

lemma lifted_RevokeCertificatesByID: "lifted h (snd (cert_RevokeCertificatesByID n reason h))"
  unfolding cert_RevokeCertificatesByID_def
proof (rule lifted_cert)
  fix d
  obtain q d1 where q: "sql_select (select_certs (\<lambda>_. by_id_good n)) d = (q, d1)" by (cases "sql_select (select_certs (\<lambda>_. by_id_good n)) d")
  then have "S d d1" by (intro same sql_select_same)
  moreover have "S d1 (snd (sql_exec (update_certs_sql (by_id_good n) reason) d1))" by (rule exec, erule updateCerts)
  ultimately have "S d d1" "S d (snd (sql_exec (update_certs_sql (by_id_good n) reason) d1))" by (blast intro: S_trans)+
  then show "S d (snd (case sql_select (select_certs (\<lambda>_. by_id_good n)) d of
      (Inl e, d) \<Rightarrow> (Inl e, d)
    | (Inr crs, d) \<Rightarrow> (case sql_exec (update_certs_sql (by_id_good n) reason) d of
        (Inl e, d) \<Rightarrow> (Inl e, d) | (Inr _, d) \<Rightarrow> (Inr crs, d))))"
    by (simp add: q split_def split: sum.split)
qed

lemma lifted_InsertCertificate: "lifted h (snd (cert_InsertCertificate X cr h))"
  unfolding cert_InsertCertificate_def
proof (rule lifted_cert)
  fix d
  have e: "S d (snd (sql_exec (insertCert_sql c) d))" for c by (rule exec, erule insertCert)
  have "S d d" by (simp add: same)
  with e show "S d (snd (case GetEnrollmentIDFromPEM X (bytes_of (cr_PEM cr)) of
      Inl err \<Rightarrow> (Inl err, d)
    | Inr uid \<Rightarrow> (case sql_exec (insertCert_sql (cr\<lparr>cr_ID := uid\<rparr>)) d of
        (Inl err, d) \<Rightarrow> (Inl err, d)
      | (Inr res, d) \<Rightarrow>
          if rows res = 0
          then (Inl (COPError (NewError (code_num DatabaseError) ''Failed to insert the certificate record'' [])), d)
          else if rows res \<noteq> 1
          then (Inl (COPError (NewError (code_num DatabaseError) ''%d rows are affected, should be 1 row'' [FInt (int (rows res))])), d)
          else (case rows_err res of Some e \<Rightarrow> (Inl e, d) | None \<Rightarrow> (Inr (), d)))))"
    by (simp add: split_def split: sum.split option.split)
qed

end

sublocale store_rel \<subseteq> request_rel db_registry db_cert_ops "cert_InsertCertificate X" lifted for X
  by unfold_locales
    (simp_all add: db_login db_cert_ops_def lifted_refl lifted_reads lifted_login lifted_registerUserID lifted_UpdateField
      lifted_RevokeCertificate lifted_RevokeCertificatesByID lifted_InsertCertificate, erule (1) lifted_trans)

subsection \<open>Certificates stay, and stay revoked\<close>

definition certs_kept :: "sqldb \<Rightarrow> sqldb \<Rightarrow> bool" where
  "certs_kept d d' \<longleftrightarrow> (\<forall>c \<in> set (certificates d). \<exists>c' \<in> set (certificates d').
     cert_key c' = cert_key c \<and> cr_ID c' = cr_ID c \<and> cr_PEM c' = cr_PEM c \<and>
     (cr_Status c = ''revoked'' \<longrightarrow> cr_Status c' = ''revoked''))"

lemma certs_kept_rows: "certificates d' = certificates d @ cs \<Longrightarrow> certs_kept d d'"
  by (auto simp: certs_kept_def)

lemma certs_kept_revoke: "certificates d' = update_rows p (revoke_row t reason) (certificates d) \<Longrightarrow> certs_kept d d'"
  unfolding certs_kept_def
proof
  fix c
  assume d': "certificates d' = update_rows p (revoke_row t reason) (certificates d)" and "c \<in> set (certificates d)"
  then have "(if p c then revoke_row t reason c else c) \<in> set (certificates d')" by (simp add: update_rows_def)
  then show "\<exists>c' \<in> set (certificates d'). cert_key c' = cert_key c \<and> cr_ID c' = cr_ID c \<and> cr_PEM c' = cr_PEM c \<and>
      (cr_Status c = ''revoked'' \<longrightarrow> cr_Status c' = ''revoked'')"
    by (rule bexI [rotated]) (simp add: revoke_row_def cert_key_def)
qed

interpretation revocations: store_rel certs_kept
proof (unfold_locales, goal_cases)
  case (1 d d')
  then show ?case using same_tables_fields [of d d'] by (intro certs_kept_rows [of _ _ "[]"]) simp
next
  case (2 a b c)
  then show ?case unfolding certs_kept_def by metis
next
  case (3 u d n d')
  then show ?case by (intro certs_kept_rows [of _ _ "[]"]) (auto simp: insertUser_sql_def split: if_splits)
next
  case (4 v uid d n d')
  then show ?case by (intro certs_kept_rows [of _ _ "[]"]) (auto simp: update_users_sql_def)
next
  case (5 v uid d n d')
  then show ?case by (intro certs_kept_rows [of _ _ "[]"]) (auto simp: update_users_sql_def)
next
  case (6 p reason d n d')
  then show ?case by (intro certs_kept_revoke) (auto simp: update_certs_sql_def)
next
  case (7 cr d n d')
  then show ?case by (intro certs_kept_rows [of _ _ "[cr]"]) (auto simp: insertCert_sql_def split: if_splits)
qed

subsection \<open>Accounts stay\<close>

definition account :: "UserRecord \<Rightarrow> UserRecord" where
  "account r = r\<lparr>ur_State := 0, ur_MaxEnrollments := 0\<rparr>"

definition accounts_kept :: "sqldb \<Rightarrow> sqldb \<Rightarrow> bool" where
  "accounts_kept d d' \<longleftrightarrow> (\<exists>rs. map account (users d') = map account (users d) @ rs)"

lemma accounts_same: "map account (users d') = map account (users d) \<Longrightarrow> accounts_kept d d'"
  by (simp add: accounts_kept_def)

interpretation accounts: store_rel accounts_kept
proof (unfold_locales, goal_cases)
  case (1 d d')
  then show ?case using same_tables_fields [of d d'] by (intro accounts_same) simp
next
  case (2 a b c)
  then show ?case by (auto simp: accounts_kept_def)
next
  case (3 u d n d')
  then show ?case by (auto simp: insertUser_sql_def accounts_kept_def split: if_splits)
next
  case (4 v uid d n d')
  then show ?case by (intro accounts_same) (auto simp: update_users_sql_def account_def intro!: map_update_rows)
next
  case (5 v uid d n d')
  then show ?case by (intro accounts_same) (auto simp: update_users_sql_def account_def intro!: map_update_rows)
next
  case (6 p reason d n d')
  then show ?case by (intro accounts_same) (auto simp: update_certs_sql_def)
next
  case (7 cr d n d')
  then show ?case by (intro accounts_same) (auto simp: insertCert_sql_def split: if_splits)
qed

subsection \<open>Login counts stay within their limits on MySQL\<close>

definition limit_ok :: "UserRecord \<Rightarrow> bool" where
  "limit_ok r \<longleftrightarrow> (0 < ur_MaxEnrollments r \<longrightarrow> ur_State r \<le> ur_MaxEnrollments r)"

definition limited :: "sqldb \<Rightarrow> bool" where
  "limited d \<longleftrightarrow> keyed d \<and> (\<forall>r \<in> set (users d). limit_ok r)"

definition limited_handle :: "sqldb option \<Rightarrow> bool" where
  "limited_handle h \<longleftrightarrow> (case h of None \<Rightarrow> True | Some d \<Rightarrow> limited d)"

lemma limited_same: "same_tables d d' \<Longrightarrow> limited d' = limited d"
  using same_tables_fields [of d d'] keyed_same_tables [of d d'] by (simp add: limited_def)

lemma limited_users: "users d' = users d \<Longrightarrow> driver d' = driver d \<Longrightarrow> limited d' = limited d"
  by (simp add: limited_def keyed_def unique_ids_def)

lemma limited_exec_update:
  assumes "limited d" "\<And>r. r \<in> set (users d) \<Longrightarrow> ur_Name r = uid \<Longrightarrow> limit_ok (f r)" "\<And>r. ur_Name (f r) = ur_Name r"
  shows "limited (snd (sql_exec (update_users_sql f uid) d))"
proof (cases "sql_exec (update_users_sql f uid) d")
  case (Pair x d')
  then show ?thesis
  proof (cases rule: sql_exec_cases)
    case (err e)
    with assms(1) Pair show ?thesis by (simp add: limited_same)
  next
    case (ok d1 n res)
    then have u: "users d1 = users d" "limited d1" using same_tables_fields [of d d1] limited_same [of d d1] assms(1) by auto
    have "keyed d'" using keyed_update_users [OF assms(3) _ ok(3)] u(2) by (simp add: limited_def)
    moreover have "users d' = update_rows (\<lambda>r. ur_Name r = uid) f (users d)" using ok(3) u(1) by (auto simp: update_users_sql_def)
    ultimately show ?thesis using assms(1,2) Pair by (auto simp: limited_def in_update_rows)
  qed
qed

lemma limited_map: "limited_handle h \<Longrightarrow> (\<And>d. limited d \<Longrightarrow> limited (f d)) \<Longrightarrow> limited_handle (map_option f h)"
  by (simp add: limited_handle_def split: option.splits)

lemma limited_get: "limited d \<Longrightarrow> limited (snd (sql_get q d))"
  by (cases "sql_get q d") (auto dest!: sql_get_same simp: limited_same)

lemma limited_certs:
  assumes "limited_handle h" "\<And>d. users (snd (f d)) = users d \<and> driver (snd (f d)) = driver d"
  shows "limited_handle (snd (cert_checked f h))" "limited_handle (snd (cfssl_checked f h))"
  using assms limited_users [of "snd (f (the h))" "the h"]
  by (simp_all add: limited_handle_def cert_checked_def cert_checkDB_def cfssl_checked_def split_def split: option.splits)

lemma users_exec:
  assumes "\<And>d n d'. stmt d = Inr (n, d') \<Longrightarrow> users d' = users d \<and> driver d' = driver d"
  shows "users (snd (sql_exec stmt d)) = users d \<and> driver (snd (sql_exec stmt d)) = driver d"
proof (cases "sql_exec stmt d")
  case (Pair r d')
  then show ?thesis
  proof (cases rule: sql_exec_cases)
    case (err e)
    with Pair same_tables_fields [of d d'] show ?thesis by simp
  next
    case (ok d1 n res)
    with Pair same_tables_fields [of d d1] assms [OF ok(3)] show ?thesis by simp
  qed
qed

lemma users_certs:
  "users (snd (sql_exec (update_certs_sql p reason) d)) = users d \<and> driver (snd (sql_exec (update_certs_sql p reason) d)) = driver d"
  "users (snd (sql_exec (insertCert_sql c) d)) = users d \<and> driver (snd (sql_exec (insertCert_sql c) d)) = driver d"
  by (rule users_exec; auto simp: update_certs_sql_def insertCert_sql_def split: if_splits)+

lemma unique_row: "unique_ids d \<Longrightarrow> lookup_user d n = Some r \<Longrightarrow> x \<in> set (users d) \<Longrightarrow> ur_Name x = n \<Longrightarrow> x = r"
proof -
  assume a: "unique_ids d" "lookup_user d n = Some r" "x \<in> set (users d)" "ur_Name x = n"
  then have "x \<in> set (filter (\<lambda>r. ur_Name r = n) (users d))" by simp
  then show ?thesis unfolding unique_lookup_filter [OF a(1,2)] by simp
qed

lemma limited_login: "limited_handle h \<Longrightarrow> limited_handle (snd (login_attempt n p h))"
proof (cases h)
  case None
  then show ?thesis by (simp add: login_attempt_def Accessor_GetUser_def checked_None limited_handle_def)
next
  case (Some d)
  assume "limited_handle h"
  then have d: "limited d" using Some by (simp add: limited_handle_def)
  obtain q h1 where q: "Accessor_GetUser n [] (Some d) = (q, h1)" by (cases "Accessor_GetUser n [] (Some d)")
  then show ?thesis
  proof (cases rule: GetUser_cases)
    case (err e d1)
    with q Some d show ?thesis by (simp add: login_attempt_def limited_handle_def limited_same)
  next
    case (found r d1)
    let ?x = "sql_exec (update_users_sql (\<lambda>x. x\<lparr>ur_State := ur_State r + 1\<rparr>) (ur_Name r)) d1"
    have d1: "limited d1" "lookup_user d1 n = Some r" using found d by (simp_all add: limited_same lookup_same_tables)
    then have r: "r \<in> set (users d1)" "ur_Name r = n" by (auto simp: lookup_user_def find_Some_iff)
    have "snd (login_attempt n p h) = Some d1 \<or> snd (login_attempt n p h) = Some (snd ?x) \<and>
        ur_MaxEnrollments r \<ge> 0 \<and> (ur_MaxEnrollments r = 0 \<or> ur_State r < ur_MaxEnrollments r)"
      using q found Some
      by (cases ?x) (simp add: login_attempt_def DBUser_Login_def newDBUser_def Let_def split: sum.split option.split)
    moreover have "limited (snd ?x)" if "ur_MaxEnrollments r = 0 \<or> ur_State r < ur_MaxEnrollments r"
    proof (rule limited_exec_update [OF d1(1)])
      fix x
      assume "x \<in> set (users d1)" "ur_Name x = ur_Name r"
      then have "x = r" using unique_row [OF _ d1(2)] d1(1) r(2) by (simp add: limited_def keyed_def)
      with that show "limit_ok (x\<lparr>ur_State := ur_State r + 1\<rparr>)" by (auto simp: limit_ok_def)
    qed simp
    ultimately show ?thesis using d1(1) by (auto simp: limited_handle_def)
  qed
qed

lemma limited_register:
  assumes "limited_handle h"
  shows "limited_handle (snd (Register_registerUserID db_registry cfg rnd n t g as opt h))"
proof -
  define tok where "tok = (if opt \<noteq> [] \<and> hd opt \<noteq> [] then hd opt else rnd)"
  let ?u = "\<lparr>ui_Name = n, ui_Pass = tok, ui_Type = t, ui_Group = g, ui_Attributes = as\<rparr>"
  obtain r1 h1 where g: "Accessor_GetUser n [] h = (r1, h1)" by (cases "Accessor_GetUser n [] h")
  obtain r2 h2 where i: "Accessor_InsertUser ?u h1 = (r2, h2)" by (cases "Accessor_InsertUser ?u h1")
  have h1: "limited_handle h1" using g snd_Accessor(4) [of n "[]" h] limited_map [OF assms, of "\<lambda>d. snd (sql_get (getUser_sql n) d)"]
    by (simp add: limited_get)
  have h2: "limited_handle h2 \<and> (\<forall>d. r2 = Inr () \<longrightarrow> h2 = Some d \<longrightarrow> (\<forall>r \<in> set (users d). ur_Name r = n \<longrightarrow> ur_State r = 0))"
  proof (cases h1)
    case (Some d1)
    obtain x d2 where x: "sql_exec (insertUser_sql (user_record ?u)) d1 = (x, d2)" by (cases "sql_exec (insertUser_sql (user_record ?u)) d1")
    have "h2 = Some d2" and e: "\<And>e. x = Inl e \<Longrightarrow> r2 \<noteq> Inr ()"
      using i x Some by (auto simp: Accessor_InsertUser_def checked_Some split: sum.splits if_splits option.splits)
    moreover from x have "limited d2 \<and> (r2 = Inr () \<longrightarrow> (\<forall>r \<in> set (users d2). ur_Name r = n \<longrightarrow> ur_State r = 0))"
    proof (cases rule: sql_exec_cases)
      case (err e')
      with h1 Some e show ?thesis by (simp add: limited_handle_def limited_same)
    next
      case (ok d3 k res)
      then have d3: "limited d3" using h1 Some by (simp add: limited_handle_def limited_same)
      then have new: "n \<notin> ur_Name ` set (users d3)" and d2: "d2 = d3\<lparr>users := users d3 @ [user_record ?u]\<rparr>"
        using ok(3) by (auto simp: insertUser_sql_def limited_def keyed_def user_record_def split: if_splits)
      have "keyed d2" using keyed_statements(1) [OF _ ok(3)] d3 by (simp add: limited_def)
      with d3 new d2 show ?thesis by (auto simp: limited_def limit_ok_def user_record_def)
    qed
    ultimately show ?thesis by (simp add: limited_handle_def)
  qed (use i in \<open>simp add: Accessor_InsertUser_def checked_None limited_handle_def\<close>)
  have "limited_handle (snd (Accessor_UpdateField n maxEnrollments (GInt v) h2))" if "r2 = Inr ()" for v
    using h2 that by (auto simp: snd_UpdateField limited_handle_def limit_ok_def intro!: limited_exec_update split: option.splits)
  moreover have "snd (Register_registerUserID db_registry cfg rnd n t g as opt h) \<in> {h1, h2} \<or>
      r2 = Inr () \<and> snd (Register_registerUserID db_registry cfg rnd n t g as opt h) =
        snd (Accessor_UpdateField n maxEnrollments (GInt (c_MaxEnrollments cfg)) h2)"
    unfolding Register_registerUserID_def Let_def tok_def [symmetric] using g i by (simp add: split_def split: sum.split)
  ultimately show ?thesis using h1 h2 by auto
qed

lemma limited_disable: "limited_handle h \<Longrightarrow> limited_handle (snd (Accessor_UpdateField n state (GInt (-1)) h))"
  unfolding snd_UpdateField by (erule limited_map, rule limited_exec_update) (simp_all add: limit_ok_def)

lemma limited_revoke: "limited_handle h \<Longrightarrow> limited_handle (snd (cfssl_RevokeCertificate serial akid reason h))"
  unfolding cfssl_RevokeCertificate_def
  by (erule limited_certs(2)) (insert users_certs(1), simp add: split_def split: sum.split)

lemma limited_revoke_all: "limited_handle h \<Longrightarrow> limited_handle (snd (cert_RevokeCertificatesByID n reason h))"
  unfolding cert_RevokeCertificatesByID_def
proof (erule limited_certs(1))
  fix d
  obtain q d1 where q: "sql_select (select_certs (\<lambda>_. by_id_good n)) d = (q, d1)" by (cases "sql_select (select_certs (\<lambda>_. by_id_good n)) d")
  then have "users d1 = users d" "driver d1 = driver d" using sql_select_same same_tables_fields by blast+
  then show "users (snd (case sql_select (select_certs (\<lambda>_. by_id_good n)) d of
      (Inl e, d) \<Rightarrow> (Inl e, d)
    | (Inr crs, d) \<Rightarrow> (case sql_exec (update_certs_sql (by_id_good n) reason) d of
        (Inl e, d) \<Rightarrow> (Inl e, d) | (Inr _, d) \<Rightarrow> (Inr crs, d)))) = users d \<and>
    driver (snd (case sql_select (select_certs (\<lambda>_. by_id_good n)) d of
      (Inl e, d) \<Rightarrow> (Inl e, d)
    | (Inr crs, d) \<Rightarrow> (case sql_exec (update_certs_sql (by_id_good n) reason) d of
        (Inl e, d) \<Rightarrow> (Inl e, d) | (Inr _, d) \<Rightarrow> (Inr crs, d)))) = driver d"
    using users_certs(1) [of "by_id_good n" reason d1] by (simp add: q split_def split: sum.split)
qed

lemma limited_issue: "limited_handle h \<Longrightarrow> limited_handle (snd (cert_InsertCertificate X cr h))"
  unfolding cert_InsertCertificate_def
  by (erule limited_certs(1)) (insert users_certs(2), simp add: split_def split: sum.split option.split)

interpretation limits: request_rel db_registry db_cert_ops "cert_InsertCertificate X" "\<lambda>h h'. limited_handle h \<longrightarrow> limited_handle h'" for X
  by unfold_locales
    (auto simp: snd_Accessor db_login db_cert_ops_def intro: limited_map limited_get limited_login limited_register limited_disable
      limited_revoke limited_revoke_all limited_issue)

text \<open>
  C4. The enrollment limit is an invariant of the running server on MySQL: from a database in which no
  name is stored twice and no login count exceeds a positive limit, no series of requests, with
  whatever results and failing statements, reaches one in which it does.
\<close>

theorem enrollment_limit_invariant:
  assumes "reachable Ws sv st st'" "on_database X sv" "cfssl_inserts X sv"
    and "ts_reg st = Some d" "driver d = MySQL" "unique_ids d"
    and "\<forall>r \<in> set (users d). 0 < ur_MaxEnrollments r \<longrightarrow> ur_State r \<le> ur_MaxEnrollments r"
    and "ts_reg st' = Some d'" "r \<in> set (users d')" "0 < ur_MaxEnrollments r"
  shows "ur_State r \<le> ur_MaxEnrollments r"
proof -
  have "limited_handle (ts_reg st)" using assms(4-7) by (simp add: limited_handle_def limited_def keyed_def limit_ok_def)
  with limits.reachable_rel [OF assms(1-3)] assms(8-10) show ?thesis
    by (auto simp: limited_handle_def limited_def limit_ok_def)
qed

subsection \<open>Instances\<close>

lemma demo_on_database: "on_database demo_x509 demo_server" "cfssl_inserts demo_x509 demo_server"
proof -
  show "on_database demo_x509 demo_server" by (simp add: on_backend_def demo_server_def)
  show "cfssl_inserts demo_x509 demo_server"
    unfolding cfssl_uses_def demo_server_def by (auto simp: ok_handler_def intro: exI [of _ "[]"])
qed

definition demo_run :: "(sqldb option, string) tcert_state \<Rightarrow> (sqldb option, string) tcert_state" where
  "demo_run st = snd (serve demo_renv demo_server (wrappedPath ''revoke'') demo_rv st)"

lemma demo_run_reachable: "reachable {demo_renv} demo_server st (demo_run st)"
proof (rule reachable.request [OF reachable.start])
  show "serve demo_renv demo_server (wrappedPath ''revoke'') demo_rv st = (fst (serve demo_renv demo_server (wrappedPath ''revoke'') demo_rv st), demo_run st)"
    by (simp add: demo_run_def)
qed simp

theorem enrollment_limit_invariant_witness:
  "\<exists>d'. ts_reg (demo_run (demo_tstate\<lparr>ts_reg := Some (demo_rvdb\<lparr>driver := MySQL\<rparr>)\<rparr>)) = Some d' \<and>
    (\<forall>r \<in> set (users d'). 0 < ur_MaxEnrollments r \<longrightarrow> ur_State r \<le> ur_MaxEnrollments r)"
proof -
  let ?d = "demo_rvdb\<lparr>driver := MySQL\<rparr>"
  let ?st = "demo_tstate\<lparr>ts_reg := Some ?d\<rparr>"
  have d: "driver ?d = MySQL" "unique_ids ?d" "\<forall>r \<in> set (users ?d). 0 < ur_MaxEnrollments r \<longrightarrow> ur_State r \<le> ur_MaxEnrollments r"
    by (simp_all add: demo_rvdb_def unique_ids_def demo_user_def)
  have s: "ts_reg ?st = Some ?d" by simp
  have "accounts.lifted (Some ?d) (ts_reg (demo_run ?st))"
    using accounts.reachable_rel [OF demo_run_reachable demo_on_database, of ?st] by simp
  then obtain d' where d': "ts_reg (demo_run ?st) = Some d'" by (auto simp: accounts.lifted_def option_rel_Some1)
  with enrollment_limit_invariant [OF demo_run_reachable demo_on_database s d d'] show ?thesis by blast
qed

end
