(* ===== verification/Client_Lib.thy ===== *)
theory Client_Lib
  imports Tls_Config Go_Net Http_Api Auth_Token Sign_Request
begin

text \<open>
  The client library under \<^verbatim>\<open>lib/\<close>: \<^verbatim>\<open>client.go\<close>, \<^verbatim>\<open>identity.go\<close>, \<^verbatim>\<open>signer.go\<close>, \<^verbatim>\<open>verifier.go\<close>,
  and \<^verbatim>\<open>temporalsigner.go\<close>.

  The environment \<open>client_env\<close> holds what comes from elsewhere: signatures and certificates, the
  parsing and printing of URLs, key pairs and CA pools, CFSSL's generation of certificate requests,
  and the network.  The network has a state \<open>'n\<close>; \<open>ce_Do\<close> carries one request to the other side and
  brings back a status and a body, whose reading may fail.  Nil slices are \<open>None\<close>.
\<close>

subsection \<open>Signers and verifiers\<close>

record Verifier =
  vf_Cert :: "bytes option"

record Signer =
  sn_Verifier :: Verifier
  sn_Key :: "bytes option"

record TemporalSigner =
  tsn_Signer :: Signer

definition newVerifier :: "bytes option \<Rightarrow> Verifier" where
  "newVerifier cert = \<lparr>vf_Cert = cert\<rparr>"

definition newSigner :: "bytes option \<Rightarrow> bytes option \<Rightarrow> Signer" where
  "newSigner key cert = \<lparr>sn_Verifier = newVerifier cert, sn_Key = key\<rparr>"

definition newTemporalSigner :: "bytes option \<Rightarrow> bytes option \<Rightarrow> TemporalSigner" where
  "newTemporalSigner key cert = \<lparr>tsn_Signer = newSigner key cert\<rparr>"

definition Verifier_GetMyCert :: "Verifier \<Rightarrow> bytes option" where
  "Verifier_GetMyCert v = vf_Cert v"

definition Signer_getMyKey :: "Signer \<Rightarrow> bytes option" where
  "Signer_getMyKey s = sn_Key s"

definition nil_bytes :: "bytes option \<Rightarrow> bytes" where
  "nil_bytes b = (case b of None \<Rightarrow> [] | Some b \<Rightarrow> b)"

definition Verifier_GetX509Cert :: "x509_env \<Rightarrow> Verifier \<Rightarrow> Certificate result" where
  "Verifier_GetX509Cert X v = (case pem_Decode X (nil_bytes (vf_Cert v)) of
     None \<Rightarrow> Inl (ErrorString ''pem decode failed'')
   | Some der \<Rightarrow> x509_ParseCertificate X der)"

definition hex_encode :: "bytes \<Rightarrow> string" where
  "hex_encode b = concat (map (\<lambda>w. [hex_digit (unat w div 16), hex_digit (unat w mod 16)]) b)"

definition Verifier_GetSerial :: "x509_env \<Rightarrow> Verifier \<Rightarrow> (string \<times> string) result" where
  "Verifier_GetSerial X v = (case Verifier_GetX509Cert X v of
     Inl err \<Rightarrow> Inl err
   | Inr cert \<Rightarrow> Inr (Itoa (x_SerialNumber cert), hex_encode (x_AuthorityKeyId cert)))"

subsection \<open>The client\<close>

record lib_Client =
  cl_ServerURL :: string
  cl_HomeDir :: string

record Identity =
  id_client :: "lib_Client option"
  id_Name :: string
  id_PublicSigner :: TemporalSigner

text \<open>A response; \<^verbatim>\<open>null\<close> and a missing result are nil.\<close>

record api_Response =
  ar_Success :: bool
  ar_Result :: json
  ar_Errors :: "(int \<times> string) list"
  ar_Messages :: "(int \<times> string) list"

record 'n client_env =
  ce_sig :: sig_env
  ce_parseURL :: "string \<Rightarrow> URL result"
  ce_URLString :: "URL \<Rightarrow> string"
  ce_checkURL :: "string \<Rightarrow> unit result"
  ce_tls :: tls_env
  ce_ParseRequest :: "CertificateRequest \<Rightarrow> (bytes \<times> bytes) result"
  ce_hostname :: string
  ce_b64prefix :: "string \<Rightarrow> bytes"
  ce_partial :: "string \<Rightarrow> api_Response"
  ce_partialTLS :: "string \<Rightarrow> ClientTLSConfig"
  ce_Do :: "tls_Config option \<Rightarrow> string \<Rightarrow> HttpRequest \<Rightarrow> 'n \<Rightarrow> (int \<times> string result) result \<times> 'n"

record 'n client_world =
  cw_os :: os_world
  cw_net :: 'n

definition lib_Client_fields :: "lib_Client \<Rightarrow> (string \<times> json) list \<Rightarrow> lib_Client option" where
  "lib_Client_fields c kvs =
     (case (dec_field dec_string ''serverURL'' kvs (cl_ServerURL c), dec_field dec_string ''homeDir'' kvs (cl_HomeDir c)) of
        (Some u, Some h) \<Rightarrow> Some \<lparr>cl_ServerURL = u, cl_HomeDir = h\<rparr>
      | _ \<Rightarrow> None)"

definition lib_NewClient :: "(string \<Rightarrow> string) \<Rightarrow> string \<Rightarrow> lib_Client result" where
  "lib_NewClient env config =
     (let c = \<lparr>cl_ServerURL = ''http://localhost:8888'', cl_HomeDir = GetDefaultHomeDir env\<rparr>
      in if config \<noteq> [] then Unmarshal (decode (lib_Client_fields c)) config ''NewClient'' else Inr c)"

definition newIdentity :: "lib_Client option \<Rightarrow> string \<Rightarrow> bytes option \<Rightarrow> bytes option \<Rightarrow> Identity" where
  "newIdentity client name key cert =
     \<lparr>id_client = client, id_Name = name, id_PublicSigner = newTemporalSigner key cert\<rparr>"

definition Client_Capabilities :: "lib_Client \<Rightarrow> Capability list" where
  "Client_Capabilities c = [REGISTRATION, ENROLLMENT, ATTRIBUTES, ANONYMITY, UNLINKABILITY]"

subsubsection \<open>Files\<close>

definition GetMyEnrollmentDir :: "lib_Client \<Rightarrow> os_world \<Rightarrow> string" where
  "GetMyEnrollmentDir c w =
     (let dir = os_Getenv w ''COP_ENROLLMENT_DIR'' in if dir = [] then cl_HomeDir c else dir)"

definition GetMyKeyFile :: "lib_Client \<Rightarrow> os_world \<Rightarrow> string" where
  "GetMyKeyFile c w =
     (let file = os_Getenv w ''COP_KEY_FILE'' in
      if file = [] then FilepathJoin [GetMyEnrollmentDir c w, ''key.pem''] else file)"

definition GetMyCertFile :: "lib_Client \<Rightarrow> os_world \<Rightarrow> string" where
  "GetMyCertFile c w =
     (let file = os_Getenv w ''COP_CERT_FILE'' in
      if file = [] then FilepathJoin [GetMyEnrollmentDir c w, ''cert.pem''] else file)"

definition StoreMyIdentity :: "lib_Client \<Rightarrow> bytes option \<Rightarrow> bytes option \<Rightarrow> os_world \<Rightarrow> unit result \<times> os_world" where
  "StoreMyIdentity c key cert w = (case WriteFile (GetMyKeyFile c w) (nil_bytes key) 384 w of
     (Inl err, w) \<Rightarrow> (Inl err, w)
   | (Inr _, w) \<Rightarrow> WriteFile (GetMyCertFile c w) (nil_bytes cert) 420 w)"

definition Client_NewIdentity :: "sig_env \<Rightarrow> lib_Client \<Rightarrow> bytes \<Rightarrow> bytes \<Rightarrow> Identity result" where
  "Client_NewIdentity E c key cert = (case GetEnrollmentIDFromPEM (se_x509 E) cert of
     Inl err \<Rightarrow> Inl err
   | Inr name \<Rightarrow> Inr (newIdentity (Some c) name (Some key) (Some cert)))"

definition LoadIdentity :: "sig_env \<Rightarrow> lib_Client \<Rightarrow> string \<Rightarrow> string \<Rightarrow> os_world \<Rightarrow> Identity result \<times> os_world" where
  "LoadIdentity E c keyFile certFile w = (case ReadFile keyFile w of
     (Inl err, w) \<Rightarrow> (Inl err, w)
   | (Inr key, w) \<Rightarrow> (case ReadFile certFile w of
       (Inl err, w) \<Rightarrow> (Inl err, w)
     | (Inr cert, w) \<Rightarrow> (Client_NewIdentity E c key cert, w)))"

definition LoadMyIdentity :: "sig_env \<Rightarrow> lib_Client \<Rightarrow> os_world \<Rightarrow> Identity result \<times> os_world" where
  "LoadMyIdentity E c w = LoadIdentity E c (GetMyKeyFile c w) (GetMyCertFile c w) w"

definition Identity_Store :: "Identity \<Rightarrow> os_world \<Rightarrow> unit result \<times> os_world" where
  "Identity_Store i w = (case id_client i of
     None \<Rightarrow> (Inl (ErrorString ''An identity with no client may not be stored''), w)
   | Some c \<Rightarrow> StoreMyIdentity c (sn_Key (tsn_Signer (id_PublicSigner i)))
                (vf_Cert (sn_Verifier (tsn_Signer (id_PublicSigner i)))) w)"

definition LoadCSRInfo :: "'n client_env \<Rightarrow> string \<Rightarrow> os_world \<Rightarrow> CSRInfo result \<times> os_world" where
  "LoadCSRInfo E path w = (case ioutil_ReadFile path w of
     (Inl err, w) \<Rightarrow> (Inl err, w)
   | (Inr csrJSON, w) \<Rightarrow> (Unmarshal (decode CSRInfo_fields) (string_of csrJSON) ''LoadCSRInfo'', w))"

subsubsection \<open>URLs\<close>

definition defaultServerPort :: string where
  "defaultServerPort = ''8888''"

definition is_trim :: "char \<Rightarrow> bool" where
  "is_trim c \<longleftrightarrow> c \<in> {CHR 0x09, CHR 0x0A, CHR 0x0B, CHR 0x0C, CHR 0x0D, CHR 0x20}"

definition TrimSpace :: "string \<Rightarrow> string" where
  "TrimSpace s = rev (dropWhile is_trim (rev (dropWhile is_trim s)))"

definition normalizeURL :: "(string \<Rightarrow> URL result) \<Rightarrow> string \<Rightarrow> URL result" where
  "normalizeURL parse addr = (case parse (TrimSpace addr) of
     Inl err \<Rightarrow> Inl err
   | Inr u \<Rightarrow>
       (let u = (if url_Opaque u \<noteq> [] then u\<lparr>url_Host := JoinHostPort (url_Scheme u) (url_Opaque u), url_Opaque := []\<rparr>
                 else if url_Path u \<noteq> [] \<and> CHR '':'' \<notin> set (url_Path u)
                 then u\<lparr>url_Host := JoinHostPort (url_Path u) defaultServerPort, url_Path := []\<rparr>
                 else if url_Scheme u = [] then u\<lparr>url_Host := url_Path u, url_Path := []\<rparr>
                 else u);
            u = (if url_Scheme u \<noteq> ''https'' then u\<lparr>url_Scheme := ''http''\<rparr> else u)
        in case (case SplitHostPort (url_Host u) of
                   Inr (_, port) \<Rightarrow> Inr port
                 | Inl _ \<Rightarrow> (case SplitHostPort (url_Host u @ '':'' @ defaultServerPort) of
                     Inl err \<Rightarrow> Inl err | Inr (_, port) \<Rightarrow> Inr port)) of
             Inl err \<Rightarrow> Inl err
           | Inr port \<Rightarrow>
               if port \<noteq> [] then (case Atoi port of Inl err \<Rightarrow> Inl err | Inr _ \<Rightarrow> Inr u)
               else Inr u))"

definition Client_getURL :: "'n client_env \<Rightarrow> lib_Client \<Rightarrow> string \<Rightarrow> string result" where
  "Client_getURL E c endpoint = (case normalizeURL (ce_parseURL E) (cl_ServerURL c) of
     Inl err \<Rightarrow> Inl (COPError (WrapError err (code_num CFSSL) ''error getting URL for %s'' [FStr endpoint]))
   | Inr nurl \<Rightarrow> Inr (ce_URLString E nurl @ ''/api/v1/cfssl/'' @ endpoint))"

subsubsection \<open>Requests and responses\<close>

text \<open>A request is its URL and the request proper; \<^verbatim>\<open>NewError\<close> takes the message as a format.\<close>

definition Client_NewPost :: "'n client_env \<Rightarrow> lib_Client \<Rightarrow> string \<Rightarrow> string \<Rightarrow> (string \<times> HttpRequest) result" where
  "Client_NewPost E c endpoint reqBody = (case Client_getURL E c endpoint of
     Inl err \<Rightarrow> Inl err
   | Inr curl \<Rightarrow> (case ce_checkURL E curl of
       Inl err \<Rightarrow> Inl (COPError (NewError (code_num CFSSL) (''failed to create new request to '' @ curl @ '': '' @ Error err) []))
     | Inr _ \<Rightarrow> Inr (curl, \<lparr>hr_Method = ''POST'', hr_Authorization = [], hr_Eid = [], hr_Body = reqBody, hr_ReadErr = None\<rparr>)))"

definition clientConfigFile :: string where
  "clientConfigFile = ''cop_client.json''"

definition getClientConfig :: "string \<Rightarrow> os_world \<Rightarrow> bytes result \<times> os_world" where
  "getClientConfig path w = ioutil_ReadFile (FilepathJoin [path, clientConfigFile]) w"

fun dec_message :: "json \<Rightarrow> (int \<times> string) option" where
  "dec_message (JObj kvs) =
     (case (dec_field dec_int ''code'' kvs 0, dec_field dec_string ''message'' kvs []) of
        (Some c, Some m) \<Rightarrow> Some (c, m)
      | _ \<Rightarrow> None)"
| "dec_message _ = None"

definition api_Response_fields :: "(string \<times> json) list \<Rightarrow> api_Response option" where
  "api_Response_fields kvs =
     (case (dec_field dec_bool ''success'' kvs False, dec_ref Some JNull ''result'' kvs JNull,
            dec_ref (dec_list dec_message (0, [])) [] ''errors'' kvs [],
            dec_ref (dec_list dec_message (0, [])) [] ''messages'' kvs []) of
        (Some s, Some r, Some es, Some ms) \<Rightarrow>
          Some \<lparr>ar_Success = s, ar_Result = r, ar_Errors = es, ar_Messages = ms\<rparr>
      | _ \<Rightarrow> None)"

text \<open>
  The text for a status of 400 and more.  The messages are used when decoding the body \<^emph>\<open>fails\<close>;
  then \<open>ce_partial\<close> is what the decoder had stored by that time, nothing for a body that is not
  JSON.
\<close>

definition error_text :: "'n client_env \<Rightarrow> int \<Rightarrow> string \<Rightarrow> string" where
  "error_text E status respBody =
     (let plain = ''HTTP status code='' @ Itoa status @ ''; '' @ respBody
      in ''Error response from COP server; '' @
         (case decode api_Response_fields respBody of
            Inr _ \<Rightarrow> plain
          | Inl err \<Rightarrow> (case ar_Errors (ce_partial E respBody) of (_, m) # _ \<Rightarrow> m | [] \<Rightarrow> plain)))"

text \<open>
  Failures of the TLS set-up are only logged; the transport then has no configuration of its own.
  \<open>ce_partialTLS\<close> is what the decoder had stored when it failed.
\<close>

definition client_tls :: "'n client_env \<Rightarrow> lib_Client \<Rightarrow> os_world \<Rightarrow> tls_Config option \<times> os_world" where
  "client_tls E c w = (case getClientConfig (cl_HomeDir c) w of
     (r, w) \<Rightarrow>
       (let zero = \<lparr>ct_CACertFiles = [], ct_Client = \<lparr>kc_KeyFile = [], kc_CertFile = []\<rparr>\<rparr>;
            cfg = (case r of
                     Inl _ \<Rightarrow> zero
                   | Inr b \<Rightarrow> (case decode (\<lambda>kvs. dec_ClientTLSConfig (JObj kvs)) (string_of b) of
                       Inl _ \<Rightarrow> ce_partialTLS E (string_of b) | Inr c \<Rightarrow> c))
        in (case GetClientTLSConfig (ce_tls E) cfg w of
              (Inl _, w) \<Rightarrow> (None, w)
            | (Inr t, w) \<Rightarrow> (Some t, w))))"

definition Client_SendPost ::
  "'n client_env \<Rightarrow> lib_Client \<Rightarrow> string \<times> HttpRequest \<Rightarrow> 'n client_world \<Rightarrow> string result \<times> 'n client_world" where
  "Client_SendPost E c req w = (case client_tls E c (cw_os w) of
     (tlsConfig, os) \<Rightarrow>
       (let w = w\<lparr>cw_os := os\<rparr> in
        (case ce_Do E tlsConfig (fst req) (snd req) (cw_net w) of
           (r, n) \<Rightarrow>
             (let w = w\<lparr>cw_net := n\<rparr> in
              (case r of
                 Inl err \<Rightarrow> (Inl (ErrorString (''POST failed: '' @ Error err)), w)
               | Inr (status, Inl err) \<Rightarrow> (Inl (ErrorString (''failed to read response: '' @ Error err)), w)
               | Inr (status, Inr respBody) \<Rightarrow>
                   if status \<ge> 400 then (Inl (ErrorString (error_text E status respBody)), w)
                   else (Inr respBody, w))))))"

subsubsection \<open>Certificate requests\<close>

definition Client_newCertificateRequest :: "'n client_env \<Rightarrow> CSRInfo option \<Rightarrow> CertificateRequest" where
  "Client_newCertificateRequest E req =
     \<lparr>cq_CN = [],
      cq_Names = (case req of None \<Rightarrow> None | Some r \<Rightarrow> ci_Names r),
      cq_Hosts = (case (case req of None \<Rightarrow> None | Some r \<Rightarrow> ci_Hosts r) of
                    Some hs \<Rightarrow> Some hs
                  | None \<Rightarrow> if ce_hostname E \<noteq> [] then Some [ce_hostname E] else None),
      cq_KeyRequest = (case req of None \<Rightarrow> None | Some r \<Rightarrow> ci_KeyRequest r),
      cq_CA = (case req of None \<Rightarrow> None | Some r \<Rightarrow> ci_CA r),
      cq_SerialNumber = (case req of None \<Rightarrow> [] | Some r \<Rightarrow> ci_SerialNumber r)\<rparr>"

definition Client_GenCSR :: "'n client_env \<Rightarrow> CSRInfo option \<Rightarrow> string \<Rightarrow> (bytes \<times> bytes) result" where
  "Client_GenCSR E req name =
     (let cr = (Client_newCertificateRequest E req)\<lparr>cq_CN := name\<rparr> in ce_ParseRequest E cr)"

text \<open>The request that \<^verbatim>\<open>Enroll\<close> and \<^verbatim>\<open>Reenroll\<close> send.\<close>

definition client_SignRequest :: "string \<Rightarrow> bytes \<Rightarrow> string \<Rightarrow> string \<Rightarrow> SignRequest" where
  "client_SignRequest hosts csrPEM profile label =
     \<lparr>sq_Hosts = SplitHosts hosts, sq_Request = string_of csrPEM, sq_Subject = None, sq_Profile = profile,
      sq_CRLOverride = [], sq_Label = label, sq_Serial = None, sq_Extensions = None\<rparr>"

lemma client_SignRequest_received:
  "decode SignRequest_fields (json_print (SignRequest_json (client_SignRequest hosts csr profile label))) = Inr (client_SignRequest hosts csr profile label)"
  by (rule SignRequest_roundtrip) (simp_all add: client_SignRequest_def)

subsubsection \<open>Identities\<close>

definition Identity_GetName :: "Identity \<Rightarrow> string" where
  "Identity_GetName i = id_Name i"

definition Identity_GetMyCert :: "Identity \<Rightarrow> bytes option" where
  "Identity_GetMyCert i = Verifier_GetMyCert (sn_Verifier (tsn_Signer (id_PublicSigner i)))"

definition Identity_GetMyKey :: "Identity \<Rightarrow> bytes option" where
  "Identity_GetMyKey i = Signer_getMyKey (tsn_Signer (id_PublicSigner i))"

definition addTokenAuthHdr :: "sig_env \<Rightarrow> Identity \<Rightarrow> HttpRequest \<Rightarrow> string \<Rightarrow> HttpRequest result" where
  "addTokenAuthHdr E i req body = (case (Identity_GetMyCert i, Identity_GetMyKey i) of
     (Some cert, Some key) \<Rightarrow> (case CreateToken E cert key (bytes_of body) of
       Inl tokenerr \<Rightarrow> Inl (COPError (WrapError tokenerr 1 ''test'' []))
     | Inr tok \<Rightarrow> Inr (req\<lparr>hr_Authorization := tok\<rparr>))
   | _ \<Rightarrow> Inl (COPError (NewError (code_num AuthorizationFailure) ''Failed to set authorization header token'' [])))"

text \<open>A nil client is dereferenced.\<close>

definition Identity_Post ::
  "'n client_env \<Rightarrow> Identity \<Rightarrow> string \<Rightarrow> string \<Rightarrow> 'n client_world \<Rightarrow> string result \<times> 'n client_world" where
  "Identity_Post E i endpoint reqBody w = (case id_client i of
     None \<Rightarrow> (Inl (GoPanic ''invalid memory address or nil pointer dereference''), w)
   | Some c \<Rightarrow> (case Client_NewPost E c endpoint reqBody of
       Inl err \<Rightarrow> (Inl err, w)
     | Inr (curl, req) \<Rightarrow> (case addTokenAuthHdr (ce_sig E) i req reqBody of
         Inl err \<Rightarrow> (Inl err, w)
       | Inr req \<Rightarrow> Client_SendPost E c (curl, req) w)))"

definition Identity_GetPrivateSigners ::
  "'n client_env \<Rightarrow> Identity \<Rightarrow> GetPrivateSignersRequest \<Rightarrow> 'n client_world \<Rightarrow> unit result \<times> 'n client_world" where
  "Identity_GetPrivateSigners E i req w =
     (case Marshal GetPrivateSignersRequest_json req ''idp.GetPrivateSignersRequest'' of
        Inl err \<Rightarrow> (Inl err, w)
      | Inr reqBody \<Rightarrow> (case Identity_Post E i ''tcert'' reqBody w of
          (Inl err, w) \<Rightarrow> (Inl err, w) | (Inr _, w) \<Rightarrow> (Inr (), w)))"

definition Identity_Revoke ::
  "'n client_env \<Rightarrow> Identity \<Rightarrow> RevocationRequest \<Rightarrow> 'n client_world \<Rightarrow> unit result \<times> 'n client_world" where
  "Identity_Revoke E i req w =
     (case Marshal RevocationRequest_json req ''RevocationRequest'' of
        Inl err \<Rightarrow> (Inl err, w)
      | Inr reqBody \<Rightarrow> (case Identity_Post E i ''revoke'' reqBody w of
          (Inl err, w) \<Rightarrow> (Inl err, w) | (Inr _, w) \<Rightarrow> (Inr (), w)))"

definition Identity_RevokeSelf ::
  "'n client_env \<Rightarrow> Identity \<Rightarrow> 'n client_world \<Rightarrow> unit result \<times> 'n client_world" where
  "Identity_RevokeSelf E i w =
     (case Verifier_GetSerial (se_x509 (ce_sig E)) (sn_Verifier (tsn_Signer (id_PublicSigner i))) of
        Inl err \<Rightarrow> (Inl err, w)
      | Inr (serial, akid) \<Rightarrow>
          Identity_Revoke E i \<lparr>rv_Name = Identity_GetName i, rv_Serial = serial, rv_AKI = akid, rv_Reason = 0\<rparr> w)"

subsubsection \<open>Registration and enrollment\<close>

text \<open>
  The body of the response is decoded with the error ignored, and its result has to be a string:
  the type assertion panics on anything else.
\<close>

definition result_string :: "json \<Rightarrow> string result" where
  "result_string r = (case r of JStr s \<Rightarrow> Inr s | _ \<Rightarrow> Inl (GoPanic ''interface conversion: interface is not string''))"

definition Client_Register ::
  "'n client_env \<Rightarrow> RegistrationRequest \<Rightarrow> Identity option \<Rightarrow> 'n client_world \<Rightarrow> string result \<times> 'n client_world" where
  "Client_Register E req registrar w =
     (if rr_Name req = [] then (Inl (ErrorString ''Register was called without a Name set''), w)
      else if rr_Group req = [] then (Inl (ErrorString ''Register was called without a Group set''), w)
      else (case registrar of
        None \<Rightarrow> (Inl (ErrorString ''Register was called without a Registrar identity set''), w)
      | Some i \<Rightarrow>
          (let request = \<lparr>rq_User = rr_Name req, rq_Group = rr_Group req, rq_Type = rr_Type req,
                          rq_Attributes = rr_Attributes req, rq_CallerID = Identity_GetName i\<rparr>
           in (case Marshal RegisterRequest_json request ''RegistrationRequest'' of
                 Inl err \<Rightarrow> (Inl err, w)
               | Inr reqBody \<Rightarrow> (case Identity_Post E i ''register'' reqBody w of
                   (Inl err2, w) \<Rightarrow> (Inl err2, w)
                 | (Inr buf, w) \<Rightarrow>
                     (case decode api_Response_fields buf of
                        Inl _ \<Rightarrow> (result_string (ar_Result (ce_partial E buf)), w)
                      | Inr response \<Rightarrow> (result_string (ar_Result response), w)))))))"

definition newIdentityFromResponse ::
  "'n client_env \<Rightarrow> lib_Client \<Rightarrow> string \<Rightarrow> string \<Rightarrow> bytes \<Rightarrow> Identity result" where
  "newIdentityFromResponse E c name cert key = (case decode api_Response_fields cert of
     Inl err \<Rightarrow> Inl err
   | Inr resp \<Rightarrow> (case result_string (ar_Result resp) of
       Inl p \<Rightarrow> Inl p
     | Inr s \<Rightarrow>
         (let certByte = (case StdDecode s of Inr b \<Rightarrow> b | Inl _ \<Rightarrow> ce_b64prefix E s) in
          if ar_Success resp then Inr (newIdentity (Some c) name (Some key) (Some certByte))
          else Inl (COPError (NewError (code_num EnrollingUserError) ''Failed to reenroll user'' [])))))"

record EnrollmentRequest =
  eq_Name :: string
  eq_Secret :: string
  eq_Hosts :: string
  eq_Profile :: string
  eq_Label :: string
  eq_CSR :: "CSRInfo option"

definition Client_Enroll ::
  "'n client_env \<Rightarrow> lib_Client \<Rightarrow> EnrollmentRequest \<Rightarrow> 'n client_world \<Rightarrow> Identity result \<times> 'n client_world" where
  "Client_Enroll E c req w = (case Client_GenCSR E (eq_CSR req) (eq_Name req) of
     Inl err \<Rightarrow> (Inl err, w)
   | Inr (csrPEM, key) \<Rightarrow>
       (let body = json_print (SignRequest_json (client_SignRequest (eq_Hosts req) csrPEM (eq_Profile req) (eq_Label req)))
        in (case Client_NewPost E c ''enroll'' body of
              Inl err \<Rightarrow> (Inl err, w)
            | Inr (curl, post) \<Rightarrow>
                (case Client_SendPost E c (curl, SetBasicAuth (eq_Name req) (eq_Secret req) post) w of
                   (Inl err, w) \<Rightarrow> (Inl err, w)
                 | (Inr cert, w) \<Rightarrow> (newIdentityFromResponse E c (eq_Name req) cert key, w)))))"

record ReenrollmentRequest =
  req_ID :: "Identity option"
  req_Hosts :: string
  req_Profile :: string
  req_Label :: string
  req_CSR :: "CSRInfo option"

definition Client_Reenroll ::
  "'n client_env \<Rightarrow> lib_Client \<Rightarrow> ReenrollmentRequest \<Rightarrow> 'n client_world \<Rightarrow> Identity result \<times> 'n client_world" where
  "Client_Reenroll E c req w = (case req_ID req of
     None \<Rightarrow> (Inl (ErrorString ''ReenrollmentRequest.ID was not set''), w)
   | Some i \<Rightarrow> (case Client_GenCSR E (req_CSR req) (Identity_GetName i) of
       Inl err \<Rightarrow> (Inl err, w)
     | Inr (csrPEM, key) \<Rightarrow>
         (let body = json_print (SignRequest_json (client_SignRequest (req_Hosts req) csrPEM (req_Profile req) (req_Label req)))
          in (case Identity_Post E i ''reenroll'' body w of
                (Inl err, w) \<Rightarrow> (Inl err, w)
              | (Inr cert, w) \<Rightarrow> (newIdentityFromResponse E c (Identity_GetName i) cert key, w)))))"

subsection \<open>Storing and loading an identity\<close>

lemma my_files_os: "os_Getenv w' = os_Getenv w \<Longrightarrow> GetMyKeyFile c w' = GetMyKeyFile c w \<and> GetMyCertFile c w' = GetMyCertFile c w"
  by (simp add: GetMyKeyFile_def GetMyCertFile_def GetMyEnrollmentDir_def Let_def)

lemma Store_then_Load:
  assumes "id_client i = Some c" "Identity_GetMyKey i = Some key" "Identity_GetMyCert i = Some cert"
    and "GetEnrollmentIDFromPEM (se_x509 E) cert = Inr name"
    and "os_faults w = []" "os_dirs w (FilepathDir (GetMyKeyFile c w))" "os_dirs w (FilepathDir (GetMyCertFile c w))"
    and "GetMyKeyFile c w \<noteq> GetMyCertFile c w"
  shows "\<exists>w'. Identity_Store i w = (Inr (), w') \<and>
    LoadMyIdentity E c w' = (Inr (newIdentity (Some c) name (Some key) (Some cert)), w') \<and>
    (os_files w (GetMyKeyFile c w) = None \<longrightarrow> map_option snd (os_files w' (GetMyKeyFile c w)) = Some 384) \<and>
    (\<forall>f. f \<noteq> GetMyKeyFile c w \<longrightarrow> f \<noteq> GetMyCertFile c w \<longrightarrow> os_files w' f = os_files w f)"
proof -
  let ?k = "GetMyKeyFile c w" and ?c = "GetMyCertFile c w"
  define w1 where "w1 = w\<lparr>os_files := (os_files w)(?k \<mapsto> (key, case os_files w ?k of None \<Rightarrow> 384 | Some (_, m) \<Rightarrow> m))\<rparr>"
  define w2 where "w2 = w1\<lparr>os_files := (os_files w1)(?c \<mapsto> (cert, case os_files w1 ?c of None \<Rightarrow> 420 | Some (_, m) \<Rightarrow> m))\<rparr>"
  have e: "GetMyKeyFile c w1 = ?k" "GetMyCertFile c w1 = ?c" "GetMyKeyFile c w2 = ?k" "GetMyCertFile c w2 = ?c"
    using my_files_os [of w1 w c] my_files_os [of w2 w c] by (simp_all add: w1_def w2_def)
  have s1: "WriteFile ?k key 384 w = (Inr (), w1)"
    unfolding w1_def using assms(5,6) by (rule WriteFile_no_faults)
  have s2: "WriteFile ?c cert 420 w1 = (Inr (), w2)"
    unfolding w2_def by (rule WriteFile_no_faults) (simp_all add: w1_def assms)
  have st: "Identity_Store i w = (Inr (), w2)"
    using assms(1-3) s1 s2 e
    by (simp add: Identity_Store_def StoreMyIdentity_def Identity_GetMyKey_def Identity_GetMyCert_def Signer_getMyKey_def
        Verifier_GetMyCert_def nil_bytes_def)
  have f: "os_faults w2 = []" "os_files w2 ?k = Some (key, case os_files w ?k of None \<Rightarrow> 384 | Some (_, m) \<Rightarrow> m)"
    "\<exists>m. os_files w2 ?c = Some (cert, m)"
    using assms(5,8) by (simp_all add: w2_def w1_def)
  then have "LoadMyIdentity E c w2 = (Inr (newIdentity (Some c) name (Some key) (Some cert)), w2)"
    using ReadFile_no_faults [OF f(1)] assms(4) e by (auto simp: LoadMyIdentity_def LoadIdentity_def Client_NewIdentity_def)
  with st f(2) show ?thesis
    by (intro exI [of _ w2]) (auto simp: w2_def w1_def)
qed

lemma newIdentity_same:
  assumes "id_client i = Some c" "Identity_GetMyKey i = Some key" "Identity_GetMyCert i = Some cert"
  shows "newIdentity (Some c) name (Some key) (Some cert) = i \<longleftrightarrow> Identity_GetName i = name"
  using assms
  by (auto simp: newIdentity_def newTemporalSigner_def newSigner_def newVerifier_def Identity_GetMyKey_def Identity_GetMyCert_def
      Signer_getMyKey_def Verifier_GetMyCert_def Identity_GetName_def intro!: Identity.equality TemporalSigner.equality Signer.equality Verifier.equality)

text \<open>
  C25. The key and the certificate of an identity that is stored are the ones loaded afterwards.  The
  identity's name is not stored: the loaded identity has the common name of the certificate, whatever the
  stored one was called, so it is the stored identity again exactly if that was its name.  The key
  file, if it is new, is readable by its owner alone, and no other file is touched.
\<close>

theorem identity_store_load:
  assumes "id_client i = Some c" "Identity_GetMyKey i = Some key" "Identity_GetMyCert i = Some cert"
    and "GetEnrollmentIDFromPEM (se_x509 E) cert = Inr name"
    and "os_faults w = []" "os_dirs w (FilepathDir (GetMyKeyFile c w))" "os_dirs w (FilepathDir (GetMyCertFile c w))"
    and "GetMyKeyFile c w \<noteq> GetMyCertFile c w"
  shows "\<exists>w'. Identity_Store i w = (Inr (), w') \<and>
    LoadMyIdentity E c w' = (Inr (newIdentity (Some c) name (Some key) (Some cert)), w') \<and>
    (newIdentity (Some c) name (Some key) (Some cert) = i \<longleftrightarrow> Identity_GetName i = name) \<and>
    (os_files w (GetMyKeyFile c w) = None \<longrightarrow> map_option snd (os_files w' (GetMyKeyFile c w)) = Some 384) \<and>
    (\<forall>f. f \<noteq> GetMyKeyFile c w \<longrightarrow> f \<noteq> GetMyCertFile c w \<longrightarrow> os_files w' f = os_files w f)"
  using Store_then_Load [OF assms] newIdentity_same [OF assms(1-3)] by simp

definition demo_os :: os_world where
  "demo_os = \<lparr>os_Getenv = (\<lambda>_. []), os_files = Map.empty, os_dirs = (\<lambda>_. True), os_faults = []\<rparr>"

definition demo_client :: lib_Client where
  "demo_client = \<lparr>cl_ServerURL = ''http://localhost:8888'', cl_HomeDir = ''/home/cop''\<rparr>"

definition demo_identity :: "string \<Rightarrow> Identity" where
  "demo_identity k = newIdentity (Some demo_client) k (Some (bytes_of k)) (Some (bytes_of k))"

lemma demo_identity_simps:
  "id_client (demo_identity k) = Some demo_client" "Identity_GetMyKey (demo_identity k) = Some (bytes_of k)"
  "Identity_GetMyCert (demo_identity k) = Some (bytes_of k)" "Identity_GetName (demo_identity k) = k"
  by (simp_all add: demo_identity_def newIdentity_def newTemporalSigner_def newSigner_def newVerifier_def Identity_GetMyKey_def
      Identity_GetMyCert_def Signer_getMyKey_def Verifier_GetMyCert_def Identity_GetName_def)

theorem identity_store_load_witness:
  "\<exists>w'. Identity_Store (demo_identity ''alice'') demo_os = (Inr (), w') \<and>
    LoadMyIdentity demo_sig demo_client w' = (Inr (demo_identity ''alice''), w') \<and>
    map_option snd (os_files w' ''/home/cop/key.pem'') = Some 384"
proof -
  have k: "GetMyKeyFile demo_client demo_os = ''/home/cop/key.pem''" and c: "GetMyCertFile demo_client demo_os = ''/home/cop/cert.pem''"
    by code_simp+
  have n: "GetEnrollmentIDFromPEM (se_x509 demo_sig) (bytes_of ''alice'') = Inr ''alice''"
    using demo_x_parse [of "''alice''"] by (simp add: GetEnrollmentIDFromPEM_def GetEnrollmentIDFromX509Certificate_def demo_x_def)
  show ?thesis
    using identity_store_load [OF demo_identity_simps(1-3) n, of demo_os] k c
    by (auto simp: demo_os_def demo_identity_def)
qed

subsection \<open>Talking to the server\<close>

lemma json_parse_line: "json_wf v \<Longrightarrow> json_parse (json_print v @ [CHR 0x0A]) = Some v"
  using parse_value_print [of v "Suc (length (json_print v))" "[CHR 0x0A]"] json_fuel_print [of v]
  by (simp add: json_parse_def skip_ws_def is_ws_def num_stop_def is_numchar_def is_digit_def)

lemma SendResponse_decode:
  assumes "json_wf r" "r \<noteq> JNull"
  shows "decode api_Response_fields (hp_Body (SendResponse r)) =
    Inr \<lparr>ar_Success = True, ar_Result = r, ar_Errors = [], ar_Messages = []\<rparr>"
proof -
  have "json_wf (NewSuccessResponse r)" using assms by (simp add: NewSuccessResponse_def)
  then show ?thesis
    using assms json_parse_line [of "NewSuccessResponse r"]
    by (simp add: SendResponse_def decode_def root_fields_def NewSuccessResponse_def api_Response_fields_def ToLower_def lower_char_def
        del: json_print.simps)
qed

text \<open>A posted request carries a token that the server verifies, and nothing else than the body.\<close>

lemma addTokenAuthHdr_verifies:
  assumes "sig_correct E" "Identity_GetMyCert i = Some cert" "Identity_GetMyKey i = Some key"
    and "GetX509CertificateFromPEM (se_x509 E) cert = Inr c" "key_matches E c key"
    and "addTokenAuthHdr E i req body = Inr req'"
  shows "VerifyToken E (hr_Authorization req') (bytes_of body) = Inr c \<and> req' = req\<lparr>hr_Authorization := hr_Authorization req'\<rparr>"
proof -
  obtain tok where "CreateToken E cert key (bytes_of body) = Inr tok" "req' = req\<lparr>hr_Authorization := tok\<rparr>"
    using assms(2,3,6) by (auto simp: addTokenAuthHdr_def split: sum.splits)
  with CreateToken_verifies [OF assms(1,4,5)] show ?thesis by simp
qed

text \<open>
  An address with a path, even a single slash, loses its host: the path takes its place.
\<close>

lemma normalizeURL_path:
  assumes "parse (TrimSpace addr) = Inr u" "url_Opaque u = []" "url_Path u \<noteq> []" "CHR '':'' \<notin> set (url_Path u)"
    and "normalizeURL parse addr = Inr v"
  shows "url_Host v = JoinHostPort (url_Path u) ''8888'' \<and> url_Path v = []"
  using assms by (auto simp: normalizeURL_def Let_def defaultServerPort_def split: sum.splits if_splits)

lemma normalizeURL_scheme: "normalizeURL parse addr = Inr v \<Longrightarrow> url_Scheme v \<in> {''http'', ''https''} \<and> url_Opaque v = []"
  by (auto simp: normalizeURL_def Let_def split: sum.splits if_splits)

text \<open>
  The messages of an error response are never shown: for a response of the server the text is the
  status and the raw body.
\<close>

lemma error_text_plain:
  "decode api_Response_fields body = Inr r \<Longrightarrow>
   error_text E status body = ''Error response from COP server; HTTP status code='' @ Itoa status @ ''; '' @ body"
  by (simp add: error_text_def Let_def)

end
