(* ===== verification/Client_Server.thy ===== *)
theory Client_Server
  imports Server_System Client_Lib
begin

text \<open>
  The client library against the server: the transport of the client hands its requests to the
  server's multiplexer, and the state of the network is the state of the server.
\<close>

subsection \<open>The transport\<close>

text \<open>
  A URL that starts with the server's base address reaches the server with the rest as its path.  An
  aborted request ends the connection.  A redirect, which the server answers to a \<^verbatim>\<open>POST\<close> without a body, is not followed
  and comes back as the response.
\<close>

definition server_Do ::
  "'k request_env \<Rightarrow> ('s, 'u, 'k) server \<Rightarrow> string \<Rightarrow> tls_Config option \<Rightarrow> string \<Rightarrow> HttpRequest \<Rightarrow>
   ('s, 'k) tcert_state \<Rightarrow> (int \<times> string result) result \<times> ('s, 'k) tcert_state" where
  "server_Do W sv base tls url r st =
     (if \<not> HasPrefix url base then (Inl (ExtError ''no route to host''), st)
      else (case serve W sv (drop (length base) url) r st of
              (Response resp, st) \<Rightarrow> (Inr (hp_Status resp, Inr (hp_Body resp)), st)
            | (MovedPermanently _, st) \<Rightarrow> (Inr (301, Inr []), st)
            | (PageNotFound, st) \<Rightarrow> (Inr (404, Inr ''404 page not found''), st)
            | (Aborted, st) \<Rightarrow> (Inl (ExtError ''EOF''), st)))"

text \<open>The client's address and the server's base address agree.\<close>

definition connects :: "'n client_env \<Rightarrow> lib_Client \<Rightarrow> string \<Rightarrow> bool" where
  "connects E c base \<longleftrightarrow> (\<forall>ep. Client_NewPost E c ep = (\<lambda>body.
     Inr (base @ wrappedPath ep, \<lparr>hr_Method = ''POST'', hr_Authorization = [], hr_Eid = [], hr_Body = body, hr_ReadErr = None\<rparr>)))"

lemma SendPost_served:
  assumes "ce_Do E = server_Do W sv base" "serve W sv path r (cw_net w) = (Response resp, st')" "hp_Status resp < 400"
  shows "\<exists>os. Client_SendPost E c (base @ path, r) w = (Inr (hp_Body resp), w\<lparr>cw_os := os, cw_net := st'\<rparr>)"
proof -
  obtain t os where t: "client_tls E c (cw_os w) = (t, os)" by (cases "client_tls E c (cw_os w)")
  have "ce_Do E t (base @ path) r (cw_net w) = (Inr (hp_Status resp, Inr (hp_Body resp)), st')"
    using assms(1,2) by (simp add: server_Do_def)
  with t assms(3) show ?thesis by (auto simp: Client_SendPost_def Let_def)
qed

subsection \<open>Endpoints with basic authentication\<close>

lemma serveHTTP_login:
  assumes "c_Authentication cfg" "ah_basic ah" "BasicAuth r = Some (user, pwd)"
    and "login_attempt user pwd (ts_reg st) = (Inr (), h)"
  shows "copAuthHandler_serveHTTP A (server_registry db_registry) cfg ah r st =
    (Inr (), (HTTPRequestToString r)\<lparr>hr_Eid := user\<rparr>, st\<lparr>ts_reg := h\<rparr>)"
proof -
  have "BasicAuth (HTTPRequestToString r) = BasicAuth r" "hr_Authorization (HTTPRequestToString r) = hr_Authorization r"
    by (simp_all add: HTTPRequestToString_def BasicAuth_def)
  moreover have "hr_Authorization r \<noteq> []" using assms(3) by (auto simp: BasicAuth_def Let_def HasPrefix_def split: if_splits)
  ultimately show ?thesis using assms
    by (auto simp: copAuthHandler_serveHTTP_def login_attempt_def Let_def server_registry_def on_reg_def split: prod.splits sum.splits)
qed

text \<open>The signer issues and stores a new certificate.\<close>

definition stored_as_good :: "CertRecord \<Rightarrow> string \<Rightarrow> sqldb \<Rightarrow> sqldb" where
  "stored_as_good cr name d = d\<lparr>certificates := certificates d @ [cr\<lparr>cr_Status := ''good'', cr_ID := name\<rparr>]\<rparr>"

lemma stored_as_good_simps [simp]:
  "users (stored_as_good cr name d) = users d" "faults (stored_as_good cr name d) = faults d"
  "certificates (stored_as_good cr name d) = certificates d @ [cr\<lparr>cr_Status := ''good'', cr_ID := name\<rparr>]"
  by (simp_all add: stored_as_good_def)

lemma enroll_signed:
  assumes "on_database X sv" "sv_enrollSigner sv = Some (Some f)" "faults d = []"
    and "re_issue W q = Inr cr" "cert_key cr \<notin> cert_key ` set (certificates d)" "GetEnrollmentIDFromPEM X (bytes_of (cr_PEM cr)) = Inr name"
  shows "enroll_signer W sv q (Some d) =
    (Inr (bytes_of (cr_PEM cr)), Some (stored_as_good cr name d))"
proof -
  let ?cr = "cr\<lparr>cr_Status := ''good''\<rparr>"
  have "f = cert_InsertCertificate X" using assms(1,2) by (auto simp: on_backend_def)
  moreover have "cert_key ?cr = cert_key cr" by (simp add: cert_key_def)
  ultimately show ?thesis
    using assms(2-6) InsertCertificate_no_faults [of d ?cr X name] by (simp add: enroll_signer_def local_Sign_def Let_def stored_as_good_def)
qed

lemma sign_handled:
  assumes "hr_Method r = ''POST''" "ReadAll r = Inr body" "ts_reg st = Some d" "decode SignRequest_fields body = Inr q"
    and "enroll_signer W sv q (Some d) = (Inr (bytes_of (cr_PEM cr)), Some d')"
  shows "on_reg (HTTPHandler_ServeHTTP [''POST''] (signHandler_Handle (enroll_signer W sv) ep) r) st =
    (Some (SendResponse (json_bytes (bytes_of (cr_PEM cr)))), st\<lparr>ts_reg := Some d'\<rparr>)"
  using assms by (simp add: on_reg_def HTTPHandler_ServeHTTP_def signHandler_Handle_def Unmarshal_def)

lemma HTTPRequestToString_simps [simp]:
  "hr_Method ((HTTPRequestToString r)\<lparr>hr_Eid := n\<rparr>) = hr_Method r" "ReadAll ((HTTPRequestToString r)\<lparr>hr_Eid := n\<rparr>) = Inr (hr_Body r)"
  "hr_Authorization ((HTTPRequestToString r)\<lparr>hr_Eid := n\<rparr>) = hr_Authorization r"
  "hr_Method (HTTPRequestToString r) = hr_Method r" "ReadAll (HTTPRequestToString r) = Inr (hr_Body r)"
  by (simp_all add: HTTPRequestToString_def ReadAll_def)

lemma enroll_endpoint:
  "(''enroll'', Inr (\<lambda>r. on_reg (HTTPHandler_ServeHTTP [''POST''] (signHandler_Handle (enroll_signer W sv) ''enroll'') r))) \<in> set (endpoints W sv)"
  by (simp add: endpoints_def handler_on_reg_def NewEnrollHandler_def newSignHandler_def)

lemma serve_enroll:
  assumes "on_database X sv" "sv_enrollSigner sv = Some (Some f)" "c_Authentication (sv_CFG sv)" "hr_Method r = ''POST''"
    and "BasicAuth r = Some (user, pwd)" "login_attempt user pwd (ts_reg st) = (Inr (), Some d)" "faults d = []"
    and "decode SignRequest_fields (hr_Body r) = Inr q" "re_issue W q = Inr cr" "cert_key cr \<notin> cert_key ` set (certificates d)"
    and "GetEnrollmentIDFromPEM X (bytes_of (cr_PEM cr)) = Inr name"
  shows "serve W sv (wrappedPath ''enroll'') r st =
    (Response (SendResponse (json_bytes (bytes_of (cr_PEM cr)))),
     st\<lparr>ts_reg := Some (stored_as_good cr name d)\<rparr>)"
proof -
  let ?h = "\<lambda>r. on_reg (HTTPHandler_ServeHTTP [''POST''] (signHandler_Handle (enroll_signer W sv) ''enroll'') r)"
  let ?r = "(HTTPRequestToString r)\<lparr>hr_Eid := user\<rparr>"
  have f: "sv_userRegistry sv = db_registry" using assms(1) by (simp add: on_backend_def)
  have "?h ?r (st\<lparr>ts_reg := Some d\<rparr>) = (Some (SendResponse (json_bytes (bytes_of (cr_PEM cr)))), st\<lparr>ts_reg := Some (stored_as_good cr name d)\<rparr>)"
    using sign_handled [of ?r _ "st\<lparr>ts_reg := Some d\<rparr>", OF _ _ _ assms(8) enroll_signed [OF assms(1,2,7,9-11)]] assms(4) by simp
  moreover have "ah_basic (wrapper ''enroll'' ?h)" by (simp add: wrapper_def)
  note serveHTTP_login [OF assms(3) this assms(5,6), of "re_auth W"]
  ultimately show ?thesis
    using f by (simp add: serve_endpoint [OF enroll_endpoint] copAuthHandler_ServeHTTP_def) (simp add: wrapper_def)
qed

lemma serve_reenroll:
  assumes "on_database X sv" "sv_enrollSigner sv = Some (Some f)" "c_Authentication (sv_CFG sv)" "hr_Method r = ''POST''"
    and "VerifyToken (ae_sig (re_auth W)) (hr_Authorization r) (bytes_of (hr_Body r)) = Inr cert"
    and "VerifyCertificate (re_auth W) cert = (False, True)" "ts_reg st = Some d" "faults d = []"
    and "decode SignRequest_fields (hr_Body r) = Inr q" "re_issue W q = Inr cr" "cert_key cr \<notin> cert_key ` set (certificates d)"
    and "GetEnrollmentIDFromPEM X (bytes_of (cr_PEM cr)) = Inr name"
  shows "serve W sv (wrappedPath ''reenroll'') r st =
    (Response (SendResponse (json_bytes (bytes_of (cr_PEM cr)))),
     st\<lparr>ts_reg := Some (stored_as_good cr name d)\<rparr>)"
proof -
  let ?h = "\<lambda>r. on_reg (HTTPHandler_ServeHTTP [''POST''] (signHandler_Handle (enroll_signer W sv) ''reenroll'') r)"
  let ?r = "(HTTPRequestToString r)\<lparr>hr_Eid := x_CommonName cert\<rparr>"
  have e: "(''reenroll'', Inr ?h) \<in> set (endpoints W sv)"
    by (simp add: endpoints_def handler_on_reg_def NewReenrollHandler_def newSignHandler_def)
  have "?h ?r st = (Some (SendResponse (json_bytes (bytes_of (cr_PEM cr)))), st\<lparr>ts_reg := Some (stored_as_good cr name d)\<rparr>)"
    using sign_handled [of ?r, OF _ _ assms(7,9) enroll_signed [OF assms(1,2,8,10-12)]] assms(4) by simp
  then show ?thesis using serve_token_endpoint [OF e _ _ _ assms(3,5,6), of st] by simp
qed

lemma serve_revoke:
  assumes "sv_userRegistry sv = db_registry" "sv_certDBAccessor sv = Some db_cert_ops" "c_Authentication (sv_CFG sv)" "hr_Method r = ''POST''"
    and "VerifyToken (ae_sig (re_auth W)) (hr_Authorization r) (bytes_of (hr_Body r)) = Inr cert"
    and "VerifyCertificate (re_auth W) cert = (False, True)" "ts_reg st = Some d" "faults d = []" "is_revoker d (x_CommonName cert)"
    and "decode RevocationRequest_fields (hr_Body r) = Inr req" "rv_Name req \<noteq> []" "rv_Serial req = [] \<or> rv_AKI req = []"
    and "lookup_user d (rv_Name req) = Some u"
  shows "serve W sv (wrappedPath ''revoke'') r st =
    (Response (SendResponse (JObj [])), st\<lparr>ts_reg := Some (disabled (rv_Name req) (rv_Reason req) d)\<rparr>)"
proof -
  let ?h = "\<lambda>r. on_reg (HTTPHandler_ServeHTTP [''POST''] (revokeHandler_Handle (ae_sig (re_auth W)) db_registry (Some db_cert_ops)) r)"
  let ?r = "(HTTPRequestToString r)\<lparr>hr_Eid := x_CommonName cert\<rparr>"
  have e: "(''revoke'', Inr ?h) \<in> set (endpoints W sv)"
    by (simp add: endpoints_def handler_on_reg_def NewRevokeHandler_def assms(1,2))
  have r: "ReadAll ?r = Inr (hr_Body r)" "hr_Method ?r = ''POST''" "hr_Authorization ?r = hr_Authorization r"
    using assms(4) by (simp_all add: HTTPRequestToString_def ReadAll_def)
  then have "?h ?r st = (Some (SendResponse (JObj [])), st\<lparr>ts_reg := Some (disabled (rv_Name req) (rv_Reason req) d)\<rparr>)"
    using revoke_by_name_handled [OF assms(8) r(1) _ assms(9-13)] assms(5,7) by (simp add: on_reg_def HTTPHandler_ServeHTTP_def)
  then show ?thesis using serve_token_endpoint [OF e _ _ _ assms(3,5,6), of st] by simp
qed

lemma serve_register:
  assumes "sv_userRegistry sv = db_registry" "c_Authentication (sv_CFG sv)" "hr_Method r = ''POST''"
    and "VerifyToken (ae_sig (re_auth W)) (hr_Authorization r) (bytes_of (hr_Body r)) = Inr cert"
    and "VerifyCertificate (re_auth W) cert = (False, True)" "hr_Body r = json_print (RegisterRequest_json req)"
    and "Register_RegisterUser db_registry (sv_CFG sv) (re_secret W) (rq_User req) (rq_Type req) (rq_Group req)
           (rq_Attributes req) (rq_CallerID req) [] (ts_reg st) = (Inr tok, h)"
  shows "serve W sv (wrappedPath ''register'') r st = (Response (SendResponse (json_bytes (bytes_of tok))), st\<lparr>ts_reg := h\<rparr>)"
proof -
  let ?h = "\<lambda>r. on_reg (HTTPHandler_ServeHTTP [''POST''] (registerHandler_Handle db_registry (sv_CFG sv) (re_secret W)) r)"
  have e: "(''register'', Inr ?h) \<in> set (endpoints W sv)"
    by (simp add: endpoints_def handler_on_reg_def NewRegisterHandler_def assms(1))
  have "ReadAll ((HTTPRequestToString r)\<lparr>hr_Eid := n\<rparr>) = Inr (json_print (RegisterRequest_json req))"
    "hr_Method ((HTTPRequestToString r)\<lparr>hr_Eid := n\<rparr>) = ''POST''" for n
    using assms(3,6) by (simp_all add: HTTPRequestToString_def ReadAll_def)
  then have "?h ((HTTPRequestToString r)\<lparr>hr_Eid := x_CommonName cert\<rparr>) st =
      (Some (SendResponse (json_bytes (bytes_of tok))), st\<lparr>ts_reg := h\<rparr>)"
    using assms(7) by (simp add: on_reg_def HTTPHandler_ServeHTTP_def registerHandler_Handle_def RegisterRequest_roundtrip)
  then show ?thesis using serve_token_endpoint [OF e _ _ _ assms(2,4,5), of st] by simp
qed

subsection \<open>Registering and enrolling a user\<close>

lemma json_bytes_response:
  "decode api_Response_fields (hp_Body (SendResponse (json_bytes b))) =
     Inr \<lparr>ar_Success = True, ar_Result = JStr (StdEncode b), ar_Errors = [], ar_Messages = []\<rparr>"
  using SendResponse_decode [of "json_bytes b"] by (simp add: json_bytes_def)

text \<open>An identity whose certificate and key belong together and that can sign.\<close>

definition can_sign :: "sig_env \<Rightarrow> Identity \<Rightarrow> Certificate \<Rightarrow> bool" where
  "can_sign S i c \<longleftrightarrow> (\<exists>cert key. Identity_GetMyCert i = Some cert \<and> Identity_GetMyKey i = Some key \<and>
     GetX509CertificateFromPEM (se_x509 S) cert = Inr c \<and> key_matches S c key \<and>
     (\<forall>body. \<exists>tok. CreateToken S cert key body = Inr tok))"

lemma addTokenAuthHdr_can_sign:
  assumes "sig_correct S" "can_sign S i c"
  obtains tok where "addTokenAuthHdr S i r body = Inr (r\<lparr>hr_Authorization := tok\<rparr>)" "VerifyToken S tok (bytes_of body) = Inr c"
proof -
  obtain cert key where k: "Identity_GetMyCert i = Some cert" "Identity_GetMyKey i = Some key"
    "GetX509CertificateFromPEM (se_x509 S) cert = Inr c" "key_matches S c key" "\<forall>body. \<exists>tok. CreateToken S cert key body = Inr tok"
    using assms(2) by (auto simp: can_sign_def)
  then obtain tok where t: "CreateToken S cert key (bytes_of body) = Inr tok" by blast
  then have "addTokenAuthHdr S i r body = Inr (r\<lparr>hr_Authorization := tok\<rparr>)" using k(1,2) by (simp add: addTokenAuthHdr_def)
  with addTokenAuthHdr_verifies [OF assms(1) k(1-4) this] that show thesis by simp
qed

text \<open>A request the client signs, answered by the server.\<close>

definition token_request :: "string \<Rightarrow> string \<Rightarrow> HttpRequest" where
  "token_request tok body = \<lparr>hr_Method = ''POST'', hr_Authorization = tok, hr_Eid = [], hr_Body = body, hr_ReadErr = None\<rparr>"

lemma token_request_simps [simp]:
  "hr_Method (token_request tok body) = ''POST''" "hr_Authorization (token_request tok body) = tok" "hr_Body (token_request tok body) = body"
  "ReadAll (HTTPRequestToString (token_request tok body)\<lparr>hr_Eid := n\<rparr>) = Inr body"
  by (simp_all add: token_request_def HTTPRequestToString_def ReadAll_def)

lemma Identity_Post_served:
  assumes "ce_Do E = server_Do W sv base" "id_client i = Some c" "connects E c base"
    and "sig_correct (ce_sig E)" "can_sign (ce_sig E) i cert" "hp_Status resp < 400"
    and "\<And>tok. VerifyToken (ce_sig E) tok (bytes_of body) = Inr cert \<Longrightarrow>
      serve W sv (wrappedPath ep) (token_request tok body) (cw_net w) = (Response resp, st)"
  shows "\<exists>os. Identity_Post E i ep body w = (Inr (hp_Body resp), w\<lparr>cw_os := os, cw_net := st\<rparr>)"
proof -
  let ?r = "token_request [] body"
  obtain t where t: "addTokenAuthHdr (ce_sig E) i ?r body = Inr (?r\<lparr>hr_Authorization := t\<rparr>)"
    "VerifyToken (ce_sig E) t (bytes_of body) = Inr cert" using addTokenAuthHdr_can_sign [OF assms(4,5)] by blast
  moreover have "?r\<lparr>hr_Authorization := t\<rparr> = token_request t body" by (simp add: token_request_def)
  moreover have "Client_NewPost E c ep body = Inr (base @ wrappedPath ep, ?r)" using assms(3) by (simp add: connects_def token_request_def)
  moreover from SendPost_served [OF assms(1) assms(7) [OF t(2)] assms(6), of c] obtain os where
    "Client_SendPost E c (base @ wrappedPath ep, token_request t body) w = (Inr (hp_Body resp), w\<lparr>cw_os := os, cw_net := st\<rparr>)" by blast
  ultimately show ?thesis using assms(2) by (auto simp: Identity_Post_def)
qed

lemma Client_Register_served:
  assumes "ce_Do E = server_Do W sv base" "id_client i = Some c" "connects E c base" "ce_sig E = ae_sig (re_auth W)"
    and "sig_correct (ce_sig E)" "can_sign (ce_sig E) i cert" "VerifyCertificate (re_auth W) cert = (False, True)"
    and "sv_userRegistry sv = db_registry" "c_Authentication (sv_CFG sv)" "rr_Name req \<noteq> []" "rr_Group req \<noteq> []"
    and "Register_RegisterUser db_registry (sv_CFG sv) (re_secret W) (rr_Name req) (rr_Type req) (rr_Group req)
           (rr_Attributes req) (Identity_GetName i) [] (ts_reg (cw_net w)) = (Inr tok, h)"
  shows "\<exists>os. Client_Register E req (Some i) w = (Inr (StdEncode (bytes_of tok)), w\<lparr>cw_os := os, cw_net := (cw_net w)\<lparr>ts_reg := h\<rparr>\<rparr>)"
proof -
  let ?q = "\<lparr>rq_User = rr_Name req, rq_Group = rr_Group req, rq_Type = rr_Type req,
    rq_Attributes = rr_Attributes req, rq_CallerID = Identity_GetName i\<rparr>"
  let ?body = "json_print (RegisterRequest_json ?q)"
  have "\<exists>os. Identity_Post E i ''register'' ?body w =
      (Inr (hp_Body (SendResponse (json_bytes (bytes_of tok)))), w\<lparr>cw_os := os, cw_net := (cw_net w)\<lparr>ts_reg := h\<rparr>\<rparr>)"
    by (rule Identity_Post_served [OF assms(1-3,5,6)], simp add: error_statuses, rule serve_register [where req = ?q and cert = cert])
      (use assms(4,7-9,12) in simp_all)
  with assms(10,11) show ?thesis
    by (auto simp: Client_Register_def Marshal_def json_bytes_response result_string_def)
qed

lemma Client_Enroll_served:
  assumes "ce_Do E = server_Do W sv base" "connects E c base" "Client_GenCSR E (eq_CSR req) (eq_Name req) = Inr (csr, key)"
    and "on_database X sv" "sv_enrollSigner sv = Some (Some f)" "c_Authentication (sv_CFG sv)" "CHR '':'' \<notin> set (eq_Name req)"
    and "login_attempt (eq_Name req) (eq_Secret req) (ts_reg (cw_net w)) = (Inr (), Some d)" "faults d = []"
    and "re_issue W (client_SignRequest (eq_Hosts req) csr (eq_Profile req) (eq_Label req)) = Inr cr" "cert_key cr \<notin> cert_key ` set (certificates d)"
    and "GetEnrollmentIDFromPEM X (bytes_of (cr_PEM cr)) = Inr name"
  shows "\<exists>os. Client_Enroll E c req w =
    (Inr (newIdentity (Some c) (eq_Name req) (Some key) (Some (bytes_of (cr_PEM cr)))),
     w\<lparr>cw_os := os, cw_net := (cw_net w)\<lparr>ts_reg := Some (stored_as_good cr name d)\<rparr>\<rparr>)"
proof -
  let ?body = "json_print (SignRequest_json (client_SignRequest (eq_Hosts req) csr (eq_Profile req) (eq_Label req)))"
  let ?r = "SetBasicAuth (eq_Name req) (eq_Secret req)
    \<lparr>hr_Method = ''POST'', hr_Authorization = [], hr_Eid = [], hr_Body = ?body, hr_ReadErr = None\<rparr>"
  let ?st = "(cw_net w)\<lparr>ts_reg := Some (stored_as_good cr name d)\<rparr>"
  have "hr_Method ?r = ''POST''" "hr_Body ?r = ?body" by (simp_all add: SetBasicAuth_def)
  then have "serve W sv (wrappedPath ''enroll'') ?r (cw_net w) = (Response (SendResponse (json_bytes (bytes_of (cr_PEM cr)))), ?st)"
    using serve_enroll [OF assms(4-6) _ BasicAuth_Set [OF assms(7)] assms(8,9) _ assms(10-12)] client_SignRequest_received by simp
  from SendPost_served [OF assms(1) this, of c] obtain os where
    "Client_SendPost E c (base @ wrappedPath ''enroll'', ?r) w =
      (Inr (hp_Body (SendResponse (json_bytes (bytes_of (cr_PEM cr))))), w\<lparr>cw_os := os, cw_net := ?st\<rparr>)"
    by (auto simp: error_statuses)
  moreover have "newIdentityFromResponse E c (eq_Name req) (hp_Body (SendResponse (json_bytes (bytes_of (cr_PEM cr))))) key =
      Inr (newIdentity (Some c) (eq_Name req) (Some key) (Some (bytes_of (cr_PEM cr))))"
    by (simp add: newIdentityFromResponse_def json_bytes_response result_string_def)
  ultimately show ?thesis
    using assms(2,3) by (auto simp: Client_Enroll_def connects_def Let_def)
qed

lemma Client_Reenroll_served:
  assumes "ce_Do E = server_Do W sv base" "req_ID req = Some i" "id_client i = Some c'" "connects E c' base" "ce_sig E = ae_sig (re_auth W)"
    and "sig_correct (ce_sig E)" "can_sign (ce_sig E) i cert" "VerifyCertificate (re_auth W) cert = (False, True)"
    and "Client_GenCSR E (req_CSR req) (Identity_GetName i) = Inr (csr, key)"
    and "on_database X sv" "sv_enrollSigner sv = Some (Some f)" "c_Authentication (sv_CFG sv)" "ts_reg (cw_net w) = Some d" "faults d = []"
    and "re_issue W (client_SignRequest (req_Hosts req) csr (req_Profile req) (req_Label req)) = Inr cr" "cert_key cr \<notin> cert_key ` set (certificates d)"
    and "GetEnrollmentIDFromPEM X (bytes_of (cr_PEM cr)) = Inr name"
  shows "\<exists>os. Client_Reenroll E c req w =
    (Inr (newIdentity (Some c) (Identity_GetName i) (Some key) (Some (bytes_of (cr_PEM cr)))),
     w\<lparr>cw_os := os, cw_net := (cw_net w)\<lparr>ts_reg := Some (stored_as_good cr name d)\<rparr>\<rparr>)"
proof -
  let ?q = "client_SignRequest (req_Hosts req) csr (req_Profile req) (req_Label req)"
  let ?body = "json_print (SignRequest_json ?q)"
  have "\<exists>os. Identity_Post E i ''reenroll'' ?body w = (Inr (hp_Body (SendResponse (json_bytes (bytes_of (cr_PEM cr))))),
      w\<lparr>cw_os := os, cw_net := (cw_net w)\<lparr>ts_reg := Some (stored_as_good cr name d)\<rparr>\<rparr>)"
    by (rule Identity_Post_served [OF assms(1,3,4,6,7)], simp add: error_statuses,
        rule serve_reenroll [OF assms(10-12) _ _ assms(8,13,14) _ assms(15-17)])
      (use assms(5) in \<open>simp_all add: client_SignRequest_received\<close>)
  with assms(2,9) show ?thesis
    by (auto simp: Client_Reenroll_def Let_def newIdentityFromResponse_def json_bytes_response result_string_def)
qed

lemma Identity_Revoke_served:
  assumes "ce_Do E = server_Do W sv base" "id_client i = Some c" "connects E c base" "ce_sig E = ae_sig (re_auth W)"
    and "sig_correct (ce_sig E)" "can_sign (ce_sig E) i cert" "VerifyCertificate (re_auth W) cert = (False, True)"
    and "sv_userRegistry sv = db_registry" "sv_certDBAccessor sv = Some db_cert_ops" "c_Authentication (sv_CFG sv)"
    and "ts_reg (cw_net w) = Some d" "faults d = []" "is_revoker d (x_CommonName cert)"
    and "rv_Name req \<noteq> []" "rv_Serial req = [] \<or> rv_AKI req = []" "in_int (rv_Reason req)" "lookup_user d (rv_Name req) = Some u"
  shows "\<exists>os. Identity_Revoke E i req w =
    (Inr (), w\<lparr>cw_os := os, cw_net := (cw_net w)\<lparr>ts_reg := Some (disabled (rv_Name req) (rv_Reason req) d)\<rparr>\<rparr>)"
proof -
  have "\<exists>os. Identity_Post E i ''revoke'' (json_print (RevocationRequest_json req)) w = (Inr (hp_Body (SendResponse (JObj []))),
      w\<lparr>cw_os := os, cw_net := (cw_net w)\<lparr>ts_reg := Some (disabled (rv_Name req) (rv_Reason req) d)\<rparr>\<rparr>)"
    by (rule Identity_Post_served [OF assms(1-3,5,6)], simp add: error_statuses,
        rule serve_revoke [OF assms(8-10) _ _ assms(7,11-13) _ assms(14,15,17)])
      (use assms(4,16) in \<open>simp_all add: RevocationRequest_roundtrip\<close>)
  then show ?thesis by (auto simp: Identity_Revoke_def Marshal_def)
qed

lemma connects_Do: "connects (E\<lparr>ce_Do := do\<rparr>) c base = connects E c base"
  by (simp add: connects_def Client_NewPost_def Client_getURL_def fun_eq_iff cong: sum.case_cong)

lemma GenCSR_Do: "Client_GenCSR (E\<lparr>ce_Do := do\<rparr>) csr name = Client_GenCSR E csr name"
  by (simp add: Client_GenCSR_def Client_newCertificateRequest_def cong: option.case_cong)

text \<open>A new user that has been registered can log in with its secret.\<close>

lemma registered_login:
  assumes "faults d = []" "unique_ids d" "lookup_user d n = None" "0 \<le> c_MaxEnrollments cfg" "grp \<in> gr_Name ` set (groups d)"
    and "Register_canRegister db_registry registrar t (Some d) = (Inr (), Some d)"
  obtains d1 d2 where "Register_RegisterUser db_registry cfg tok n t grp attrs registrar [] (Some d) = (Inr tok, Some d1)"
    "login_attempt n tok (Some d1) = (Inr (), Some d2)" "faults d2 = []" "certificates d2 = certificates d"
    "map_option ur_State (lookup_user d2 n) = Some 1"
proof -
  let ?u = "registered cfg \<lparr>ui_Name = n, ui_Pass = tok, ui_Type = t, ui_Group = grp, ui_Attributes = attrs\<rparr>"
  let ?d1 = "d\<lparr>users := users d @ [?u]\<rparr>"
  let ?f = "\<lambda>x. x\<lparr>ur_State := 1\<rparr>"
  let ?d2 = "?d1\<lparr>users := update_rows (\<lambda>x. ur_Name x = n) ?f (users ?d1)\<rparr>"
  have u: "ur_Name ?u = n" "ur_Pass ?u = tok" "ur_State ?u = 0" "ur_MaxEnrollments ?u = c_MaxEnrollments cfg"
    by (simp_all add: registered_def user_record_def)
  have reg: "Register_RegisterUser db_registry cfg tok n t grp attrs registrar [] (Some d) = (Inr tok, Some ?d1)"
    using assms(1,3,5,6) by (intro RegisterUser_no_faults) auto
  have l1: "lookup_user ?d1 n = Some ?u" using assms(3) u by (simp add: lookup_user_append)
  moreover have "unique_ids ?d1" using assms(2,3) u by (auto simp: unique_ids_def lookup_user_None)
  ultimately have "login_attempt n (ur_Pass ?u) (Some ?d1) =
      (Inr (), Some (?d1\<lparr>users := update_rows (\<lambda>x. ur_Name x = n) (\<lambda>x. x\<lparr>ur_State := ur_State ?u + 1\<rparr>) (users ?d1)\<rparr>))"
    using assms(1,4) u(3,4) by (intro login_attempt_no_faults) auto
  then have "login_attempt n tok (Some ?d1) = (Inr (), Some ?d2)" unfolding u by simp
  moreover have "lookup_user ?d2 n = Some (?f ?u)" using lookup_update_users [where f = ?f and d = ?d1 and uid = n] l1 by simp
  ultimately show thesis using that [OF reg, of ?d2] assms(1) by simp
qed

text \<open>
  C1. The whole path of a new user: a registrar who holds its enrollment key and certificate, and
  whose roles allow the type, registers a new name in an existing group through the client
  library; the answer is the base64 text of the secret the server drew.  Enrolling under the name
  with that secret then succeeds: the client gets an identity with its own key and the certificate
  the signer issued, the server has stored that certificate as good under the enrollment ID it
  names, and has counted one login.  This holds when no statement fails and the certificate's serial
  number is new.
\<close>

theorem register_and_enroll:
  assumes "id_client i = Some c" "connects E c base" "ce_sig E = ae_sig (re_auth W1)" "sig_correct (ce_sig E)"
    and "can_sign (ce_sig E) i cert" "VerifyCertificate (re_auth W1) cert = (False, True)"
    and "on_database X sv" "sv_enrollSigner sv = Some (Some f)" "c_Authentication (sv_CFG sv)" "0 \<le> c_MaxEnrollments (sv_CFG sv)"
    and "ts_reg (cw_net w) = Some d" "faults d = []" "unique_ids d"
    and "rr_Name req \<noteq> []" "CHR '':'' \<notin> set (rr_Name req)" "lookup_user d (rr_Name req) = None"
    and "rr_Group req \<noteq> []" "rr_Group req \<in> gr_Name ` set (groups d)"
    and "Register_canRegister db_registry (Identity_GetName i) (rr_Type req) (Some d) = (Inr (), Some d)"
    and "eq_Name er = rr_Name req" "eq_Secret er = re_secret W1" "Client_GenCSR E (eq_CSR er) (eq_Name er) = Inr (csr, key)"
    and "re_issue W2 (client_SignRequest (eq_Hosts er) csr (eq_Profile er) (eq_Label er)) = Inr cr" "cert_key cr \<notin> cert_key ` set (certificates d)"
    and "GetEnrollmentIDFromPEM X (bytes_of (cr_PEM cr)) = Inr name"
  shows "\<exists>secret w1 w2 d'.
    Client_Register (E\<lparr>ce_Do := server_Do W1 sv base\<rparr>) req (Some i) w = (Inr secret, w1) \<and> StdDecode secret = Inr (bytes_of (eq_Secret er)) \<and>
    Client_Enroll (E\<lparr>ce_Do := server_Do W2 sv base\<rparr>) c er w1 =
      (Inr (newIdentity (Some c) (rr_Name req) (Some key) (Some (bytes_of (cr_PEM cr)))), w2) \<and>
    ts_reg (cw_net w2) = Some d' \<and> certificates d' = certificates d @ [cr\<lparr>cr_Status := ''good'', cr_ID := name\<rparr>] \<and>
    map_option ur_State (lookup_user d' (rr_Name req)) = Some 1"
proof -
  let ?n = "rr_Name req" and ?E1 = "E\<lparr>ce_Do := server_Do W1 sv base\<rparr>" and ?E2 = "E\<lparr>ce_Do := server_Do W2 sv base\<rparr>"
  obtain d1 d2 where r: "Register_RegisterUser db_registry (sv_CFG sv) (re_secret W1) ?n (rr_Type req) (rr_Group req) (rr_Attributes req)
      (Identity_GetName i) [] (ts_reg (cw_net w)) = (Inr (re_secret W1), Some d1)"
    and log: "login_attempt ?n (re_secret W1) (Some d1) = (Inr (), Some d2)"
    and d2: "faults d2 = []" "certificates d2 = certificates d" "map_option ur_State (lookup_user d2 ?n) = Some 1"
    unfolding assms(11) by (rule registered_login [OF assms(12,13,16,10,18,19)])
  from Client_Register_served [of ?E1 W1 sv base i c cert req w, OF _ assms(1) _ _ _ _ assms(6) _ assms(9,14,17) r]
  obtain os1 where reg: "Client_Register ?E1 req (Some i) w =
      (Inr (StdEncode (bytes_of (re_secret W1))), w\<lparr>cw_os := os1, cw_net := (cw_net w)\<lparr>ts_reg := Some d1\<rparr>\<rparr>)" (is "_ = (_, ?w1)")
    using assms(2-5,7) by (auto simp: connects_Do on_backend_def)
  have "lookup_user (stored_as_good cr name d2) = lookup_user d2" by (rule lookup_users_eq) simp
  moreover from Client_Enroll_served [of ?E2 W2 sv base c er csr key X f ?w1 d2 cr name, OF _ _ _ assms(7-9) _ _ d2(1) assms(23) _ assms(25)]
  obtain os2 where "Client_Enroll ?E2 c er ?w1 = (Inr (newIdentity (Some c) (eq_Name er) (Some key) (Some (bytes_of (cr_PEM cr)))),
       ?w1\<lparr>cw_os := os2, cw_net := (cw_net ?w1)\<lparr>ts_reg := Some (stored_as_good cr name d2)\<rparr>\<rparr>)"
    using assms(2,15,20-22,24) log d2(2) by (auto simp: connects_Do GenCSR_Do)
  ultimately show ?thesis using reg assms(20,21) d2 by (auto intro!: exI)
qed

definition demo_cenv :: "(sqldb option, string) tcert_state client_env" where
  "demo_cenv = \<lparr>ce_sig = demo_sig,
     ce_parseURL = (\<lambda>_. Inr \<lparr>url_Scheme = ''http'', url_Opaque = [], url_User = None, url_Host = ''localhost:8888'', url_Path = []\<rparr>),
     ce_URLString = (\<lambda>u. url_Scheme u @ ''://'' @ url_Host u), ce_checkURL = (\<lambda>_. Inr ()),
     ce_tls = \<lparr>tl_LoadKeyPair = (\<lambda>_ _. Inl (ErrorString [])), tl_IsCertPEM = (\<lambda>_. True)\<rparr>,
     ce_ParseRequest = (\<lambda>cr. Inr (bytes_of (cq_CN cr), bytes_of ''key'')), ce_hostname = [],
     ce_b64prefix = (\<lambda>_. []), ce_partial = (\<lambda>_. \<lparr>ar_Success = False, ar_Result = JNull, ar_Errors = [], ar_Messages = []\<rparr>),
     ce_partialTLS = (\<lambda>_. \<lparr>ct_CACertFiles = [], ct_Client = \<lparr>kc_KeyFile = [], kc_CertFile = []\<rparr>\<rparr>),
     ce_Do = (\<lambda>_ _ _ n. (Inl (ErrorString []), n))\<rparr>"

lemma demo_connects: "connects demo_cenv c ''http://localhost:8888''"
proof -
  have "Client_getURL demo_cenv c ep = Inr (''http://localhost:8888'' @ wrappedPath ep)" for ep
  proof -
    have "SplitHostPort ''localhost:8888'' = Inr (''localhost'', ''8888'')" "Atoi ''8888'' = Inr 8888" by code_simp+
    then show ?thesis by (auto simp: Client_getURL_def normalizeURL_def demo_cenv_def wrappedPath_def Let_def)
  qed
  moreover have "ce_checkURL demo_cenv = (\<lambda>_. Inr ())" by (simp add: demo_cenv_def)
  ultimately show ?thesis by (simp add: connects_def Client_NewPost_def fun_eq_iff)
qed

lemma demo_can_sign: "can_sign demo_sig (demo_identity k) (demo_x k)"
  unfolding can_sign_def demo_identity_simps
proof (intro exI conjI allI refl)
  show "GetX509CertificateFromPEM (se_x509 demo_sig) (bytes_of k) = Inr (demo_x k)" by (rule demo_x_parse)
  show "key_matches demo_sig (demo_x k) (bytes_of k)" by (simp add: key_matches_def demo_x_def demo_sig_def GetRSAPrivateKey_def)
  show "CreateToken demo_sig (bytes_of k) (bytes_of k) body = Inr (demo_token k (string_of body))" for body
    using demo_token_make [of k "string_of body"] by simp
qed simp_all

lemma demo_signs:
  "ce_sig demo_cenv = ae_sig (re_auth demo_renv)" "sig_correct (ce_sig demo_cenv)" "can_sign (ce_sig demo_cenv) (demo_identity k) (demo_x k)"
  "VerifyCertificate (re_auth demo_renv) (demo_x k) = (False, True)"
  using demo_sig_correct demo_can_sign by (simp_all add: demo_cenv_def demo_renv_def demo_auth_def VerifyCertificate_def demo_x_def)

definition demo_rreq :: RegistrationRequest where
  "demo_rreq = \<lparr>rr_Name = ''bob'', rr_Type = ''Client'', rr_Group = ''bank_a'', rr_Attributes = []\<rparr>"

definition demo_enroll :: EnrollmentRequest where
  "demo_enroll = \<lparr>eq_Name = ''bob'', eq_Secret = ''s3cret'', eq_Hosts = [], eq_Profile = [], eq_Label = [], eq_CSR = None\<rparr>"

definition demo_cworld :: "(sqldb option, string) tcert_state client_world" where
  "demo_cworld = \<lparr>cw_os = demo_os, cw_net = demo_tstate\<rparr>"

definition demo_env_with :: "'k request_env \<Rightarrow> CertRecord \<Rightarrow> 'k request_env" where
  "demo_env_with W cr = W\<lparr>re_issue := \<lambda>_. Inr cr\<rparr>"

theorem register_and_enroll_witness:
  "\<exists>secret w1 w2 d' i'.
    Client_Register (demo_cenv\<lparr>ce_Do := server_Do demo_renv demo_server ''http://localhost:8888''\<rparr>) demo_rreq (Some (demo_identity ''admin'')) demo_cworld = (Inr secret, w1) \<and>
    Client_Enroll (demo_cenv\<lparr>ce_Do := server_Do (demo_env_with demo_renv demo_cert) demo_server ''http://localhost:8888''\<rparr>) demo_client demo_enroll w1 = (Inr i', w2) \<and>
    ts_reg (cw_net w2) = Some d' \<and> map_option ur_State (lookup_user d' ''bob'') = Some 1"
proof -
  let ?sv = demo_server and ?W2 = "demo_env_with demo_renv demo_cert"
  have v: "sv_enrollSigner ?sv = Some (Some (cert_InsertCertificate demo_x509))" "c_Authentication (sv_CFG ?sv)" "0 \<le> c_MaxEnrollments (sv_CFG ?sv)"
    by (simp_all add: demo_server_def newConfig_def)
  have d: "ts_reg (cw_net demo_cworld) = Some demo_db2" "faults demo_db2 = []" "unique_ids demo_db2" "lookup_user demo_db2 (rr_Name demo_rreq) = None"
    "rr_Group demo_rreq \<in> gr_Name ` set (groups demo_db2)" "cert_key demo_cert \<notin> cert_key ` set (certificates demo_db2)"
    by (simp_all add: demo_cworld_def demo_tstate_def demo_db2_def demo_db_def unique_ids_def demo_rreq_def demo_registrar_def demo_user_def lookup_user_def)
  have r: "rr_Name demo_rreq \<noteq> []" "CHR '':'' \<notin> set (rr_Name demo_rreq)" "rr_Group demo_rreq \<noteq> []" "eq_Name demo_enroll = rr_Name demo_rreq"
    "eq_Secret demo_enroll = re_secret demo_renv"
    "Register_canRegister db_registry (Identity_GetName (demo_identity ''admin'')) (rr_Type demo_rreq) (Some demo_db2) = (Inr (), Some demo_db2)"
    using demo_canRegister by (simp_all add: demo_rreq_def demo_enroll_def demo_renv_def demo_identity_simps)
  have g: "Client_GenCSR demo_cenv (eq_CSR demo_enroll) (eq_Name demo_enroll) = Inr (bytes_of ''bob'', bytes_of ''key'')"
    by (simp add: Client_GenCSR_def demo_cenv_def demo_enroll_def)
  have i: "re_issue ?W2 q = Inr demo_cert" for q by (simp_all add: demo_env_with_def demo_renv_def)
  have n: "GetEnrollmentIDFromPEM demo_x509 (bytes_of (cr_PEM demo_cert)) = Inr ''pem''"
    by (simp add: GetEnrollmentIDFromPEM_def GetX509CertificateFromPEM_def demo_x509_def demo_cert_def GetEnrollmentIDFromX509Certificate_def)
  have "rr_Name demo_rreq = ''bob''" by (simp add: demo_rreq_def)
  with register_and_enroll [OF demo_identity_simps(1) demo_connects demo_signs(1,2) demo_signs(3,4) demo_on_database(1) v d(1-3) r(1,2) d(4) r(3) d(5) r(6,4,5) g i d(6) n]
  show ?thesis by auto
qed

subsection \<open>Revoking a user\<close>

lemma cert_key_revoke_row [simp]: "cert_key (revoke_row t reason c) = cert_key c"
  by (simp add: cert_key_def revoke_row_def)

lemma disabled_user:
  assumes "lookup_user d n = Some u"
  shows "lookup_user (disabled n reason d) n = Some (u\<lparr>ur_State := -1\<rparr>)" "all_revoked (\<lambda>c. cr_ID c = n) (disabled n reason d)"
    "faults (disabled n reason d) = faults d" "unique_ids (disabled n reason d) = unique_ids d"
    "cert_key ` set (certificates (disabled n reason d)) = cert_key ` set (certificates d)"
proof -
  let ?f = "\<lambda>r. r\<lparr>ur_State := -1\<rparr>" and ?d = "disabled n reason d"
  let ?d1 = "d\<lparr>users := update_rows (\<lambda>r. ur_Name r = n) ?f (users d)\<rparr>"
  have "lookup_user ?d1 n = Some (?f u)" using assms lookup_update_users [where f = ?f and d = d and uid = n] by simp
  then show "lookup_user ?d n = Some (?f u)" using lookup_users_eq [of ?d ?d1] by (simp add: disabled_def)
  show "all_revoked (\<lambda>c. cr_ID c = n) ?d" 
    by (rule all_revoked_update [where p = "by_id_good n" and t = "clock d" and reason = reason]) (simp_all add: disabled_def by_id_good_def)
  show "faults ?d = faults d" by (simp add: disabled_def)
  show "unique_ids ?d = unique_ids d" using unique_update_users [where f = ?f and d = d] by (simp add: disabled_def unique_ids_def)
  show "cert_key ` set (certificates ?d) = cert_key ` set (certificates d)"
    using map_update_rows [of cert_key "revoke_row (clock d) reason" "by_id_good n" "certificates d"]
    by (simp add: disabled_def flip: set_map)
qed

text \<open>
  C37. Revoking a user does not keep it out.  A user with the \<^verbatim>\<open>hf.Revoker\<close> attribute revokes a name
  through the client library: the call succeeds, every certificate of that name is revoked and the
  state of the user is \<^verbatim>\<open>-1\<close>.  \<^verbatim>\<open>Login\<close> compares the state with the limit only, so the revoked user
  then enrolls again with its old secret and holds a new certificate that the server has stored as
  good.
\<close>

theorem revoked_user_enrolls:
  assumes "id_client i = Some c" "connects E c base" "ce_sig E = ae_sig (re_auth W1)" "sig_correct (ce_sig E)"
    and "can_sign (ce_sig E) i cert" "VerifyCertificate (re_auth W1) cert = (False, True)"
    and "on_database X sv" "sv_certDBAccessor sv \<noteq> None" "sv_enrollSigner sv = Some (Some f)" "c_Authentication (sv_CFG sv)"
    and "ts_reg (cw_net w) = Some d" "faults d = []" "unique_ids d" "is_revoker d (x_CommonName cert)"
    and "rv_Name req \<noteq> []" "rv_Serial req = [] \<or> rv_AKI req = []" "in_int (rv_Reason req)"
    and "lookup_user d (rv_Name req) = Some u" "0 \<le> ur_MaxEnrollments u" "CHR '':'' \<notin> set (rv_Name req)"
    and "connects E c' base" "eq_Name er = rv_Name req" "eq_Secret er = ur_Pass u" "Client_GenCSR E (eq_CSR er) (eq_Name er) = Inr (csr, key)"
    and "re_issue W2 (client_SignRequest (eq_Hosts er) csr (eq_Profile er) (eq_Label er)) = Inr cr" "cert_key cr \<notin> cert_key ` set (certificates d)"
    and "GetEnrollmentIDFromPEM X (bytes_of (cr_PEM cr)) = Inr name"
  shows "\<exists>w1 w2 d1 d2. Identity_Revoke (E\<lparr>ce_Do := server_Do W1 sv base\<rparr>) i req w = (Inr (), w1) \<and>
    ts_reg (cw_net w1) = Some d1 \<and> all_revoked (\<lambda>c. cr_ID c = rv_Name req) d1 \<and>
    map_option ur_State (lookup_user d1 (rv_Name req)) = Some (- 1) \<and>
    Client_Enroll (E\<lparr>ce_Do := server_Do W2 sv base\<rparr>) c' er w1 =
      (Inr (newIdentity (Some c') (rv_Name req) (Some key) (Some (bytes_of (cr_PEM cr)))), w2) \<and>
    ts_reg (cw_net w2) = Some d2 \<and> cr\<lparr>cr_Status := ''good'', cr_ID := name\<rparr> \<in> set (certificates d2)"
proof -
  let ?n = "rv_Name req" and ?E1 = "E\<lparr>ce_Do := server_Do W1 sv base\<rparr>" and ?E2 = "E\<lparr>ce_Do := server_Do W2 sv base\<rparr>"
  let ?d1 = "disabled ?n (rv_Reason req) d" and ?u = "u\<lparr>ur_State := -1\<rparr>"
  let ?d2 = "?d1\<lparr>users := update_rows (\<lambda>x. ur_Name x = ?n) (\<lambda>x. x\<lparr>ur_State := ur_State ?u + 1\<rparr>) (users ?d1)\<rparr>"
  note d1 = disabled_user [OF assms(18), of "rv_Reason req"]
  have sv: "sv_userRegistry sv = db_registry" "sv_certDBAccessor sv = Some db_cert_ops" using assms(7,8) by (auto simp: on_backend_def)
  obtain os where rev: "Identity_Revoke ?E1 i req w = (Inr (), w\<lparr>cw_os := os, cw_net := (cw_net w)\<lparr>ts_reg := Some ?d1\<rparr>\<rparr>)" (is "_ = (_, ?w1)")
    using Identity_Revoke_served [of ?E1 W1 sv base i c cert w d req u, OF _ assms(1) _ _ _ _ assms(6) sv assms(10-12,14-18)] assms(2-5)
    by (auto simp: connects_Do)
  have "login_attempt ?n (ur_Pass ?u) (Some ?d1) = (Inr (), Some ?d2)"
    by (rule login_attempt_no_faults) (use d1 assms(12,13,19) in auto)
  then have log: "login_attempt (eq_Name er) (eq_Secret er) (ts_reg (cw_net ?w1)) = (Inr (), Some ?d2)"
    using assms(22,23) by simp
  from Client_Enroll_served [of ?E2 W2 sv base c' er csr key X f ?w1 ?d2 cr name, OF _ _ _ assms(7,9,10) _ log _ assms(25) _ assms(27)]
  obtain os2 where "Client_Enroll ?E2 c' er ?w1 = (Inr (newIdentity (Some c') ?n (Some key) (Some (bytes_of (cr_PEM cr)))),
      ?w1\<lparr>cw_os := os2, cw_net := (cw_net ?w1)\<lparr>ts_reg := Some (stored_as_good cr name ?d2)\<rparr>\<rparr>)"
    using assms(12,20-22,24,26) d1(3,5) by (auto simp: connects_Do GenCSR_Do)
  with rev d1(1,2) show ?thesis by (auto intro!: exI)
qed


definition demo_revoked_state :: "(sqldb option, string) tcert_state client_world" where
  "demo_revoked_state = demo_cworld\<lparr>cw_net := demo_tstate\<lparr>ts_reg := Some demo_rvdb\<rparr>\<rparr>"

definition demo_cert2 :: CertRecord where
  "demo_cert2 = demo_cert\<lparr>cr_Serial := ''2b''\<rparr>"

definition demo_admin_enroll :: EnrollmentRequest where
  "demo_admin_enroll = demo_enroll\<lparr>eq_Name := ''admin'', eq_Secret := ''adminpw''\<rparr>"

lemma demo_revocation:
  "sv_certDBAccessor demo_server \<noteq> None" "sv_enrollSigner demo_server = Some (Some (cert_InsertCertificate demo_x509))" "c_Authentication (sv_CFG demo_server)"
  "ts_reg (cw_net demo_revoked_state) = Some demo_rvdb" "faults demo_rvdb = []" "unique_ids demo_rvdb"
  "lookup_user demo_rvdb (rv_Name demo_rvreq) = Some demo_user"
  by (simp_all add: demo_server_def newConfig_def demo_revoked_state_def demo_rvdb_def demo_cdb_def demo_db_def demo_user_def unique_ids_def
      demo_rvreq_def lookup_user_def)

lemma demo_issue:
  "re_issue (demo_env_with W demo_cert2) q = Inr demo_cert2" "cert_key demo_cert2 \<notin> cert_key ` set (certificates demo_rvdb)"
  "GetEnrollmentIDFromPEM demo_x509 (bytes_of (cr_PEM demo_cert2)) = Inr ''pem''"
  by (simp_all add: demo_env_with_def demo_rvdb_def demo_cdb_def demo_cert2_def demo_cert_def cert_key_def
      GetEnrollmentIDFromPEM_def GetX509CertificateFromPEM_def demo_x509_def GetEnrollmentIDFromX509Certificate_def)

lemma demo_is_revoker: "is_revoker demo_rvdb (x_CommonName (demo_x ''alice''))"
  by (simp add: is_revoker_def demo_x_def demo_rvdb_def demo_user_def lookup_user_def DBUser_GetAttribute_def newDBUser_def)

theorem revoked_user_enrolls_witness:
  "\<exists>w1 w2 d1 d2 i'.
    Identity_Revoke (demo_cenv\<lparr>ce_Do := server_Do demo_renv demo_server ''http://localhost:8888''\<rparr>) (demo_identity ''alice'') demo_rvreq demo_revoked_state = (Inr (), w1) \<and>
    ts_reg (cw_net w1) = Some d1 \<and> map_option ur_State (lookup_user d1 ''admin'') = Some (- 1) \<and>
    Client_Enroll (demo_cenv\<lparr>ce_Do := server_Do (demo_env_with demo_renv demo_cert2) demo_server ''http://localhost:8888''\<rparr>) demo_client demo_admin_enroll w1 = (Inr i', w2) \<and>
    ts_reg (cw_net w2) = Some d2 \<and> demo_cert2\<lparr>cr_Status := ''good'', cr_ID := ''pem''\<rparr> \<in> set (certificates d2)"
proof -
  have r: "rv_Name demo_rvreq \<noteq> []" "rv_Serial demo_rvreq = [] \<or> rv_AKI demo_rvreq = []" "in_int (rv_Reason demo_rvreq)"
    "0 \<le> ur_MaxEnrollments demo_user" "CHR '':'' \<notin> set (rv_Name demo_rvreq)" "eq_Name demo_admin_enroll = rv_Name demo_rvreq" "eq_Secret demo_admin_enroll = ur_Pass demo_user"
    by (simp_all add: demo_rvreq_def in_int_def demo_user_def demo_admin_enroll_def)
  have g: "Client_GenCSR demo_cenv (eq_CSR demo_admin_enroll) (eq_Name demo_admin_enroll) = Inr (bytes_of ''admin'', bytes_of ''key'')"
    by (simp add: Client_GenCSR_def demo_cenv_def demo_admin_enroll_def demo_enroll_def)
  have "rv_Name demo_rvreq = ''admin''" by (simp add: demo_rvreq_def)
  with revoked_user_enrolls [OF demo_identity_simps(1) demo_connects demo_signs(1,2) demo_signs(3,4) demo_on_database(1) demo_revocation(1-6) demo_is_revoker r(1-3)
      demo_revocation(7) r(4,5) demo_connects [of demo_client] r(6,7) g demo_issue(1) [where W = demo_renv] demo_issue(2,3)]
  show ?thesis by auto
qed

subsection \<open>Re-enrolling\<close>

text \<open>
  C15. An enrolled identity re-enrolls through the client library without its secret: the request is
  signed with the identity's key, the answer is an identity of the same name with the new key and the
  certificate the signer issued, and the server has stored that certificate as good under the
  enrollment ID it names.  The users, and so the login counts, are untouched, and every older
  certificate keeps its status.
\<close>

theorem client_reenroll:
  assumes "ce_Do E = server_Do W sv base" "req_ID req = Some i" "id_client i = Some c'" "connects E c' base" "ce_sig E = ae_sig (re_auth W)"
    and "sig_correct (ce_sig E)" "can_sign (ce_sig E) i cert" "VerifyCertificate (re_auth W) cert = (False, True)"
    and "Client_GenCSR E (req_CSR req) (Identity_GetName i) = Inr (csr, key)"
    and "on_database X sv" "sv_enrollSigner sv = Some (Some f)" "c_Authentication (sv_CFG sv)" "ts_reg (cw_net w) = Some d" "faults d = []"
    and "re_issue W (client_SignRequest (req_Hosts req) csr (req_Profile req) (req_Label req)) = Inr cr" "cert_key cr \<notin> cert_key ` set (certificates d)"
    and "GetEnrollmentIDFromPEM X (bytes_of (cr_PEM cr)) = Inr name"
  shows "\<exists>w' d'. Client_Reenroll E c req w = (Inr (newIdentity (Some c) (Identity_GetName i) (Some key) (Some (bytes_of (cr_PEM cr)))), w') \<and>
    ts_reg (cw_net w') = Some d' \<and> users d' = users d \<and> certificates d' = certificates d @ [cr\<lparr>cr_Status := ''good'', cr_ID := name\<rparr>]"
  using Client_Reenroll_served [OF assms, of c] by auto

theorem client_reenroll_witness:
  "\<exists>i' w' d'. Client_Reenroll (demo_cenv\<lparr>ce_Do := server_Do (demo_env_with demo_renv demo_cert2) demo_server ''http://localhost:8888''\<rparr>) demo_client
      \<lparr>req_ID = Some (demo_identity ''admin''), req_Hosts = [], req_Profile = [], req_Label = [], req_CSR = None\<rparr> demo_revoked_state = (Inr i', w') \<and>
    ts_reg (cw_net w') = Some d' \<and> users d' = users demo_rvdb \<and> length (certificates d') = 2"
proof -
  let ?W = "demo_env_with demo_renv demo_cert2"
  let ?E = "demo_cenv\<lparr>ce_Do := server_Do ?W demo_server ''http://localhost:8888''\<rparr>"
  let ?req = "\<lparr>req_ID = Some (demo_identity ''admin''), req_Hosts = [], req_Profile = [], req_Label = [], req_CSR = None\<rparr>"
  have e: "ce_Do ?E = server_Do ?W demo_server ''http://localhost:8888''" "req_ID ?req = Some (demo_identity ''admin'')" "id_client (demo_identity ''admin'') = Some demo_client"
    "connects ?E demo_client ''http://localhost:8888''" "ce_sig ?E = ae_sig (re_auth ?W)" "sig_correct (ce_sig ?E)"
    "can_sign (ce_sig ?E) (demo_identity ''admin'') (demo_x ''admin'')" "VerifyCertificate (re_auth ?W) (demo_x ''admin'') = (False, True)"
    using demo_signs by (simp_all add: demo_identity_simps connects_Do demo_connects demo_env_with_def)
  have g: "Client_GenCSR ?E (req_CSR ?req) (Identity_GetName (demo_identity ''admin'')) = Inr (bytes_of ''admin'', bytes_of ''key'')"
    by (simp add: Client_GenCSR_def demo_cenv_def demo_identity_simps)
  have "length (certificates demo_rvdb) = 1" by (simp add: demo_rvdb_def demo_cdb_def)
  with client_reenroll [OF e g demo_on_database(1) demo_revocation(2-5) demo_issue, of demo_client] show ?thesis by auto
qed

end
