(* ===== verification/Cli_Commands.thy ===== *)
theory Cli_Commands
  imports Go_Flag Client_Server
begin

text \<open>
  The command line: CFSSL's \<^verbatim>\<open>cli.Start\<close>, the client commands under \<^verbatim>\<open>cli/client/\<close>, the table of server
  commands and \<^verbatim>\<open>COPMain\<close> of \<^verbatim>\<open>cli/cop.go\<close>.

  The client commands act on the files and environment of the client, on the network and on the
  standard output; the server commands on the same files and on the databases.  CFSSL's own
  commands and the loading of its policy files are parameters.
\<close>

subsection \<open>cli.Start\<close>

record cli_Flags =
  fl_Config :: cli_Config
  fl_Serial :: string
  fl_AKI :: string
  fl_Reason :: string

record 'w Command =
  cmd_UsageText :: string
  cmd_Flags :: "string list"
  cmd_Main :: "string list \<Rightarrow> cli_Flags \<Rightarrow> 'w \<Rightarrow> unit result \<times> 'w"

definition registerFlags :: flag_set where
  "registerFlags = map_of
     [(''hostname'', FString), (''cert'', FString), (''csr'', FString), (''ca'', FString), (''ca-key'', FString),
      (''tls-cert'', FString), (''tls-key'', FString), (''mutual-tls-ca'', FString), (''mutual-tls-cn'', FString),
      (''tls-remote-ca'', FString), (''mutual-tls-client-cert'', FString), (''mutual-tls-client-key'', FString),
      (''key'', FString), (''intermediates'', FString), (''ca-bundle'', FString), (''int-bundle'', FString),
      (''address'', FString), (''port'', FInt), (''config'', FString), (''profile'', FString),
      (''initca'', FBool), (''renewca'', FBool), (''int-dir'', FString), (''flavor'', FString),
      (''metadata'', FString), (''domain'', FString), (''ip'', FString), (''remote'', FString),
      (''label'', FString), (''authkey'', FString), (''responder'', FString), (''responder-key'', FString),
      (''status'', FString), (''reason'', FString), (''revoked-at'', FString), (''interval'', FDuration),
      (''list'', FBool), (''family'', FString), (''scanner'', FString), (''timeout'', FDuration),
      (''csv'', FString), (''num-workers'', FInt), (''max-hosts'', FInt), (''responses'', FString),
      (''path'', FString), (''crl'', FString), (''password'', FString), (''usage'', FString),
      (''pgp-private'', FString), (''pgp-name'', FString), (''serial'', FString), (''cn'', FString),
      (''aki'', FString), (''db-config'', FString), (''loglevel'', FInt)]"

text \<open>The fields of \<^verbatim>\<open>cli.Config\<close> that COP reads, from the assignments of the command line.\<close>

definition flags_of :: "(string \<times> string) list \<Rightarrow> cli_Flags" where
  "flags_of asg =
     \<lparr>fl_Config =
        \<lparr>cli_ConfigFile = flag_value ''config'' [] asg, cli_DBConfigFile = flag_value ''db-config'' [] asg,
         cli_TLSCertFile = flag_value ''tls-cert'' [] asg, cli_TLSKeyFile = flag_value ''tls-key'' [] asg,
         cli_MutualTLSCAFile = flag_value ''mutual-tls-ca'' [] asg, cli_Address = flag_value ''address'' ''127.0.0.1'' asg,
         cli_Port = (case ParseInt0 (flag_value ''port'' ''8888'' asg) of None \<Rightarrow> 8888 | Some n \<Rightarrow> n)\<rparr>,
      fl_Serial = flag_value ''serial'' [] asg, fl_AKI = flag_value ''aki'' [] asg, fl_Reason = flag_value ''reason'' ''0'' asg\<rparr>"

text \<open>
  \<open>se_top\<close> are the flags that packages declare globally, \<open>se_duration\<close> the texts of durations and
  \<open>se_LoadFile\<close> the outcome of \<^verbatim>\<open>config.LoadFile\<close>.
\<close>

record start_cli_env =
  se_top :: flag_set
  se_duration :: "string \<Rightarrow> bool"
  se_LoadFile :: "string \<Rightarrow> unit result"

definition cli_Start ::
  "start_cli_env \<Rightarrow> (string \<Rightarrow> 'w Command option) \<Rightarrow> string list \<Rightarrow> 'w \<Rightarrow> unit result \<times> 'w" where
  "cli_Start S cmds osArgs w = (case FlagSet_Parse (se_top S) (flag_ok (se_duration S)) (tl osArgs) of
     Inl e \<Rightarrow> (Inl e, w)
   | Inr (_, []) \<Rightarrow> (Inl (ErrorString ''no command was given''), w)
   | Inr (_, cmdName # args) \<Rightarrow> (case cmds cmdName of
       None \<Rightarrow> (Inl (ErrorString ''undefined command''), w)
     | Some cmd \<Rightarrow> (case FlagSet_Parse registerFlags (flag_ok (se_duration S)) args of
         Inl e \<Rightarrow> (Inl e, w)
       | Inr (asg, args) \<Rightarrow>
           (let c = flags_of asg in
            if cli_ConfigFile (fl_Config c) \<noteq> [] \<and> isl (se_LoadFile S (cli_ConfigFile (fl_Config c)))
            then (Inl (ErrorString ''failed to load config file''), w)
            else cmd_Main cmd args c w))))"

subsection \<open>Client commands\<close>

record 'n cmd_world =
  cm_client :: "'n client_world"
  cm_stdout :: string

definition cm_os :: "'n cmd_world \<Rightarrow> os_world" where
  "cm_os w = cw_os (cm_client w)"

definition on_os :: "(os_world \<Rightarrow> 'a \<times> os_world) \<Rightarrow> 'n cmd_world \<Rightarrow> 'a \<times> 'n cmd_world" where
  "on_os f w = (case f (cm_os w) of (r, os) \<Rightarrow> (r, w\<lparr>cm_client := (cm_client w)\<lparr>cw_os := os\<rparr>\<rparr>))"

definition on_client :: "('n client_world \<Rightarrow> 'a \<times> 'n client_world) \<Rightarrow> 'n cmd_world \<Rightarrow> 'a \<times> 'n cmd_world" where
  "on_client f w = (case f (cm_client w) of (r, c) \<Rightarrow> (r, w\<lparr>cm_client := c\<rparr>))"

definition fmt_Print :: "string \<Rightarrow> 'n cmd_world \<Rightarrow> 'n cmd_world" where
  "fmt_Print s w = w\<lparr>cm_stdout := cm_stdout w @ s\<rparr>"

text \<open>The URL is put between quotes as it is.\<close>

definition url_config :: "string \<Rightarrow> string" where
  "url_config url = ''{'' @ [CHR 0x22] @ ''serverURL'' @ [CHR 0x22] @ '':'' @ [CHR 0x22] @ url @ [CHR 0x22] @ ''}''"

definition client_NewClient :: "(string \<Rightarrow> string) \<Rightarrow> string \<Rightarrow> lib_Client result" where
  "client_NewClient env url = lib_NewClient env (url_config url)"

text \<open>
  A registration file; a registrar other than \<^verbatim>\<open>null\<close> does not decode into an interface.
\<close>

definition RegistrationRequest_fields :: "(string \<times> json) list \<Rightarrow> RegistrationRequest option" where
  "RegistrationRequest_fields kvs =
     (case (dec_field dec_string ''id'' kvs [], dec_field dec_string ''type'' kvs [], dec_field dec_string ''group'' kvs [],
            dec_ref (dec_list dec_attr \<lparr>attr_Name = [], attr_Value = []\<rparr>) [] ''attrs'' kvs [],
            dec_field (\<lambda>_. None) ''registrar'' kvs ()) of
        (Some n, Some t, Some g, Some a, Some _) \<Rightarrow>
          Some \<lparr>rr_Name = n, rr_Type = t, rr_Group = g, rr_Attributes = a\<rparr>
      | _ \<Rightarrow> None)"

text \<open>A secret that is not base64 is only logged; what was decoded is printed.\<close>

definition registerMain :: "'n client_env \<Rightarrow> string list \<Rightarrow> cli_Flags \<Rightarrow> 'n cmd_world \<Rightarrow> unit result \<times> 'n cmd_world" where
  "registerMain E args c w = (case PopFirstArgument args of
     Inl err \<Rightarrow> (Inl err, w)
   | Inr (regFile, args) \<Rightarrow> (case on_os (ReadFile regFile) w of
       (Inl err, w) \<Rightarrow> (Inl err, w)
     | (Inr buf, w) \<Rightarrow> (case decode RegistrationRequest_fields (string_of buf) of
         Inl err \<Rightarrow> (Inl err, w)
       | Inr regReq \<Rightarrow> (case PopFirstArgument args of
           Inl err \<Rightarrow> (Inl err, w)
         | Inr (copServer, _) \<Rightarrow> (case client_NewClient (os_Getenv (cm_os w)) copServer of
             Inl err \<Rightarrow> (Inl err, w)
           | Inr client \<Rightarrow> (case on_os (LoadMyIdentity (ce_sig E) client) w of
               (Inl err, w) \<Rightarrow> (Inl err, w)
             | (Inr i, w) \<Rightarrow> (case on_client (Client_Register E regReq (Some i)) w of
                 (Inl err, w) \<Rightarrow> (Inl err, w)
               | (Inr secret, w) \<Rightarrow>
                   (let secretBytes = (case StdDecode secret of Inl _ \<Rightarrow> ce_b64prefix E secret | Inr b \<Rightarrow> b)
                    in (Inr (), fmt_Print (''One time password: '' @ string_of secretBytes @ [CHR 0x0A]) w)))))))))"

text \<open>The optional last argument of \<^verbatim>\<open>enroll\<close> and \<^verbatim>\<open>reenroll\<close>.\<close>

definition csr_argument :: "'n client_env \<Rightarrow> string list \<Rightarrow> 'n cmd_world \<Rightarrow> CSRInfo option result \<times> 'n cmd_world" where
  "csr_argument E args w =
     (if args \<noteq> [] then (case PopFirstArgument args of
        Inl err2 \<Rightarrow> (Inl err2, w)
      | Inr (path, _) \<Rightarrow> (case on_os (LoadCSRInfo E path) w of
          (Inl err2, w) \<Rightarrow> (Inl err2, w)
        | (Inr info, w) \<Rightarrow> (Inr (Some info), w)))
      else (Inr None, w))"

definition enrollMain :: "'n client_env \<Rightarrow> string list \<Rightarrow> cli_Flags \<Rightarrow> 'n cmd_world \<Rightarrow> unit result \<times> 'n cmd_world" where
  "enrollMain E args c w = (case PopFirstArgument args of
     Inl err \<Rightarrow> (Inl err, w)
   | Inr (ident, args) \<Rightarrow> (case PopFirstArgument args of
       Inl err \<Rightarrow> (Inl err, w)
     | Inr (secret, args) \<Rightarrow> (case PopFirstArgument args of
         Inl err \<Rightarrow> (Inl err, w)
       | Inr (copServer, args) \<Rightarrow> (case client_NewClient (os_Getenv (cm_os w)) copServer of
           Inl err \<Rightarrow> (Inl err, w)
         | Inr client \<Rightarrow> (case csr_argument E args w of
             (Inl err2, w) \<Rightarrow> (Inl err2, w)
           | (Inr csr, w) \<Rightarrow>
               (let req = \<lparr>eq_Name = ident, eq_Secret = secret, eq_Hosts = [], eq_Profile = [], eq_Label = [], eq_CSR = csr\<rparr>
                in (case on_client (Client_Enroll E client req) w of
                      (Inl err, w) \<Rightarrow> (Inl err, w)
                    | (Inr i, w) \<Rightarrow> (case on_os (Identity_Store i) w of
                        (Inl err, w) \<Rightarrow> (Inl (ErrorString (''failed to store enrollment information: '' @ Error err)), w)
                      | (Inr _, w) \<Rightarrow> (Inr (), w)))))))))"

definition reenrollMain :: "'n client_env \<Rightarrow> string list \<Rightarrow> cli_Flags \<Rightarrow> 'n cmd_world \<Rightarrow> unit result \<times> 'n cmd_world" where
  "reenrollMain E args c w = (case PopFirstArgument args of
     Inl err \<Rightarrow> (Inl err, w)
   | Inr (copServer, args) \<Rightarrow> (case client_NewClient (os_Getenv (cm_os w)) copServer of
       Inl err \<Rightarrow> (Inl err, w)
     | Inr client \<Rightarrow> (case on_os (LoadMyIdentity (ce_sig E) client) w of
         (Inl err, w) \<Rightarrow> (Inl (ErrorString (''Client is not yet enrolled: '' @ Error err)), w)
       | (Inr i, w) \<Rightarrow> (case csr_argument E args w of
           (Inl err2, w) \<Rightarrow> (Inl err2, w)
         | (Inr csr, w) \<Rightarrow>
             (let req = \<lparr>req_ID = Some i, req_Hosts = [], req_Profile = [], req_Label = [], req_CSR = csr\<rparr>
              in (case on_client (Client_Reenroll E client req) w of
                    (Inl err, w) \<Rightarrow> (Inl (ErrorString (''failed to store enrollment information: '' @ Error err)), w)
                  | (Inr newID, w) \<Rightarrow> on_os (Identity_Store newID) w))))))"

text \<open>The reason of the command line is not sent.\<close>

definition revokeMain :: "'n client_env \<Rightarrow> string list \<Rightarrow> cli_Flags \<Rightarrow> 'n cmd_world \<Rightarrow> unit result \<times> 'n cmd_world" where
  "revokeMain E args c w = (case PopFirstArgument args of
     Inl err \<Rightarrow> (Inl err, w)
   | Inr (copServer, args) \<Rightarrow>
       (case (if args \<noteq> [] then PopFirstArgument args else Inr ([], args)) of
          Inl err \<Rightarrow> (Inl err, w)
        | Inr (enrollmentID, _) \<Rightarrow> (case client_NewClient (os_Getenv (cm_os w)) copServer of
            Inl err \<Rightarrow> (Inl err, w)
          | Inr client \<Rightarrow> (case on_os (LoadMyIdentity (ce_sig E) client) w of
              (Inl err, w) \<Rightarrow> (Inl err, w)
            | (Inr i, w) \<Rightarrow>
                if enrollmentID = [] \<and> fl_Serial c = []
                then (Inl (ErrorString ''Invalid usage; either ENROLLMENT_ID or both -serial and -aki are required''), w)
                else on_client (Identity_Revoke E i
                       \<lparr>rv_Name = enrollmentID, rv_Serial = fl_Serial c, rv_AKI = fl_AKI c, rv_Reason = 0\<rparr>) w))))"

text \<open>The help texts, line by line.\<close>

definition text_lines :: "string list \<Rightarrow> string" where
  "text_lines ls = concat (map (\<lambda>l. l @ [CHR 0x0A]) ls)"

definition registerUsageText :: string where
  "registerUsageText = text_lines
     [''cop client register -- Register an ID with COP server and return an enrollment secret'',
      [],
      ''Usage of client register command:'',
      ''    Register a client with COP server:'',
      ''        cop client register REGISTER-REQUEST-FILE COP-SERVER-ADDR'',
      [],
      ''Arguments:'',
      ''        RRJSON:             File contains registration info'',
      ''        COP-SERVER-ADDR:    COP server address'',
      ''Flags:'']"

definition enrollUsageText :: string where
  "enrollUsageText = text_lines
     [''cop client enroll -- Enroll with COP server'',
      [],
      ''Usage of client enroll command:'',
      ''    Enroll a client and get an ecert:'',
      ''        cop client enroll ID SECRET COP-SERVER-ADDR'',
      [],
      ''Arguments:'',
      ''        ID:               Enrollment ID'',
      ''        SECRET:           Enrollment secret returned by register'',
      ''        COP-SERVER-ADDR:  COP server address'',
      [CHR 0x09] @ ''     CSRJSON:          Certificate Signing Request JSON information (Optional)'',
      [],
      ''Flags:'']"

definition reenrollUsageText :: string where
  "reenrollUsageText = text_lines
     [''cop client reenroll -- Reenroll with COP server'',
      [],
      ''Usage of client enroll command:'',
      ''   cop client reenroll COP-SERVER-ADDR'',
      [],
      ''Arguments:'',
      ''        COP-SERVER-ADDR:  COP server address'',
      [CHR 0x09] @ [CHR 0x09] @ ''  CSRJSON:          Certificate Signing Request JSON information (Optional)'',
      [],
      ''Flags:'']"

definition revokeUsageTxt :: string where
  "revokeUsageTxt = text_lines
     [''cop client revoke -- revokes one or more certificates'',
      [],
      ''Usage:'',
      [],
      ''Revoke certificate(s):'',
      [CHR 0x09] @ ''   cop client revoke COP_SERVER_URL [ENROLLMENT_ID]'',
      [],
      ''Arguments:'',
      ''     COP_SERVER_URL:     The URL of the COP server'',
      ''     ENROLLMENT_ID:      Optional enrollment ID'',
      [],
      ''Flags:'']"

definition RegisterCommand :: "'n client_env \<Rightarrow> 'n cmd_world Command" where
  "RegisterCommand E = \<lparr>cmd_UsageText = registerUsageText, cmd_Flags = [], cmd_Main = registerMain E\<rparr>"

definition EnrollCommand :: "'n client_env \<Rightarrow> 'n cmd_world Command" where
  "EnrollCommand E = \<lparr>cmd_UsageText = enrollUsageText, cmd_Flags = [], cmd_Main = enrollMain E\<rparr>"

definition ReenrollCommand :: "'n client_env \<Rightarrow> 'n cmd_world Command" where
  "ReenrollCommand E = \<lparr>cmd_UsageText = reenrollUsageText, cmd_Flags = [], cmd_Main = reenrollMain E\<rparr>"

definition revokeFlags :: "string list" where
  "revokeFlags = [''aki'', ''serial'', ''reason'']"

definition RevokeCommand :: "'n client_env \<Rightarrow> 'n cmd_world Command" where
  "RevokeCommand E = \<lparr>cmd_UsageText = revokeUsageTxt, cmd_Flags = revokeFlags, cmd_Main = revokeMain E\<rparr>"

definition client_cmds :: "'n client_env \<Rightarrow> string \<Rightarrow> 'n cmd_world Command option" where
  "client_cmds E = map_of
     [(''register'', RegisterCommand E), (''enroll'', EnrollCommand E), (''reenroll'', ReenrollCommand E), (''revoke'', RevokeCommand E)]"

definition client_Command ::
  "start_cli_env \<Rightarrow> 'n client_env \<Rightarrow> string list \<Rightarrow> 'n cmd_world \<Rightarrow> unit result \<times> 'n cmd_world" where
  "client_Command S E osArgs w = cli_Start S (client_cmds E) osArgs w"

subsection \<open>Server commands\<close>

text \<open>
  The command \<^verbatim>\<open>start\<close> ends with the error of the listener it opened; \<open>sw_running\<close> records that it was
  opened, and with which global variables.
\<close>

record server_world =
  sw_os :: os_world
  sw_dbms :: dbms
  sw_running :: "(listener \<times> globals) option"

record 'p server_env =
  sx_start :: "'p start_env"
  sx_init :: init_env
  sx_ListenAndServe :: "listener \<Rightarrow> go_error"

definition serverUsageText :: string where
  "serverUsageText = text_lines
     [''cop server start -- start the COP server'',
      [],
      ''Usage:'',
      ''        cop server start [-address address] [-ca cert] [-ca-bundle bundle] '' @ [CHR 0x5C],
      ''                         [-ca-key key] [-int-bundle bundle] [-int-dir dir] [-port port] '' @ [CHR 0x5C],
      ''                         [-metadata file] [-remote remote_host] [-config config] '' @ [CHR 0x5C],
      ''                         [-responder cert] [-responder-key key] [-tls-cert cert] [-tls-key key] '' @ [CHR 0x5C],
      ''                         [-mutual-tls-ca ca] [-mutual-tls-cn regex] '' @ [CHR 0x5C],
      ''                         [-tls-remote-ca ca] [-mutual-tls-client-cert cert] [-mutual-tls-client-key key] '' @ [CHR 0x5C],
      ''                         [-db-config db-config]'',
      [],
      ''Flags:'']"

definition initUsageText :: string where
  "initUsageText = text_lines
     [''cop server init CSRJSON -- generates a new private key and self-signed certificate'',
      ''Usage:'',
      ''        cop server init CSRJSON'',
      ''Arguments:'',
      ''        CSRJSON:    JSON file containing the request, use '' @ [CHR 0x27] @ ''-'' @ [CHR 0x27] @ '' for reading JSON from stdin'',
      ''Flags:'']"

definition serverFlags :: "string list" where
  "serverFlags = [''address'', ''port'', ''ca'', ''ca-key'', ''ca-bundle'', ''int-bundle'', ''int-dir'', ''metadata'',
     ''remote'', ''config'', ''responder'', ''responder-key'', ''tls-key'', ''tls-cert'', ''mutual-tls-ca'', ''mutual-tls-cn'',
     ''tls-remote-ca'', ''mutual-tls-client-cert'', ''mutual-tls-client-key'', ''db-config'']"

definition initFlags :: "string list" where
  "initFlags = [''remote'', ''u'']"

definition StartCommand :: "'p server_env \<Rightarrow> server_world Command" where
  "StartCommand X = \<lparr>cmd_UsageText = serverUsageText, cmd_Flags = serverFlags,
     cmd_Main = (\<lambda>args c w. case startMain (sx_start X) args (fl_Config c) (sw_os w) (sw_dbms w) of
       (Inl err, os, ms) \<Rightarrow> (Inl err, w\<lparr>sw_os := os, sw_dbms := ms\<rparr>)
     | (Inr (l, gl), os, ms) \<Rightarrow> (Inl (sx_ListenAndServe X l), w\<lparr>sw_os := os, sw_dbms := ms, sw_running := Some (l, gl)\<rparr>))\<rparr>"

definition InitServerCommand :: "'p server_env \<Rightarrow> server_world Command" where
  "InitServerCommand X = \<lparr>cmd_UsageText = initUsageText, cmd_Flags = initFlags,
     cmd_Main = (\<lambda>args c w. case initMain (sx_init X) args (sw_os w) of (r, os) \<Rightarrow> (r, w\<lparr>sw_os := os\<rparr>))\<rparr>"

definition server_Command ::
  "start_cli_env \<Rightarrow> 'p server_env \<Rightarrow> string list \<Rightarrow> server_world \<Rightarrow> unit result \<times> server_world" where
  "server_Command S X osArgs w =
     cli_Start S (map_of [(''init'', InitServerCommand X), (''start'', StartCommand X)]) osArgs w"

subsection \<open>COPMain\<close>

text \<open>
  The state of the whole program.  Client and server commands see the same files; \<open>cx_cfssl\<close> gives
  CFSSL's own commands by their names.
\<close>

record 'n cop_world =
  cp_cmd :: "'n cmd_world"
  cp_dbms :: dbms
  cp_running :: "(listener \<times> globals) option"

record ('n, 'p) cop_env =
  cx_cli :: start_cli_env
  cx_client :: "'n client_env"
  cx_server :: "'p server_env"
  cx_cfssl :: "string \<Rightarrow> 'n cop_world Command"

text \<open>\<^verbatim>\<open>strings.Replace\<close> of every occurrence of a non-empty text.\<close>

fun Replace :: "string \<Rightarrow> string \<Rightarrow> string \<Rightarrow> string" where
  "Replace [] old new = []"
| "Replace (c # s) old new =
     (if old \<noteq> [] \<and> HasPrefix (c # s) old then new @ Replace (drop (length old - 1) s) old new
      else c # Replace s old new)"

definition cfssl_cmds :: "(string \<Rightarrow> 'w Command) \<Rightarrow> (string \<times> 'w Command) list" where
  "cfssl_cmds pkg = map (\<lambda>n. (n, pkg n))
     [''bundle'', ''certinfo'', ''sign'', ''serve'', ''version'', ''genkey'', ''gencert'', ''gencrl'', ''ocspdump'', ''ocsprefresh'',
      ''ocspsign'', ''ocspserve'', ''selfsign'', ''scan'', ''info'', ''print-defaults'', ''revoke'']"

definition cfsslCommand :: "start_cli_env \<Rightarrow> (string \<Rightarrow> 'w Command) \<Rightarrow> string list \<Rightarrow> 'w \<Rightarrow> unit result \<times> 'w" where
  "cfsslCommand S pkg osArgs w =
     (let cmds = map (\<lambda>(n, cmd). (n, cmd\<lparr>cmd_UsageText := Replace (cmd_UsageText cmd) ''cfssl'' ''cop cfssl''\<rparr>)) (cfssl_cmds pkg)
      in cli_Start S (map_of cmds) osArgs w)"

definition usage :: string where
  "usage = ''cop client       - client-related commands'' @ [CHR 0x0A] @ ''cop server       - server related commands'' @ [CHR 0x0A] @
     ''cop cfssl        - all cfssl commands'' @ [CHR 0x0A, CHR 0x0A] @
     ''For help, type '' @ [CHR 0x22] @ ''cop client'' @ [CHR 0x22] @ '', '' @ [CHR 0x22] @ ''cop server'' @ [CHR 0x22] @ '', or '' @
     [CHR 0x22] @ ''cop cfssl'' @ [CHR 0x22] @ ''.'' @ [CHR 0x0A]"

text \<open>
  The exit status; \<open>None\<close> when the process ends inside the command, by a panic or an exit.  Messages
  on the standard error stream are not modelled.
\<close>

definition exit_code :: "unit result \<Rightarrow> int option" where
  "exit_code r = (case r of Inl (GoPanic _) \<Rightarrow> None | Inl _ \<Rightarrow> Some 1 | Inr _ \<Rightarrow> Some 0)"

definition COPMain :: "('n, 'p) cop_env \<Rightarrow> string list \<Rightarrow> 'n cop_world \<Rightarrow> int option \<times> 'n cop_world" where
  "COPMain X args w =
     (let print_usage = (Some 1, w\<lparr>cp_cmd := fmt_Print (usage @ [CHR 0x0A]) (cp_cmd w)\<rparr>)
      in if length args \<le> 1 then print_usage
         else let cmd = args ! 1; osArgs = tl args in
           if cmd = ''client'' then
             (case client_Command (cx_cli X) (cx_client X) osArgs (cp_cmd w) of
                (r, m) \<Rightarrow> (exit_code r, w\<lparr>cp_cmd := m\<rparr>))
           else if cmd = ''server'' then
             (case server_Command (cx_cli X) (cx_server X) osArgs
                     \<lparr>sw_os = cm_os (cp_cmd w), sw_dbms = cp_dbms w, sw_running = cp_running w\<rparr> of
                (r, s) \<Rightarrow> (exit_code r, w\<lparr>cp_cmd := snd (on_os (\<lambda>_. ((), sw_os s)) (cp_cmd w)),
                                   cp_dbms := sw_dbms s, cp_running := sw_running s\<rparr>))
           else if cmd = ''cfssl'' then (case cfsslCommand (cx_cli X) (cx_cfssl X) osArgs w of (r, w) \<Rightarrow> (exit_code r, w))
           else print_usage)"

text \<open>Only the help texts differ: \<^verbatim>\<open>cop cfssl\<close> runs the command of CFSSL that the name selects, and no other.\<close>

lemma Replace_none: "(\<And>p q. s \<noteq> p @ old @ q) \<Longrightarrow> Replace s old new = s"
proof (induction s old new rule: Replace.induct)
  case (2 c s old new)
  have "\<not> HasPrefix (c # s) old"
  proof
    assume "HasPrefix (c # s) old"
    then have "c # s = [] @ old @ drop (length old) (c # s)" by (metis HasPrefix_def append_Nil append_take_drop_id)
    with "2.prems" show False by blast
  qed
  moreover have "s \<noteq> p @ old @ q" for p q using "2.prems" [of "c # p" q] by auto
  ultimately show ?case using "2.IH"(2) by auto
qed simp

lemma cfsslCommand_runs:
  "cfsslCommand S pkg osArgs w = cli_Start S (\<lambda>n. if n \<in> fst ` set (cfssl_cmds pkg) then Some (pkg n) else None) osArgs w"
proof -
  let ?f = "\<lambda>cmd. cmd\<lparr>cmd_UsageText := Replace (cmd_UsageText cmd) ''cfssl'' ''cop cfssl''\<rparr>"
  have "map_of (map (\<lambda>(n, cmd). (n, ?f cmd)) (map (\<lambda>n. (n, pkg n)) ns)) n = (if n \<in> set ns then Some (?f (pkg n)) else None)" for ns n
    by (induction ns) auto
  then have "map_of (map (\<lambda>(n, cmd). (n, ?f cmd)) (cfssl_cmds pkg)) = (\<lambda>n. if n \<in> fst ` set (cfssl_cmds pkg) then Some (?f (pkg n)) else None)"
    unfolding cfssl_cmds_def by (intro ext) (simp only: set_map image_image fst_conv image_ident)
  then show ?thesis
    unfolding cfsslCommand_def Let_def cli_Start_def by (auto simp: Let_def split: sum.split list.split prod.split)
qed

subsection \<open>Addresses\<close>

text \<open>
  An address of characters that need no escape in JSON is taken as it is.  A quote ends the string,
  so an address can set the home directory.
\<close>

lemma url_config_json: "(\<And>c. c \<in> set url \<Longrightarrow> esc_char c = [c]) \<Longrightarrow> url_config url = json_print (JObj [(''serverURL'', JStr url)])"
proof -
  assume "\<And>c. c \<in> set url \<Longrightarrow> esc_char c = [c]"
  then have "concat (map esc_char url) = url" by (induction url) simp_all
  moreover have "concat (map esc_char ''serverURL'') = ''serverURL''" by code_simp
  ultimately show ?thesis by (simp add: url_config_def json_quote_def)
qed

lemma client_NewClient_plain:
  assumes "\<And>c. c \<in> set url \<Longrightarrow> esc_char c = [c]"
  shows "client_NewClient env url = Inr \<lparr>cl_ServerURL = url, cl_HomeDir = GetDefaultHomeDir env\<rparr>"
proof -
  have "decode (lib_Client_fields c) (json_print (JObj [(''serverURL'', JStr url)])) =
      Inr \<lparr>cl_ServerURL = url, cl_HomeDir = cl_HomeDir c\<rparr>" for c
    using json_parse_print [of "JObj [(''serverURL'', JStr url)]"]
    by (simp add: decode_def root_fields_def lib_Client_fields_def ToLower_def lower_char_def del: json_print.simps)
  moreover have "url_config url \<noteq> []" by (simp add: url_config_def)
  ultimately show ?thesis using url_config_json [OF assms] by (simp add: client_NewClient_def lib_NewClient_def Unmarshal_def Let_def)
qed

lemma client_NewClient_injects:
  assumes "\<And>c. c \<in> set url \<union> set h \<Longrightarrow> esc_char c = [c]"
  shows "client_NewClient env (url @ [CHR 0x22] @ '','' @ [CHR 0x22] @ ''homeDir'' @ [CHR 0x22] @ '':'' @ [CHR 0x22] @ h) =
    Inr \<lparr>cl_ServerURL = url, cl_HomeDir = h\<rparr>"
proof -
  let ?j = "JObj [(''serverURL'', JStr url), (''homeDir'', JStr h)]"
  have "concat (map esc_char url) = url" using assms by (induction url) simp_all
  moreover have "concat (map esc_char h) = h" using assms by (induction h) simp_all
  moreover have "concat (map esc_char ''serverURL'') = ''serverURL''" "concat (map esc_char ''homeDir'') = ''homeDir''" by code_simp+
  ultimately have "url_config (url @ [CHR 0x22] @ '','' @ [CHR 0x22] @ ''homeDir'' @ [CHR 0x22] @ '':'' @ [CHR 0x22] @ h) = json_print ?j"
    by (simp add: url_config_def json_quote_def)
  moreover have "decode (lib_Client_fields c) (json_print ?j) = Inr \<lparr>cl_ServerURL = url, cl_HomeDir = h\<rparr>" for c
    using json_parse_print [of ?j]
    by (simp add: decode_def root_fields_def lib_Client_fields_def ToLower_def lower_char_def del: json_print.simps)
  moreover have "json_print ?j \<noteq> []" by simp
  ultimately show ?thesis by (simp add: client_NewClient_def lib_NewClient_def Unmarshal_def Let_def del: json_print.simps)
qed

subsection \<open>Files while a request is sent\<close>

text \<open>Sending a request only reads files: without failures of the system it leaves it as it is.\<close>

lemma client_tls_same: "os_faults w = [] \<Longrightarrow> snd (client_tls E c w) = w"
  using ioutil_ReadFile_same [of w "FilepathJoin [cl_HomeDir c, clientConfigFile]"] append_cas_same [of w "ce_tls E"]
  by (auto simp: client_tls_def getClientConfig_def GetClientTLSConfig_def Let_def split: prod.splits sum.splits) (metis snd_conv)+

lemma SendPost_same: "os_faults (cw_os w) = [] \<Longrightarrow> cw_os (snd (Client_SendPost E c req w)) = cw_os w"
  using client_tls_same [of "cw_os w" E c] by (auto simp: Client_SendPost_def Let_def split: prod.splits sum.splits)

lemma Identity_Post_same: "os_faults (cw_os w) = [] \<Longrightarrow> cw_os (snd (Identity_Post E i ep body w)) = cw_os w"
  by (auto simp: Identity_Post_def SendPost_same split: option.splits sum.splits prod.splits)

lemma Client_Register_same: "os_faults (cw_os w) = [] \<Longrightarrow> cw_os (snd (Client_Register E req r w)) = cw_os w"
  using Identity_Post_same [of w E] by (auto simp: Client_Register_def Let_def split: option.splits sum.splits prod.splits) (metis snd_conv)+

lemma Client_Enroll_same: "os_faults (cw_os w) = [] \<Longrightarrow> cw_os (snd (Client_Enroll E c req w)) = cw_os w"
  using SendPost_same [of w E c] by (auto simp: Client_Enroll_def Let_def split: sum.splits prod.splits) (metis snd_conv)+

subsection \<open>Running a command\<close>

lemma Command_Main [simp]:
  "cmd_Main (RegisterCommand E) = registerMain E" "cmd_Main (EnrollCommand E) = enrollMain E"
  "cmd_Main (ReenrollCommand E) = reenrollMain E" "cmd_Main (RevokeCommand E) = revokeMain E"
  by (simp_all add: RegisterCommand_def EnrollCommand_def ReenrollCommand_def RevokeCommand_def)

lemma client_Command_run:
  assumes "flag_token cmd = NoFlag" "client_cmds E cmd = Some k" "args = [] \<or> flag_token (hd args) = NoFlag"
  shows "client_Command S E (p # cmd # args) w = cmd_Main k args (flags_of []) w"
proof -
  have "FlagSet_Parse fs ok args = Inr ([], args)" for fs ok using assms(3) by (cases args) auto
  moreover have "cli_ConfigFile (fl_Config (flags_of [])) = []" by (simp add: flags_of_def flag_value_def)
  ultimately show ?thesis using assms(1,2) by (simp add: client_Command_def cli_Start_def Let_def)
qed

lemma client_words: "flag_token ''enroll'' = NoFlag" "flag_token ''register'' = NoFlag" "flag_token ''reenroll'' = NoFlag" "flag_token ''revoke'' = NoFlag"
  by (simp_all add: flag_token_def)

lemma COPMain_client:
  "COPMain X (p # ''client'' # args) w =
     (case client_Command (cx_cli X) (cx_client X) (''client'' # args) (cp_cmd w) of (r, m) \<Rightarrow> (exit_code r, w\<lparr>cp_cmd := m\<rparr>))"
  by (simp add: COPMain_def Let_def)

subsection \<open>The flags of the revoke command\<close>

text \<open>
  The reason given on the command line has no effect, and flags after the address are not flags: the
  first of them is taken as the enrollment ID.
\<close>

lemma revokeMain_reason: "revokeMain E args (c\<lparr>fl_Reason := r\<rparr>) w = revokeMain E args c w"
proof -
  have f: "fl_Serial (c\<lparr>fl_Reason := r\<rparr>) = fl_Serial c" "fl_AKI (c\<lparr>fl_Reason := r\<rparr>) = fl_AKI c" by simp_all
  show ?thesis unfolding revokeMain_def f ..
qed

lemma revoke_flag_names:
  "list_all (\<lambda>n. \<not> bad_name n \<and> CHR ''='' \<notin> set n \<and> registerFlags n = Some FString) [''aki'', ''serial'', ''reason'']"
  by code_simp

lemma revoke_flags_last:
  assumes "flag_token url = NoFlag"
  shows "client_Command S E (p # ''revoke'' # url # flag_words asg) w = revokeMain E (url # flag_words asg) (flags_of []) w"
proof -
  have "client_cmds E ''revoke'' = Some (RevokeCommand E)"
    by (simp add: client_cmds_def)
  then show ?thesis using client_Command_run [OF client_words(4), of E _ "url # flag_words asg"] assms by simp
qed

lemma revoke_flags_first:
  assumes "flag_token url = NoFlag" "\<forall>(n, v) \<in> set asg. n \<in> {''aki'', ''serial'', ''reason''}"
  shows "client_Command S E (p # ''revoke'' # flag_words asg @ url # args) w = revokeMain E (url # args) (flags_of asg) w"
proof -
  have k: "\<not> bad_name n \<and> CHR ''='' \<notin> set n \<and> (\<exists>k. registerFlags n = Some k \<and> k \<noteq> FBool \<and> flag_ok dur k v)"
    if "n \<in> {''aki'', ''serial'', ''reason''}" for n v dur
  proof -
    have "n \<in> set [''aki'', ''serial'', ''reason'']" using that by simp
    with revoke_flag_names have "\<not> bad_name n \<and> CHR ''='' \<notin> set n \<and> registerFlags n = Some FString" unfolding list_all_iff by (rule bspec)
    then show ?thesis by (simp add: flag_ok_def)
  qed
  have "FlagSet_Parse registerFlags (flag_ok dur) (flag_words asg @ url # args) = Inr (asg, url # args)" for dur
  proof (rule Parse_words)
    show "\<forall>(n, v) \<in> set asg. \<not> bad_name n \<and> CHR ''='' \<notin> set n \<and> (\<exists>k. registerFlags n = Some k \<and> k \<noteq> FBool \<and> flag_ok dur k v)"
      using assms(2) k by (rule pairs_mono)
  qed (simp add: assms(1))
  moreover have "cli_ConfigFile (fl_Config (flags_of asg)) = []"
    using flag_value_default [OF assms(2), of "''config''"] by (simp add: flags_of_def)
  moreover have "client_cmds E ''revoke'' = Some (RevokeCommand E)"
    by (simp add: client_cmds_def)
  ultimately show ?thesis by (simp add: client_Command_def cli_Start_def client_words Let_def)
qed

subsection \<open>The exit status\<close>

text \<open>Without a known first word the program prints its usage and changes nothing else.\<close>

lemma COPMain_usage:
  assumes "length args \<le> 1 \<or> args ! 1 \<notin> {''client'', ''server'', ''cfssl''}"
  shows "COPMain X args w = (Some 1, w\<lparr>cp_cmd := fmt_Print (usage @ [CHR 0x0A]) (cp_cmd w)\<rparr>)"
  using assms by (auto simp: COPMain_def Let_def)

lemma exit_code_error: "isl r \<Longrightarrow> exit_code r \<noteq> Some 0"
  by (auto simp: exit_code_def isl_def split: go_error.splits)

text \<open>A server that is started never ends with status 0.\<close>

lemma server_start_status:
  fixes X :: "('n, 'p) cop_env"
  shows "fst (COPMain X (p # ''server'' # ''start'' # args) w) \<noteq> Some 0"
proof -
  have s: "isl (fst (cmd_Main (StartCommand Y) as c v))" for Y :: "'p server_env" and as c v
    by (auto simp: StartCommand_def split: prod.splits sum.splits)
  have "isl (fst (server_Command S Y (q # ''start'' # args) v))" for S and Y :: "'p server_env" and q v
    using s by (auto simp: server_Command_def cli_Start_def flag_token_def Let_def split: sum.splits list.splits)
  then have "exit_code (fst (server_Command S Y (q # ''start'' # args) v)) \<noteq> Some 0" for S and Y :: "'p server_env" and q v
    using exit_code_error by metis
  then show ?thesis by (auto simp: COPMain_def Let_def split: prod.splits) (metis fst_conv)
qed

end
