(* ===== verification/Cli_Session.thy ===== *)
theory Cli_Session
  imports Cli_Commands Client_Server
begin

text \<open>
  Sessions at the command line: \<^verbatim>\<open>cop client\<close> commands that follow each other on one machine, against the
  server of \<open>Client_Server\<close>.  What one command leaves in the enrollment files is the identity of the next.
\<close>

subsection \<open>Single commands\<close>

lemma enrollMain_stores:
  assumes "client_NewClient (os_Getenv (cm_os w)) url = Inr c" "os_faults (cm_os w) = []"
    and "Client_Enroll E c \<lparr>eq_Name = ident, eq_Secret = secret, eq_Hosts = [], eq_Profile = [], eq_Label = [], eq_CSR = None\<rparr> (cm_client w) =
      (Inr (newIdentity (Some c) ident (Some key) (Some cert)), cw)"
    and "GetEnrollmentIDFromPEM (se_x509 (ce_sig E)) cert = Inr name"
    and "os_dirs (cm_os w) (FilepathDir (GetMyKeyFile c (cm_os w)))" "os_dirs (cm_os w) (FilepathDir (GetMyCertFile c (cm_os w)))"
    and "GetMyKeyFile c (cm_os w) \<noteq> GetMyCertFile c (cm_os w)"
  shows "\<exists>os. enrollMain E [ident, secret, url] fl w = (Inr (), w\<lparr>cm_client := cw\<lparr>cw_os := os\<rparr>\<rparr>) \<and>
    LoadMyIdentity (ce_sig E) c os = (Inr (newIdentity (Some c) name (Some key) (Some cert)), os)"
proof -
  let ?i = "newIdentity (Some c) ident (Some key) (Some cert)"
  have o: "cw_os cw = cm_os w" using Client_Enroll_same [of "cm_client w" E c] assms(2,3) by (metis cm_os_def snd_conv)
  have i: "id_client ?i = Some c" "Identity_GetMyKey ?i = Some key" "Identity_GetMyCert ?i = Some cert"
    by (simp_all add: newIdentity_def newTemporalSigner_def newSigner_def newVerifier_def Identity_GetMyKey_def
        Identity_GetMyCert_def Signer_getMyKey_def Verifier_GetMyCert_def)
  obtain os where "Identity_Store ?i (cm_os w) = (Inr (), os)"
    "LoadMyIdentity (ce_sig E) c os = (Inr (newIdentity (Some c) name (Some key) (Some cert)), os)"
    using Store_then_Load [OF i assms(4,2,5-7)] by blast
  then show ?thesis using assms(1,3) o
    by (intro exI [of _ os]) (simp add: enrollMain_def PopFirstArgument_def csr_argument_def Let_def on_client_def on_os_def cm_os_def)
qed

text \<open>
  Running \<^verbatim>\<open>cop client enroll ID SECRET URL\<close> against a server that knows the user and has logins left
  exits with status 0, and leaves the new identity in the enrollment files.
\<close>

lemma enroll_command:
  assumes "ce_Do (cx_client X) = server_Do W sv base" "connects (cx_client X) c base"
    and "c = \<lparr>cl_ServerURL = url, cl_HomeDir = GetDefaultHomeDir (os_Getenv w0)\<rparr>" "\<And>ch. ch \<in> set url \<Longrightarrow> esc_char ch = [ch]"
    and "w0 = cm_os (cp_cmd w)" "os_faults w0 = []" "GetMyKeyFile c w0 \<noteq> GetMyCertFile c w0"
    and "os_dirs w0 (FilepathDir (GetMyKeyFile c w0))" "os_dirs w0 (FilepathDir (GetMyCertFile c w0))"
    and "Client_GenCSR (cx_client X) None ident = Inr (csr, key)" "flag_token ident = NoFlag" "CHR '':'' \<notin> set ident"
    and "on_database X509 sv" "sv_enrollSigner sv = Some (Some f)" "c_Authentication (sv_CFG sv)"
    and "login_attempt ident secret (ts_reg (cw_net (cm_client (cp_cmd w)))) = (Inr (), Some d)" "faults d = []"
    and "re_issue W (client_SignRequest [] csr [] []) = Inr cr"
    and "cert_key cr \<notin> cert_key ` set (certificates d)"
    and "GetEnrollmentIDFromPEM X509 (bytes_of (cr_PEM cr)) = Inr name"
    and "GetEnrollmentIDFromPEM (se_x509 (ce_sig (cx_client X))) (bytes_of (cr_PEM cr)) = Inr name"
  shows "\<exists>w' os. COPMain X [prog, ''client'', ''enroll'', ident, secret, url] w = (Some 0, w') \<and> cm_os (cp_cmd w') = os \<and>
    LoadMyIdentity (ce_sig (cx_client X)) c os = (Inr (newIdentity (Some c) name (Some key) (Some (bytes_of (cr_PEM cr)))), os) \<and>
    ts_reg (cw_net (cm_client (cp_cmd w'))) =
      Some (stored_as_good cr name d)"
proof -
  let ?E = "cx_client X"
  let ?req = "\<lparr>eq_Name = ident, eq_Secret = secret, eq_Hosts = [], eq_Profile = [], eq_Label = [], eq_CSR = None\<rparr>"
  let ?st = "(cw_net (cm_client (cp_cmd w)))\<lparr>ts_reg := Some (stored_as_good cr name d)\<rparr>"
  obtain os1 where e: "Client_Enroll ?E c ?req (cm_client (cp_cmd w)) =
      (Inr (newIdentity (Some c) ident (Some key) (Some (bytes_of (cr_PEM cr)))), (cm_client (cp_cmd w))\<lparr>cw_os := os1, cw_net := ?st\<rparr>)"
    using Client_Enroll_served [OF assms(1,2) _ assms(13-15) _ _ assms(17) _ assms(19,20), of ?req csr key "cm_client (cp_cmd w)"]
      assms(10,12,16,18) by auto
  have n: "client_NewClient (os_Getenv (cm_os (cp_cmd w))) url = Inr c"
    using client_NewClient_plain [of url] assms(3-5) by simp
  obtain os where m: "enrollMain ?E [ident, secret, url] (flags_of []) (cp_cmd w) =
      (Inr (), (cp_cmd w)\<lparr>cm_client := (cm_client (cp_cmd w))\<lparr>cw_os := os1, cw_net := ?st\<rparr>\<lparr>cw_os := os\<rparr>\<rparr>)"
    "LoadMyIdentity (ce_sig ?E) c os = (Inr (newIdentity (Some c) name (Some key) (Some (bytes_of (cr_PEM cr)))), os)"
    using enrollMain_stores [OF n _ e assms(21)] assms(5-9) by blast
  have "client_cmds ?E ''enroll'' = Some (EnrollCommand ?E)" by (simp add: client_cmds_def)
  then show ?thesis
    using m client_Command_run [OF client_words(1), of ?E _ "[ident, secret, url]"] assms(11)
    by (simp add: COPMain_client exit_code_def cm_os_def)
qed

text \<open>The secret is printed as the server drew it.\<close>

lemma registerMain_prints:
  assumes "os_faults (cm_os w) = []" "os_files (cm_os w) file = Some (buf, m)" "decode RegistrationRequest_fields (string_of buf) = Inr req"
    and "client_NewClient (os_Getenv (cm_os w)) url = Inr c" "LoadMyIdentity (ce_sig E) c (cm_os w) = (Inr i, cm_os w)"
    and "Client_Register E req (Some i) (cm_client w) = (Inr (StdEncode (bytes_of tok)), cw)"
  shows "registerMain E [file, url] fl w =
    (Inr (), w\<lparr>cm_client := cw, cm_stdout := cm_stdout w @ ''One time password: '' @ tok @ [CHR 0x0A]\<rparr>)"
  using assms ReadFile_no_faults [OF assms(1,2)]
  by (simp add: registerMain_def PopFirstArgument_def on_os_def on_client_def cm_os_def fmt_Print_def Let_def)

lemma LoadMyIdentity_client: "LoadMyIdentity S c w = (Inr i, w') \<Longrightarrow> id_client i = Some c"
  by (auto simp: LoadMyIdentity_def LoadIdentity_def Client_NewIdentity_def newIdentity_def split: sum.splits prod.splits)

text \<open>Running \<^verbatim>\<open>cop client register FILE URL\<close> as an enrolled registrar prints the secret the server drew.\<close>

lemma register_command:
  assumes "ce_Do (cx_client X) = server_Do W sv base" "connects (cx_client X) c base"
    and "c = \<lparr>cl_ServerURL = url, cl_HomeDir = GetDefaultHomeDir (os_Getenv w0)\<rparr>" "\<And>ch. ch \<in> set url \<Longrightarrow> esc_char ch = [ch]"
    and "w0 = cm_os (cp_cmd w)" "os_faults w0 = []" "os_files w0 file = Some (buf, m)" "flag_token file = NoFlag"
    and "decode RegistrationRequest_fields (string_of buf) = Inr req" "rr_Name req \<noteq> []" "rr_Group req \<noteq> []"
    and "LoadMyIdentity (ce_sig (cx_client X)) c w0 = (Inr i, w0)" "ce_sig (cx_client X) = ae_sig (re_auth W)" "sig_correct (ce_sig (cx_client X))"
    and "can_sign (ce_sig (cx_client X)) i cert" "VerifyCertificate (re_auth W) cert = (False, True)"
    and "sv_userRegistry sv = db_registry" "c_Authentication (sv_CFG sv)"
    and "Register_RegisterUser db_registry (sv_CFG sv) (re_secret W) (rr_Name req) (rr_Type req) (rr_Group req)
           (rr_Attributes req) (Identity_GetName i) [] (ts_reg (cw_net (cm_client (cp_cmd w)))) = (Inr tok, h)"
  shows "COPMain X [prog, ''client'', ''register'', file, url] w =
    (Some 0, w\<lparr>cp_cmd := (cp_cmd w)\<lparr>cm_client := \<lparr>cw_os = w0, cw_net = (cw_net (cm_client (cp_cmd w)))\<lparr>ts_reg := h\<rparr>\<rparr>,
      cm_stdout := cm_stdout (cp_cmd w) @ ''One time password: '' @ tok @ [CHR 0x0A]\<rparr>\<rparr>)"
proof -
  let ?E = "cx_client X" and ?w = "cm_client (cp_cmd w)"
  obtain os where "Client_Register ?E req (Some i) ?w = (Inr (StdEncode (bytes_of tok)), ?w\<lparr>cw_os := os, cw_net := (cw_net ?w)\<lparr>ts_reg := h\<rparr>\<rparr>)"
    using Client_Register_served [OF assms(1) LoadMyIdentity_client [OF assms(12)] assms(2,13-18,10,11,19)] by blast
  moreover have "cw_os (snd (Client_Register ?E req (Some i) ?w)) = w0"
    using Client_Register_same [of ?w] assms(5,6) by (simp add: cm_os_def)
  ultimately have "Client_Register ?E req (Some i) ?w = (Inr (StdEncode (bytes_of tok)), \<lparr>cw_os = w0, cw_net = (cw_net ?w)\<lparr>ts_reg := h\<rparr>\<rparr>)" by simp
  moreover have "client_NewClient (os_Getenv (cm_os (cp_cmd w))) url = Inr c"
    using client_NewClient_plain [of url] assms(3-5) by simp
  ultimately have "registerMain ?E [file, url] (flags_of []) (cp_cmd w) =
      (Inr (), (cp_cmd w)\<lparr>cm_client := \<lparr>cw_os = w0, cw_net = (cw_net ?w)\<lparr>ts_reg := h\<rparr>\<rparr>,
         cm_stdout := cm_stdout (cp_cmd w) @ ''One time password: '' @ tok @ [CHR 0x0A]\<rparr>)"
    using registerMain_prints [where w = "cp_cmd w" and E = ?E, OF _ _ assms(9)] assms(5-7,12) by simp
  moreover have "client_cmds ?E ''register'' = Some (RegisterCommand ?E)" by (simp add: client_cmds_def)
  ultimately show ?thesis
    using client_Command_run [OF client_words(2), of ?E _ "[file, url]"] assms(8) by (simp add: COPMain_client exit_code_def)
qed

subsection \<open>Registering and enrolling\<close>

text \<open>
  C14. A session at the command line: on a machine where a registrar has enrolled, \<^verbatim>\<open>cop client register FILE URL\<close>
  with a file that names a new user of an existing group exits with status 0 and prints a one-time
  password; \<^verbatim>\<open>cop client enroll ID PASSWORD URL\<close> with that password then exits with status 0.  The key and
  the certificate the server issued are in the enrollment files, so that the next command acts under the
  enrollment ID of that certificate; the server has stored the certificate as good and counted one login.
\<close>

theorem cli_session:
  assumes "connects (cx_client X) c base" "w0 = cm_os (cp_cmd w)" "os_faults w0 = []"
    and "c = \<lparr>cl_ServerURL = url, cl_HomeDir = GetDefaultHomeDir (os_Getenv w0)\<rparr>" "\<And>ch. ch \<in> set url \<Longrightarrow> esc_char ch = [ch]"
    and "os_files w0 file = Some (buf, m)" "decode RegistrationRequest_fields (string_of buf) = Inr req"
    and "flag_token file = NoFlag" "flag_token (rr_Name req) = NoFlag" "CHR '':'' \<notin> set (rr_Name req)" "rr_Name req \<noteq> []" "rr_Group req \<noteq> []"
    and "LoadMyIdentity (ce_sig (cx_client X)) c w0 = (Inr i, w0)" "ce_sig (cx_client X) = ae_sig (re_auth W1)" "sig_correct (ce_sig (cx_client X))"
    and "can_sign (ce_sig (cx_client X)) i cert" "VerifyCertificate (re_auth W1) cert = (False, True)"
    and "on_database X509 sv" "sv_enrollSigner sv = Some (Some f)" "c_Authentication (sv_CFG sv)" "0 \<le> c_MaxEnrollments (sv_CFG sv)"
    and "ts_reg (cw_net (cm_client (cp_cmd w))) = Some d" "faults d = []" "unique_ids d" "lookup_user d (rr_Name req) = None"
    and "rr_Group req \<in> gr_Name ` set (groups d)" "Register_canRegister db_registry (Identity_GetName i) (rr_Type req) (Some d) = (Inr (), Some d)"
    and "GetMyKeyFile c w0 \<noteq> GetMyCertFile c w0" "os_dirs w0 (FilepathDir (GetMyKeyFile c w0))" "os_dirs w0 (FilepathDir (GetMyCertFile c w0))"
    and "Client_GenCSR (cx_client X) None (rr_Name req) = Inr (csr, key)" "re_issue W2 (client_SignRequest [] csr [] []) = Inr cr"
    and "cert_key cr \<notin> cert_key ` set (certificates d)" "GetEnrollmentIDFromPEM X509 (bytes_of (cr_PEM cr)) = Inr name"
    and "GetEnrollmentIDFromPEM (se_x509 (ce_sig (cx_client X))) (bytes_of (cr_PEM cr)) = Inr name"
  shows "\<exists>w1 w2 d'.
    COPMain (X\<lparr>cx_client := (cx_client X)\<lparr>ce_Do := server_Do W1 sv base\<rparr>\<rparr>) [prog, ''client'', ''register'', file, url] w = (Some 0, w1) \<and>
    cm_stdout (cp_cmd w1) = cm_stdout (cp_cmd w) @ ''One time password: '' @ re_secret W1 @ [CHR 0x0A] \<and>
    COPMain (X\<lparr>cx_client := (cx_client X)\<lparr>ce_Do := server_Do W2 sv base\<rparr>\<rparr>) [prog, ''client'', ''enroll'', rr_Name req, re_secret W1, url] w1 = (Some 0, w2) \<and>
    LoadMyIdentity (ce_sig (cx_client X)) c (cm_os (cp_cmd w2)) =
      (Inr (newIdentity (Some c) name (Some key) (Some (bytes_of (cr_PEM cr)))), cm_os (cp_cmd w2)) \<and>
    ts_reg (cw_net (cm_client (cp_cmd w2))) = Some d' \<and> certificates d' = certificates d @ [cr\<lparr>cr_Status := ''good'', cr_ID := name\<rparr>] \<and>
    map_option ur_State (lookup_user d' (rr_Name req)) = Some 1"
proof -
  let ?E1 = "(cx_client X)\<lparr>ce_Do := server_Do W1 sv base\<rparr>" and ?E2 = "(cx_client X)\<lparr>ce_Do := server_Do W2 sv base\<rparr>"
  let ?X1 = "X\<lparr>cx_client := ?E1\<rparr>" and ?X2 = "X\<lparr>cx_client := ?E2\<rparr>"
  obtain d1 d2 where r: "Register_RegisterUser db_registry (sv_CFG sv) (re_secret W1) (rr_Name req) (rr_Type req) (rr_Group req) (rr_Attributes req)
      (Identity_GetName i) [] (ts_reg (cw_net (cm_client (cp_cmd w)))) = (Inr (re_secret W1), Some d1)"
    and log: "login_attempt (rr_Name req) (re_secret W1) (Some d1) = (Inr (), Some d2)"
    and d2: "faults d2 = []" "certificates d2 = certificates d" "map_option ur_State (lookup_user d2 (rr_Name req)) = Some 1"
    unfolding assms(22) by (rule registered_login [OF assms(23-25,21,26,27)])
  let ?w1 = "w\<lparr>cp_cmd := (cp_cmd w)\<lparr>cm_client := \<lparr>cw_os = w0, cw_net = (cw_net (cm_client (cp_cmd w)))\<lparr>ts_reg := Some d1\<rparr>\<rparr>,
      cm_stdout := cm_stdout (cp_cmd w) @ ''One time password: '' @ re_secret W1 @ [CHR 0x0A]\<rparr>\<rparr>"
  have "COPMain ?X1 [prog, ''client'', ''register'', file, url] w = (Some 0, ?w1)"
    by (rule register_command [OF _ _ assms(4,5,2,3,6,8,7,11,12) _ _ _ _ assms(17) _ assms(20) r])
      (use assms(1,13-16,18) in \<open>auto simp: connects_Do on_backend_def\<close>)
  then obtain w1 where w1: "COPMain ?X1 [prog, ''client'', ''register'', file, url] w = (Some 0, w1)"
    "cm_stdout (cp_cmd w1) = cm_stdout (cp_cmd w) @ ''One time password: '' @ re_secret W1 @ [CHR 0x0A]" "w0 = cm_os (cp_cmd w1)"
    "ts_reg (cw_net (cm_client (cp_cmd w1))) = Some d1" by (rule that) (simp_all add: cm_os_def)
  have "lookup_user (stored_as_good cr name d2) = lookup_user d2" by (rule lookup_users_eq) simp
  moreover from enroll_command [of ?X2 W2 sv base c url w0 w1 "rr_Name req" csr key X509 f "re_secret W1" d2 cr name prog,
      OF _ _ assms(4,5) w1(3) assms(3,28-30) _ assms(9,10,18-20) _ d2(1) assms(32) _ assms(34)]
  obtain w2 where "COPMain ?X2 [prog, ''client'', ''enroll'', rr_Name req, re_secret W1, url] w1 = (Some 0, w2)"
    "LoadMyIdentity (ce_sig (cx_client X)) c (cm_os (cp_cmd w2)) =
      (Inr (newIdentity (Some c) name (Some key) (Some (bytes_of (cr_PEM cr)))), cm_os (cp_cmd w2))"
    "ts_reg (cw_net (cm_client (cp_cmd w2))) = Some (stored_as_good cr name d2)"
    using assms(1,31,33,35) log d2(2) w1(4) by (auto simp: connects_Do GenCSR_Do)
  ultimately show ?thesis using w1(1,2) d2(2,3) by (auto intro!: exI)
qed

definition demo_cop :: "((sqldb option, string) tcert_state, unit) cop_env" where
  "demo_cop =
     \<lparr>cx_cli = \<lparr>se_top = Map.empty, se_duration = (\<lambda>_. False), se_LoadFile = (\<lambda>_. Inr ())\<rparr>, cx_client = demo_cenv,
      cx_server = \<lparr>sx_start = demo_start,
        sx_init = \<lparr>ie_stdin = Inr [], ie_GetDefault = Inr (), ie_New = (\<lambda>_. Inr ([], []))\<rparr>,
        sx_ListenAndServe = (\<lambda>_. ErrorString ''closed'')\<rparr>,
      cx_cfssl = (\<lambda>_. \<lparr>cmd_UsageText = [], cmd_Flags = [], cmd_Main = (\<lambda>_ _ w. (Inr (), w))\<rparr>)\<rparr>"

definition demo_reg_json :: json where
  "demo_reg_json = JObj [(''id'', JStr ''bob''), (''type'', JStr ''Client''), (''group'', JStr ''bank_a'')]"

definition demo_machine :: os_world where
  "demo_machine =
     \<lparr>os_Getenv = (\<lambda>v. if v = ''COP_HOME'' then ''/home/cop'' else []),
      os_files = [''/home/cop/key.pem'' \<mapsto> (bytes_of ''admin'', 384), ''/home/cop/cert.pem'' \<mapsto> (bytes_of ''admin'', 420),
        ''reg.json'' \<mapsto> (bytes_of (json_print demo_reg_json), 420)],
      os_dirs = (\<lambda>_. True), os_faults = []\<rparr>"

definition demo_cop_world :: "(sqldb option, string) tcert_state cop_world" where
  "demo_cop_world = \<lparr>cp_cmd = \<lparr>cm_client = \<lparr>cw_os = demo_machine, cw_net = demo_tstate\<rparr>, cm_stdout = []\<rparr>, cp_dbms = demo_dbms, cp_running = None\<rparr>"

lemma demo_machine_files:
  "GetMyKeyFile demo_client demo_machine = ''/home/cop/key.pem''" "GetMyCertFile demo_client demo_machine = ''/home/cop/cert.pem''"
  "demo_client = \<lparr>cl_ServerURL = ''http://localhost:8888'', cl_HomeDir = GetDefaultHomeDir (os_Getenv demo_machine)\<rparr>"
proof -
  have "FilepathJoin [''/home/cop'', ''key.pem''] = ''/home/cop/key.pem''" "FilepathJoin [''/home/cop'', ''cert.pem''] = ''/home/cop/cert.pem''"
    by code_simp+
  then show "GetMyKeyFile demo_client demo_machine = ''/home/cop/key.pem''" "GetMyCertFile demo_client demo_machine = ''/home/cop/cert.pem''"
    by (simp_all add: GetMyKeyFile_def GetMyCertFile_def GetMyEnrollmentDir_def demo_machine_def demo_client_def)
qed (simp add: demo_client_def GetDefaultHomeDir_def demo_machine_def)

lemma demo_machine_identity: "LoadMyIdentity demo_sig demo_client demo_machine = (Inr (demo_identity ''admin''), demo_machine)"
proof -
  have "os_faults demo_machine = []" by (simp add: demo_machine_def)
  moreover have "os_files demo_machine ''/home/cop/key.pem'' = Some (bytes_of ''admin'', 384)" "os_files demo_machine ''/home/cop/cert.pem'' = Some (bytes_of ''admin'', 420)"
    by (simp_all add: demo_machine_def)
  moreover have "GetEnrollmentIDFromPEM (se_x509 demo_sig) (bytes_of ''admin'') = Inr ''admin''"
    using demo_x_parse [of "''admin''"] by (simp add: GetEnrollmentIDFromPEM_def GetEnrollmentIDFromX509Certificate_def demo_x_def)
  ultimately show ?thesis
    by (simp add: LoadMyIdentity_def LoadIdentity_def demo_machine_files(1,2) ReadFile_no_faults Client_NewIdentity_def demo_identity_def)
qed

lemma demo_reg_decoded: "decode RegistrationRequest_fields (json_print demo_reg_json) = Inr demo_rreq"
proof -
  have "json_parse (json_print demo_reg_json) = Some demo_reg_json" by (rule json_parse_print) (simp add: demo_reg_json_def)
  then show ?thesis
    by (simp add: decode_def root_fields_def demo_reg_json_def RegistrationRequest_fields_def demo_rreq_def ToLower_def lower_char_def del: json_print.simps)
qed

theorem cli_session_witness:
  "\<exists>w1 w2 i. COPMain (demo_cop\<lparr>cx_client := demo_cenv\<lparr>ce_Do := server_Do demo_renv demo_server ''http://localhost:8888''\<rparr>\<rparr>)
      [''cop'', ''client'', ''register'', ''reg.json'', ''http://localhost:8888''] demo_cop_world = (Some 0, w1) \<and>
    cm_stdout (cp_cmd w1) = ''One time password: s3cret'' @ [CHR 0x0A] \<and>
    COPMain (demo_cop\<lparr>cx_client := demo_cenv\<lparr>ce_Do := server_Do (demo_env_with demo_renv demo_cert) demo_server ''http://localhost:8888''\<rparr>\<rparr>)
      [''cop'', ''client'', ''enroll'', ''bob'', ''s3cret'', ''http://localhost:8888''] w1 = (Some 0, w2) \<and>
    LoadMyIdentity demo_sig demo_client (cm_os (cp_cmd w2)) = (Inr i, cm_os (cp_cmd w2)) \<and> id_Name i = ''pem''"
proof -
  let ?E = "cx_client demo_cop" and ?url = "''http://localhost:8888''"
  have E: "?E = demo_cenv" "ce_sig demo_cenv = demo_sig" by (simp_all add: demo_cop_def demo_cenv_def)
  have 1: "connects ?E demo_client ?url" "demo_machine = cm_os (cp_cmd demo_cop_world)" "os_faults demo_machine = []"
    using demo_connects by (simp_all add: E demo_cop_world_def cm_os_def demo_machine_def)
  have "list_all (\<lambda>ch. esc_char ch = [ch]) ?url" by code_simp
  then have 2: "ch \<in> set ?url \<Longrightarrow> esc_char ch = [ch]" for ch by (auto simp: list_all_iff)
  have 3: "os_files demo_machine ''reg.json'' = Some (bytes_of (json_print demo_reg_json), 420)"
    "decode RegistrationRequest_fields (string_of (bytes_of (json_print demo_reg_json))) = Inr demo_rreq"
    using demo_reg_decoded by (simp_all add: demo_machine_def)
  have 4: "flag_token ''reg.json'' = NoFlag" "flag_token (rr_Name demo_rreq) = NoFlag" "CHR '':'' \<notin> set (rr_Name demo_rreq)" "rr_Name demo_rreq \<noteq> []" "rr_Group demo_rreq \<noteq> []"
    by (simp_all add: flag_token_def demo_rreq_def)
  have 5: "LoadMyIdentity (ce_sig ?E) demo_client demo_machine = (Inr (demo_identity ''admin''), demo_machine)" "ce_sig ?E = ae_sig (re_auth demo_renv)" "sig_correct (ce_sig ?E)"
    "can_sign (ce_sig ?E) (demo_identity ''admin'') (demo_x ''admin'')" "VerifyCertificate (re_auth demo_renv) (demo_x ''admin'') = (False, True)"
    using demo_machine_identity demo_signs by (simp_all add: E)
  have 6: "sv_enrollSigner demo_server = Some (Some (cert_InsertCertificate demo_x509))" "c_Authentication (sv_CFG demo_server)" "0 \<le> c_MaxEnrollments (sv_CFG demo_server)"
    by (simp_all add: demo_server_def newConfig_def)
  have 7: "ts_reg (cw_net (cm_client (cp_cmd demo_cop_world))) = Some demo_db2" "faults demo_db2 = []" "unique_ids demo_db2" "lookup_user demo_db2 (rr_Name demo_rreq) = None"
    "rr_Group demo_rreq \<in> gr_Name ` set (groups demo_db2)"
    "Register_canRegister db_registry (Identity_GetName (demo_identity ''admin'')) (rr_Type demo_rreq) (Some demo_db2) = (Inr (), Some demo_db2)"
    using demo_canRegister by (simp_all add: demo_cop_world_def demo_tstate_def demo_db2_def demo_db_def unique_ids_def demo_rreq_def demo_registrar_def
        demo_user_def lookup_user_def demo_identity_simps)
  have 8: "GetMyKeyFile demo_client demo_machine \<noteq> GetMyCertFile demo_client demo_machine" "os_dirs demo_machine p" for p
    unfolding demo_machine_files(1,2) by (simp_all add: demo_machine_def)
  have 9: "Client_GenCSR ?E None (rr_Name demo_rreq) = Inr (bytes_of ''bob'', bytes_of ''key'')"
    "re_issue (demo_env_with demo_renv demo_cert) q = Inr demo_cert" "cert_key demo_cert \<notin> cert_key ` set (certificates demo_db2)"
    "GetEnrollmentIDFromPEM demo_x509 (bytes_of (cr_PEM demo_cert)) = Inr ''pem''" "GetEnrollmentIDFromPEM (se_x509 (ce_sig ?E)) (bytes_of (cr_PEM demo_cert)) = Inr ''pem''" for q
    by (simp_all add: E Client_GenCSR_def demo_cenv_def demo_rreq_def demo_env_with_def demo_db2_def demo_db_def GetEnrollmentIDFromPEM_def
        GetX509CertificateFromPEM_def demo_x509_def demo_cert_def demo_sig_def GetEnrollmentIDFromX509Certificate_def)
  have 10: "rr_Name demo_rreq = ''bob''" "re_secret demo_renv = ''s3cret''" "cm_stdout (cp_cmd demo_cop_world) = []" "id_Name (newIdentity c n k t) = n" for c n k t
    by (simp_all add: demo_rreq_def demo_renv_def demo_cop_world_def newIdentity_def)
  from cli_session [OF 1 demo_machine_files(3) 2 3 4 5 demo_on_database(1) 6 7 8(1) 8(2) 8(2) 9(1) 9(2) 9(3-5), of "''cop''"]
  obtain w1 w2 where w: "COPMain (demo_cop\<lparr>cx_client := ?E\<lparr>ce_Do := server_Do demo_renv demo_server ?url\<rparr>\<rparr>)
      [''cop'', ''client'', ''register'', ''reg.json'', ?url] demo_cop_world = (Some 0, w1)"
    "cm_stdout (cp_cmd w1) = [] @ ''One time password: '' @ ''s3cret'' @ [CHR 0x0A]"
    "COPMain (demo_cop\<lparr>cx_client := ?E\<lparr>ce_Do := server_Do (demo_env_with demo_renv demo_cert) demo_server ?url\<rparr>\<rparr>)
      [''cop'', ''client'', ''enroll'', ''bob'', ''s3cret'', ?url] w1 = (Some 0, w2)"
    "LoadMyIdentity (ce_sig ?E) demo_client (cm_os (cp_cmd w2)) =
      (Inr (newIdentity (Some demo_client) ''pem'' (Some (bytes_of ''key'')) (Some (bytes_of (cr_PEM demo_cert)))), cm_os (cp_cmd w2))"
    unfolding 10 by blast
  show ?thesis
    by (intro exI conjI, rule w(1) [unfolded E], simp add: w(2), rule w(3) [unfolded E], rule w(4) [unfolded E], rule 10(4))
qed

end
