(* ===== verification/Server_Attacks.thy ===== *)
theory Server_Attacks
  imports Client_Server
begin

text \<open>
  What a request proves to the server, and what it does not: the paths by which a client without
  credentials, or one that has only seen a request, gets certificates and uses them.  The server is
  the one of \<open>Server_Routes\<close>, one request at a time; the adversary's requests are ordinary ones.
\<close>

subsection \<open>Enrolling without credentials\<close>

lemma serve_enroll_anonymous:
  assumes "on_database X sv" "sv_enrollSigner sv = Some (Some f)" "hr_Method r = ''POST''"
    and "hr_Authorization r \<noteq> []" "BasicAuth r = None" "ts_reg st = Some d" "faults d = []"
    and "decode SignRequest_fields (hr_Body r) = Inr q" "re_issue W q = Inr cr" "cert_key cr \<notin> cert_key ` set (certificates d)"
    and "GetEnrollmentIDFromPEM X (bytes_of (cr_PEM cr)) = Inr name"
  shows "serve W sv (wrappedPath ''enroll'') r st =
    (Response (SendResponse (json_bytes (bytes_of (cr_PEM cr)))), st\<lparr>ts_reg := Some (stored_as_good cr name d)\<rparr>)"
proof -
  let ?h = "\<lambda>r. on_reg (HTTPHandler_ServeHTTP [''POST''] (signHandler_Handle (enroll_signer W sv) ''enroll'') r)"
  let ?r = "HTTPRequestToString r"
  have "?h ?r st = (Some (SendResponse (json_bytes (bytes_of (cr_PEM cr)))), st\<lparr>ts_reg := Some (stored_as_good cr name d)\<rparr>)"
    using sign_handled [of ?r, OF _ _ assms(6,8) enroll_signed [OF assms(1,2,7,9-11)]] assms(3) by simp
  moreover have "copAuthHandler_ServeHTTP (re_auth W) (server_registry (sv_userRegistry sv)) (sv_CFG sv) (wrapper ''enroll'' ?h) r st =
      ah_next (wrapper ''enroll'' ?h) ?r st"
    by (rule basic_wrapper_bypass [OF _ assms(4,5)]) (simp add: wrapper_def)
  ultimately show ?thesis by (simp add: serve_endpoint [OF enroll_endpoint]) (simp add: wrapper_def)
qed

text \<open>
  C32. Anyone becomes any user.  A request to \<^verbatim>\<open>enroll\<close> whose \<^verbatim>\<open>Authorization\<close> header is neither empty nor
  basic authentication needs no user, no password and no login: the signer signs the certificate
  request as it stands, whatever name is in it, and the certificate is stored as good.  With the key of
  that certificate the sender then signs a request to revoke any user, and is answered as the user the
  certificate names: when that name has the \<^verbatim>\<open>hf.Revoker\<close> attribute, every certificate of the target
  is revoked.
\<close>

theorem anonymous_takeover:
  assumes "on_database X sv" "sv_enrollSigner sv = Some (Some f)" "sv_certDBAccessor sv \<noteq> None"
    and "c_Authentication (sv_CFG sv)" "ts_reg st = Some d" "faults d = []"
    and "hr_Method r = ''POST''" "hr_Authorization r \<noteq> []" "BasicAuth r = None" "decode SignRequest_fields (hr_Body r) = Inr q"
    and "re_issue W1 q = Inr cr" "cert_key cr \<notin> cert_key ` set (certificates d)"
    and "GetEnrollmentIDFromPEM X (bytes_of (cr_PEM cr)) = Inr name"
    and "GetX509CertificateFromPEM (se_x509 (ae_sig (re_auth W2))) (bytes_of (cr_PEM cr)) = Inr cert" "key_matches (ae_sig (re_auth W2)) cert key"
    and "sig_correct (ae_sig (re_auth W2))" "VerifyCertificate (re_auth W2) cert = (False, True)" "is_revoker d (x_CommonName cert)"
    and "rv_Name req \<noteq> []" "rv_Serial req = [] \<or> rv_AKI req = []" "in_int (rv_Reason req)" "lookup_user d (rv_Name req) = Some u"
    and "CreateToken (ae_sig (re_auth W2)) (bytes_of (cr_PEM cr)) key (bytes_of (json_print (RevocationRequest_json req))) = Inr tok"
  shows "\<exists>st1 st2 d1 d2.
    serve W1 sv (wrappedPath ''enroll'') r st = (Response (SendResponse (json_bytes (bytes_of (cr_PEM cr)))), st1) \<and>
    ts_reg st1 = Some d1 \<and> users d1 = users d \<and>
    serve W2 sv (wrappedPath ''revoke'') (token_request tok (json_print (RevocationRequest_json req))) st1 = (Response (SendResponse (JObj [])), st2) \<and>
    ts_reg st2 = Some d2 \<and> all_revoked (\<lambda>c. cr_ID c = rv_Name req) d2 \<and> map_option ur_State (lookup_user d2 (rv_Name req)) = Some (- 1)"
proof -
  let ?d1 = "stored_as_good cr name d" and ?n = "rv_Name req"
  let ?st1 = "st\<lparr>ts_reg := Some ?d1\<rparr>"
  have e: "serve W1 sv (wrappedPath ''enroll'') r st = (Response (SendResponse (json_bytes (bytes_of (cr_PEM cr)))), ?st1)"
    by (rule serve_enroll_anonymous [OF assms(1,2,7-9,5,6,10-13)])
  have sv: "sv_userRegistry sv = db_registry" "sv_certDBAccessor sv = Some db_cert_ops" using assms(1,3) by (auto simp: on_backend_def)
  have lk: "lookup_user ?d1 x = lookup_user d x" for x using lookup_users_eq [of ?d1 d] by simp
  have "VerifyToken (ae_sig (re_auth W2)) tok (bytes_of (json_print (RevocationRequest_json req))) = Inr cert"
    by (rule CreateToken_verifies [OF assms(16,14,15,23)])
  then have "serve W2 sv (wrappedPath ''revoke'') (token_request tok (json_print (RevocationRequest_json req))) ?st1 =
      (Response (SendResponse (JObj [])), ?st1\<lparr>ts_reg := Some (disabled ?n (rv_Reason req) ?d1)\<rparr>)"
    using assms(6,17-22) by (intro serve_revoke [OF sv assms(4)]) (simp_all add: lk is_revoker_def RevocationRequest_roundtrip)
  with e show ?thesis using disabled_user [of ?d1 ?n u "rv_Reason req"] assms(22) by (auto simp: lk)
qed

definition demo_stolen :: HttpRequest where
  "demo_stolen = token_request ''x'' (json_print (SignRequest_json (client_SignRequest [] (bytes_of ''alice'') [] [])))"

definition demo_alice_cert :: CertRecord where
  "demo_alice_cert = demo_cert2\<lparr>cr_PEM := ''alice''\<rparr>"

theorem anonymous_takeover_witness:
  "\<exists>st1 st2 d2. serve (demo_env_with demo_renv demo_alice_cert) demo_server (wrappedPath ''enroll'') demo_stolen (cw_net demo_revoked_state) =
      (Response (SendResponse (json_bytes (bytes_of ''alice''))), st1) \<and>
    serve demo_renv demo_server (wrappedPath ''revoke'') (token_request (demo_token ''alice'' (json_print (RevocationRequest_json demo_rvreq))) (json_print (RevocationRequest_json demo_rvreq))) st1 =
      (Response (SendResponse (JObj [])), st2) \<and>
    ts_reg st2 = Some d2 \<and> map_option ur_State (lookup_user d2 ''admin'') = Some (- 1)"
proof -
  let ?W1 = "demo_env_with demo_renv demo_alice_cert" and ?S = "ae_sig (re_auth demo_renv)"
  have r: "hr_Method demo_stolen = ''POST''" "hr_Authorization demo_stolen \<noteq> []" "BasicAuth demo_stolen = None"
    "decode SignRequest_fields (hr_Body demo_stolen) = Inr (client_SignRequest [] (bytes_of ''alice'') [] [])"
    by (simp_all add: demo_stolen_def BasicAuth_def HasPrefix_def client_SignRequest_received)
  have c: "re_issue ?W1 q = Inr demo_alice_cert" "cert_key demo_alice_cert \<notin> cert_key ` set (certificates demo_rvdb)"
    "GetEnrollmentIDFromPEM demo_x509 (bytes_of (cr_PEM demo_alice_cert)) = Inr ''alice''" for q
    using demo_issue(2) by (simp_all add: demo_env_with_def demo_alice_cert_def cert_key_def GetEnrollmentIDFromPEM_def
        GetX509CertificateFromPEM_def demo_x509_def GetEnrollmentIDFromX509Certificate_def)
  have S: "?S = demo_sig" "cr_PEM demo_alice_cert = ''alice''" by (simp_all add: demo_renv_def demo_auth_def demo_alice_cert_def)
  have k: "GetX509CertificateFromPEM (se_x509 ?S) (bytes_of (cr_PEM demo_alice_cert)) = Inr (demo_x ''alice'')" "key_matches ?S (demo_x ''alice'') (bytes_of ''alice'')"
    "sig_correct ?S"
    "CreateToken ?S (bytes_of (cr_PEM demo_alice_cert)) (bytes_of ''alice'') (bytes_of b) = Inr (demo_token ''alice'' b)" for b
    unfolding S using demo_x_parse demo_sig_correct demo_token_make
    by (simp_all add: key_matches_def demo_x_def demo_sig_def GetRSAPrivateKey_def)
  have q: "rv_Name demo_rvreq \<noteq> []" "rv_Serial demo_rvreq = [] \<or> rv_AKI demo_rvreq = []" "in_int (rv_Reason demo_rvreq)" "rv_Name demo_rvreq = ''admin''"
    by (simp_all add: demo_rvreq_def in_int_def)
  from anonymous_takeover [OF demo_on_database(1) demo_revocation(2,1,3-5) r c k(1-3) demo_signs(4) demo_is_revoker q(1-3) demo_revocation(7) k(4)]
  show ?thesis unfolding S(2) q(4) by blast
qed

subsection \<open>Replaying a request\<close>

text \<open>The same request sent again and again, each time in the environment of its moment.\<close>

fun replay :: "('k request_env \<times> CertRecord) list \<Rightarrow> (sqldb option, DBUser, 'k) server \<Rightarrow> string \<Rightarrow> HttpRequest \<Rightarrow>
    (sqldb option, 'k) tcert_state \<Rightarrow> answer list \<times> (sqldb option, 'k) tcert_state" where
  "replay [] sv path r st = ([], st)"
| "replay ((W, _) # Ws) sv path r st =
     (case serve W sv path r st of (a, st) \<Rightarrow> (case replay Ws sv path r st of (as, st) \<Rightarrow> (a # as, st)))"

text \<open>
  C33. A signed request can be replayed.  The token covers the body and the certificate, no nonce and no
  time: whoever has seen one request to \<^verbatim>\<open>reenroll\<close> sends it again, any number of times, while the
  certificate is valid, and every copy is answered with a new certificate that the server stores as good.
\<close>

theorem token_replay:
  assumes "on_database X sv" "sv_enrollSigner sv = Some (Some f)" "c_Authentication (sv_CFG sv)" "hr_Method r = ''POST''"
    and "VerifyToken S (hr_Authorization r) (bytes_of (hr_Body r)) = Inr cert" "decode SignRequest_fields (hr_Body r) = Inr q"
    and "\<forall>(W, cr) \<in> set Ws. ae_sig (re_auth W) = S \<and> VerifyCertificate (re_auth W) cert = (False, True) \<and> re_issue W q = Inr cr \<and>
      GetEnrollmentIDFromPEM X (bytes_of (cr_PEM cr)) = Inr name"
    and "ts_reg st = Some d" "faults d = []" "distinct (map (cert_key \<circ> snd) Ws)" "cert_key ` snd ` set Ws \<inter> cert_key ` set (certificates d) = {}"
  shows "\<exists>d'. replay Ws sv (wrappedPath ''reenroll'') r st =
      (map (\<lambda>(W, cr). Response (SendResponse (json_bytes (bytes_of (cr_PEM cr))))) Ws, st\<lparr>ts_reg := Some d'\<rparr>) \<and>
    users d' = users d \<and> certificates d' = certificates d @ map (\<lambda>(W, cr). cr\<lparr>cr_Status := ''good'', cr_ID := name\<rparr>) Ws"
  using assms(7-11)
proof (induction Ws arbitrary: st d)
  case Nil
  then show ?case by (auto intro: exI [of _ d])
next
  case (Cons p Ws)
  obtain W cr where p: "p = (W, cr)" by force
  let ?d = "stored_as_good cr name d"
  have s: "serve W sv (wrappedPath ''reenroll'') r st =
      (Response (SendResponse (json_bytes (bytes_of (cr_PEM cr)))), st\<lparr>ts_reg := Some ?d\<rparr>)"
    by (rule serve_reenroll [OF assms(1-4) _ _ Cons.prems(2,3) assms(6)]) (use Cons.prems p assms(5) in auto)
  have k: "cert_key (cr\<lparr>cr_Status := ''good'', cr_ID := name\<rparr>) = cert_key cr" by (simp add: cert_key_def)
  have "\<exists>d'. replay Ws sv (wrappedPath ''reenroll'') r (st\<lparr>ts_reg := Some ?d\<rparr>) =
      (map (\<lambda>(W, cr). Response (SendResponse (json_bytes (bytes_of (cr_PEM cr))))) Ws, (st\<lparr>ts_reg := Some ?d\<rparr>)\<lparr>ts_reg := Some d'\<rparr>) \<and>
      users d' = users ?d \<and> certificates d' = certificates ?d @ map (\<lambda>(W, cr). cr\<lparr>cr_Status := ''good'', cr_ID := name\<rparr>) Ws"
    by (rule Cons.IH) (use Cons.prems p k in \<open>auto simp: image_iff\<close>)
  with s p show ?case by auto
qed

definition demo_replayed :: HttpRequest where
  "demo_replayed = (let body = json_print (SignRequest_json (client_SignRequest [] (bytes_of ''admin'') [] [])) in token_request (demo_token ''admin'' body) body)"

theorem token_replay_witness:
  "\<exists>d'. replay (map (\<lambda>cr. (demo_env_with demo_renv cr, cr)) [demo_cert2, demo_cert2\<lparr>cr_Serial := ''2c''\<rparr>]) demo_server (wrappedPath ''reenroll'') demo_replayed (cw_net demo_revoked_state) =
      ([Response (SendResponse (json_bytes (bytes_of ''pem''))), Response (SendResponse (json_bytes (bytes_of ''pem'')))], (cw_net demo_revoked_state)\<lparr>ts_reg := Some d'\<rparr>) \<and>
    length (certificates d') = 3"
proof -
  let ?Ws = "map (\<lambda>cr. (demo_env_with demo_renv cr, cr)) [demo_cert2, demo_cert2\<lparr>cr_Serial := ''2c''\<rparr>]"
  let ?q = "client_SignRequest [] (bytes_of ''admin'') [] []"
  have r: "hr_Method demo_replayed = ''POST''" "VerifyToken demo_sig (hr_Authorization demo_replayed) (bytes_of (hr_Body demo_replayed)) = Inr (demo_x ''admin'')"
    "decode SignRequest_fields (hr_Body demo_replayed) = Inr ?q"
    using demo_token_verify by (simp_all add: demo_replayed_def Let_def client_SignRequest_received)
  have "ae_sig (re_auth (demo_env_with demo_renv cr)) = demo_sig" "VerifyCertificate (re_auth (demo_env_with demo_renv cr)) (demo_x ''admin'') = (False, True)"
    "re_issue (demo_env_with demo_renv cr) q = Inr cr" for cr q
    using demo_signs(4) by (simp_all add: demo_env_with_def demo_renv_def demo_auth_def)
  moreover note demo_issue(3)
  ultimately have w: "\<forall>(W, cr) \<in> set ?Ws. ae_sig (re_auth W) = demo_sig \<and> VerifyCertificate (re_auth W) (demo_x ''admin'') = (False, True) \<and>
      re_issue W ?q = Inr cr \<and> GetEnrollmentIDFromPEM demo_x509 (bytes_of (cr_PEM cr)) = Inr ''pem''" by simp
  have k: "distinct (map (cert_key \<circ> snd) ?Ws)" "cert_key ` snd ` set ?Ws \<inter> cert_key ` set (certificates demo_rvdb) = {}"
    by (simp_all add: demo_cert2_def demo_cert_def cert_key_def demo_rvdb_def demo_cdb_def)
  have "length (certificates demo_rvdb) = 1" "cr_PEM demo_cert2 = ''pem''" by (simp_all add: demo_rvdb_def demo_cdb_def demo_cert2_def demo_cert_def)
  moreover from token_replay [OF demo_on_database(1) demo_revocation(2,3) r w demo_revocation(4,5) k] obtain d' where
    "replay ?Ws demo_server (wrappedPath ''reenroll'') demo_replayed (cw_net demo_revoked_state) =
      (map (\<lambda>(W, cr). Response (SendResponse (json_bytes (bytes_of (cr_PEM cr))))) ?Ws, (cw_net demo_revoked_state)\<lparr>ts_reg := Some d'\<rparr>)"
    "certificates d' = certificates demo_rvdb @ map (\<lambda>(W, cr). cr\<lparr>cr_Status := ''good'', cr_ID := ''pem''\<rparr>) ?Ws" by blast
  ultimately show ?thesis by (intro exI [of _ d']) simp
qed

end
