(* ===== verification/Registry_Spec.thy ===== *)
theory Registry_Spec
  imports User_Registry
begin

text \<open>
  An abstract specification of the user registry, and the proof that the database accessor of
  \<^verbatim>\<open>cli/server/dbaccessor.go\<close> refines it.

  Abstractly a registry is a map from names to user records, and every operation is decided by the
  map alone.  The accessor on MySQL implements it, statement by statement, as long as no statement
  fails; the other drivers do not, since their table has no key (\<open>duplicate_user_locked_out\<close>).
\<close>

subsection \<open>The specification\<close>

type_synonym accounts = "string \<rightharpoonup> UserRecord"

datatype user_op =
    InsertUser UserInfo
  | DeleteUser string
  | UpdateUser UserInfo
  | SetMaxEnrollments string int
  | SetState string int
  | GetUser string
  | Authenticate string string

datatype outcome = Success | Failure | Found DBUser

definition with_info :: "UserInfo \<Rightarrow> UserRecord \<Rightarrow> UserRecord" where
  "with_info u r = r\<lparr>ur_Pass := ui_Pass u, ur_Type := ui_Type u, ur_Group := ui_Group u, ur_Attributes := MarshalAttrs (ui_Attributes u)\<rparr>"

text \<open>
  MySQL counts only the rows that change, so an update that changes nothing is reported as a failure.
  A negative limit lets every login with the right password through, without counting it.
\<close>

fun spec_step :: "user_op \<Rightarrow> accounts \<Rightarrow> outcome \<times> accounts" where
  "spec_step (InsertUser u) m =
     (if ui_Name u \<in> dom m then (Failure, m) else (Success, m(ui_Name u \<mapsto> user_record u)))"
| "spec_step (DeleteUser n) m = (Success, m(n := None))"
| "spec_step (UpdateUser u) m = (case m (ui_Name u) of
     None \<Rightarrow> (Failure, m)
   | Some r \<Rightarrow> if with_info u r = r then (Failure, m) else (Success, m(ui_Name u \<mapsto> with_info u r)))"
| "spec_step (SetMaxEnrollments n v) m = (Success, m(n := map_option (\<lambda>r. r\<lparr>ur_MaxEnrollments := v\<rparr>) (m n)))"
| "spec_step (SetState n v) m = (Success, m(n := map_option (\<lambda>r. r\<lparr>ur_State := v\<rparr>) (m n)))"
| "spec_step (GetUser n) m = (case m n of None \<Rightarrow> (Failure, m) | Some r \<Rightarrow> (Found (newDBUser r), m))"
| "spec_step (Authenticate n p) m = (case m n of
     None \<Rightarrow> (Failure, m)
   | Some r \<Rightarrow>
       if ur_Pass r \<noteq> p then (Failure, m)
       else if ur_MaxEnrollments r < 0 then (Success, m)
       else if ur_MaxEnrollments r \<noteq> 0 \<and> ur_State r \<ge> ur_MaxEnrollments r then (Failure, m)
       else (Success, m(n \<mapsto> r\<lparr>ur_State := ur_State r + 1\<rparr>)))"

subsection \<open>The implementation\<close>

definition outcome_of :: "unit result \<Rightarrow> outcome" where
  "outcome_of r = (case r of Inl _ \<Rightarrow> Failure | Inr _ \<Rightarrow> Success)"

fun impl_step :: "user_op \<Rightarrow> sqldb option \<Rightarrow> outcome \<times> sqldb option" where
  "impl_step (InsertUser u) h = map_prod outcome_of (\<lambda>h. h) (Accessor_InsertUser u h)"
| "impl_step (DeleteUser n) h = map_prod outcome_of (\<lambda>h. h) (Accessor_DeleteUser n h)"
| "impl_step (UpdateUser u) h = map_prod outcome_of (\<lambda>h. h) (Accessor_UpdateUser u h)"
| "impl_step (SetMaxEnrollments n v) h = map_prod outcome_of (\<lambda>h. h) (Accessor_UpdateField n maxEnrollments (GInt v) h)"
| "impl_step (SetState n v) h = map_prod outcome_of (\<lambda>h. h) (Accessor_UpdateField n state (GInt v) h)"
| "impl_step (GetUser n) h = map_prod (\<lambda>r. case r of Inl _ \<Rightarrow> Failure | Inr u \<Rightarrow> Found u) (\<lambda>h. h) (Accessor_GetUser n [] h)"
| "impl_step (Authenticate n p) h = map_prod outcome_of (\<lambda>h. h) (login_attempt n p h)"

subsection \<open>Forward simulation\<close>

text \<open>Steps of a deterministic implementation that agree with the specification under an invariant.\<close>

fun run :: "('o \<Rightarrow> 's \<Rightarrow> 'r \<times> 's) \<Rightarrow> 'o list \<Rightarrow> 's \<Rightarrow> 'r list \<times> 's" where
  "run step [] s = ([], s)"
| "run step (op # ops) s = (case step op s of (r, s) \<Rightarrow> (case run step ops s of (rs, s) \<Rightarrow> (r # rs, s)))"

locale simulation =
  fixes cstep :: "'o \<Rightarrow> 'c \<Rightarrow> 'r \<times> 'c" and astep :: "'o \<Rightarrow> 'a \<Rightarrow> 'r \<times> 'a"
    and ok :: "'c \<Rightarrow> bool" and absn :: "'c \<Rightarrow> 'a"
  assumes simulates: "ok c \<Longrightarrow> cstep op c = (r, c') \<Longrightarrow> ok c' \<and> astep op (absn c) = (r, absn c')"
begin

lemma run_simulates:
  "ok c \<Longrightarrow> run cstep ops c = (rs, c') \<Longrightarrow> ok c' \<and> run astep ops (absn c) = (rs, absn c')"
proof (induction ops arbitrary: c rs c')
  case (Cons op ops)
  obtain r c1 where s: "cstep op c = (r, c1)" by (cases "cstep op c")
  obtain rs1 c2 where t: "run cstep ops c1 = (rs1, c2)" by (cases "run cstep ops c1")
  from simulates [OF Cons.prems(1) s] Cons.IH [OF _ t] Cons.prems(2) s t show ?case by simp
qed simp

end

definition db_ok :: "sqldb option \<Rightarrow> bool" where
  "db_ok h \<longleftrightarrow> (\<exists>d. h = Some d \<and> keyed d \<and> faults d = [])"

definition db_accounts :: "sqldb option \<Rightarrow> accounts" where
  "db_accounts h = (case h of None \<Rightarrow> Map.empty | Some d \<Rightarrow> lookup_user d)"

lemma dom_lookup: "dom (lookup_user d) = ur_Name ` set (users d)"
  by (rule set_eqI) (metis domIff lookup_user_None)

lemma keyed_updated:
  assumes "keyed d" "\<And>r. ur_Name (f r) = ur_Name r"
  shows "keyed (d\<lparr>users := update_rows (\<lambda>r. ur_Name r = n) f (users d)\<rparr>)"
  using assms by (simp add: keyed_def unique_update_users)

lemma lookup_updated:
  assumes "\<And>r. ur_Name (f r) = ur_Name r"
  shows "lookup_user (d\<lparr>users := update_rows (\<lambda>r. ur_Name r = n) f (users d)\<rparr>) = (lookup_user d)(n := map_option f (lookup_user d n))"
  unfolding lookup_update_users [OF assms] by auto

lemma impl_insert:
  assumes "keyed d" "faults d = []"
  shows "\<exists>d'. impl_step (InsertUser u) (Some d) = (fst (spec_step (InsertUser u) (lookup_user d)), Some d') \<and>
    keyed d' \<and> faults d' = [] \<and> lookup_user d' = snd (spec_step (InsertUser u) (lookup_user d))"
proof (cases "ui_Name u \<in> ur_Name ` set (users d)")
  case True
  with assms show ?thesis
    by (simp add: dom_lookup Accessor_InsertUser_def checked_Some sql_exec_no_faults insertUser_sql_def user_record_def keyed_def outcome_of_def)
next
  case False
  let ?d = "d\<lparr>users := users d @ [user_record u]\<rparr>"
  have "keyed ?d" using assms(1) False by (auto simp: keyed_def unique_ids_def user_record_def)
  moreover have "lookup_user ?d = (lookup_user d)(ui_Name u \<mapsto> user_record u)"
    using False lookup_user_None [of d "ui_Name u"] by (auto simp: fun_eq_iff lookup_user_append user_record_def split: option.split)
  ultimately show ?thesis
    using assms False by (auto simp: dom_lookup InsertUser_no_faults outcome_of_def)
qed

lemma impl_delete:
  assumes "keyed d" "faults d = []"
  shows "\<exists>d'. impl_step (DeleteUser n) (Some d) = (Success, Some d') \<and> keyed d' \<and> faults d' = [] \<and> lookup_user d' = (lookup_user d)(n := None)"
proof -
  let ?d = "d\<lparr>users := filter (\<lambda>r. ur_Name r \<noteq> n) (users d)\<rparr>"
  have "impl_step (DeleteUser n) (Some d) = (Success, Some ?d)"
    using assms by (simp add: Accessor_DeleteUser_def checked_Some sql_exec_no_faults unrebound_def deleteUser_sql_def keyed_def outcome_of_def)
  moreover have "lookup_user ?d x = ((lookup_user d)(n := None)) x" for x
  proof (cases "x = n")
    case True
    then have "lookup_user ?d x = None" by (auto simp: lookup_user_None)
    with True show ?thesis by simp
  next
    case False
    then have "filter (\<lambda>r. ur_Name r = x) (filter (\<lambda>r. ur_Name r \<noteq> n) (users d)) = filter (\<lambda>r. ur_Name r = x) (users d)"
      by (induction "users d") (auto intro: filter_cong)
    with False show ?thesis by (simp add: lookup_user_filter)
  qed
  ultimately show ?thesis using assms by (auto simp: keyed_def unique_ids_def distinct_map_filter)
qed

lemma impl_update:
  assumes "keyed d" "faults d = []"
  shows "\<exists>d'. impl_step (UpdateUser u) (Some d) = (fst (spec_step (UpdateUser u) (lookup_user d)), Some d') \<and>
    keyed d' \<and> faults d' = [] \<and> lookup_user d' = snd (spec_step (UpdateUser u) (lookup_user d))"
proof -
  let ?n = "ui_Name u" and ?f = "with_info u"
  let ?d = "d\<lparr>users := update_rows (\<lambda>r. ur_Name r = ?n) ?f (users d)\<rparr>"
  let ?k = "affected (driver d) (\<lambda>r. ur_Name r = ?n) ?f (users d)"
  have f: "ur_Name (?f r) = ur_Name r" for r by (simp add: with_info_def)
  have i: "impl_step (UpdateUser u) (Some d) = (if ?k = 1 then Success else Failure, Some ?d)"
    using assms(2)
    by (simp add: Accessor_UpdateUser_def checked_Some sql_exec_no_faults updateUser_sql_def update_users_sql_def outcome_of_def
        user_record_def with_info_def [abs_def])
  have d: "keyed ?d" "faults ?d = []" "lookup_user ?d = (lookup_user d)(?n := map_option ?f (lookup_user d ?n))"
    using keyed_updated [OF assms(1) f] lookup_updated [OF f] assms(2) by simp_all
  show ?thesis
  proof (cases "lookup_user d ?n")
    case None
    then have "?k = 0" using assms(1) by (force simp: affected_def lookup_user_None filter_empty_conv)
    with None i d show ?thesis by (intro exI [of _ ?d]) (auto simp: fun_upd_idem)
  next
    case (Some r)
    then have fl: "filter (\<lambda>r. ur_Name r = ?n) (users d) = [r]" using assms(1) by (intro unique_lookup_filter) (simp_all add: keyed_def)
    have "filter (\<lambda>r. ur_Name r = ?n \<and> ?f r \<noteq> r) (users d) = filter (\<lambda>r. ?f r \<noteq> r) (filter (\<lambda>r. ur_Name r = ?n) (users d))"
      by (simp add: conj_commute)
    then have "?k = (if ?f r = r then 0 else 1)" using assms(1) fl by (simp add: affected_def keyed_def)
    with Some i d show ?thesis by (intro exI [of _ ?d]) (auto simp: fun_upd_idem)
  qed
qed

lemma impl_authenticate:
  assumes "keyed d" "faults d = []"
  shows "\<exists>d'. impl_step (Authenticate n p) (Some d) = (fst (spec_step (Authenticate n p) (lookup_user d)), Some d') \<and>
    keyed d' \<and> faults d' = [] \<and> lookup_user d' = snd (spec_step (Authenticate n p) (lookup_user d))"
proof (cases "lookup_user d n")
  case None
  with assms show ?thesis by (simp add: login_attempt_def GetUser_no_faults outcome_of_def)
next
  case (Some r)
  show ?thesis
  proof (cases "ur_Pass r = p \<and> ur_MaxEnrollments r \<ge> 0 \<and> (ur_MaxEnrollments r = 0 \<or> ur_State r < ur_MaxEnrollments r)")
    case True
    let ?f = "\<lambda>x. x\<lparr>ur_State := ur_State r + 1\<rparr>"
    let ?d = "d\<lparr>users := update_rows (\<lambda>x. ur_Name x = n) ?f (users d)\<rparr>"
    have "login_attempt n p (Some d) = (Inr (), Some ?d)"
      using login_attempt_no_faults [OF assms(2) _ Some] assms(1) True by (simp add: keyed_def)
    moreover have "lookup_user ?d = (lookup_user d)(n \<mapsto> ?f r)" "keyed ?d"
      using lookup_updated [where f = ?f and d = d and n = n] keyed_updated [OF assms(1), where f = ?f and n = n] Some by simp_all
    ultimately show ?thesis using Some True assms(2) by (auto simp: outcome_of_def)
  next
    case False
    with Some assms show ?thesis
      by (auto simp: login_attempt_def GetUser_no_faults DBUser_Login_def newDBUser_def outcome_of_def)
  qed
qed

lemma impl_refines_spec:
  assumes "keyed d" "faults d = []"
  shows "\<exists>d'. impl_step op (Some d) = (fst (spec_step op (lookup_user d)), Some d') \<and>
    keyed d' \<and> faults d' = [] \<and> lookup_user d' = snd (spec_step op (lookup_user d))"
proof (cases op)
  case (InsertUser u)
  with impl_insert [OF assms] show ?thesis by blast
next
  case (DeleteUser n)
  with impl_delete [OF assms, of n] show ?thesis by auto
next
  case (UpdateUser u)
  with impl_update [OF assms] show ?thesis by blast
next
  case (SetMaxEnrollments n v)
  with assms show ?thesis
    using lookup_updated [where f = "\<lambda>r. r\<lparr>ur_MaxEnrollments := v\<rparr>" and d = d and n = n] keyed_updated [where f = "\<lambda>r. r\<lparr>ur_MaxEnrollments := v\<rparr>" and d = d and n = n]
    by (simp add: UpdateField_no_faults outcome_of_def)
next
  case (SetState n v)
  with assms show ?thesis
    using lookup_updated [where f = "\<lambda>r. r\<lparr>ur_State := v\<rparr>" and d = d and n = n] keyed_updated [where f = "\<lambda>r. r\<lparr>ur_State := v\<rparr>" and d = d and n = n]
    by (simp add: UpdateField_no_faults outcome_of_def)
next
  case (GetUser n)
  with assms show ?thesis by (simp add: GetUser_no_faults split: option.split)
next
  case (Authenticate n p)
  with impl_authenticate [OF assms] show ?thesis by blast
qed

interpretation accessor: simulation impl_step spec_step db_ok db_accounts
proof
  fix c op r c'
  assume "db_ok c" and s: "impl_step op c = (r, c')"
  then obtain d where d: "c = Some d" "keyed d" "faults d = []" by (auto simp: db_ok_def)
  from impl_refines_spec [OF d(2,3), of op] s d(1) show "db_ok c' \<and> spec_step op (db_accounts c) = (r, db_accounts c')"
    by (auto simp: db_ok_def db_accounts_def)
qed

text \<open>
  C7. The accessor refines the specification: on a MySQL database whose statements do not fail, any
  sequence of insertions, deletions, updates, reads and authentications returns exactly the
  outcomes the abstract map of accounts prescribes, and leaves the database representing the
  abstract map those operations lead to.
\<close>

theorem accessor_refines_spec:
  assumes "driver d = MySQL" "unique_ids d" "faults d = []" "run impl_step ops (Some d) = (rs, h)"
  shows "\<exists>d'. h = Some d' \<and> run spec_step ops (lookup_user d) = (rs, lookup_user d')"
proof -
  have "db_ok (Some d)" using assms(1-3) by (simp add: db_ok_def keyed_def)
  from accessor.run_simulates [OF this assms(4)] show ?thesis by (auto simp: db_ok_def db_accounts_def)
qed

definition demo_mysql :: sqldb where
  "demo_mysql = demo_db\<lparr>driver := MySQL\<rparr>"

theorem accessor_refines_spec_witness:
  "fst (run impl_step [Authenticate ''admin'' ''adminpw'', Authenticate ''admin'' ''adminpw'', Authenticate ''admin'' ''adminpw'',
      DeleteUser ''admin'', Authenticate ''admin'' ''adminpw''] (Some demo_mysql)) = [Success, Success, Failure, Success, Failure]"
proof -
  let ?ops = "[Authenticate ''admin'' ''adminpw'', Authenticate ''admin'' ''adminpw'', Authenticate ''admin'' ''adminpw'',
      DeleteUser ''admin'', Authenticate ''admin'' ''adminpw'']"
  obtain rs h where r: "run impl_step ?ops (Some demo_mysql) = (rs, h)" by (cases "run impl_step ?ops (Some demo_mysql)")
  have "lookup_user demo_mysql ''admin'' = Some demo_user" by (simp add: demo_mysql_def demo_db_def demo_user_def lookup_user_def)
  then have "fst (run spec_step ?ops (lookup_user demo_mysql)) = [Success, Success, Failure, Success, Failure]"
    by (simp add: demo_user_def)
  moreover have "driver demo_mysql = MySQL" "unique_ids demo_mysql" "faults demo_mysql = []"
    by (simp_all add: demo_mysql_def demo_db_def unique_ids_def)
  ultimately show ?thesis using accessor_refines_spec [OF _ _ _ r] r by auto
qed

end
