(* ===== verification/Json_Map.thy ===== *)
theory Json_Map
  imports Json_Codec Os_World "HOL-Library.List_Lexorder" "HOL-Library.Char_ord"
begin

text \<open>
  The JSON helpers of \<^verbatim>\<open>util/jsonprocessor.go\<close> and the maps of the package \<^verbatim>\<open>stew/objects\<close> they use: JSON
  objects decoded into Go maps, read and written by dotted paths, and printed again.

  A Go map from strings is the list of its entries in the order of the keys, the order in which
  \<^verbatim>\<open>json.Marshal\<close> prints it; \<open>None\<close> is the nil map.  Numbers become floating-point numbers on the way;
  the function \<open>num\<close> gives the text such a number is printed as, \<open>None\<close> for a literal out of range.
\<close>

type_synonym go_map = "(string \<times> json) list"

fun map_put :: "'k::linorder \<Rightarrow> 'v \<Rightarrow> ('k \<times> 'v) list \<Rightarrow> ('k \<times> 'v) list" where
  "map_put k v [] = [(k, v)]"
| "map_put k v ((k', v') # m) =
     (if k < k' then (k, v) # (k', v') # m else if k = k' then (k, v) # m else (k', v') # map_put k v m)"

definition map_from :: "('k::linorder \<times> 'v) list \<Rightarrow> ('k \<times> 'v) list" where
  "map_from kvs = fold (\<lambda>(k, v). map_put k v) kvs []"

text \<open>A JSON value as Go decodes it into an interface; the last of equal keys counts.\<close>

fun go_value :: "(string \<Rightarrow> string option) \<Rightarrow> json \<Rightarrow> json option" where
  "go_value num (JNum n) = map_option JNum (num n)"
| "go_value num (JArr vs) = map_option JArr (those (map (go_value num) vs))"
| "go_value num (JObj kvs) =
     map_option (\<lambda>m. JObj (map_from m)) (those (map (\<lambda>kv. map_option (Pair (fst kv)) (go_value num (snd kv))) kvs))"
| "go_value num v = Some v"

subsection \<open>Maps of stew/objects\<close>

definition NewMapFromJSON :: "(string \<Rightarrow> string option) \<Rightarrow> string \<Rightarrow> go_map option result" where
  "NewMapFromJSON num data = (case json_parse data of
     None \<Rightarrow> Inl (ErrorString (''Map: JSON decode failed with: '' @ Error SyntaxError))
   | Some v \<Rightarrow> (case go_value num v of
       Some (JObj m) \<Rightarrow> Inr (Some m)
     | Some JNull \<Rightarrow> Inr None
     | _ \<Rightarrow> Inl (ErrorString (''Map: JSON decode failed with: '' @ Error TypeError))))"

text \<open>Reading an absent key, or from the nil map, is nil.\<close>

definition map_index :: "go_map \<Rightarrow> string \<Rightarrow> json" where
  "map_index m k = (case map_of m k of None \<Rightarrow> JNull | Some v \<Rightarrow> v)"

text \<open>The type switch on a value: whether it is a map.\<close>

fun as_map :: "json \<Rightarrow> go_map option" where
  "as_map (JObj m) = Some m"
| "as_map _ = None"

text \<open>
  A segment that does not lead to a map is skipped: the search goes on in the same map.
\<close>

fun map_get :: "string list \<Rightarrow> go_map \<Rightarrow> json" where
  "map_get [] m = JObj m"
| "map_get [f] m = map_index m f"
| "map_get (f # g # fs) m = (case as_map (map_index m f) of Some m' \<Rightarrow> map_get (g # fs) m' | None \<Rightarrow> map_get (g # fs) m)"

definition Map_Get :: "go_map option \<Rightarrow> string \<Rightarrow> json" where
  "Map_Get d keypath = map_get (Split keypath (CHR ''.'')) (case d of None \<Rightarrow> [] | Some m \<Rightarrow> m)"

fun map_set :: "string list \<Rightarrow> json \<Rightarrow> go_map \<Rightarrow> go_map" where
  "map_set [] v m = m"
| "map_set [f] v m = map_put f v m"
| "map_set (f # g # fs) v m = (case map_of m f of
     None \<Rightarrow> map_put f (JObj (map_set (g # fs) v [])) m
   | Some x \<Rightarrow> (case as_map x of
       Some m' \<Rightarrow> map_put f (JObj (map_set (g # fs) v m')) m
     | None \<Rightarrow> map_set (g # fs) v m))"

definition Map_Set :: "go_map option \<Rightarrow> string \<Rightarrow> json \<Rightarrow> go_map option result" where
  "Map_Set d keypath v = (case d of
     None \<Rightarrow> Inl (GoPanic ''assignment to entry in nil map'')
   | Some m \<Rightarrow> Inr (Some (map_set (Split keypath (CHR ''.'')) v m)))"

definition Map_JSON :: "go_map option \<Rightarrow> string" where
  "Map_JSON d = (case d of None \<Rightarrow> ''null'' | Some m \<Rightarrow> json_print (JObj m))"

subsection \<open>util/jsonprocessor.go\<close>

text \<open>The error of decoding is dropped: the map is then nil.\<close>

definition json_map :: "(string \<Rightarrow> string option) \<Rightarrow> string \<Rightarrow> go_map option" where
  "json_map num s = (case NewMapFromJSON num s of Inl _ \<Rightarrow> None | Inr d \<Rightarrow> d)"

definition type_panic :: go_error where
  "type_panic = GoPanic ''interface conversion''"

definition as_string :: "json \<Rightarrow> string result" where
  "as_string v = (case v of JStr s \<Rightarrow> Inr s | _ \<Rightarrow> Inl type_panic)"

definition as_number :: "json \<Rightarrow> string result" where
  "as_number v = (case v of JNum n \<Rightarrow> Inr n | _ \<Rightarrow> Inl type_panic)"

definition ReadJSONAsMapFile :: "(string \<Rightarrow> string option) \<Rightarrow> string \<Rightarrow> string \<Rightarrow> os_world \<Rightarrow> string result \<times> os_world" where
  "ReadJSONAsMapFile num configFileLocation stringLocator w = (case ioutil_ReadFile configFileLocation w of
     (Inl _, w) \<Rightarrow> (Inl (GoPanic ''exit status 1''), w)
   | (Inr buff, w) \<Rightarrow> (as_string (Map_Get (json_map num (string_of buff)) stringLocator), w))"

definition ReadJSONAsMapString :: "(string \<Rightarrow> string option) \<Rightarrow> string \<Rightarrow> string \<Rightarrow> string result" where
  "ReadJSONAsMapString num jsonString stringLocator = as_string (Map_Get (json_map num jsonString) stringLocator)"

text \<open>An attribute of the list; an absent name or value is nil, and its type assertion panics.\<close>

definition attribute_entry :: "json \<Rightarrow> (string \<times> string) result" where
  "attribute_entry a = (case a of
     JObj m \<Rightarrow> (case (as_string (map_index m ''AttributeName''), as_string (map_index m ''AttributeValue'')) of
       (Inr n, Inr v) \<Rightarrow> Inr (n, v)
     | _ \<Rightarrow> Inl type_panic)
   | _ \<Rightarrow> Inl type_panic)"

fun attribute_entries :: "json list \<Rightarrow> (string \<times> string) list \<Rightarrow> (string \<times> string) list result" where
  "attribute_entries [] valueMap = Inr valueMap"
| "attribute_entries (a # as) valueMap = (case attribute_entry a of
     Inl e \<Rightarrow> Inl e
   | Inr (n, v) \<Rightarrow> attribute_entries as (map_put n v valueMap))"

definition util_GetAttributes :: "(string \<Rightarrow> string option) \<Rightarrow> string \<Rightarrow> (string \<times> string) list option result" where
  "util_GetAttributes num jsonString =
     (if jsonString = [] then Inr None
      else (case Map_Get (json_map num jsonString) ''TCertBatchRequest.AttributeSet'' of
        JArr as \<Rightarrow> (case attribute_entries as [] of Inl e \<Rightarrow> Inl e | Inr m \<Rightarrow> Inr (Some m))
      | _ \<Rightarrow> Inl type_panic))"

definition isAttributeEncryptionEnabled :: "(string \<Rightarrow> string option) \<Rightarrow> string \<Rightarrow> bool result" where
  "isAttributeEncryptionEnabled num jsonstring =
     (case Map_Get (json_map num jsonstring) ''TCertBatchRequest.attribute-encryption_enabled'' of
        JBool b \<Rightarrow> Inr b
      | _ \<Rightarrow> Inl type_panic)"

definition ConvertJSONFileToJSONString :: "string \<Rightarrow> os_world \<Rightarrow> string result \<times> os_world" where
  "ConvertJSONFileToJSONString jsonFileLocation w = (case ioutil_ReadFile jsonFileLocation w of
     (Inl _, w) \<Rightarrow> (Inl (GoPanic ''exit status 1''), w)
   | (Inr buff, w) \<Rightarrow> (Inr (string_of buff), w))"

text \<open>\<^verbatim>\<open>os.Create\<close> truncates; writing appends at the end of the file.\<close>

definition os_Create :: "string \<Rightarrow> os_world \<Rightarrow> unit result \<times> os_world" where
  "os_Create file = ioutil_WriteFile file [] 438"

definition file_WriteString :: "string \<Rightarrow> string \<Rightarrow> os_world \<Rightarrow> unit result \<times> os_world" where
  "file_WriteString file s = os_call (\<lambda>w. (case os_files w file of
     None \<Rightarrow> (Inl os_NotExist, w)
   | Some (b, m) \<Rightarrow> (Inr (), w\<lparr>os_files := (os_files w)(file \<mapsto> (b @ bytes_of s, m))\<rparr>)))"

definition WriteJSONAsMapToFile ::
  "(string \<Rightarrow> string option) \<Rightarrow> string \<Rightarrow> string \<Rightarrow> string \<Rightarrow> os_world \<Rightarrow> unit result \<times> os_world" where
  "WriteJSONAsMapToFile num stringLocator value filePath w = (case ioutil_ReadFile filePath w of
     (Inl _, w) \<Rightarrow> (Inl (GoPanic ''exit status 1''), w)
   | (Inr buff, w) \<Rightarrow> (case Map_Set (json_map num (string_of buff)) stringLocator (JStr value) of
       Inl e \<Rightarrow> (Inl e, w)
     | Inr jsonMap \<Rightarrow> (case os_Create filePath w of
         (Inl _, w) \<Rightarrow> (Inl (GoPanic ''exit status 1''), w)
       | (Inr _, w) \<Rightarrow> (case file_WriteString filePath (Map_JSON jsonMap) w of
           (Inl _, w) \<Rightarrow> (Inl (GoPanic ''exit status 1''), w)
         | (Inr _, w) \<Rightarrow> (Inr (), w)))))"

definition WriteJSONAsMapToString :: "(string \<Rightarrow> string option) \<Rightarrow> string \<Rightarrow> string \<Rightarrow> string \<Rightarrow> string result" where
  "WriteJSONAsMapToString num jsonString stringLocator value =
     (case Map_Set (json_map num jsonString) stringLocator (JStr value) of
        Inl e \<Rightarrow> Inl e
      | Inr jsonMap \<Rightarrow> Inr (Map_JSON jsonMap))"

text \<open>The entries are set in the order Go iterates over the map, which is any order.\<close>

fun set_all :: "(string \<times> string) list \<Rightarrow> go_map option \<Rightarrow> go_map option result" where
  "set_all [] d = Inr d"
| "set_all ((k, v) # kvs) d = (case Map_Set d k (JStr v) of Inl e \<Rightarrow> Inl e | Inr d \<Rightarrow> set_all kvs d)"

definition WriteJSONToString :: "(string \<Rightarrow> string option) \<Rightarrow> string \<Rightarrow> (string \<times> string) list \<Rightarrow> string result" where
  "WriteJSONToString num jsonString valueMap = (case set_all valueMap (json_map num jsonString) of
     Inl e \<Rightarrow> Inl e
   | Inr jsonMap \<Rightarrow> Inr (Map_JSON jsonMap))"

definition WriteToJSON :: "string \<Rightarrow> string \<Rightarrow> os_world \<Rightarrow> unit result \<times> os_world" where
  "WriteToJSON filePath cotentToAppend w =
     (case (case os_Stat_path filePath w of
              (Inl _, w) \<Rightarrow> os_Create filePath w
            | (Inr _, w) \<Rightarrow> (Inr (), w)) of
        (Inl _, w) \<Rightarrow> (Inl (GoPanic ''exit status 1''), w)
      | (Inr _, w) \<Rightarrow> (case os_call (\<lambda>w. (if os_files w filePath = None then Inl os_NotExist else Inr (), w)) w of
          (Inl _, w) \<Rightarrow> (Inl (GoPanic ''exit status 1''), w)
        | (Inr _, w) \<Rightarrow> (case file_WriteString filePath (cotentToAppend @ [CHR 0x0A]) w of
            (Inl _, w) \<Rightarrow> (Inl (GoPanic ''exit status 1''), w)
          | (Inr _, w) \<Rightarrow> (Inr (), w))))"

subsection \<open>Maps in key order\<close>

lemma map_of_put [simp]: "map_of (map_put k v m) = (map_of m)(k \<mapsto> v)"
  by (induction k v m rule: map_put.induct) (auto simp: fun_eq_iff)

lemma keys_put: "fst ` set (map_put k v m) = insert k (fst ` set m)"
  by (induction k v m rule: map_put.induct) auto

lemma set_put: "set (map_put k v m) \<subseteq> insert (k, v) (set m)"
  by (induction k v m rule: map_put.induct) auto

lemma sorted_put: "sorted_wrt (<) (map fst m) \<Longrightarrow> sorted_wrt (<) (map fst (map_put k v m))"
proof (induction k v m rule: map_put.induct)
  case (2 k v k' v' m)
  have "\<forall>y \<in> fst ` set (map_put k v m). k' < y" if "k' < k"
    using 2 that by (simp add: keys_put)
  with 2 show ?case by (auto simp: not_less_iff_gr_or_eq intro: less_trans)
qed simp

lemma fold_put:
  "sorted_wrt (<) (map fst m) \<Longrightarrow> sorted_wrt (<) (map fst (fold (\<lambda>(k, v). map_put k v) kvs m)) \<and>
   set (fold (\<lambda>(k, v). map_put k v) kvs m) \<subseteq> set kvs \<union> set m"
proof (induction kvs arbitrary: m)
  case (Cons kv kvs)
  obtain k v where kv: "kv = (k, v)" by (cases kv)
  show ?case using Cons.IH [OF sorted_put [OF Cons.prems], of k v] set_put [of k v m] by (auto simp: kv)
qed simp

lemma map_from_sorted: "sorted_wrt (<) (map fst (map_from kvs))" "set (map_from kvs) \<subseteq> set kvs"
  using fold_put [of "[]" kvs] by (simp_all add: map_from_def)

lemma put_last: "(\<And>x. x \<in> fst ` set m \<Longrightarrow> x < k) \<Longrightarrow> map_put k v m = m @ [(k, v)]"
proof (induction m)
  case (Cons p m)
  then show ?case by (cases p) (auto simp: less_not_sym)
qed simp

lemma map_from_id: "sorted_wrt (<) (map fst m) \<Longrightarrow> map_from m = m"
proof (induction m rule: rev_induct)
  case (snoc p m)
  then show ?case by (cases p) (auto simp: map_from_def sorted_wrt_append intro!: put_last)
qed (simp add: map_from_def)

subsection \<open>Values that Go maps hold\<close>

text \<open>
  What a decoded value looks like: keys in order, and numbers as Go prints them.  Printing a
  floating-point number and reading it back gives the same number; \<open>float_text\<close> says so of \<open>num\<close>.
\<close>

fun canonical :: "(string \<Rightarrow> string option) \<Rightarrow> json \<Rightarrow> bool" where
  "canonical num (JNum n) \<longleftrightarrow> num n = Some n \<and> json_wf (JNum n)"
| "canonical num (JArr vs) \<longleftrightarrow> list_all (canonical num) vs"
| "canonical num (JObj kvs) \<longleftrightarrow> sorted_wrt (<) (map fst kvs) \<and> list_all (\<lambda>kv. canonical num (snd kv)) kvs"
| "canonical num _ \<longleftrightarrow> True"

definition float_text :: "(string \<Rightarrow> string option) \<Rightarrow> bool" where
  "float_text num \<longleftrightarrow> (\<forall>n n'. num n = Some n' \<longrightarrow> num n' = Some n' \<and> json_wf (JNum n'))"

lemma canonical_wf: "canonical num v \<Longrightarrow> json_wf v"
  by (induction num v rule: canonical.induct) (auto simp: list_all_iff)

lemma those_map_Some: "(\<And>x. x \<in> set xs \<Longrightarrow> f x = Some (g x)) \<Longrightarrow> those (map f xs) = Some (map g xs)"
  by (induction xs) auto

lemma those_Some: "those xs = Some ys \<Longrightarrow> y \<in> set ys \<Longrightarrow> Some y \<in> set xs"
  by (induction xs arbitrary: ys) (auto split: option.splits)

lemma go_value_canonical: "canonical num v \<Longrightarrow> go_value num v = Some v"
proof (induction num v rule: canonical.induct)
  case (2 num vs)
  then show ?case using those_map_Some [of vs "go_value num" "\<lambda>x. x"] by (auto simp: list_all_iff)
next
  case (3 num kvs)
  then have "those (map (\<lambda>kv. map_option (Pair (fst kv)) (go_value num (snd kv))) kvs) = Some (map (\<lambda>x. x) kvs)"
    by (intro those_map_Some) (auto simp: list_all_iff)
  with 3 show ?case by (simp add: map_from_id)
qed auto

lemma canonical_go_value: "float_text num \<Longrightarrow> go_value num v = Some w \<Longrightarrow> canonical num w"
proof (induction num v arbitrary: w rule: go_value.induct)
  case (1 num n)
  then show ?case by (auto simp: float_text_def)
next
  case (2 num vs)
  then show ?case by (fastforce simp: list_all_iff dest: those_Some)
next
  case (3 num kvs)
  then obtain m where m: "those (map (\<lambda>kv. map_option (Pair (fst kv)) (go_value num (snd kv))) kvs) = Some m" "w = JObj (map_from m)"
    by auto
  have "canonical num (snd p)" if "p \<in> set (map_from m)" for p
  proof -
    have "p \<in> set m" using that map_from_sorted(2) [of m] by auto
    from those_Some [OF m(1) this] obtain a b where "(a, b) \<in> set kvs" "Some p = map_option (Pair a) (go_value num b)" by auto
    then show ?thesis using "3.IH" [of "(a, b)"] "3.prems"(1) by (cases "go_value num b") auto
  qed
  with m(2) map_from_sorted(1) show ?case by (simp add: list_all_iff)
qed auto

lemma canonical_put:
  "canonical num (JObj m) \<Longrightarrow> canonical num v \<Longrightarrow> canonical num (JObj (map_put k v m))"
  using set_put [of k v m] sorted_put [of m k v] by (auto simp: list_all_iff)

lemma canonical_set: "canonical num (JObj m) \<Longrightarrow> canonical num v \<Longrightarrow> canonical num (JObj (map_set segs v m))"
proof (induction segs v m rule: map_set.induct)
  case (3 f g fs v m)
  have "canonical num x" if "map_of m f = Some x" for x
    using map_of_SomeD [OF that] "3.prems"(1) by (auto simp: list_all_iff)
  moreover have "x = JObj m'" if "as_map x = Some m'" for x m' using that by (cases x) auto
  moreover have "canonical num (JObj [])" by simp
  ultimately show ?case using 3 by (auto simp del: canonical.simps(3) intro!: canonical_put split: option.splits)
qed (simp_all add: canonical_put del: canonical.simps(3))

lemma json_map_print: "canonical num (JObj m) \<Longrightarrow> json_map num (json_print (JObj m)) = Some m"
  using json_parse_print [OF canonical_wf] go_value_canonical [of num "JObj m"]
  by (simp add: json_map_def NewMapFromJSON_def del: json_print.simps canonical.simps go_value.simps)

lemma json_map_canonical: "float_text num \<Longrightarrow> json_map num s = Some m \<Longrightarrow> canonical num (JObj m)"
  by (auto simp: json_map_def NewMapFromJSON_def simp del: canonical.simps dest: canonical_go_value
      split: option.splits json.splits sum.splits)

subsection \<open>Reading what was written\<close>

lemma set_keeps_value:
  "map_of m f = Some x \<Longrightarrow> as_map x = None \<Longrightarrow> as_map v = None \<Longrightarrow>
   \<exists>y. map_of (map_set segs v m) f = Some y \<and> as_map y = None"
  by (induction segs v m rule: map_set.induct) (auto split: option.splits)

lemma get_set: "segs \<noteq> [] \<Longrightarrow> as_map v = None \<Longrightarrow> map_get segs (map_set segs v m) = v"
proof (induction segs v m rule: map_set.induct)
  case (3 f g fs v m)
  show ?case
  proof (cases "map_of m f")
    case (Some x)
    show ?thesis
    proof (cases "as_map x")
      case None
      obtain y where "map_of (map_set (g # fs) v m) f = Some y" "as_map y = None"
        using set_keeps_value [OF Some None "3.prems"(2)] by blast
      then have "as_map (map_index (map_set (g # fs) v m) f) = None" by (simp add: map_index_def)
      with 3 Some None show ?thesis by simp
    qed (use 3 Some in \<open>simp add: map_index_def\<close>)
  qed (use 3 in \<open>simp add: map_index_def\<close>)
qed (simp_all add: map_index_def)

lemma Map_Get_Set: "Map_Set (Some m) loc (JStr v) = Inr (Some m') \<Longrightarrow> Map_Get (Some m') loc = JStr v"
  using get_set [of "Split loc (CHR ''.'')" "JStr v" m] by (auto simp: Map_Set_def Map_Get_def)

text \<open>
  Writing a value into a JSON object under any path and reading the path back gives the value, also
  where the path runs through values that are not objects.
\<close>

theorem json_write_read:
  assumes "float_text num" "json_map num j = Some m"
  shows "\<exists>s. WriteJSONAsMapToString num j loc v = Inr s \<and> ReadJSONAsMapString num s loc = Inr v"
proof -
  let ?m = "map_set (Split loc (CHR ''.'')) (JStr v) m"
  have "canonical num (JObj ?m)" using json_map_canonical [OF assms] by (intro canonical_set) auto
  then have "json_map num (json_print (JObj ?m)) = Some ?m" by (rule json_map_print)
  moreover have "Map_Get (Some ?m) loc = JStr v" by (rule Map_Get_Set [of m]) (simp add: Map_Set_def)
  ultimately show ?thesis using assms(2)
    by (simp add: WriteJSONAsMapToString_def ReadJSONAsMapString_def Map_Set_def Map_JSON_def as_string_def del: json_print.simps)
qed

text \<open>
  A path whose first segment is missing is read one level too high: a value of the enclosing object
  is taken for it.
\<close>

lemma get_falls_back: "map_of m f = None \<Longrightarrow> map_get [f, g] m = map_index m g"
  by (simp add: map_index_def)

subsection \<open>Several values at once\<close>

text \<open>
  The paths of a signed message: two below one key and one at the top.  A value once set stays when
  the others are set.
\<close>

definition sig_paths :: "string \<Rightarrow> string \<Rightarrow> string \<Rightarrow> string \<Rightarrow> string list set" where
  "sig_paths p a b c = {[p, a], [p, b], [c]}"

definition stored :: "string \<Rightarrow> string list \<Rightarrow> json \<Rightarrow> go_map \<Rightarrow> bool" where
  "stored p segs v m \<longleftrightarrow> map_get segs m = v \<and> (length segs = 2 \<longrightarrow> map_of m p \<noteq> None)"

lemma stored_set:
  assumes "segs \<in> sig_paths p a b c" "as_map v = None"
  shows "stored p segs v (map_set segs v m)"
  using assms get_set [of segs v m] by (auto simp: sig_paths_def stored_def split: option.splits)

lemma stored_keep:
  assumes "distinct [p, a, b, c]" "segs \<in> sig_paths p a b c" "segs' \<in> sig_paths p a b c" "segs \<noteq> segs'" "as_map v' = None"
    and "stored p segs v m"
  shows "stored p segs v (map_set segs' v' m)"
  using assms by (auto simp: sig_paths_def stored_def map_index_def split: option.splits)

lemma set_all_stored:
  assumes "distinct [p, a, b, c]" "distinct (map fst kvs)" "\<And>k. k \<in> fst ` set kvs \<Longrightarrow> Split k (CHR ''.'') \<in> sig_paths p a b c"
    and "canonical num (JObj m)"
  shows "\<exists>m'. set_all kvs (Some m) = Inr (Some m') \<and> canonical num (JObj m') \<and>
    (\<forall>(k, v) \<in> set kvs. stored p (Split k (CHR ''.'')) (JStr v) m') \<and>
    (\<forall>k v. k \<notin> fst ` set kvs \<longrightarrow> Split k (CHR ''.'') \<in> sig_paths p a b c \<longrightarrow>
       stored p (Split k (CHR ''.'')) v m \<longrightarrow> stored p (Split k (CHR ''.'')) v m')"
  using assms(2-4)
proof (induction kvs arbitrary: m)
  case (Cons kv kvs)
  obtain k v where kv: "kv = (k, v)" by (cases kv)
  let ?s = "\<lambda>k. Split k (CHR ''.'')"
  let ?m = "map_set (?s k) (JStr v) m"
  have k: "?s k \<in> sig_paths p a b c" "k \<notin> fst ` set kvs" using Cons.prems by (auto simp: kv)
  have "canonical num (JObj ?m)" using Cons.prems(3) by (intro canonical_set) auto
  with Cons.IH [of ?m] Cons.prems obtain m' where m': "set_all kvs (Some ?m) = Inr (Some m')" "canonical num (JObj m')"
    "\<forall>(k, v) \<in> set kvs. stored p (?s k) (JStr v) m'"
    "\<forall>k v. k \<notin> fst ` set kvs \<longrightarrow> ?s k \<in> sig_paths p a b c \<longrightarrow> stored p (?s k) v ?m \<longrightarrow> stored p (?s k) v m'"
    by auto
  have "stored p (?s k) (JStr v) m'" using m'(4) k stored_set [OF k(1), of "JStr v"] by simp
  moreover have "stored p (?s l) u m'" if "l \<notin> fst ` set (kv # kvs)" "?s l \<in> sig_paths p a b c" "stored p (?s l) u m" for l u
  proof -
    have "l \<noteq> k" using that(1) by (auto simp: kv)
    then have "?s l \<noteq> ?s k" by (metis Join_Split)
    with stored_keep [OF assms(1) that(2) k(1) _ _ that(3), of "JStr v"] m'(4) that(1,2) show ?thesis by simp
  qed
  ultimately show ?case using m'(1-3) by (intro exI [of _ m']) (auto simp: kv Map_Set_def)
qed auto

end
