(* ===== verification/Crypto_Util.thy ===== *)
theory Crypto_Util
  imports Json_Map Auth_Token "HOL-Library.Multiset"
begin

text \<open>
  The signing helpers of \<^verbatim>\<open>util/cryptoutil.go\<close> and the certificate templates of \<^verbatim>\<open>util/certificate.go\<close>.

  A signed message is a pair of texts: the message, and a JSON object that holds the signature and
  the signer's certificate.  Key generation, certificate creation and parsing are Go's crypto
  packages, parameters in the record \<open>crypto_env\<close> next to the signatures of \<open>sig_env\<close>.  A failed type
  assertion, a nil pointer and \<^verbatim>\<open>log.Fatal\<close> end the process; they are panics here.
\<close>

subsection \<open>Certificate templates (util/certificate.go)\<close>

datatype SignatureAlgorithm = ECDSAWithSHA384

record Extension =
  ext_Id :: "nat list"
  ext_Value :: bytes

record pkix_Name =
  pn_CommonName :: string
  pn_Organization :: "string list"
  pn_OrganizationalUnit :: "string list"
  pn_Province :: "string list"
  pn_Country :: "string list"
  pn_Locality :: "string list"
  pn_ExtraNames :: "(nat list \<times> string) list"

record x509_Template =
  tp_SerialNumber :: int
  tp_Subject :: pkix_Name
  tp_NotBefore :: int
  tp_NotAfter :: int
  tp_SubjectKeyId :: bytes
  tp_SignatureAlgorithm :: SignatureAlgorithm
  tp_KeyUsage :: nat
  tp_ExtKeyUsage :: "nat list"
  tp_UnknownExtKeyUsage :: "nat list list"
  tp_BasicConstraintsValid :: bool
  tp_IsCA :: bool
  tp_OCSPServer :: "string list"
  tp_IssuingCertificateURL :: "string list"
  tp_DNSNames :: "string list"
  tp_EmailAddresses :: "string list"
  tp_IPAddresses :: "bytes list"
  tp_PolicyIdentifiers :: "nat list list"
  tp_PermittedDNSDomains :: "string list"
  tp_CRLDistributionPoints :: "string list"
  tp_Extensions :: "Extension list"
  tp_ExtraExtensions :: "Extension list"

text \<open>The public key is any value; the certificate type is a floating-point number, kept as its text.\<close>

record 'p CertificateSpec =
  sp_commonName :: string
  sp_serialNumber :: int
  sp_pub :: 'p
  sp_usage :: nat
  sp_NotBefore :: int
  sp_NotAfter :: int
  sp_ext :: "Extension list option"
  sp_country :: string
  sp_State :: string
  sp_locality :: string
  sp_Organization :: string
  sp_OrganizationUnit :: string
  sp_certificateType :: string

definition GetCommonName :: "'p CertificateSpec \<Rightarrow> string" where
  "GetCommonName spec = sp_commonName spec"

definition GetSerialNumber :: "'p CertificateSpec \<Rightarrow> int" where
  "GetSerialNumber spec = sp_serialNumber spec"

definition spec_GetPublicKey :: "'p CertificateSpec \<Rightarrow> 'p" where
  "spec_GetPublicKey spec = sp_pub spec"

definition GetUsage :: "'p CertificateSpec \<Rightarrow> nat" where
  "GetUsage spec = sp_usage spec"

definition GetNotBefore :: "'p CertificateSpec \<Rightarrow> int" where
  "GetNotBefore spec = sp_NotBefore spec"

definition GetNotAfter :: "'p CertificateSpec \<Rightarrow> int" where
  "GetNotAfter spec = sp_NotAfter spec"

definition GetOrganization :: "'p CertificateSpec \<Rightarrow> string" where
  "GetOrganization spec = sp_Organization spec"

definition GetCountry :: "'p CertificateSpec \<Rightarrow> string" where
  "GetCountry spec = sp_country spec"

definition GetExtensions :: "'p CertificateSpec \<Rightarrow> Extension list option" where
  "GetExtensions spec = sp_ext spec"

definition GetLocality :: "'p CertificateSpec \<Rightarrow> string" where
  "GetLocality spec = sp_locality spec"

definition GetOrganizationalUnit :: "'p CertificateSpec \<Rightarrow> string" where
  "GetOrganizationalUnit spec = sp_OrganizationUnit spec"

definition GetState :: "'p CertificateSpec \<Rightarrow> string" where
  "GetState spec = sp_State spec"

definition GetCertificateType :: "'p CertificateSpec \<Rightarrow> string" where
  "GetCertificateType spec = sp_certificateType spec"

definition GetSubjectKeyID :: "'p CertificateSpec \<Rightarrow> bytes" where
  "GetSubjectKeyID spec = [1, 2, 3, 4]"

definition GetSignatureAlgorithm :: "'p CertificateSpec \<Rightarrow> SignatureAlgorithm" where
  "GetSignatureAlgorithm spec = ECDSAWithSHA384"

text \<open>A generated key pair is its public and its private half.\<close>

record crypto_env =
  cu_sig :: sig_env
  cu_num :: "string \<Rightarrow> string option"
  cu_truncate :: "string \<Rightarrow> int"
  cu_now :: int
  cu_b64prefix :: "string \<Rightarrow> bytes"
  cu_ParseCertificates :: "bytes \<Rightarrow> Certificate list result"
  cu_ParsePKIXPublicKey :: "bytes \<Rightarrow> PublicKey result"
  cu_isDSA :: "string \<Rightarrow> bool"
  cu_setString :: "string \<Rightarrow> int"
  cu_GenerateKey :: "(string \<times> string) result"
  cu_CreateCertificate :: "x509_Template \<Rightarrow> string \<Rightarrow> string \<Rightarrow> bytes result"

definition spec_template :: "'p CertificateSpec \<Rightarrow> Extension list \<Rightarrow> x509_Template" where
  "spec_template spec exts =
     \<lparr>tp_SerialNumber = GetSerialNumber spec,
      tp_Subject = \<lparr>pn_CommonName = GetCommonName spec, pn_Organization = [GetOrganization spec],
        pn_OrganizationalUnit = [GetOrganizationalUnit spec], pn_Province = [GetState spec], pn_Country = [GetCountry spec],
        pn_Locality = [GetLocality spec], pn_ExtraNames = []\<rparr>,
      tp_NotBefore = GetNotBefore spec, tp_NotAfter = GetNotAfter spec,
      tp_SubjectKeyId = GetSubjectKeyID spec, tp_SignatureAlgorithm = GetSignatureAlgorithm spec,
      tp_KeyUsage = GetUsage spec, tp_ExtKeyUsage = [], tp_UnknownExtKeyUsage = [], tp_BasicConstraintsValid = True,
      tp_IsCA = (GetCertificateType spec = ''1''), tp_OCSPServer = [], tp_IssuingCertificateURL = [], tp_DNSNames = [],
      tp_EmailAddresses = [], tp_IPAddresses = [], tp_PolicyIdentifiers = [], tp_PermittedDNSDomains = [],
      tp_CRLDistributionPoints = [], tp_Extensions = exts, tp_ExtraExtensions = exts\<rparr>"

text \<open>
  A fresh key is generated for the certificate; the public key of the specification is not used.  A
  failure to generate it is only logged, and the nil key is then dereferenced.
\<close>

definition newCertificateFromSpec :: "crypto_env \<Rightarrow> 'p CertificateSpec \<Rightarrow> bytes result" where
  "newCertificateFromSpec E spec = (case GetExtensions spec of
     None \<Rightarrow> Inl (GoPanic ''invalid memory address or nil pointer dereference'')
   | Some exts \<Rightarrow> (case cu_GenerateKey E of
       Inl _ \<Rightarrow> Inl (GoPanic ''invalid memory address or nil pointer dereference'')
     | Inr (pub, priv) \<Rightarrow> cu_CreateCertificate E (spec_template spec exts) pub priv))"

text \<open>
  The request for a certificate in JSON.  The validity is in hours, a 64-bit number of nanoseconds.
\<close>

definition hours :: "int \<Rightarrow> int" where
  "hours n = sint (word_of_int (n * 3600000000000) :: 64 word)"

definition parseCertificateRequest ::
  "crypto_env \<Rightarrow> string \<Rightarrow> int \<Rightarrow> 'p \<Rightarrow> nat \<Rightarrow> Extension list \<Rightarrow> 'p CertificateSpec result" where
  "parseCertificateRequest E jsonstring serialNumber pub usage opt =
     (let jsonMap = json_map (cu_num E) jsonstring;
          field = (\<lambda>f. as_string (Map_Get jsonMap (''TCertBatchRequest.CerificateRequestData'' @ f)))
      in (case (field ''.CN'', field ''.C'', field ''.ST'', field ''.L'', field ''.O'', field ''.OU'',
                as_number (Map_Get jsonMap ''TCertBatchRequest.CerificateRequestData.validityPeriod''),
                as_number (Map_Get jsonMap ''TCertBatchRequest.CertificateType'')) of
            (Inr cn, Inr c, Inr st, Inr l, Inr org, Inr ou, Inr validityPeriod, Inr t) \<Rightarrow>
              Inr \<lparr>sp_commonName = cn, sp_serialNumber = serialNumber, sp_pub = pub, sp_usage = usage,
                   sp_NotBefore = cu_now E, sp_NotAfter = cu_now E + hours (cu_truncate E validityPeriod), sp_ext = Some opt,
                   sp_country = c, sp_State = st, sp_locality = l, sp_Organization = org, sp_OrganizationUnit = ou,
                   sp_certificateType = t\<rparr>
          | _ \<Rightarrow> Inl type_panic))"

subsection \<open>Random numbers\<close>

text \<open>\<^verbatim>\<open>big.Int.Exp\<close> with a nil modulus is 1 for an exponent that is not positive.\<close>

definition big_Exp10 :: "int \<Rightarrow> int" where
  "big_Exp10 y = (if y \<le> 0 then 1 else 10 ^ nat y)"

text \<open>\<open>rnd\<close> is \<^verbatim>\<open>rand.Int\<close> on the random source; after an error the nil number is added.\<close>

definition util_GenNumber :: "(int \<Rightarrow> int result) \<Rightarrow> int \<Rightarrow> int result" where
  "util_GenNumber rnd numlen =
     (let lowerBound = big_Exp10 (numlen - 1);
          upperBound = big_Exp10 numlen
      in (case rnd upperBound of
            Inl _ \<Rightarrow> Inl (GoPanic ''invalid memory address or nil pointer dereference'')
          | Inr randomNum \<Rightarrow>
              let valMod = (randomNum + lowerBound) mod upperBound
              in Inr (if valMod < lowerBound then valMod + lowerBound else valMod)))"

subsection \<open>Keys\<close>

definition util_GetPrivateKey :: "crypto_env \<Rightarrow> string \<Rightarrow> string result" where
  "util_GetPrivateKey E privateKey = (case pem_Decode (se_x509 (cu_sig E)) (bytes_of privateKey) of
     None \<Rightarrow> Inl (ErrorString ''private key PEM block is empty'')
   | Some der \<Rightarrow> (case x509_ParsePKCS1PrivateKey (cu_sig E) der of
       Inl _ \<Rightarrow> Inl (ErrorString ''Unable to parse private key'')
     | Inr priv \<Rightarrow> Inr priv))"

definition util_GetPublicKey :: "crypto_env \<Rightarrow> string \<Rightarrow> string result" where
  "util_GetPublicKey E publicKey = (case pem_Decode (se_x509 (cu_sig E)) (bytes_of publicKey) of
     None \<Rightarrow> Inl (ErrorString ''public block key is empty'')
   | Some der \<Rightarrow> (case cu_ParsePKIXPublicKey E der of
       Inl _ \<Rightarrow> Inl (ErrorString ''Unable to parse RSA public key'')
     | Inr (RSA_PublicKey k) \<Rightarrow> Inr k
     | Inr _ \<Rightarrow> Inl type_panic))"

subsection \<open>Signing and verifying\<close>

definition log_Fatal :: "string \<Rightarrow> go_error" where
  "log_Fatal msg = GoPanic msg"

text \<open>Base64 text is decoded as far as it goes; the error is dropped.\<close>

definition b64_bytes :: "crypto_env \<Rightarrow> string \<Rightarrow> bytes" where
  "b64_bytes E s = (case StdDecode s of Inr b \<Rightarrow> b | Inl _ \<Rightarrow> cu_b64prefix E s)"

text \<open>
  \<^verbatim>\<open>big.Int.SetString\<close> with base 10; after a text that is no number the value is unspecified,
  \<open>cu_setString\<close> here.
\<close>

definition big_SetString :: "crypto_env \<Rightarrow> string \<Rightarrow> int" where
  "big_SetString E s =
     (let (neg, ds) = (case s of
            c # cs \<Rightarrow> if c = CHR ''-'' then (True, cs) else if c = CHR ''+'' then (False, cs) else (False, s)
          | [] \<Rightarrow> (False, s))
      in (case (if ds = [] then None else digits_val 0 ds) of
            None \<Rightarrow> cu_setString E s
          | Some n \<Rightarrow> if neg then - int n else int n))"

definition util_ValidateCert :: "int \<Rightarrow> Certificate \<Rightarrow> bool" where
  "util_ValidateCert currentTime cert \<longleftrightarrow> x_NotAfter cert - currentTime > 0 \<and> currentTime - x_NotBefore cert > 0"

definition RSASign :: "crypto_env \<Rightarrow> bytes \<Rightarrow> string \<Rightarrow> string result" where
  "RSASign E message rsaPrivateKey =
     (let hashed = sha384 (cu_sig E) message
      in (case rsa_SignPKCS1v15 (cu_sig E) rsaPrivateKey hashed of
            Inl err \<Rightarrow> Inl (log_Fatal (''Error from signing: '' @ Error err))
          | Inr signature \<Rightarrow> Inr (StdEncode signature)))"

definition RSAVerifySig :: "crypto_env \<Rightarrow> string \<Rightarrow> string \<Rightarrow> bytes \<Rightarrow> bool" where
  "RSAVerifySig E publicKey signature message =
     (let sig = b64_bytes E signature;
          hashed = sha384 (cu_sig E) message
      in rsa_VerifyPKCS1v15 (cu_sig E) publicKey hashed sig = None)"

definition VerifyRSAMessageImpl :: "crypto_env \<Rightarrow> string \<Rightarrow> string \<Rightarrow> string \<Rightarrow> bool result" where
  "VerifyRSAMessageImpl E jsonString signatureString publicKey =
     (case ReadJSONAsMapString (cu_num E) signatureString ''RSASignature'' of
        Inl e \<Rightarrow> Inl e
      | Inr signature \<Rightarrow> Inr (RSAVerifySig E publicKey signature (bytes_of jsonString)))"

definition VerifyECMessageImpl :: "crypto_env \<Rightarrow> string \<Rightarrow> string \<Rightarrow> string \<Rightarrow> bool result" where
  "VerifyECMessageImpl E JSONString signatureString pub =
     (case ReadJSONAsMapString (cu_num E) signatureString ''ECSignature.R'' of
        Inl e \<Rightarrow> Inl e
      | Inr R \<Rightarrow> (case ReadJSONAsMapString (cu_num E) signatureString ''ECSignature.S'' of
          Inl e \<Rightarrow> Inl e
        | Inr S \<Rightarrow>
            let r = big_SetString E R; s = big_SetString E S
            in Inr (ecdsa_Verify (cu_sig E) pub (sha384 (cu_sig E) (bytes_of JSONString)) r s)))"

text \<open>The certificate is not checked for expiry here, and has to hold an ECDSA key.\<close>

definition VerifyECMessage :: "crypto_env \<Rightarrow> string \<Rightarrow> string \<Rightarrow> bool result" where
  "VerifyECMessage E JSONString signatureString =
     (case ReadJSONAsMapString (cu_num E) signatureString ''Certificate'' of
        Inl e \<Rightarrow> Inl e
      | Inr ecert \<Rightarrow> (case x509_ParseCertificate (se_x509 (cu_sig E)) (b64_bytes E ecert) of
          Inl err \<Rightarrow> Inl (log_Fatal (''Error parsing x509 certificate: '' @ Error err))
        | Inr cert \<Rightarrow> (case x_PublicKey cert of
            ECDSA_PublicKey pub \<Rightarrow> VerifyECMessageImpl E JSONString signatureString pub
          | _ \<Rightarrow> Inl type_panic)))"

text \<open>
  A certificate with a key of another kind: for a DSA key, which \<open>cu_isDSA\<close> tells, the result is false;
  of any other kind \<^verbatim>\<open>crypto/x509\<close> gives no key at all.
\<close>

definition VerifyMessage :: "crypto_env \<Rightarrow> string \<Rightarrow> string \<Rightarrow> bool result" where
  "VerifyMessage E jsonString signatureString =
     (case ReadJSONAsMapString (cu_num E) signatureString ''Certificate'' of
        Inl e \<Rightarrow> Inl e
      | Inr ecert \<Rightarrow>
          let certificate = b64_bytes E ecert;
              (der, failed) = (case pem_Decode (se_x509 (cu_sig E)) certificate of
                 None \<Rightarrow> (certificate, ''Certificate Parse failed'')
               | Some b \<Rightarrow> (b, ''Certificatre Parse failed''))
          in (case cu_ParseCertificates E der of
                Inl err \<Rightarrow> Inl (log_Fatal failed)
              | Inr [] \<Rightarrow> Inl (GoPanic ''index out of range'')
              | Inr (cert # _) \<Rightarrow>
                  if \<not> util_ValidateCert (cu_now E) cert then Inl (log_Fatal ''Certificate expired'')
                  else (case x_PublicKey cert of
                          RSA_PublicKey pub \<Rightarrow> VerifyRSAMessageImpl E jsonString signatureString pub
                        | ECDSA_PublicKey pub \<Rightarrow> VerifyECMessageImpl E jsonString signatureString pub
                        | Other_PublicKey k \<Rightarrow>
                            if cu_isDSA E k then Inr False else Inl (log_Fatal ''Public Key is nil''))))"

text \<open>The template of the self-signed certificate; it is valid for an hour.\<close>

definition self_signed_template :: "int \<Rightarrow> x509_Template" where
  "self_signed_template now =
     \<lparr>tp_SerialNumber = 1,
      tp_Subject = \<lparr>pn_CommonName = ''test.example.com'', pn_Organization = [[CHR 0xCE, CHR 0xA3] @ '' Acme Co''],
        pn_OrganizationalUnit = [], pn_Province = [], pn_Country = [''US''], pn_Locality = [],
        pn_ExtraNames = [([2, 5, 4, 42], ''Gopher''), ([2, 5, 4, 6], ''NL'')]\<rparr>,
      tp_NotBefore = now, tp_NotAfter = now + hours 1, tp_SubjectKeyId = [1, 2, 3, 4],
      tp_SignatureAlgorithm = ECDSAWithSHA384, tp_KeyUsage = 32, tp_ExtKeyUsage = [2, 1],
      tp_UnknownExtKeyUsage = [[1, 2, 3], [2, 59, 1]], tp_BasicConstraintsValid = True, tp_IsCA = True,
      tp_OCSPServer = [''http://ocsp.example.com''], tp_IssuingCertificateURL = [''http://crt.example.com/ca1.crt''],
      tp_DNSNames = [''test.example.com''], tp_EmailAddresses = [''gopher@golang.org''],
      tp_IPAddresses = [[127, 0, 0, 1], [0x20, 0x01, 0x48, 0x60, 0, 0, 0x20, 0x01, 0, 0, 0, 0, 0, 0, 0, 0x68]],
      tp_PolicyIdentifiers = [[1, 2, 3]], tp_PermittedDNSDomains = [''.example.com'', ''example.com''],
      tp_CRLDistributionPoints = [''http://crl1.example.com/ca1.crl'', ''http://crl2.example.com/ca1.crl''],
      tp_Extensions = [], tp_ExtraExtensions = [\<lparr>ext_Id = [1, 2, 3, 4], ext_Value = bytes_of ''extra extension''\<rparr>]\<rparr>"

definition NewSelfSignedCert :: "crypto_env \<Rightarrow> (bytes \<times> string) result" where
  "NewSelfSignedCert E = (case cu_GenerateKey E of
     Inl err \<Rightarrow> Inl err
   | Inr (pub, priv) \<Rightarrow> (case cu_CreateCertificate E (self_signed_template (cu_now E)) pub priv of
       Inl err \<Rightarrow> Inl err
     | Inr cert \<Rightarrow> Inr (cert, priv)))"

definition ECDSASignDirect :: "crypto_env \<Rightarrow> string \<Rightarrow> bytes \<Rightarrow> (int \<times> int) result" where
  "ECDSASignDirect E signKey msg = ecdsa_Sign (cu_sig E) signKey (sha384 (cu_sig E) msg)"

text \<open>\<open>order\<close> is the order in which Go iterates over the map of values.\<close>

definition SignECMessage ::
  "crypto_env \<Rightarrow> ((string \<times> string) list \<Rightarrow> (string \<times> string) list) \<Rightarrow> string \<Rightarrow> string \<Rightarrow> string result" where
  "SignECMessage E order JSONString signatureJSON = (case NewSelfSignedCert E of
     Inl err \<Rightarrow> Inl (log_Fatal (''Error in SignECMessage NewSelfSignedCert fails to create cert/privKey:'' @ Error err))
   | Inr (cert, privKey) \<Rightarrow> (case ECDSASignDirect E privKey (bytes_of JSONString) of
       Inl err \<Rightarrow> Inl (log_Fatal (''Error in SignECMessage ECDSASignDirect fails to sign:'' @ Error err))
     | Inr (r, s) \<Rightarrow> WriteJSONToString (cu_num E) signatureJSON
         (order [(''ECSignature.R'', Itoa r), (''ECSignature.S'', Itoa s), (''Certificate'', StdEncode cert)])))"

definition RSASignJSON ::
  "crypto_env \<Rightarrow> ((string \<times> string) list \<Rightarrow> (string \<times> string) list) \<Rightarrow> string \<Rightarrow> string \<Rightarrow> string \<Rightarrow> string \<Rightarrow> string result" where
  "RSASignJSON E order jsonString signatureJSON rsaPrivateKey cert =
     (case RSASign E (bytes_of jsonString) rsaPrivateKey of
        Inl e \<Rightarrow> Inl e
      | Inr signature \<Rightarrow> WriteJSONToString (cu_num E) signatureJSON
          (order [(''RSASignature'', signature), (''Certificate'', cert)]))"

subsection \<open>Digits of a random number\<close>

text \<open>
  C31. A generated number has exactly the requested number of decimal digits, whatever the random
  source yields below the bound it is given.
\<close>

theorem util_GenNumber_digits:
  assumes "1 \<le> n" "rnd (10 ^ n) = Inr x" "0 \<le> x" "x < 10 ^ n"
  shows "\<exists>v. util_GenNumber rnd (int n) = Inr v \<and> 10 ^ (n - 1) \<le> v \<and> v < 10 ^ n"
proof -
  let ?L = "10 ^ (n - 1) :: int" and ?U = "10 ^ n :: int"
  have U: "?U = 10 * ?L" using assms(1) by (cases n) auto
  have L: "?L \<ge> 1" by simp
  have e: "big_Exp10 (int n) = ?U" "big_Exp10 (int n - 1) = ?L"
    using assms(1) by (auto simp: big_Exp10_def nat_diff_distrib)
  let ?v = "(x + ?L) mod ?U"
  have "?v = x + ?L \<or> ?v = x + ?L - ?U"
  proof (cases "x + ?L < ?U")
    case True
    then show ?thesis using assms(3) by simp
  next
    case False
    then have "0 \<le> x + ?L - ?U" "x + ?L - ?U < ?U" using assms(4) U L by linarith+
    then have "(x + ?L - ?U) mod ?U = x + ?L - ?U" by (rule mod_pos_pos_trivial)
    then show ?thesis by simp
  qed
  moreover have "0 \<le> ?v" "?v < ?U" by simp_all
  ultimately have "?L \<le> (if ?v < ?L then ?v + ?L else ?v) \<and> (if ?v < ?L then ?v + ?L else ?v) < ?U"
    using U L assms(3,4) by (auto split: if_split)
  then show ?thesis using assms(2) by (auto simp: util_GenNumber_def e Let_def split: if_splits)
qed

theorem util_GenNumber_digits_witness:
  "\<exists>v. util_GenNumber (\<lambda>b. Inr (b - 1)) 20 = Inr v \<and> 10 ^ 19 \<le> v \<and> v < 10 ^ 20"
  using util_GenNumber_digits [of 20 "\<lambda>b. Inr (b - 1)" "10 ^ 20 - 1"] by simp

subsection \<open>Signed messages verify\<close>

lemma SetString_Itoa: "big_SetString E (Itoa i) = i"
proof (cases "i < 0")
  case True
  then show ?thesis by (simp add: big_SetString_def Itoa_def digits_val_nat_str)
next
  case False
  obtain c cs where c: "nat_str (nat i) = c # cs" by (cases "nat_str (nat i)") auto
  have "digits_val 0 (c # cs) = Some (nat i)" using digits_val_nat_str [of "nat i"] c by simp
  with False nat_str_head [OF c] show ?thesis
    unfolding big_SetString_def Itoa_def c [symmetric] by (simp add: c Let_def del: digits_val.simps)
qed

lemma sign_paths:
  "Split ''ECSignature.R'' (CHR ''.'') = [''ECSignature'', ''R'']" "Split ''ECSignature.S'' (CHR ''.'') = [''ECSignature'', ''S'']"
  "Split ''Certificate'' (CHR ''.'') = [''Certificate'']"
  by code_simp+

text \<open>Writing the three fields in any order: all of them are read back.\<close>

lemma WriteJSON_reads:
  assumes "float_text num" "json_map num j = Some m" "distinct [p, a, b, c]" "distinct (map fst kvs)"
    and "\<And>k. k \<in> fst ` set kvs \<Longrightarrow> Split k (CHR ''.'') \<in> sig_paths p a b c"
  shows "\<exists>s. WriteJSONToString num j kvs = Inr s \<and> (\<forall>(k, v) \<in> set kvs. ReadJSONAsMapString num s k = Inr v)"
proof -
  obtain m' where m': "set_all kvs (Some m) = Inr (Some m')" "canonical num (JObj m')"
    "\<forall>(k, v) \<in> set kvs. stored p (Split k (CHR ''.'')) (JStr v) m'"
    using set_all_stored [OF assms(3-5) json_map_canonical [OF assms(1,2)]] by blast
  then have "json_map num (json_print (JObj m')) = Some m'" by (intro json_map_print)
  with m' assms(2) show ?thesis
    by (auto simp: WriteJSONToString_def ReadJSONAsMapString_def Map_JSON_def Map_Get_def stored_def as_string_def simp del: json_print.simps)
qed

text \<open>
  C26. A message signed by \<^verbatim>\<open>SignECMessage\<close> verifies: whatever JSON object the signature is added to, and in
  whatever order Go walks the map of its fields, \<^verbatim>\<open>VerifyECMessage\<close> accepts message and signature, and so
  does \<^verbatim>\<open>VerifyMessage\<close> at any time between the ends of the certificate's validity.
\<close>

theorem sign_verify_message:
  assumes "float_text (cu_num E)" "sig_correct (cu_sig E)" "json_map (cu_num E) sigJSON = Some m"
    and "\<And>kvs. mset (order kvs) = mset kvs"
    and "cu_GenerateKey E = Inr (pub, priv)" "ecdsa_pair (cu_sig E) pub priv"
    and "cu_CreateCertificate E (self_signed_template (cu_now E)) pub priv = Inr der"
    and "x509_ParseCertificate (se_x509 (cu_sig E)) der = Inr cert" "cu_ParseCertificates E der = Inr [cert]"
    and "x_PublicKey cert = ECDSA_PublicKey pub" "pem_Decode (se_x509 (cu_sig E)) der = None"
    and "ecdsa_Sign (cu_sig E) priv (sha384 (cu_sig E) (bytes_of msg)) = Inr (r, s)"
    and "x_NotBefore cert < t" "t < x_NotAfter cert"
  shows "\<exists>signed. SignECMessage E order msg sigJSON = Inr signed \<and> VerifyECMessage E msg signed = Inr True \<and>
    VerifyMessage (E\<lparr>cu_now := t\<rparr>) msg signed = Inr True"
proof -
  let ?kvs = "[(''ECSignature.R'', Itoa r), (''ECSignature.S'', Itoa s), (''Certificate'', StdEncode der)]"
  have o: "set (order ?kvs) = set ?kvs" "distinct (map fst (order ?kvs))"
  proof -
    show "set (order ?kvs) = set ?kvs" by (rule mset_eq_setD [OF assms(4)])
    have "mset (map fst (order ?kvs)) = mset (map fst ?kvs)" by (simp only: mset_map assms(4))
    then have "distinct (map fst (order ?kvs)) = distinct (map fst ?kvs)" by (rule mset_eq_imp_distinct_iff)
    then show "distinct (map fst (order ?kvs))" by simp
  qed
  have k: "Split k (CHR ''.'') \<in> sig_paths ''ECSignature'' ''R'' ''S'' ''Certificate''" if "k \<in> fst ` set (order ?kvs)" for k
  proof -
    have "k \<in> {''ECSignature.R'', ''ECSignature.S'', ''Certificate''}" using that unfolding o(1) by simp
    then show ?thesis by (elim insertE) (simp_all add: sign_paths sig_paths_def)
  qed
  have d: "distinct [''ECSignature'', ''R'', ''S'', ''Certificate'']" by simp
  obtain j where j: "WriteJSONToString (cu_num E) sigJSON (order ?kvs) = Inr j"
    "\<forall>(k, v) \<in> set (order ?kvs). ReadJSONAsMapString (cu_num E) j k = Inr v"
    using WriteJSON_reads [OF assms(1,3) d o(2) k] by blast
  have f: "ReadJSONAsMapString (cu_num E) j ''ECSignature.R'' = Inr (Itoa r)" "ReadJSONAsMapString (cu_num E) j ''ECSignature.S'' = Inr (Itoa s)"
    "ReadJSONAsMapString (cu_num E) j ''Certificate'' = Inr (StdEncode der)" using j(2) unfolding o(1) by simp_all
  have v: "ecdsa_Verify (cu_sig E) pub (sha384 (cu_sig E) (bytes_of msg)) r s" using assms(2,6,12) by (simp add: sig_correct_def)
  have b: "b64_bytes E' (StdEncode der) = der" for E' by (simp add: b64_bytes_def)
  have e: "VerifyECMessageImpl E' msg j pub = Inr True" if "cu_num E' = cu_num E" "cu_sig E' = cu_sig E" for E'
    using f(1,2) v that by (simp add: VerifyECMessageImpl_def SetString_Itoa)
  have "SignECMessage E order msg sigJSON = Inr j"
    using assms(5,7,12) j(1) by (simp add: SignECMessage_def NewSelfSignedCert_def ECDSASignDirect_def)
  moreover have "VerifyECMessage E msg j = Inr True" using f(3) b e assms(8,10) by (simp add: VerifyECMessage_def)
  moreover have "VerifyMessage (E\<lparr>cu_now := t\<rparr>) msg j = Inr True"
    using f(3) b [of "E\<lparr>cu_now := t\<rparr>"] e assms(9-11,13,14) by (simp add: VerifyMessage_def util_ValidateCert_def)
  ultimately show ?thesis by blast
qed

definition demo_ccert :: Certificate where
  "demo_ccert = \<lparr>x_CommonName = ''test.example.com'', x_SerialNumber = 1, x_AuthorityKeyId = [], x_PublicKey = ECDSA_PublicKey ''k'',
     x_NotBefore = 0, x_NotAfter = 100, x_CRLDistributionPoints = [], x_Raw = []\<rparr>"

definition demo_crypto :: crypto_env where
  "demo_crypto =
     \<lparr>cu_sig = demo_sig\<lparr>se_x509 := \<lparr>pem_Decode = (\<lambda>_. None), x509_ParseCertificate = (\<lambda>_. Inr demo_ccert)\<rparr>\<rparr>,
      cu_num = (\<lambda>n. if json_wf (JNum n) then Some n else None), cu_truncate = (\<lambda>_. 0), cu_now = 0, cu_b64prefix = (\<lambda>_. []),
      cu_ParseCertificates = (\<lambda>_. Inr [demo_ccert]), cu_ParsePKIXPublicKey = (\<lambda>_. Inr (RSA_PublicKey ''k'')), cu_isDSA = (\<lambda>_. False),
      cu_setString = (\<lambda>_. 0), cu_GenerateKey = Inr (''k'', ''k''), cu_CreateCertificate = (\<lambda>_ _ _. Inr [48, 130])\<rparr>"

theorem sign_verify_message_witness:
  "\<exists>signed. SignECMessage demo_crypto rev ''hello'' ''{}'' = Inr signed \<and> VerifyECMessage demo_crypto ''hello'' signed = Inr True \<and>
    VerifyMessage (demo_crypto\<lparr>cu_now := 7\<rparr>) ''hello'' signed = Inr True"
proof (rule sign_verify_message [where pub = "''k''" and priv = "''k''" and cert = demo_ccert])
  show "sig_correct (cu_sig demo_crypto)" using demo_sig_correct by (simp add: demo_crypto_def sig_correct_def Let_def)
  show "float_text (cu_num demo_crypto)" by (auto simp: demo_crypto_def float_text_def Let_def)
  show "json_map (cu_num demo_crypto) ''{}'' = Some []" by code_simp
qed (simp_all add: demo_crypto_def demo_ccert_def demo_sig_def)

text \<open>What acceptance means: the certificate is within its validity, and the signature over the message verifies with its key.\<close>

lemma VerifyMessage_sound:
  assumes "VerifyMessage E msg sj = Inr True"
  shows "\<exists>cert. util_ValidateCert (cu_now E) cert \<and>
    ((\<exists>pub sig. x_PublicKey cert = RSA_PublicKey pub \<and>
        rsa_VerifyPKCS1v15 (cu_sig E) pub (sha384 (cu_sig E) (bytes_of msg)) sig = None) \<or>
     (\<exists>pub r s. x_PublicKey cert = ECDSA_PublicKey pub \<and> ecdsa_Verify (cu_sig E) pub (sha384 (cu_sig E) (bytes_of msg)) r s))"
  using assms
  by (auto simp: VerifyMessage_def VerifyRSAMessageImpl_def VerifyECMessageImpl_def RSAVerifySig_def Let_def
      split: sum.splits list.splits if_splits PublicKey.splits prod.splits)

lemma RSAVerifySig_RSASign:
  assumes "sig_correct (cu_sig E)" "rsa_pair (cu_sig E) pub priv" "RSASign E msg priv = Inr sig"
  shows "RSAVerifySig E pub sig msg"
  using assms by (auto simp: RSASign_def RSAVerifySig_def sig_correct_def b64_bytes_def Let_def split: sum.splits)

text \<open>The certificate made from a specification does not depend on the public key it names.\<close>

lemma spec_pub_unused: "newCertificateFromSpec E (spec\<lparr>sp_pub := k\<rparr>) = newCertificateFromSpec E spec"
  by (simp add: newCertificateFromSpec_def spec_template_def GetCommonName_def GetSerialNumber_def GetUsage_def GetNotBefore_def
      GetNotAfter_def GetOrganization_def GetCountry_def GetExtensions_def GetLocality_def GetOrganizationalUnit_def GetState_def
      GetCertificateType_def GetSubjectKeyID_def GetSignatureAlgorithm_def cong: option.case_cong sum.case_cong)

text \<open>A request made in JSON becomes a specification; its validity starts at the time of the call.\<close>

lemma parseCertificateRequest_fields:
  "parseCertificateRequest E j sn pub usage opt = Inr spec \<Longrightarrow>
   sp_serialNumber spec = sn \<and> sp_pub spec = pub \<and> sp_usage spec = usage \<and> sp_ext spec = Some opt \<and> sp_NotBefore spec = cu_now E"
  by (auto simp: parseCertificateRequest_def Let_def split: sum.splits prod.splits)

end
