(* ===== verification/Client_Api.thy ===== *)
theory Client_Api
  imports Client_Lib Crypto_Util Tcert_Crypto
begin

text \<open>
  The rest of the client side: the operations of \<^verbatim>\<open>lib/\<close> that are declared but only return an error,
  the certificate manager of \<^verbatim>\<open>api/api.go\<close>, the facade \<^verbatim>\<open>factory.go\<close>, the helpers of \<^verbatim>\<open>util/util.go\<close> for PEM
  and for printing responses, and the copies of two helpers in \<^verbatim>\<open>lib/tcert/util.go\<close>.
\<close>

subsection \<open>Operations without an implementation\<close>

definition not_implemented :: "'a result" where
  "not_implemented = Inl (ErrorString ''NotImplemented'')"

record ImportSignerRequest =
  is_Cert :: bytes
  is_Key :: bytes

record AttributeProofSpec =
  as_Attributes :: "string list"
  as_Message :: bytes

record SignatureOpts =
  so_Policy :: "string list"
  so_Label :: string

definition Client_RegisterAndEnroll :: "lib_Client \<Rightarrow> RegistrationRequest \<Rightarrow> Identity result" where
  "Client_RegisterAndEnroll c req = not_implemented"

definition Client_ImportSigner :: "lib_Client \<Rightarrow> ImportSignerRequest \<Rightarrow> Signer result" where
  "Client_ImportSigner c req = not_implemented"

definition Identity_GetPublicSigner :: "Identity \<Rightarrow> TemporalSigner" where
  "Identity_GetPublicSigner i = id_PublicSigner i"

definition Identity_GetAttributeNames :: "Identity \<Rightarrow> string list result" where
  "Identity_GetAttributeNames i = not_implemented"

definition Identity_Delete :: "Identity \<Rightarrow> unit result" where
  "Identity_Delete i = not_implemented"

definition Signer_Sign :: "Signer \<Rightarrow> bytes \<Rightarrow> bytes result" where
  "Signer_Sign s msg = not_implemented"

definition Signer_SignOpts :: "Signer \<Rightarrow> bytes \<Rightarrow> SignatureOpts \<Rightarrow> bytes result" where
  "Signer_SignOpts s msg opts = not_implemented"

definition Signer_NewAttributeProof :: "Signer \<Rightarrow> AttributeProofSpec \<Rightarrow> bytes result" where
  "Signer_NewAttributeProof s spec = not_implemented"

definition TemporalSigner_Renew :: "TemporalSigner \<Rightarrow> unit result" where
  "TemporalSigner_Renew ts = not_implemented"

definition TemporalSigner_Revoke :: "TemporalSigner \<Rightarrow> unit result" where
  "TemporalSigner_Revoke ts = not_implemented"

definition Verifier_VerifySelf :: "Verifier \<Rightarrow> unit result" where
  "Verifier_VerifySelf v = not_implemented"

definition Verifier_Verify :: "Verifier \<Rightarrow> bytes \<Rightarrow> bytes \<Rightarrow> unit result" where
  "Verifier_Verify v msg sig = not_implemented"

definition Verifier_VerifyOpts :: "Verifier \<Rightarrow> bytes \<Rightarrow> bytes \<Rightarrow> SignatureOpts \<Rightarrow> unit result" where
  "Verifier_VerifyOpts v msg sig opts = not_implemented"

definition Verifier_VerifyAttributes :: "Verifier \<Rightarrow> bytes list \<Rightarrow> AttributeProofSpec \<Rightarrow> unit result" where
  "Verifier_VerifyAttributes v proof spec = not_implemented"

subsection \<open>Serialized verifiers\<close>

text \<open>A byte slice is a base64 string in JSON, the nil slice \<^verbatim>\<open>null\<close>.\<close>

definition Verifier_json :: "Verifier \<Rightarrow> json" where
  "Verifier_json v = JObj [(''cert'', case vf_Cert v of None \<Rightarrow> JNull | Some b \<Rightarrow> JStr (StdEncode b))]"

definition Verifier_Serialize :: "Verifier \<Rightarrow> string result" where
  "Verifier_Serialize v = Marshal Verifier_json v ''Verifier''"

definition dec_bytes :: "json \<Rightarrow> bytes option option" where
  "dec_bytes j = (case j of
     JStr s \<Rightarrow> (case StdDecode s of Inr b \<Rightarrow> Some (Some b) | Inl _ \<Rightarrow> None)
   | _ \<Rightarrow> None)"

definition Verifier_fields :: "(string \<times> json) list \<Rightarrow> Verifier option" where
  "Verifier_fields kvs = map_option (\<lambda>c. \<lparr>vf_Cert = c\<rparr>) (dec_ref dec_bytes None ''cert'' kvs None)"

text \<open>A serialized verifier decodes to the same verifier.\<close>

lemma Verifier_roundtrip: "Verifier_Serialize v = Inr s \<Longrightarrow> decode Verifier_fields s = Inr v"
proof -
  assume "Verifier_Serialize v = Inr s"
  then have s: "s = json_print (Verifier_json v)" by (simp add: Verifier_Serialize_def Marshal_def)
  have "json_wf (Verifier_json v)" by (simp add: Verifier_json_def split: option.splits)
  from json_parse_print [OF this] show ?thesis
    by (cases "vf_Cert v")
      (simp_all add: s Verifier_json_def decode_def root_fields_def Verifier_fields_def dec_bytes_def del: json_print.simps)
qed

subsection \<open>The certificate manager and the facade\<close>

text \<open>The manager is a global variable, nil until it is set; a manager only makes certificate managers.\<close>

definition SetMgr :: "(unit \<Rightarrow> 'cm) \<Rightarrow> (unit \<Rightarrow> 'cm) option \<Rightarrow> (unit \<Rightarrow> 'cm) option" where
  "SetMgr m mgr = Some m"

definition NewCertMgr :: "(unit \<Rightarrow> 'cm) option \<Rightarrow> 'cm result" where
  "NewCertMgr mgr = (case mgr of
     None \<Rightarrow> Inl (GoPanic ''invalid memory address or nil pointer dereference'')
   | Some m \<Rightarrow> Inr (m ()))"

lemma NewCertMgr_set: "NewCertMgr (SetMgr m mgr) = Inr (m ())"
  by (simp add: NewCertMgr_def SetMgr_def)

definition cop_NewClient :: "(string \<Rightarrow> string) \<Rightarrow> string \<Rightarrow> lib_Client result" where
  "cop_NewClient env config = lib_NewClient env config"

subsection \<open>PEM\<close>

text \<open>\<^verbatim>\<open>pem.EncodeToMemory\<close> for a block without headers: base64 in lines of 64 characters.\<close>

function pem_body :: "string \<Rightarrow> string" where
  "pem_body s = (if s = [] then [] else take 64 s @ [CHR 0x0A] @ pem_body (drop 64 s))"
  by auto
termination by (relation "measure length") auto

declare pem_body.simps [simp del]

definition DERCertToPEM :: "bytes \<Rightarrow> bytes" where
  "DERCertToPEM der = bytes_of (''-----BEGIN CERTIFICATE-----'' @ [CHR 0x0A] @ pem_body (StdEncode der) @
     ''-----END CERTIFICATE-----'' @ [CHR 0x0A])"

lemma pem_body_filter: "\<forall>c \<in> set s. \<not> is_newline c \<Longrightarrow> filter (\<lambda>c. \<not> is_newline c) (pem_body s) = s"
proof (induction s rule: pem_body.induct)
  case (1 s)
  show ?case
  proof (cases "s = []")
    case False
    have "\<forall>c \<in> set (take 64 s). \<not> is_newline c" "\<forall>c \<in> set (drop 64 s). \<not> is_newline c"
      using 1(2) by (auto dest: in_set_takeD in_set_dropD)
    then have "filter (\<lambda>c. \<not> is_newline c) (take 64 s) = take 64 s"
      "filter (\<lambda>c. \<not> is_newline c) (pem_body (drop 64 s)) = drop 64 s" using 1(1) [OF False] by simp_all
    then show ?thesis using False by (subst pem_body.simps) (simp add: is_newline_def)
  qed (simp add: pem_body.simps)
qed

text \<open>The text between the two lines of a PEM certificate is base64 for the certificate.\<close>

lemma StdDecode_pem_body: "StdDecode (pem_body (StdEncode der)) = Inr der"
proof -
  have "\<not> is_newline c" if "c \<in> set (StdEncode der)" for c
    using that B64Encode_no_special(3) [of der] by (auto simp: StdEncode_def Let_def is_newline_def)
  then have "filter (\<lambda>c. \<not> is_newline c) (pem_body (StdEncode der)) = filter (\<lambda>c. \<not> is_newline c) (StdEncode der)"
    using pem_body_filter [of "StdEncode der"] by simp
  then have "StdDecode (pem_body (StdEncode der)) = StdDecode (StdEncode der)" unfolding StdDecode_def Let_def by simp
  then show ?thesis by simp
qed

subsection \<open>Responses as text\<close>

text \<open>The body is read and put back; an error of reading it is dropped.\<close>

record http_Response =
  hs_StatusCode :: int
  hs_Status :: string
  hs_Body :: string
  hs_ReadErr :: "go_error option"

definition HTTPResponseToString :: "http_Response \<Rightarrow> string \<times> http_Response" where
  "HTTPResponseToString resp =
     (''statusCode='' @ Itoa (hs_StatusCode resp) @ '' ('' @ hs_Status resp @ '')'' @ [CHR 0x0A] @ hs_Body resp,
      resp\<lparr>hs_ReadErr := None\<rparr>)"

subsection \<open>Copies in lib/tcert\<close>

text \<open>\<^verbatim>\<open>GenNumber\<close> and \<^verbatim>\<open>ValidateCert\<close> of \<^verbatim>\<open>lib/tcert/util.go\<close> compute what their originals do.\<close>

lemma GenNumber_copy:
  assumes "1 \<le> n" "rnd (10 ^ n) = Inr (int r)"
  shows "util_GenNumber rnd (int n) = Inr (int (GenNumber r n))"
proof -
  have e: "big_Exp10 (int n) = int (10 ^ n)" "big_Exp10 (int n - 1) = int (10 ^ (n - 1))"
    using assms(1) by (auto simp: big_Exp10_def nat_diff_distrib)
  have "(int r + int (10 ^ (n - 1))) mod int (10 ^ n) = int ((r + 10 ^ (n - 1)) mod 10 ^ n)"
    by (simp only: of_nat_add [symmetric] zmod_int)
  then show ?thesis
    using assms(2) unfolding util_GenNumber_def GenNumber_def e Let_def
    by (simp only: of_nat_less_iff of_nat_add [symmetric] if_distrib [of int]) (simp add: if_distrib [of int])
qed

lemma ValidateCert_copy: "util_ValidateCert t cert = ValidateCert t cert"
  by (simp add: util_ValidateCert_def ValidateCert_def)

end
