(* ===== verification/Server_Parametric.thy ===== *)
theory Server_Parametric
  imports Server_Routes
begin

text \<open>
  The handlers use the registry, the certificate database and the signer only through their operations.
  Stated by relating two states and two registries whose operations preserve the relation and return the
  same results: the handlers, the wrapper, the endpoint table, the multiplexer and \<open>serve\<close> do so too.
\<close>

subsection \<open>Related backends\<close>

text \<open>Operations that take related states to related states with equal results.\<close>

abbreviation preserving :: "('s \<Rightarrow> 't \<Rightarrow> bool) \<Rightarrow> ('s \<Rightarrow> 'a \<times> 's) \<Rightarrow> ('t \<Rightarrow> 'a \<times> 't) \<Rightarrow> bool" where
  "preserving A \<equiv> rel_fun A (rel_prod (=) A)"

definition rel_registry :: "('s \<Rightarrow> 't \<Rightarrow> bool) \<Rightarrow> ('s, 'u) UserRegistry \<Rightarrow> ('t, 'u) UserRegistry \<Rightarrow> bool" where
  "rel_registry A x y \<longleftrightarrow>
     rel_fun (=) (rel_fun (=) (preserving A)) (reg_GetUser x) (reg_GetUser y) \<and>
     rel_fun (=) (preserving A) (reg_InsertUser x) (reg_InsertUser y) \<and>
     rel_fun (=) (rel_fun (=) (rel_fun (=) (preserving A))) (reg_UpdateField x) (reg_UpdateField y) \<and>
     rel_fun (=) (preserving A) (reg_GetGroup x) (reg_GetGroup y) \<and>
     rel_fun (=) (rel_fun (=) (preserving A)) (usr_Login x) (usr_Login y) \<and>
     usr_GetAffiliationPath x = usr_GetAffiliationPath y \<and> usr_GetAttribute x = usr_GetAttribute y"

lemma rel_registry_sel [transfer_rule]:
  "rel_fun (rel_registry A) (rel_fun (=) (rel_fun (=) (preserving A))) reg_GetUser reg_GetUser"
  "rel_fun (rel_registry A) (rel_fun (=) (preserving A)) reg_InsertUser reg_InsertUser"
  "rel_fun (rel_registry A) (rel_fun (=) (rel_fun (=) (rel_fun (=) (preserving A)))) reg_UpdateField reg_UpdateField"
  "rel_fun (rel_registry A) (rel_fun (=) (preserving A)) reg_GetGroup reg_GetGroup"
  "rel_fun (rel_registry A) (rel_fun (=) (rel_fun (=) (preserving A))) usr_Login usr_Login"
  "rel_fun (rel_registry A) (=) usr_GetAffiliationPath usr_GetAffiliationPath"
  "rel_fun (rel_registry A) (=) usr_GetAttribute usr_GetAttribute"
  by (simp_all add: rel_fun_def rel_registry_def)

definition rel_cert_ops :: "('s \<Rightarrow> 't \<Rightarrow> bool) \<Rightarrow> 's cert_ops \<Rightarrow> 't cert_ops \<Rightarrow> bool" where
  "rel_cert_ops A x y \<longleftrightarrow>
     rel_fun (=) (rel_fun (=) (rel_fun (=) (preserving A))) (co_RevokeCertificate x) (co_RevokeCertificate y) \<and>
     rel_fun (=) (rel_fun (=) (preserving A)) (co_RevokeCertificatesByID x) (co_RevokeCertificatesByID y)"

lemma rel_cert_ops_sel [transfer_rule]:
  "rel_fun (rel_cert_ops A) (rel_fun (=) (rel_fun (=) (rel_fun (=) (preserving A)))) co_RevokeCertificate co_RevokeCertificate"
  "rel_fun (rel_cert_ops A) (rel_fun (=) (rel_fun (=) (preserving A))) co_RevokeCertificatesByID co_RevokeCertificatesByID"
  by (simp_all add: rel_fun_def rel_cert_ops_def)

abbreviation rel_signer :: "('s \<Rightarrow> 't \<Rightarrow> bool) \<Rightarrow> 's signer \<Rightarrow> 't signer \<Rightarrow> bool" where
  "rel_signer A \<equiv> rel_fun (=) (preserving A)"

definition rel_tstate :: "('s \<Rightarrow> 't \<Rightarrow> bool) \<Rightarrow> ('s, 'k) tcert_state \<Rightarrow> ('t, 'k) tcert_state \<Rightarrow> bool" where
  "rel_tstate A x y \<longleftrightarrow> A (ts_reg x) (ts_reg y) \<and> ts_tree x = ts_tree y \<and> ts_rand x = ts_rand y"

lemma rel_tstate_sel [transfer_rule]:
  "rel_fun (rel_tstate A) A ts_reg ts_reg"
  "rel_fun (rel_tstate A) (=) ts_tree ts_tree"
  "rel_fun (rel_tstate A) (=) ts_rand ts_rand"
  "rel_fun (rel_fun A A) (rel_fun (rel_tstate A) (rel_tstate A)) ts_reg_update ts_reg_update"
  "rel_fun (=) (rel_fun (rel_tstate A) (rel_tstate A)) ts_tree_update ts_tree_update"
  "rel_fun (=) (rel_fun (rel_tstate A) (rel_tstate A)) ts_rand_update ts_rand_update"
  by (simp_all add: rel_fun_def rel_tstate_def)

lemma case_go_error_param [transfer_rule]:
  "rel_fun (rel_fun (=) B) (rel_fun (rel_fun (=) B) (rel_fun (rel_fun (=) (rel_fun (=) B)) (rel_fun (rel_fun (=) (rel_fun (=) B)) (rel_fun (rel_fun (=) B) (rel_fun (rel_fun (=) B) (rel_fun (=) B)))))) case_go_error case_go_error"
  by (auto simp: rel_fun_def split: go_error.split)

subsection \<open>The handlers\<close>

lemma canRegister_param [transfer_rule]:
  "rel_fun (rel_registry A) (rel_fun (=) (rel_fun (=) (preserving A))) Register_canRegister Register_canRegister"
  unfolding Register_canRegister_def by transfer_prover

lemma isValidGroup_param [transfer_rule]:
  "rel_fun (rel_registry A) (rel_fun (=) (preserving A)) Register_isValidGroup Register_isValidGroup"
  unfolding Register_isValidGroup_def by transfer_prover

lemma validateID_param [transfer_rule]:
  "rel_fun (rel_registry A) (rel_fun (=) (rel_fun (=) (rel_fun (=) (preserving A)))) Register_validateID Register_validateID"
  unfolding Register_validateID_def by transfer_prover

lemma registerUserID_param [transfer_rule]:
  "rel_fun (rel_registry A) (rel_fun (=) (rel_fun (=) (rel_fun (=) (rel_fun (=) (rel_fun (=) (rel_fun (=) (rel_fun (=) (preserving A))))))))
     Register_registerUserID Register_registerUserID"
  unfolding Register_registerUserID_def by transfer_prover

lemma RegisterUser_param [transfer_rule]:
  "rel_fun (rel_registry A) (rel_fun (=) (rel_fun (=) (rel_fun (=) (rel_fun (=) (rel_fun (=) (rel_fun (=) (rel_fun (=) (rel_fun (=) (preserving A)))))))))
     Register_RegisterUser Register_RegisterUser"
  unfolding Register_RegisterUser_def by transfer_prover

lemma registerHandler_param [transfer_rule]:
  "rel_fun (rel_registry A) (rel_fun (=) (rel_fun (=) (rel_fun (=) (preserving A)))) registerHandler_Handle registerHandler_Handle"
  unfolding registerHandler_Handle_def by transfer_prover

lemma signHandler_param [transfer_rule]:
  "rel_fun (rel_signer A) (rel_fun (=) (rel_fun (=) (preserving A))) signHandler_Handle signHandler_Handle"
  unfolding signHandler_Handle_def by transfer_prover

lemma userHasAttribute_param [transfer_rule]:
  "rel_fun (rel_registry A) (rel_fun (=) (rel_fun (=) (preserving A))) userHasAttribute userHasAttribute"
  unfolding userHasAttribute_def getUserAttrValue_def by transfer_prover

lemma revoke_request_param [transfer_rule]:
  "rel_fun (rel_registry A) (rel_fun (rel_option (rel_cert_ops A)) (rel_fun (=) (preserving A))) revoke_request revoke_request"
  unfolding revoke_request_def by transfer_prover

lemma revokeHandler_param [transfer_rule]:
  "rel_fun (=) (rel_fun (rel_registry A) (rel_fun (rel_option (rel_cert_ops A)) (rel_fun (=) (preserving A)))) revokeHandler_Handle revokeHandler_Handle"
  unfolding revokeHandler_Handle_def by transfer_prover

lemma getUserInfo_param [transfer_rule]:
  "rel_fun (rel_registry A) (rel_fun (=) (rel_fun (=) (preserving A))) getUserInfo getUserInfo"
  unfolding getUserInfo_def requested_attrs_def by transfer_prover

lemma tcertHandler_handle_param [transfer_rule]:
  "rel_fun (=) (rel_fun (rel_registry A) (rel_fun (=) (rel_fun (=) (preserving (rel_tstate A)))))
     tcertHandler_handle tcertHandler_handle"
  unfolding tcertHandler_handle_def by transfer_prover

lemma tcertHandler_param [transfer_rule]:
  "rel_fun (=) (rel_fun (rel_registry A) (rel_fun (=) (rel_fun (=) (preserving (rel_tstate A)))))
     tcertHandler_Handle tcertHandler_Handle"
  unfolding tcertHandler_Handle_def by transfer_prover

lemma HTTPHandler_param [transfer_rule]:
  "rel_fun (=) (rel_fun (rel_fun (=) (preserving A)) (rel_fun (=) (preserving A))) HTTPHandler_ServeHTTP HTTPHandler_ServeHTTP"
  unfolding HTTPHandler_ServeHTTP_def by transfer_prover

subsection \<open>The wrapper\<close>

abbreviation rel_handler :: "('s \<Rightarrow> 't \<Rightarrow> bool) \<Rightarrow>
    (HttpRequest \<Rightarrow> 's \<Rightarrow> HttpResponse option \<times> 's) \<Rightarrow> (HttpRequest \<Rightarrow> 't \<Rightarrow> HttpResponse option \<times> 't) \<Rightarrow> bool" where
  "rel_handler A \<equiv> rel_fun (=) (preserving A)"

definition rel_ah :: "('s \<Rightarrow> 't \<Rightarrow> bool) \<Rightarrow> 's copAuthHandler \<Rightarrow> 't copAuthHandler \<Rightarrow> bool" where
  "rel_ah A x y \<longleftrightarrow> ah_basic x = ah_basic y \<and> ah_token x = ah_token y \<and> rel_handler A (ah_next x) (ah_next y)"

lemma rel_ah_sel [transfer_rule]:
  "rel_fun (rel_ah A) (=) ah_basic ah_basic"
  "rel_fun (rel_ah A) (=) ah_token ah_token"
  "rel_fun (rel_ah A) (rel_handler A) ah_next ah_next"
  by (simp_all add: rel_fun_def rel_ah_def)

lemma newAuthHandler_param [transfer_rule]:
  "rel_fun (=) (rel_fun (=) (rel_fun (rel_sum (=) (rel_handler A)) (rel_sum (=) (rel_ah A)))) newAuthHandler newAuthHandler"
  by (auto simp: rel_fun_def newAuthHandler_def rel_ah_def elim!: rel_sum.cases)

lemma NewAuthWrapper_param [transfer_rule]:
  "rel_fun (=) (rel_fun (rel_sum (=) (rel_handler A)) (rel_prod (=) (rel_sum (=) (rel_ah A)))) NewAuthWrapper NewAuthWrapper"
  using newAuthHandler_param [of A] by (simp add: rel_fun_def NewAuthWrapper_def newBasicAuthHandler_def newTokenAuthHandler_def)

lemma serveHTTP_param [transfer_rule]:
  "rel_fun (=) (rel_fun (rel_registry A) (rel_fun (=) (rel_fun (rel_ah A) (rel_fun (=) (rel_fun A (rel_prod (=) (rel_prod (=) A)))))))
     copAuthHandler_serveHTTP copAuthHandler_serveHTTP"
  unfolding copAuthHandler_serveHTTP_def by transfer_prover

lemma ServeHTTP_param [transfer_rule]:
  "rel_fun (=) (rel_fun (rel_registry A) (rel_fun (=) (rel_fun (rel_ah A) (rel_fun (=) (preserving A)))))
     copAuthHandler_ServeHTTP copAuthHandler_ServeHTTP"
  unfolding copAuthHandler_ServeHTTP_def by transfer_prover

subsection \<open>The multiplexer\<close>

inductive rel_entry :: "('s \<Rightarrow> 't \<Rightarrow> bool) \<Rightarrow> 's mux_entry \<Rightarrow> 't mux_entry \<Rightarrow> bool" for A where
  handler: "rel_ah A x y \<Longrightarrow> rel_entry A (MuxHandler x) (MuxHandler y)"
| redirect: "rel_entry A (MuxRedirect url) (MuxRedirect url)"

inductive rel_routed :: "('s \<Rightarrow> 't \<Rightarrow> bool) \<Rightarrow> 's routed \<Rightarrow> 't routed \<Rightarrow> bool" for A where
  serves: "rel_ah A x y \<Longrightarrow> rel_routed A (Serve x) (Serve y)"
| moved: "rel_routed A (Moved url) (Moved url)"
| no_route: "rel_routed A NoRoute NoRoute"

abbreviation rel_mux :: "('s \<Rightarrow> 't \<Rightarrow> bool) \<Rightarrow> 's mux \<Rightarrow> 't mux \<Rightarrow> bool" where
  "rel_mux A \<equiv> list_all2 (rel_prod (=) (rel_entry A))"

lemma rel_entry_con [transfer_rule]:
  "rel_fun (rel_ah A) (rel_entry A) MuxHandler MuxHandler"
  "rel_fun (=) (rel_entry A) MuxRedirect MuxRedirect"
  "rel_fun (rel_fun (rel_ah A) B) (rel_fun (rel_fun (=) B) (rel_fun (rel_entry A) B)) case_mux_entry case_mux_entry"
  by (auto simp: rel_fun_def rel_entry.simps)

lemma rel_routed_con [transfer_rule]:
  "rel_fun (rel_ah A) (rel_routed A) Serve Serve"
  "rel_fun (=) (rel_routed A) Moved Moved"
  "rel_routed A NoRoute NoRoute"
  "rel_fun (rel_fun (rel_ah A) B) (rel_fun (rel_fun (=) B) (rel_fun B (rel_fun (rel_routed A) B))) case_routed case_routed"
  by (auto simp: rel_fun_def rel_routed.simps)

lemma is_explicit_param [transfer_rule]: "rel_fun (rel_option (rel_entry A)) (=) is_explicit is_explicit"
  by (auto simp: rel_fun_def rel_entry.simps elim!: option.rel_cases)

lemma map_of_mux [transfer_rule]: "rel_fun (rel_mux A) (rel_fun (=) (rel_option (rel_entry A))) map_of map_of"
proof (intro rel_funI)
  fix m m' k k'
  assume "rel_mux A m m'" "k = (k' :: string)"
  then show "rel_option (rel_entry A) (map_of m k) (map_of m' k')" by (induction rule: list_all2_induct) auto
qed

lemma mux_put_param [transfer_rule]: "rel_fun (=) (rel_fun (rel_entry A) (rel_fun (rel_mux A) (rel_mux A))) mux_put mux_put"
  unfolding mux_put_def by transfer_prover

lemma http_Handle_param [transfer_rule]:
  "rel_fun (=) (rel_fun (rel_ah A) (rel_fun (rel_mux A) (rel_sum (=) (rel_mux A)))) http_Handle http_Handle"
  unfolding http_Handle_def by transfer_prover

lemma mux_match_param [transfer_rule]: "rel_fun (rel_mux A) (rel_fun (=) (rel_option (rel_prod (=) (rel_entry A)))) mux_match mux_match"
proof (intro rel_funI)
  fix m m' p p'
  assume "rel_mux A m m'" "p = (p' :: string)"
  then show "rel_option (rel_prod (=) (rel_entry A)) (mux_match m p) (mux_match m' p')"
    by (induction rule: list_all2_induct) (auto split: option.split)
qed

lemma mux_Handler_param [transfer_rule]: "rel_fun (rel_mux A) (rel_fun (=) (rel_fun (=) (rel_routed A))) mux_Handler mux_Handler"
  unfolding mux_Handler_def by transfer_prover

lemma registerHandlers_param [transfer_rule]:
  fixes A :: "'s \<Rightarrow> 't \<Rightarrow> bool"
  shows "rel_fun (list_all2 (rel_prod (=) (rel_sum (=) (rel_handler A)))) (rel_fun (rel_mux A) (rel_sum (=) (rel_mux A)))
     registerHandlers registerHandlers"
proof (intro rel_funI)
  fix es :: "(string \<times> (HttpRequest \<Rightarrow> 's \<Rightarrow> HttpResponse option \<times> 's) result) list"
    and es' :: "(string \<times> (HttpRequest \<Rightarrow> 't \<Rightarrow> HttpResponse option \<times> 't) result) list" and m m'
  assume "list_all2 (rel_prod (=) (rel_sum (=) (rel_handler A))) es es'" "rel_mux A m m'"
  then show "rel_sum (=) (rel_mux A) (registerHandlers es m) (registerHandlers es' m')"
  proof (induction arbitrary: m m' rule: list_all2_induct)
    case (Cons x es y es')
    obtain p g g' where xy: "x = (p, g)" "y = (p, g')" "rel_sum (=) (rel_handler A) g g'"
      using Cons(1) by (cases x; cases y) auto
    show ?case
    proof (cases g)
      case (Inl err)
      then show ?thesis using xy Cons.IH [OF Cons.prems] by (auto elim: rel_sum.cases)
    next
      case (Inr h)
      then obtain h' where h': "g' = Inr h'" "rel_sum (=) (rel_handler A) (Inr h) (Inr h')"
        using xy(3) by (auto elim: rel_sum.cases)
      have "rel_prod (=) (rel_sum (=) (rel_ah A)) (NewAuthWrapper p (Inr h)) (NewAuthWrapper p (Inr h'))"
        using NewAuthWrapper_param [of A] h'(2) by (auto simp: rel_fun_def)
      then obtain q w w' where w: "NewAuthWrapper p (Inr h) = (q, w)" "NewAuthWrapper p (Inr h') = (q, w')" "rel_sum (=) (rel_ah A) w w'"
        by (cases "NewAuthWrapper p (Inr h)"; cases "NewAuthWrapper p (Inr h')") auto
      from w(3) show ?thesis
      proof cases
        case (1 a b)
        then show ?thesis using xy Inr h' w Cons.IH [OF Cons.prems] by simp
      next
        case (2 a b)
        have "rel_sum (=) (rel_mux A) (http_Handle q a m) (http_Handle q b m')"
          using http_Handle_param [of A] 2 Cons.prems by (auto simp: rel_fun_def)
        then show ?thesis using xy Inr h' w 2 Cons.IH by (auto elim: rel_sum.cases)
      qed
    qed
  qed simp
qed

subsection \<open>The server\<close>

definition rel_server :: "('s \<Rightarrow> 't \<Rightarrow> bool) \<Rightarrow> ('s, 'u, 'k) server \<Rightarrow> ('t, 'u, 'k) server \<Rightarrow> bool" where
  "rel_server A x y \<longleftrightarrow> sv_CFG x = sv_CFG y \<and> rel_registry A (sv_userRegistry x) (sv_userRegistry y) \<and>
     rel_option (rel_cert_ops A) (sv_certDBAccessor x) (sv_certDBAccessor y) \<and>
     rel_option (rel_option (rel_fun (=) (preserving A))) (sv_enrollSigner x) (sv_enrollSigner y) \<and>
     sv_ocspSigner x = sv_ocspSigner y \<and> sv_bccsp x = sv_bccsp y \<and> sv_tcertMgr x = sv_tcertMgr y \<and>
     rel_fun (=) (rel_sum (=) (rel_handler (rel_tstate A))) (sv_cfssl x) (sv_cfssl y)"

lemma rel_server_sel [transfer_rule]:
  "rel_fun (rel_server A) (=) sv_CFG sv_CFG"
  "rel_fun (rel_server A) (rel_registry A) sv_userRegistry sv_userRegistry"
  "rel_fun (rel_server A) (rel_option (rel_cert_ops A)) sv_certDBAccessor sv_certDBAccessor"
  "rel_fun (rel_server A) (rel_option (rel_option (rel_fun (=) (preserving A)))) sv_enrollSigner sv_enrollSigner"
  "rel_fun (rel_server A) (=) sv_ocspSigner sv_ocspSigner"
  "rel_fun (rel_server A) (=) sv_bccsp sv_bccsp"
  "rel_fun (rel_server A) (=) sv_tcertMgr sv_tcertMgr"
  "rel_fun (rel_server A) (rel_fun (=) (rel_sum (=) (rel_handler (rel_tstate A)))) sv_cfssl sv_cfssl"
  by (simp_all add: rel_fun_def rel_server_def)

lemma on_reg_param [transfer_rule]: "rel_fun (preserving A) (preserving (rel_tstate A)) on_reg on_reg"
  unfolding on_reg_def by transfer_prover

lemma on_reg_rel:
  "rel_prod (=) A (f (ts_reg x)) (g (ts_reg y)) \<Longrightarrow> rel_tstate A x y \<Longrightarrow> rel_prod (=) (rel_tstate A) (on_reg f x) (on_reg g y)"
  by (cases "f (ts_reg x)"; cases "g (ts_reg y)") (simp add: on_reg_def rel_tstate_def)

lemma server_registry_param [transfer_rule]: "rel_fun (rel_registry A) (rel_registry (rel_tstate A)) server_registry server_registry"
  unfolding rel_fun_def rel_registry_def server_registry_def
  by (intro allI impI conjI; elim conjE; hypsubst?; simp only: UserRegistry.select_convs)
    (rule on_reg_rel, auto simp: rel_tstate_def)+

lemma handler_on_reg_param [transfer_rule]:
  "rel_fun (rel_sum (=) (rel_handler A)) (rel_sum (=) (rel_handler (rel_tstate A))) handler_on_reg handler_on_reg"
  unfolding handler_on_reg_def by transfer_prover

lemma local_Sign_param [transfer_rule]:
  "rel_fun (=) (rel_fun (rel_option (rel_fun (=) (preserving A))) (rel_fun (=) (preserving A))) local_Sign local_Sign"
  unfolding local_Sign_def by transfer_prover

lemma enroll_signer_param [transfer_rule]: "rel_fun (=) (rel_fun (rel_server A) (rel_signer A)) enroll_signer enroll_signer"
  unfolding enroll_signer_def by transfer_prover

lemma needs_signer_param [transfer_rule]:
  "rel_fun (rel_server A) (rel_fun (=) (rel_sum (=) (rel_handler (rel_tstate A)))) needs_signer needs_signer"
proof (intro rel_funI)
  fix sv sv' p p'
  assume "rel_server A sv sv'" "p = (p' :: string)"
  then have "sv_enrollSigner sv = None \<longleftrightarrow> sv_enrollSigner sv' = None"
    "rel_sum (=) (rel_handler (rel_tstate A)) (sv_cfssl sv p) (sv_cfssl sv' p)"
    using rel_option_None1 rel_option_None2 by (auto simp: rel_server_def rel_fun_def)
  with \<open>p = p'\<close> show "rel_sum (=) (rel_handler (rel_tstate A)) (needs_signer sv p) (needs_signer sv' p')"
    by (simp add: needs_signer_def)
qed

lemma NewTCertHandler_param [transfer_rule]:
  "rel_fun (=) (rel_fun (rel_registry A) (rel_fun (=) (rel_fun (=) (rel_sum (=) (rel_prod (rel_handler (rel_tstate A)) (=)))))) NewTCertHandler NewTCertHandler"
  unfolding NewTCertHandler_def initTCertHandler_def by transfer_prover

lemma endpoints_param [transfer_rule]:
  "rel_fun (=) (rel_fun (rel_server A) (list_all2 (rel_prod (=) (rel_sum (=) (rel_handler (rel_tstate A)))))) endpoints endpoints"
  unfolding endpoints_def NewRegisterHandler_def NewEnrollHandler_def NewReenrollHandler_def newSignHandler_def NewRevokeHandler_def
  by transfer_prover

lemma serve_mux_param [transfer_rule]:
  "rel_fun (=) (rel_fun (rel_server A) (rel_fun (rel_mux (rel_tstate A)) (rel_fun (=) (rel_fun (=) (preserving (rel_tstate A)))))) serve_mux serve_mux"
  unfolding serve_mux_def by transfer_prover

lemma serve_param [transfer_rule]:
  "rel_fun (=) (rel_fun (rel_server A) (rel_fun (=) (rel_fun (=) (preserving (rel_tstate A))))) serve serve"
  unfolding serve_def by transfer_prover

end
