(* ===== verification/Server_Concurrent.thy ===== *)
theory Server_Concurrent
  imports Server_System Server_Parametric
begin

text \<open>
  Requests that run at the same time.  The server answers every request in a goroutine of its own and
  takes no lock, so the SQL statements of one request may run between those of another; only the single
  statement is atomic.

  The handlers are functions on any state with a registry, so a request among others is the same \<open>serve\<close>
  on a state that also holds what the others will do: a list with one entry for each statement of the
  request, applied to the database just before that statement.  What the others may do is any sequence of
  the statements the handlers run.
\<close>

subsection \<open>A database shared with other requests\<close>

type_synonym 'h shared = "'h \<times> ('h \<Rightarrow> 'h) list"

fun interfered :: "('h \<Rightarrow> 'a \<times> 'h) \<Rightarrow> 'h shared \<Rightarrow> 'a \<times> 'h shared" where
  "interfered f (h, []) = (case f h of (a, h) \<Rightarrow> (a, h, []))"
| "interfered f (h, e # es) = (case f (e h) of (a, h) \<Rightarrow> (a, h, es))"

definition shared_registry :: "('h, 'u) UserRegistry \<Rightarrow> ('h shared, 'u) UserRegistry" where
  "shared_registry reg =
     \<lparr>reg_GetUser = (\<lambda>n as. interfered (reg_GetUser reg n as)), reg_InsertUser = (\<lambda>u. interfered (reg_InsertUser reg u)),
      reg_UpdateUser = (\<lambda>u. interfered (reg_UpdateUser reg u)), reg_DeleteUser = (\<lambda>n. interfered (reg_DeleteUser reg n)),
      reg_UpdateField = (\<lambda>n f v. interfered (reg_UpdateField reg n f v)), reg_GetField = (\<lambda>n f. interfered (reg_GetField reg n f)),
      reg_GetGroup = (\<lambda>g. interfered (reg_GetGroup reg g)), reg_GetRootGroup = interfered (reg_GetRootGroup reg),
      reg_InsertGroup = (\<lambda>g p. interfered (reg_InsertGroup reg g p)), reg_DeleteGroup = (\<lambda>g. interfered (reg_DeleteGroup reg g)),
      usr_GetName = usr_GetName reg, usr_Login = (\<lambda>u p. interfered (usr_Login reg u p)),
      usr_GetAffiliationPath = usr_GetAffiliationPath reg, usr_GetAttribute = usr_GetAttribute reg\<rparr>"

text \<open>Revoking the certificates of a user is two statements, the only operation that is more than one.\<close>

definition select_good :: "string \<Rightarrow> CertRecord list dbm" where
  "select_good n = cert_checked (sql_select (select_certs (\<lambda>_. by_id_good n)))"

definition revoke_good :: "string \<Rightarrow> int \<Rightarrow> sql_result dbm" where
  "revoke_good n reason = cert_checked (sql_exec (update_certs_sql (by_id_good n) reason))"

definition shared_RevokeCertificatesByID ::
  "string \<Rightarrow> int \<Rightarrow> sqldb option shared \<Rightarrow> CertRecord list result \<times> sqldb option shared" where
  "shared_RevokeCertificatesByID n reason s = (case interfered (select_good n) s of
     (Inl e, s) \<Rightarrow> (Inl e, s)
   | (Inr crs, s) \<Rightarrow> (case interfered (revoke_good n reason) s of
       (Inl e, s) \<Rightarrow> (Inl e, s)
     | (Inr _, s) \<Rightarrow> (Inr crs, s)))"

definition shared_cert_ops :: "sqldb option shared cert_ops" where
  "shared_cert_ops =
     \<lparr>co_RevokeCertificate = (\<lambda>serial akid reason. interfered (cfssl_RevokeCertificate serial akid reason)),
      co_RevokeCertificatesByID = shared_RevokeCertificatesByID\<rparr>"

definition shared_insert :: "x509_env \<Rightarrow> CertRecord \<Rightarrow> sqldb option shared \<Rightarrow> unit result \<times> sqldb option shared" where
  "shared_insert X cr = interfered (cert_InsertCertificate X cr)"

lemma RevokeCertificatesByID_alone:
  "shared_RevokeCertificatesByID n reason (h, []) =
     (case cert_RevokeCertificatesByID n reason h of (r, h) \<Rightarrow> (r, h, []))"
proof (cases h)
  case (Some d)
  obtain q d1 where q: "sql_select (select_certs (\<lambda>_. by_id_good n)) d = (q, d1)"
    by (cases "sql_select (select_certs (\<lambda>_. by_id_good n)) d")
  obtain r d2 where r: "sql_exec (update_certs_sql (by_id_good n) reason) d1 = (r, d2)"
    by (cases "sql_exec (update_certs_sql (by_id_good n) reason) d1")
  show ?thesis
    by (cases q; cases r) (simp_all add: Some q r shared_RevokeCertificatesByID_def cert_RevokeCertificatesByID_def select_good_def
        revoke_good_def cert_checked_def cert_checkDB_def)
qed (simp add: shared_RevokeCertificatesByID_def cert_RevokeCertificatesByID_def select_good_def cert_checked_def cert_checkDB_def)

text \<open>What other requests may do between two statements.\<close>

inductive others :: "x509_env \<Rightarrow> (sqldb option \<Rightarrow> sqldb option) \<Rightarrow> bool" for X where
  idle: "others X (\<lambda>h. h)"
| before: "others X e \<Longrightarrow> others X e' \<Longrightarrow> others X (\<lambda>h. e' (e h))"
| GetUser: "others X (\<lambda>h. snd (Accessor_GetUser n ks h))"
| GetGroup: "others X (\<lambda>h. snd (Accessor_GetGroup g h))"
| Login: "others X (\<lambda>h. snd (DBUser_Login u p h))"
| InsertUser: "others X (\<lambda>h. snd (Accessor_InsertUser u h))"
| disable: "others X (\<lambda>h. snd (Accessor_UpdateField n state (GInt (-1)) h))"
| setMax: "others X (\<lambda>h. snd (Accessor_UpdateField n maxEnrollments (GInt v) h))"
| RevokeCertificate: "others X (\<lambda>h. snd (cfssl_RevokeCertificate serial akid reason h))"
| select_good: "others X (\<lambda>h. snd (select_good n h))"
| revoke_good: "others X (\<lambda>h. snd (revoke_good n reason h))"
| InsertCertificate: "others X (\<lambda>h. snd (cert_InsertCertificate X cr h))"

text \<open>
  The states a server reaches when each request runs among others.  The key cache and the random values
  may have been changed in any way when a request starts.
\<close>

definition with_reg :: "'t \<Rightarrow> ('s, 'k) tcert_state \<Rightarrow> ('t, 'k) tcert_state" where
  "with_reg h st = \<lparr>ts_reg = h, ts_tree = ts_tree st, ts_rand = ts_rand st\<rparr>"

inductive interleaved ::
  "x509_env \<Rightarrow> 'k request_env set \<Rightarrow> (sqldb option shared, DBUser, 'k) server \<Rightarrow>
   (sqldb option, 'k) tcert_state \<Rightarrow> (sqldb option, 'k) tcert_state \<Rightarrow> bool" for X Ws sv st where
  start: "interleaved X Ws sv st st"
| meanwhile: "interleaved X Ws sv st st' \<Longrightarrow> others X e \<Longrightarrow> ts_reg st'' = e (ts_reg st') \<Longrightarrow> interleaved X Ws sv st st''"
| request: "interleaved X Ws sv st st' \<Longrightarrow> W \<in> Ws \<Longrightarrow> \<forall>e \<in> set es. others X e \<Longrightarrow>
    serve W sv path r (with_reg (ts_reg st', es) st') = (ans, st'') \<Longrightarrow>
    interleaved X Ws sv st (with_reg (fst (ts_reg st'')) st'')"

abbreviation on_shared_database :: "x509_env \<Rightarrow> (sqldb option shared, DBUser, 'k) server \<Rightarrow> bool" where
  "on_shared_database X sv \<equiv> on_backend (shared_registry db_registry) shared_cert_ops (shared_insert X) sv \<and>
     cfssl_uses (shared_insert X) sv"

subsection \<open>What every interleaving keeps\<close>

definition all_keep :: "('h \<Rightarrow> 'h \<Rightarrow> bool) \<Rightarrow> ('h \<Rightarrow> 'h) list \<Rightarrow> bool" where
  "all_keep R es \<longleftrightarrow> (\<forall>e \<in> set es. \<forall>h. R h (e h))"

definition shared_rel :: "('h \<Rightarrow> 'h \<Rightarrow> bool) \<Rightarrow> 'h shared \<Rightarrow> 'h shared \<Rightarrow> bool" where
  "shared_rel R s s' \<longleftrightarrow> (all_keep R (snd s) \<longrightarrow> all_keep R (snd s') \<and> R (fst s) (fst s'))"

lemma interfered_rel:
  assumes "\<And>a b c. R a b \<Longrightarrow> R b c \<Longrightarrow> R a c" "\<And>h. R h (snd (f h))"
  shows "shared_rel R s (snd (interfered f s))"
proof (cases s)
  case (Pair h es)
  show ?thesis
  proof (cases es)
    case Nil
    then show ?thesis using Pair assms(2) [of h] by (cases "f h") (simp add: shared_rel_def all_keep_def)
  next
    case (Cons e es')
    then show ?thesis using Pair assms(1) [of h "e h"] assms(2) [of "e h"]
      by (cases "f (e h)") (simp add: shared_rel_def all_keep_def)
  qed
qed

lemma shared_rel_trans:
  "(\<And>a b c. R a b \<Longrightarrow> R b c \<Longrightarrow> R a c) \<Longrightarrow> shared_rel R s t \<Longrightarrow> shared_rel R t u \<Longrightarrow> shared_rel R s u"
  unfolding shared_rel_def by blast

context store_rel
begin

lemma lifted_good: "lifted h (snd (select_good n h))" "lifted h (snd (revoke_good n reason h))"
proof -
  have "S d (snd (sql_select q d))" for q :: "sqldb \<Rightarrow> go_error + CertRecord list" and d
    by (cases "sql_select q d") (auto intro: same sql_select_same)
  then show "lifted h (snd (select_good n h))" unfolding select_good_def by (rule lifted_cert)
  show "lifted h (snd (revoke_good n reason h))"
    unfolding revoke_good_def by (rule lifted_cert, rule exec, erule updateCerts)
qed

lemma lifted_others: "others X e \<Longrightarrow> lifted h (e h)"
  by (induction arbitrary: h rule: others.induct)
    (auto intro: lifted_trans simp: lifted_refl lifted_reads lifted_Login lifted_InsertUser lifted_UpdateField
      lifted_RevokeCertificate lifted_good lifted_InsertCertificate)

lemma all_keep_others: "\<forall>e \<in> set es. others X e \<Longrightarrow> all_keep lifted es"
  unfolding all_keep_def using lifted_others by blast

lemma shared_op: "(\<And>h. lifted h (snd (f h))) \<Longrightarrow> shared_rel lifted s (snd (interfered f s))"
  by (rule interfered_rel) (auto intro: lifted_trans)

lemma shared_trans: "shared_rel lifted s t \<Longrightarrow> shared_rel lifted t u \<Longrightarrow> shared_rel lifted s u"
  by (rule shared_rel_trans) (auto intro: lifted_trans)

lemma shared_refl: "shared_rel lifted s s"
  by (simp add: shared_rel_def lifted_refl)

lemma shared_revoke_all: "shared_rel lifted s (snd (shared_RevokeCertificatesByID n reason s))"
proof -
  obtain q s1 where q: "interfered (select_good n) s = (q, s1)" by (cases "interfered (select_good n) s")
  obtain r s2 where r: "interfered (revoke_good n reason) s1 = (r, s2)" by (cases "interfered (revoke_good n reason) s1")
  have "shared_rel lifted s s1" "shared_rel lifted s1 s2"
    using shared_op [of "select_good n" s] shared_op [of "revoke_good n reason" s1] lifted_good q r by simp_all
  with q r shared_trans show ?thesis by (auto simp: shared_RevokeCertificatesByID_def split: sum.split)
qed

end

sublocale store_rel \<subseteq> shared: request_rel "shared_registry db_registry" shared_cert_ops "shared_insert X" "shared_rel lifted" for X
proof (unfold_locales, goal_cases)
  case (5 h n p)
  show ?case by (rule login_rel) (auto intro: shared_trans intro!: shared_op simp: shared_registry_def lifted_reads lifted_Login)
next
  case (6 h cfg rnd n t g as opt)
  show ?case
    by (rule registerUserID_rel)
      (auto intro: shared_trans intro!: shared_op simp: shared_registry_def lifted_reads lifted_InsertUser lifted_UpdateField)
qed (auto intro: shared_trans intro!: shared_op simp: shared_refl shared_registry_def shared_cert_ops_def shared_insert_def lifted_reads
    lifted_UpdateField lifted_RevokeCertificate shared_revoke_all lifted_InsertCertificate)

context store_rel
begin

lemma interleaved_rel:
  assumes "interleaved X Ws sv st st'" "on_shared_database X sv"
  shows "lifted (ts_reg st) (ts_reg st')"
  using assms(1)
proof induction
  case (meanwhile st' e st'')
  then show ?case using lifted_others lifted_trans by metis
next
  case (request st' W es path r ans st'')
  have "shared_rel lifted (ts_reg st', es) (ts_reg st'')"
    using shared.serve [of X sv W path r "with_reg (ts_reg st', es) st'"] assms(2) request(4) by (simp add: with_reg_def)
  with all_keep_others [OF request(3)] have "lifted (ts_reg st') (fst (ts_reg st''))" by (simp add: shared_rel_def)
  with request.IH lifted_trans show ?case by (simp add: with_reg_def)
qed (rule lifted_refl)

end

text \<open>
  C5. Revocation is permanent, also among concurrent requests: whatever requests the server handles, with
  whatever statements of others between their statements, and whatever statements fail, a certificate
  that is revoked in the database stays in the table, under the same enrollment ID, and stays revoked.
\<close>

theorem revocation_permanent:
  assumes "interleaved X Ws sv st st'" "on_shared_database X sv"
    and "ts_reg st = Some d" "c \<in> set (certificates d)" "cr_Status c = ''revoked''"
  shows "\<exists>d' c'. ts_reg st' = Some d' \<and> c' \<in> set (certificates d') \<and> cert_key c' = cert_key c \<and>
    cr_ID c' = cr_ID c \<and> cr_Status c' = ''revoked''"
proof -
  have "revocations.lifted (Some d) (ts_reg st')" using revocations.interleaved_rel [OF assms(1,2)] assms(3) by simp
  then obtain d' where "ts_reg st' = Some d'" "certs_kept d d'" by (auto simp: revocations.lifted_def option_rel_Some1)
  with assms(4,5) show ?thesis unfolding certs_kept_def by blast
qed

text \<open>
  C6. No request removes, reorders or takes over an account, also among concurrent requests: in every
  state they reach the users table starts with the rows it had, with their names, passwords, types, groups
  and attributes; requests only append rows and change login counts and limits.
\<close>

theorem accounts_permanent:
  assumes "interleaved X Ws sv st st'" "on_shared_database X sv" "ts_reg st = Some d"
  shows "\<exists>d' rs. ts_reg st' = Some d' \<and> map account (users d') = map account (users d) @ rs"
proof -
  have "accounts.lifted (Some d) (ts_reg st')" using accounts.interleaved_rel [OF assms(1,2)] assms(3) by simp
  then show ?thesis by (auto simp: accounts.lifted_def option_rel_Some1 accounts_kept_def)
qed

subsection \<open>A request on its own\<close>

definition shared_server ::
  "(string \<Rightarrow> (HttpRequest \<Rightarrow> (sqldb option shared, 'k) tcert_state \<Rightarrow> HttpResponse option \<times> (sqldb option shared, 'k) tcert_state) result) \<Rightarrow>
   (sqldb option, DBUser, 'k) server \<Rightarrow> (sqldb option shared, DBUser, 'k) server" where
  "shared_server cf sv =
     \<lparr>sv_CFG = sv_CFG sv, sv_userRegistry = shared_registry (sv_userRegistry sv),
      sv_certDBAccessor = map_option (\<lambda>_. shared_cert_ops) (sv_certDBAccessor sv),
      sv_enrollSigner = map_option (map_option (\<lambda>ins cr. interfered (ins cr))) (sv_enrollSigner sv),
      sv_ocspSigner = sv_ocspSigner sv, sv_bccsp = sv_bccsp sv, sv_tcertMgr = sv_tcertMgr sv, sv_cfssl = cf\<rparr>"

definition alone :: "('s, 'k) tcert_state \<Rightarrow> ('s shared, 'k) tcert_state" where
  "alone st = with_reg (ts_reg st, []) st"

text \<open>CFSSL's handlers on the shared database, when nothing interferes.\<close>

definition cfssl_alone ::
  "(string \<Rightarrow> (HttpRequest \<Rightarrow> ('s shared, 'k) tcert_state \<Rightarrow> HttpResponse option \<times> ('s shared, 'k) tcert_state) result) \<Rightarrow>
   (string \<Rightarrow> (HttpRequest \<Rightarrow> ('s, 'k) tcert_state \<Rightarrow> HttpResponse option \<times> ('s, 'k) tcert_state) result) \<Rightarrow> bool" where
  "cfssl_alone cf f \<longleftrightarrow> (\<forall>p. case f p of
     Inl e \<Rightarrow> cf p = Inl e
   | Inr h \<Rightarrow> (case cf p of Inl e \<Rightarrow> False | Inr h' \<Rightarrow> \<forall>r st. h' r (alone st) = map_prod id alone (h r st)))"

definition single :: "'h \<Rightarrow> 'h shared \<Rightarrow> bool" where
  "single h s \<longleftrightarrow> s = (h, [])"

lemma rel_tstate_single: "rel_tstate single st s \<longleftrightarrow> s = alone st"
  by (cases st; cases s) (auto simp: rel_tstate_def single_def alone_def with_reg_def)

lemma interfered_single: "single h s \<Longrightarrow> rel_prod (=) single (f h) (interfered f s)"
  by (cases "f h") (simp add: single_def)

lemma single_registry: "rel_registry single reg (shared_registry reg)"
  by (auto simp: rel_registry_def shared_registry_def rel_fun_def intro!: interfered_single)

lemma single_cert_ops: "rel_cert_ops single db_cert_ops shared_cert_ops"
  unfolding rel_cert_ops_def rel_fun_def db_cert_ops_def shared_cert_ops_def
  by (auto intro!: interfered_single) (auto simp: single_def RevokeCertificatesByID_alone prod.rel_map split: prod.split)

lemma single_server:
  fixes sv :: "(sqldb option, DBUser, 'k) server"
  assumes "on_database X sv" "cfssl_alone cf (sv_cfssl sv)"
  shows "rel_server single sv (shared_server cf sv)"
proof -
  have "rel_option (rel_cert_ops single) (sv_certDBAccessor sv) (map_option (\<lambda>_. shared_cert_ops) (sv_certDBAccessor sv))"
    using assms(1) single_cert_ops by (cases "sv_certDBAccessor sv") (auto simp: on_backend_def)
  moreover have "rel_option (rel_option (rel_fun (=) (preserving single))) (sv_enrollSigner sv)
      (map_option (map_option (\<lambda>ins cr. interfered (ins cr))) (sv_enrollSigner sv))"
    by (auto simp: option.rel_map rel_fun_def intro!: option.rel_refl interfered_single)
  moreover have "rel_fun (=) (rel_sum (=) (rel_handler (rel_tstate single))) (sv_cfssl sv) cf"
  proof (intro rel_funI, hypsubst)
    fix p
    have h: "rel_prod (=) (rel_tstate single) x (map_prod id alone x)" for x :: "HttpResponse option \<times> (sqldb option, 'k) tcert_state"
      by (cases x) (simp add: rel_tstate_single)
    show "rel_sum (=) (rel_handler (rel_tstate single)) (sv_cfssl sv p) (cf p)"
      using assms(2) [unfolded cfssl_alone_def, rule_format, of p]
      by (cases "sv_cfssl sv p"; cases "cf p") (simp_all add: rel_fun_def rel_tstate_single h)
  qed
  ultimately show ?thesis by (simp add: rel_server_def shared_server_def single_registry)
qed

lemma serve_single:
  assumes "on_database X sv" "cfssl_alone cf (sv_cfssl sv)"
  shows "serve W (shared_server cf sv) path r (alone st) = map_prod id alone (serve W sv path r st)"
proof -
  have "rel_prod (=) (rel_tstate single) (serve W sv path r st) (serve W (shared_server cf sv) path r (alone st))"
    by (rule serve_param [THEN rel_funD, THEN rel_funD, THEN rel_funD, THEN rel_funD, THEN rel_funD])
      (simp_all add: single_server [OF assms] rel_tstate_single)
  then show ?thesis
    by (cases "serve W sv path r st"; cases "serve W (shared_server cf sv) path r (alone st)") (simp add: rel_tstate_single)
qed

text \<open>
  Serving requests one at a time is one of the ways of serving them concurrently: a request that no
  other interferes with gets the same answer and leaves the same state as in the sequential server, and
  every state the sequential server reaches is reached by interleaved requests.
\<close>

theorem sequential_is_interleaved:
  assumes "reachable Ws sv st st'" "on_database X sv" "cfssl_alone cf (sv_cfssl sv)"
  shows "interleaved X Ws (shared_server cf sv) st st' \<and>
    (\<forall>W path r. serve W (shared_server cf sv) path r (alone st') = map_prod id alone (serve W sv path r st'))"
proof
  show "interleaved X Ws (shared_server cf sv) st st'"
    using assms(1)
  proof induction
    case (request st' W path r ans st'')
    have "serve W (shared_server cf sv) path r (with_reg (ts_reg st', []) st') = (ans, alone st'')"
      using serve_single [OF assms(2,3), of W path r st'] request(3) by (simp add: alone_def)
    from interleaved.request [OF request.IH request(2) _ this] show ?case
      by (cases st'') (simp add: alone_def with_reg_def)
  qed (rule interleaved.start)
qed (simp add: serve_single [OF assms(2,3)])

subsection \<open>Two registrations of one name\<close>

text \<open>
  C38. The existence check of a registration and its insert are two statements.  On the drivers without a
  primary key, a registration that runs between them under the same name is not noticed: both callers are
  told they succeeded and get a secret, the table holds the name twice, and from then on no login under it
  succeeds, with either secret.
\<close>

theorem registration_race:
  assumes "faults d = []" "driver d \<noteq> MySQL" "lookup_user d n = None" "0 \<le> c_MaxEnrollments cfg"
  shows "\<exists>d'. fst (Register_registerUserID db_registry cfg rnd' n t' g' as' [] (Some d)) = Inr rnd' \<and>
    Register_registerUserID (shared_registry db_registry) cfg rnd n t g as []
      (Some d, [\<lambda>h. h, \<lambda>h. snd (Register_registerUserID db_registry cfg rnd' n t' g' as' [] h)]) = (Inr rnd, Some d', []) \<and>
    (\<forall>p. \<exists>e. fst (login_attempt n p (Some d')) = Inl e)"
proof -
  let ?u = "\<lparr>ui_Name = n, ui_Pass = rnd, ui_Type = t, ui_Group = g, ui_Attributes = as\<rparr>"
  let ?other = "registered cfg \<lparr>ui_Name = n, ui_Pass = rnd', ui_Type = t', ui_Group = g', ui_Attributes = as'\<rparr>"
  let ?d1 = "d\<lparr>users := users d @ [?other]\<rparr>"
  let ?d2 = "?d1\<lparr>users := users ?d1 @ [user_record ?u]\<rparr>"
  let ?f = "\<lambda>r. r\<lparr>ur_MaxEnrollments := c_MaxEnrollments cfg\<rparr>"
  let ?d3 = "?d2\<lparr>users := update_rows (\<lambda>r. ur_Name r = n) ?f (users ?d2)\<rparr>"
  have other: "Register_registerUserID db_registry cfg rnd' n t' g' as' [] (Some d) = (Inr rnd', Some ?d1)"
    using registerUserID_no_faults [OF assms(1,3), of rnd' "[]" rnd'] by simp
  have get: "Accessor_GetUser n [] (Some d) = (Inl ErrNoRows, Some d)" using assms(1,3) by (simp add: GetUser_no_faults)
  have ins: "Accessor_InsertUser ?u (Some ?d1) = (Inr (), Some ?d2)"
    using InsertUser_no_faults [of ?d1 ?u] assms(1,2) by simp
  have upd: "Accessor_UpdateField n maxEnrollments (GInt (c_MaxEnrollments cfg)) (Some ?d2) = (Inr (), Some ?d3)"
    using assms(1) by (intro UpdateField_no_faults) simp
  have run: "Register_registerUserID (shared_registry db_registry) cfg rnd n t g as []
      (Some d, [\<lambda>h. h, \<lambda>h. snd (Register_registerUserID db_registry cfg rnd' n t' g' as' [] h)]) = (Inr rnd, Some ?d3, [])"
    unfolding Register_registerUserID_def [of "shared_registry _"] using get ins upd other by (simp add: shared_registry_def)
  have none: "filter (\<lambda>r. ur_Name r = n) (users d) = []"
    using assms(3) by (auto simp: lookup_user_None filter_empty_conv)
  have "filter (\<lambda>r. ur_Name r = n) (users ?d3) = map ?f (filter (\<lambda>r. ur_Name r = n) (users ?d2))"
    by (simp add: filter_update_rows)
  also have "\<dots> = [?f ?other, ?f (user_record ?u)]" using none by (simp add: registered_def user_record_def)
  finally have "\<exists>e. fst (login_attempt n p (Some ?d3)) = Inl e" for p
    using assms by (intro duplicate_user_locked_out [of ?d3 n "?f ?other" "?f (user_record ?u)" "[]"]) simp_all
  with run show ?thesis by (intro exI [of _ ?d3] conjI allI) (simp_all only: other fst_conv)
qed

subsection \<open>Instances\<close>

definition demo_shared :: "(sqldb option shared, DBUser, string) server" where
  "demo_shared = shared_server (\<lambda>_. Inr ok_handler) demo_server"

lemma demo_on_shared: "on_shared_database demo_x509 demo_shared" "cfssl_alone (\<lambda>_. Inr ok_handler) (sv_cfssl demo_server)"
proof -
  have "on_backend (shared_registry db_registry) shared_cert_ops (shared_insert demo_x509) demo_shared"
    by (auto simp: on_backend_def demo_shared_def shared_server_def demo_server_def shared_insert_def)
  moreover have "cfssl_uses (shared_insert demo_x509) demo_shared"
    unfolding cfssl_uses_def demo_shared_def shared_server_def by (auto simp: ok_handler_def intro: exI [of _ "[]"])
  ultimately show "on_shared_database demo_x509 demo_shared" ..
  show "cfssl_alone (\<lambda>_. Inr ok_handler) (sv_cfssl demo_server)"
    by (simp add: cfssl_alone_def demo_server_def ok_handler_def)
qed

text \<open>A revocation during which another request registers a user.\<close>

definition demo_meanwhile :: "sqldb option \<Rightarrow> sqldb option" where
  "demo_meanwhile h = snd (Accessor_InsertUser demo_info h)"

definition demo_interleaving :: "(sqldb option, string) tcert_state \<Rightarrow> (sqldb option, string) tcert_state" where
  "demo_interleaving st = (let st' = snd (serve demo_renv demo_shared (wrappedPath ''revoke'') demo_rv
     (with_reg (ts_reg st, [demo_meanwhile]) st)) in with_reg (fst (ts_reg st')) st')"

lemma demo_interleaving: "interleaved demo_x509 {demo_renv} demo_shared st (demo_interleaving st)"
proof -
  let ?x = "serve demo_renv demo_shared (wrappedPath ''revoke'') demo_rv (with_reg (ts_reg st, [demo_meanwhile]) st)"
  have "\<forall>e \<in> set [demo_meanwhile]. others demo_x509 e"
    using others.InsertUser [of demo_x509 demo_info] by (simp add: demo_meanwhile_def [abs_def])
  moreover have "?x = (fst ?x, snd ?x)" by simp
  ultimately show ?thesis unfolding demo_interleaving_def Let_def by (rule interleaved.request [OF interleaved.start, rotated]) simp
qed

theorem revocation_permanent_witness:
  "\<exists>d' c'. ts_reg (demo_interleaving (demo_tstate\<lparr>ts_reg := Some (demo_rvdb\<lparr>certificates := [demo_cert\<lparr>cr_Status := ''revoked''\<rparr>]\<rparr>)\<rparr>)) = Some d' \<and>
    c' \<in> set (certificates d') \<and> cert_key c' = cert_key demo_cert \<and> cr_Status c' = ''revoked''"
proof -
  let ?c = "demo_cert\<lparr>cr_Status := ''revoked''\<rparr>"
  let ?d = "demo_rvdb\<lparr>certificates := [?c]\<rparr>"
  have "\<exists>d' c'. ts_reg (demo_interleaving (demo_tstate\<lparr>ts_reg := Some ?d\<rparr>)) = Some d' \<and> c' \<in> set (certificates d') \<and>
      cert_key c' = cert_key ?c \<and> cr_ID c' = cr_ID ?c \<and> cr_Status c' = ''revoked''"
    by (rule revocation_permanent [OF demo_interleaving demo_on_shared(1), of _ ?d]) simp_all
  then show ?thesis unfolding cert_key_def by auto
qed

theorem accounts_permanent_witness:
  "\<exists>d' rs. ts_reg (demo_interleaving (demo_tstate\<lparr>ts_reg := Some demo_rvdb\<rparr>)) = Some d' \<and> map account (users d') = map account (users demo_rvdb) @ rs"
  using accounts_permanent [OF demo_interleaving demo_on_shared(1), of "demo_tstate\<lparr>ts_reg := Some demo_rvdb\<rparr>"] by simp

theorem sequential_is_interleaved_witness: "interleaved demo_x509 {demo_renv} demo_shared demo_tstate (demo_run demo_tstate)"
  unfolding demo_shared_def
  by (rule sequential_is_interleaved [OF demo_run_reachable demo_on_database(1) demo_on_shared(2), THEN conjunct1])

theorem registration_race_witness:
  "\<exists>d'. fst (Register_registerUserID db_registry demo_cfg ''two'' ''u'' ''client'' ''bank'' [] [] (Some demo_db)) = Inr ''two'' \<and>
    Register_registerUserID (shared_registry db_registry) demo_cfg ''one'' ''u'' ''client'' ''bank'' [] []
      (Some demo_db, [\<lambda>h. h, \<lambda>h. snd (Register_registerUserID db_registry demo_cfg ''two'' ''u'' ''client'' ''bank'' [] [] h)])
      = (Inr ''one'', Some d', []) \<and>
    (\<forall>p. \<exists>e. fst (login_attempt ''u'' p (Some d')) = Inl e)"
  by (rule registration_race) (simp_all add: demo_db_def demo_user_def lookup_user_def demo_cfg_def)

end
