(* ===== verification/Spec2Isabelle.thy ===== *)
theory Spec2Isabelle
  imports Cli_Session Server_Attacks Registry_Spec Client_Api Server_Concurrent
begin

text \<open>
  A verification of Fabric COP, the certificate authority for Hyperledger Fabric under \<^verbatim>\<open>src/\<close>.

  \<^bold>\<open>The program.\<close>  One binary, \<^verbatim>\<open>cop\<close> (\<^verbatim>\<open>cli/cop.go\<close>), is server and client.  The server
  (\<^verbatim>\<open>cli/server/\<close>) reads a configuration, opens or creates a database of users, groups and certificates
  or connects to an LDAP directory, and serves endpoints over HTTP: \<^verbatim>\<open>register\<close>, \<^verbatim>\<open>enroll\<close>, \<^verbatim>\<open>reenroll\<close>, \<^verbatim>\<open>revoke\<close>,
  \<^verbatim>\<open>tcert\<close> and those of CFSSL, each behind an authentication wrapper.  Certificates are signed by CFSSL, which
  stores them through COP's accessor.  Transaction certificates (\<^verbatim>\<open>lib/tcert/\<close>) are derived in batches
  from an enrollment certificate.  The client library (\<^verbatim>\<open>lib/\<close>) and the commands over it (\<^verbatim>\<open>cli/client/\<close>) make
  the requests and keep key and certificate in files.

  \<^bold>\<open>Conventions.\<close>  A Go struct is a record, its fields with a prefix; a function is a definition with the
  Go name, a method has its receiver's type in front (\<open>Accessor_GetUser\<close>).  An error is the left value
  of a sum (\<open>go_error\<close>, theory \<open>Cop_Error\<close>); a panic and \<^verbatim>\<open>log.Fatal\<close> are the error \<open>GoPanic\<close>, and the code that
  would not run after them does not run in the model.  State is passed explicitly.  The database
  (\<open>Sql_Store\<close>) and the operating system (\<open>Os_World\<close>) carry a schedule of failures: each statement or call
  consumes one entry, so that a theorem about all states covers every pattern of failures, and one
  that asks for an empty schedule speaks of runs in which nothing fails.  Code outside the repository,
  and the parts of CFSSL that only parse or sign, are parameters collected in records (\<open>x509_env\<close>,
  \<open>sig_env\<close>, \<open>auth_env\<close>, \<open>request_env\<close>, \<open>client_env\<close>, \<open>crypto_env\<close> and others); what is asked of them is a
  named hypothesis such as \<open>sig_correct\<close>, and the witnesses instantiate them.

  \<^bold>\<open>The theories,\<close> from the bottom up.

  Foundations.  \<open>Prelude\<close>: bytes, strings, \<^verbatim>\<open>strings\<close> and \<^verbatim>\<open>strconv\<close>, and the collections of rewrite rules.
  \<open>Go_Json\<close>, \<open>Go_Base64\<close>, \<open>Go_Net\<close>, \<open>Go_Flag\<close>: the printers and parsers of Go's packages, with their round
  trips.  \<open>Cop_Error\<close>: \<^verbatim>\<open>api/error.go\<close>.  \<open>Idp_Types\<close>, \<open>Json_Codec\<close>: the request types of \<^verbatim>\<open>idp/\<close> and
  \<^verbatim>\<open>api/\<close> and their JSON.  \<open>Sign_Request\<close>: the signing request of CFSSL that enrollment sends and the server
  decodes, with the CSR information and object identifiers inside it.  \<open>Util_Misc\<close>, \<open>Os_World\<close>: \<^verbatim>\<open>util/util.go\<close>.
  \<open>Tls_Config\<close>: \<^verbatim>\<open>lib/tls/\<close>, which the client library and the MySQL constructor use.  \<open>X509_Env\<close>, \<open>Auth_Token\<close>: certificates and
  the tokens of \<^verbatim>\<open>util/util.go\<close>.  \<open>Json_Map\<close>, \<open>Crypto_Util\<close>: \<^verbatim>\<open>util/jsonprocessor.go\<close>, \<^verbatim>\<open>util/cryptoutil.go\<close> and
  \<^verbatim>\<open>util/certificate.go\<close>.

  The database.  \<open>Sql_Store\<close>: the tables and the statements, with the differences between SQLite,
  PostgreSQL and MySQL.  \<open>User_Accessor\<close>: \<^verbatim>\<open>dbaccessor.go\<close>; its state is the table of users and groups, an
  operation is one definition, a login is \<open>DBUser_Login\<close>.  \<open>Cert_Accessor\<close>: \<^verbatim>\<open>certdbaccessor.go\<close> over CFSSL's
  accessor.  \<open>Db_Util\<close>, \<open>Bootstrap_Db\<close>, \<open>Server_Factory\<close>: \<^verbatim>\<open>dbutil.go\<close>, \<^verbatim>\<open>bootstrap.go\<close>, \<^verbatim>\<open>factory.go\<close>.
  \<open>Registry_Spec\<close>: an abstract registry of accounts, and the refinement.

  The registry interface.  \<open>User_Registry\<close>: \<^verbatim>\<open>spi/\<close> and \<^verbatim>\<open>user.go\<close>; the locales \<open>user_registry\<close> and
  \<open>attr_registry\<close> state what the handlers rely on, and are interpreted by the database accessor there
  and by the LDAP client in \<open>Ldap_Client\<close> (\<^verbatim>\<open>ldap/client.go\<close>).

  The server.  \<open>Server_Config\<close>: \<^verbatim>\<open>config.go\<close>.  \<open>Register_User\<close>: \<^verbatim>\<open>register.go\<close>.  \<open>Http_Api\<close>, \<open>Auth_Handler\<close>: CFSSL's
  handler loop, \<^verbatim>\<open>errors.go\<close> and \<^verbatim>\<open>auth.go\<close>.  \<open>Server_Handlers\<close>: the handlers of \<^verbatim>\<open>register.go\<close>, \<^verbatim>\<open>enroll.go\<close> and
  \<^verbatim>\<open>revoke.go\<close>.  \<open>Key_Tree\<close>, \<open>Tcert_Crypto\<close>, \<open>Tcert_Batch\<close>, \<open>Tcert_Handler\<close>: \<^verbatim>\<open>lib/tcert/\<close> and \<^verbatim>\<open>tcert.go\<close>.
  \<open>Server_Routes\<close>: the endpoint table of \<^verbatim>\<open>server.go\<close> and Go's multiplexer; \<open>serve\<close> answers one request.
  \<open>Server_Main\<close>: \<^verbatim>\<open>startMain\<close>, \<^verbatim>\<open>serverMain\<close> and \<^verbatim>\<open>init.go\<close>.  \<open>Server_System\<close>: the running server as a step relation
  over requests; the locales \<open>request_rel\<close> and \<open>store_rel\<close> prove once what every request keeps, from what
  every statement keeps.  \<open>Server_Parametric\<close>: the handlers and \<open>serve\<close> use the registry only through its
  operations, so that equal operations give equal answers.  \<open>Server_Concurrent\<close>: requests whose statements
  are interleaved with those of others, as \<open>serve\<close> on a database shared with them.

  The client.  \<open>Client_Lib\<close>: \<^verbatim>\<open>lib/client.go\<close>, \<^verbatim>\<open>lib/identity.go\<close>.  \<open>Client_Server\<close>: the client with the
  server as its network.  \<open>Cli_Commands\<close>: \<^verbatim>\<open>cli/client/\<close>, CFSSL's \<^verbatim>\<open>cli.Start\<close>, \<^verbatim>\<open>COPMain\<close> and \<^verbatim>\<open>cfsslCommand\<close>.
  \<open>Cli_Session\<close>: sequences of those commands against the server.  \<open>Server_Attacks\<close>: what a client without
  credentials reaches.  \<open>Client_Api\<close>: the remaining operations of \<^verbatim>\<open>lib/\<close> and the facade.

  \<^bold>\<open>What is shown.\<close>
  (1) Whole paths.  A registrar registers a user and the user enrolls with the secret, through the
  client library and the server (\<open>register_and_enroll\<close>), and from the command line
  (\<open>cli_session\<close>); an enrolled identity re-enrolls without its secret (\<open>client_reenroll\<close>);
  a server started for the first time creates its database and listens, and a later
  start finds it (\<open>first_start\<close>, \<open>server_restart\<close>).
  (2) Invariants of the running server, over any requests and failures: a revoked certificate stays
  revoked and accounts stay, also when the statements of concurrent requests interleave; logins stay
  within the limit when requests are served one at a time; and the accessor refines the abstract
  registry.
  (3) Authentication and authorization: tokens round-trip and are sound, every token endpoint needs a
  verified token, a registration that names a registrar needs its role and a revocation needs the attribute, and each endpoint is
  reached under exactly its path.
  (4) Functional behaviour: enrollment limits are exact; batches of transaction certificates have
  the right number, keys, validity and contents, belong to the caller, and can be decrypted and used
  by it; the cache of the key tree is exact; signed messages verify.
  (5) What the code does where it departs from its intention, as theorems too: a certificate whose
  revocation is recorded still authenticates, the register endpoint trusts the name in the body,
  a user revoked through the client library enrolls again (\<open>revoked_user_enrolls\<close>), concurrent logins
  exceed the limit, concurrent registrations of one name lock it out, keys of different paths can
  coincide, a revocation with LDAP ends in a panic, a request that skips the password check takes over an
  account (\<open>anonymous_takeover\<close>), a captured token is accepted again (\<open>token_replay\<close>), and others.

  \<^bold>\<open>Bounds and fuel.\<close>  The JSON parser takes one unit of fuel for each character and \<open>json_parse_print\<close>
  shows that this is enough for every printed value.  \<open>RandomString\<close> consumes a given list of random words
  and is shown to end on a long enough one.  All other recursion is structural or has a measure.
  Counters and lengths that Go keeps in 64 bits are words or are bounded where it matters (\<open>in_int\<close>,
  \<open>ParseInt0\<close>, \<open>hours\<close>); the state of a user is an unbounded integer, as in the database.

  \<^bold>\<open>Not modelled.\<close>  Logging and messages to the standard error stream; TLS and the HTTP listener itself;
  the SQL drivers, of which only the statements COP sends are described; the contents of X.509
  certificates beyond the fields COP reads; CFSSL's own commands, policies and signing (the last step of
  its local signer, which stores the certificate, is modelled); the join-request types and Go
  interfaces of \<^verbatim>\<open>api/api.go\<close> and \<^verbatim>\<open>idp/idp.go\<close>, which nothing uses; data races on the key cache in memory
  (database statements are interleaved, \<open>Server_Concurrent\<close>); case folding outside ASCII; collations of
  MySQL that compare names without case; invalid UTF-8 inside JSON strings, which Go replaces and the model
  keeps; spare capacity of slices that an \<^verbatim>\<open>append\<close> may overwrite; JSON objects that
  repeat a key whose value is a struct, where Go decodes the second into the value left by the first
  and the model starts afresh.  What the map of definitions leaves out of COP's own code is the
  declarations of interfaces, type aliases and package variables.
\<close>

end
